(* ===== verification/Prelude.thy ===== *)
theory Prelude
  imports Main "HOL-Library.List_Lexorder" "HOL-Library.Char_ord" "HOL-Library.AList"
begin

text \<open>
  Shared vocabulary of the development: the outcome of a Go function (a value, an error
  value or a panic), the operations of the standard packages \<^verbatim>\<open>strings\<close>, \<^verbatim>\<open>slices\<close> and
  \<^verbatim>\<open>sort\<close> that the proxy uses, on strings as byte lists, and the sorted sets of
  \<^verbatim>\<open>k8s.io/apimachinery/pkg/util/sets\<close>. Go strings are byte sequences: a \<^typ>\<open>char\<close> is one byte.
\<close>

named_theorems go_simps \<open>unfolding of the outcome combinators and of the string helpers\<close>

section \<open>Outcomes\<close>

text \<open>
  An \<open>error\<close> value keeps the class the code asks for with \<^verbatim>\<open>errors.As\<close> or
  \<^verbatim>\<open>apierrors.IsNotFound\<close>: the authentication error of internal/request/error.go, the
  not-found answer of the API server, the two status errors of internal/modules/errors, and
  any other error. A panic is not an error value: it unwinds the handler.
\<close>

datatype error =
    ErrUnauthorized string
  | NotFoundAPI string
  | BadRequestStatus string string string
  | NotFoundStatus string string string
  | PlainError string

datatype 'a outcome = Ok 'a | Err error | Panic

primrec bind_outcome :: "'a outcome \<Rightarrow> ('a \<Rightarrow> 'b outcome) \<Rightarrow> 'b outcome" where
  "bind_outcome (Ok x) f = f x"
| "bind_outcome (Err e) f = Err e"
| "bind_outcome Panic f = Panic"

lemma bind_outcome_Ok_conv [simp]:
  "bind_outcome m f = Ok y \<longleftrightarrow> (\<exists>x. m = Ok x \<and> f x = Ok y)"
  by (cases m) auto

lemma bind_outcome_Panic_conv [simp]:
  "bind_outcome m f = Panic \<longleftrightarrow> m = Panic \<or> (\<exists>x. m = Ok x \<and> f x = Panic)"
  by (cases m) auto

lemma bind_outcome_Err_conv:
  "bind_outcome m f = Err e \<longleftrightarrow> m = Err e \<or> (\<exists>x. m = Ok x \<and> f x = Err e)"
  by (cases m) auto

lemma bind_outcome_assoc:
  "bind_outcome (bind_outcome m f) g = bind_outcome m (\<lambda>x. bind_outcome (f x) g)"
  by (cases m) auto

text \<open>\<open>fmt.Errorf\<close> with the verb for wrapping, and \<open>errors.Wrap\<close>: the class of the error is kept.\<close>

fun wrap :: "string \<Rightarrow> error \<Rightarrow> error" where
  "wrap p (ErrUnauthorized m) = ErrUnauthorized (p @ '': '' @ m)"
| "wrap p (NotFoundAPI m) = NotFoundAPI (p @ '': '' @ m)"
| "wrap p (BadRequestStatus m g k) = BadRequestStatus (p @ '': '' @ m) g k"
| "wrap p (NotFoundStatus n g k) = NotFoundStatus n g k"
| "wrap p (PlainError m) = PlainError (p @ '': '' @ m)"

fun is_unauthorized :: "error \<Rightarrow> bool" where
  "is_unauthorized (ErrUnauthorized m) = True"
| "is_unauthorized _ = False"

fun is_not_found :: "error \<Rightarrow> bool" where
  "is_not_found (NotFoundAPI m) = True"
| "is_not_found _ = False"

lemma wrap_keeps_class [simp]:
  "is_unauthorized (wrap p e) = is_unauthorized e"
  "is_not_found (wrap p e) = is_not_found e"
  by (cases e; simp)+

section \<open>Package strings\<close>

definition HasPrefix :: "'a list \<Rightarrow> 'a list \<Rightarrow> bool" where
  "HasPrefix s p \<longleftrightarrow> take (length p) s = p"

definition HasSuffix :: "'a list \<Rightarrow> 'a list \<Rightarrow> bool" where
  "HasSuffix s p \<longleftrightarrow> length p \<le> length s \<and> drop (length s - length p) s = p"

definition TrimPrefix :: "'a list \<Rightarrow> 'a list \<Rightarrow> 'a list" where
  "TrimPrefix s p = (if HasPrefix s p then drop (length p) s else s)"

lemma HasPrefix_append [simp]: "HasPrefix (p @ s) p"
  by (simp add: HasPrefix_def)

lemma HasPrefix_iff: "HasPrefix s p \<longleftrightarrow> (\<exists>t. s = p @ t)"
  by (metis HasPrefix_def HasPrefix_append append_take_drop_id)

lemma HasSuffix_iff: "HasSuffix s p \<longleftrightarrow> (\<exists>t. s = t @ p)"
  unfolding HasSuffix_def by (metis append_take_drop_id append_eq_append_conv
      diff_diff_cancel length_append length_drop le_add2 add_diff_cancel_right' drop_append
      diff_self_eq_0 drop0 append_self_conv2 drop_all order_refl)

lemma TrimPrefix_append [simp]: "TrimPrefix (p @ s) p = s"
  by (simp add: TrimPrefix_def)

text \<open>\<open>strings.Index\<close>: the least position where the substring occurs.\<close>

fun Index :: "'a list \<Rightarrow> 'a list \<Rightarrow> nat option" where
  "Index [] p = (if p = [] then Some 0 else None)"
| "Index (x # xs) p = (if HasPrefix (x # xs) p then Some 0 else map_option Suc (Index xs p))"

definition Contains :: "'a list \<Rightarrow> 'a list \<Rightarrow> bool" where
  "Contains s p \<longleftrightarrow> Index s p \<noteq> None"

lemma Index_Some_split: "Index s p = Some i \<Longrightarrow> s = take i s @ p @ drop (i + length p) s \<and> i + length p \<le> length s"
proof (induction s arbitrary: i)
  case Nil
  then show ?case by (simp split: if_splits)
next
  case (Cons x xs)
  show ?case
  proof (cases "HasPrefix (x # xs) p")
    case True
    then obtain t where "x # xs = p @ t" by (auto simp: HasPrefix_iff)
    moreover from True Cons.prems have "i = 0" by simp
    ultimately show ?thesis by simp
  next
    case False
    with Cons.prems obtain j where "Index xs p = Some j" and "i = Suc j" by auto
    with Cons.IH [of j] show ?thesis by simp
  qed
qed

lemma Index_None_iff: "Index s p = None \<longleftrightarrow> (\<forall>a b. s \<noteq> a @ p @ b)"
proof (induction s)
  case Nil
  then show ?case by simp
next
  case (Cons x xs)
  show ?case
  proof (cases "HasPrefix (x # xs) p")
    case True
    then show ?thesis by (metis HasPrefix_iff Index.simps(2) append_Nil option.distinct(1))
  next
    case False
    have "(\<exists>a b. x # xs = a @ p @ b) \<longleftrightarrow> (\<exists>a b. xs = a @ p @ b)"
      by (metis False HasPrefix_iff append_Cons append_Nil list.sel(3) tl_append2)
    with False Cons.IH show ?thesis by auto
  qed
qed

lemma Index_least: "Index s p = Some i \<Longrightarrow> s = a @ p @ b \<Longrightarrow> i \<le> length a"
proof (induction s arbitrary: i a)
  case Nil
  then show ?case by (simp split: if_splits)
next
  case (Cons x xs)
  show ?case
  proof (cases "HasPrefix (x # xs) p")
    case True
    with Cons.prems(1) have "i = 0" by simp
    then show ?thesis by simp
  next
    case False
    with Cons.prems(1) obtain j where j: "Index xs p = Some j" "i = Suc j" by auto
    from False Cons.prems(2) obtain y a' where a: "a = y # a'"
      by (cases a) (auto simp: HasPrefix_iff)
    with Cons.prems(2) have "xs = a' @ p @ b" by simp
    with Cons.IH [OF j(1)] j(2) a show ?thesis by simp
  qed
qed

lemma Contains_iff: "Contains s p \<longleftrightarrow> (\<exists>a b. s = a @ p @ b)"
  by (simp add: Contains_def Index_None_iff)

lemma Contains_single [simp]: "Contains s [c] \<longleftrightarrow> c \<in> set s"
  unfolding Contains_iff by (metis append_Cons append_Nil in_set_conv_decomp)

text \<open>\<open>strings.Split\<close> with a separator of one byte: never the empty slice.\<close>

fun Split :: "'a list \<Rightarrow> 'a \<Rightarrow> 'a list list" where
  "Split [] c = [[]]"
| "Split (x # xs) c =
     (if x = c then [] # Split xs c
      else (case Split xs c of [] \<Rightarrow> [[x]] | p # ps \<Rightarrow> (x # p) # ps))"

fun Join :: "'a list list \<Rightarrow> 'a list \<Rightarrow> 'a list" where
  "Join [] sep = []"
| "Join [x] sep = x"
| "Join (x # y # zs) sep = x @ sep @ Join (y # zs) sep"

lemma Split_ne [simp]: "Split s c \<noteq> []"
  by (induction s) (auto split: list.splits)

lemma Split_no_sep: "p \<in> set (Split s c) \<Longrightarrow> c \<notin> set p"
  by (induction s arbitrary: p) (auto split: list.splits if_splits)

lemma Split_plain [simp]: "c \<notin> set s \<Longrightarrow> Split s c = [s]"
  by (induction s) auto

lemma Split_append: "c \<notin> set p \<Longrightarrow> Split (p @ c # s) c = p # Split s c"
  by (induction p) auto

lemma Join_Cons: "ps \<noteq> [] \<Longrightarrow> Join (p # ps) sep = p @ sep @ Join ps sep"
  by (cases ps) auto

lemma Join_Split: "Join (Split s c) [c] = s"
proof (induction s)
  case Nil
  then show ?case by simp
next
  case (Cons x xs)
  obtain p ps where sp: "Split xs c = p # ps"
    by (meson Split_ne list.exhaust)
  with Cons show ?case by (cases ps) auto
qed

lemma Split_Join: "ps \<noteq> [] \<Longrightarrow> \<forall>p \<in> set ps. c \<notin> set p \<Longrightarrow> Split (Join ps [c]) c = ps"
proof (induction ps)
  case Nil
  then show ?case by simp
next
  case (Cons p ps)
  then show ?case by (cases ps) (auto simp: Split_append)
qed

lemma Join_ne: "ps \<noteq> [] \<Longrightarrow> \<forall>p \<in> set ps. p \<noteq> [] \<Longrightarrow> Join ps sep \<noteq> []"
  by (cases "(ps, sep)" rule: Join.cases) auto

lemma set_Join: "set (Join ps sep) \<subseteq> \<Union> (set ` set ps) \<union> set sep"
  by (induction ps sep rule: Join.induct) auto

text \<open>\<open>strings.Cut\<close> around the first separator byte.\<close>

definition Cut :: "'a list \<Rightarrow> 'a \<Rightarrow> ('a list \<times> 'a list) option" where
  "Cut s c = (if c \<in> set s
     then Some (takeWhile (\<lambda>x. x \<noteq> c) s, tl (dropWhile (\<lambda>x. x \<noteq> c) s)) else None)"

lemma Cut_append: "c \<notin> set k \<Longrightarrow> Cut (k @ c # v) c = Some (k, v)"
  unfolding Cut_def
  by (simp add: takeWhile_append2 dropWhile_append2 takeWhile_tail)
     (metis (mono_tags, lifting) append.right_neutral dropWhile.simps(2) dropWhile_append2 list.sel(3)
        takeWhile.simps(2) takeWhile_append2)

text \<open>\<open>strings.Trim\<close> with a cutset of one byte, and trimming by a predicate.\<close>

definition trim_by :: "('a \<Rightarrow> bool) \<Rightarrow> 'a list \<Rightarrow> 'a list" where
  "trim_by P s = rev (dropWhile P (rev (dropWhile P s)))"

definition Trim :: "'a list \<Rightarrow> 'a \<Rightarrow> 'a list" where
  "Trim s c = trim_by (\<lambda>x. x = c) s"

lemma trim_by_id: "s = [] \<or> \<not> P (hd s) \<and> \<not> P (last s) \<Longrightarrow> trim_by P s = s"
proof (cases "s = []")
  case False
  moreover assume "s = [] \<or> \<not> P (hd s) \<and> \<not> P (last s)"
  ultimately have "dropWhile P s = s" and "dropWhile P (rev s) = rev s"
    by (simp_all add: dropWhile_eq_self_iff hd_rev)
  then show ?thesis by (simp add: trim_by_def)
qed (simp add: trim_by_def)

section \<open>Sorted sets\<close>

text \<open>\<open>sets.List(sets.New(xs...))\<close>: the distinct elements in increasing byte order.\<close>

definition sets_List :: "('a :: linorder) list \<Rightarrow> 'a list" where
  "sets_List xs = sort (remdups xs)"

lemma set_sets_List [simp]: "set (sets_List xs) = set xs"
  by (simp add: sets_List_def)

lemma sorted_sets_List [simp]: "sorted (sets_List xs)"
  by (simp add: sets_List_def)

lemma distinct_sets_List [simp]: "distinct (sets_List xs)"
  by (simp add: sets_List_def)

lemma sets_List_cong: "set xs = set ys \<Longrightarrow> sets_List xs = sets_List ys"
  by (rule sorted_distinct_set_unique) simp_all

lemma sets_List_Nil_iff [simp]: "sets_List xs = [] \<longleftrightarrow> xs = []"
  by (metis set_empty set_sets_List)

section \<open>Association lists\<close>

lemma update_fresh: "k \<notin> fst ` set m \<Longrightarrow> AList.update k v m = m @ [(k, v)]"
  by (induction m) auto

lemma mem_concat_if: "h \<in> set (concat (map (\<lambda>s. if P s then [x] else []) ss)) \<longleftrightarrow> x = h \<and> (\<exists>s \<in> set ss. P s)"
  by (auto split: if_splits)

lemma mem_concat_map: "h \<in> set (concat (map f xs)) \<longleftrightarrow> (\<exists>x \<in> set xs. h \<in> set (f x))"
  by simp

end
