(* ===== verification/Http.thy ===== *)
theory Http
  imports Prelude
begin

text \<open>
  What the proxy uses of \<^verbatim>\<open>net/http\<close>, \<^verbatim>\<open>net/textproto\<close> and \<^verbatim>\<open>net/url\<close>: headers keyed by
  canonical names, query values, and the fields of \<^verbatim>\<open>http.Request\<close> the handlers read or write.
  A Go map is an association list; its iteration order is not specified by the language, and no
  lemma below depends on the order of the list. The two multi-valued maps share the interface
  \<open>multimap\<close>, interpreted for \<^verbatim>\<open>http.Header\<close> and for \<^verbatim>\<open>url.Values\<close>.
\<close>

section \<open>Letters\<close>

definition byte :: "char \<Rightarrow> nat" where
  "byte c = of_char c"

definition to_lower_char :: "char \<Rightarrow> char" where
  "to_lower_char c = (if 65 \<le> byte c \<and> byte c \<le> 90 then char_of (byte c + 32) else c)"

definition to_upper_char :: "char \<Rightarrow> char" where
  "to_upper_char c = (if 97 \<le> byte c \<and> byte c \<le> 122 then char_of (byte c - 32) else c)"

lemma byte_char_of [simp]: "n < 256 \<Longrightarrow> byte (char_of n) = n"
  by (simp add: byte_def)

lemma byte_lt [simp]: "byte c < 256"
  by (simp add: byte_def)

lemma byte_inject [simp]: "byte c = byte d \<longleftrightarrow> c = d"
  by (simp add: byte_def)

lemma to_upper_idem [simp]: "to_upper_char (to_upper_char c) = to_upper_char c"
  by (auto simp: to_upper_char_def)

lemma to_lower_idem [simp]: "to_lower_char (to_lower_char c) = to_lower_char c"
  by (auto simp: to_lower_char_def)

section \<open>Canonical header names\<close>

text \<open>The token bytes of RFC 7230 (\<^verbatim>\<open>validHeaderFieldByte\<close>).\<close>

definition validHeaderFieldByte :: "char \<Rightarrow> bool" where
  "validHeaderFieldByte c \<longleftrightarrow>
     48 \<le> byte c \<and> byte c \<le> 57 \<or> 65 \<le> byte c \<and> byte c \<le> 90 \<or> 97 \<le> byte c \<and> byte c \<le> 122
     \<or> byte c \<in> {33, 35, 36, 37, 38, 39, 42, 43, 45, 46, 94, 95, 96, 124, 126}"

fun canon_from :: "bool \<Rightarrow> string \<Rightarrow> string" where
  "canon_from up [] = []"
| "canon_from up (c # cs) =
     (let d = (if up then to_upper_char c else to_lower_char c) in d # canon_from (d = CHR ''-'') cs)"

definition CanonicalMIMEHeaderKey :: "string \<Rightarrow> string" where
  "CanonicalMIMEHeaderKey s = (if list_all validHeaderFieldByte s then canon_from True s else s)"

lemma canon_from_idem: "canon_from up (canon_from up s) = canon_from up s"
  by (induction s arbitrary: up) (auto simp: Let_def)

lemma valid_upper [simp]: "validHeaderFieldByte (to_upper_char c) \<longleftrightarrow> validHeaderFieldByte c"
proof (cases "97 \<le> byte c \<and> byte c \<le> 122")
  case True
  then have "byte (to_upper_char c) = byte c - 32"
    by (simp add: to_upper_char_def less_imp_diff_less)
  moreover from True have "65 \<le> byte c - 32 \<and> byte c - 32 \<le> 90" by arith
  ultimately show ?thesis using True by (simp add: validHeaderFieldByte_def)
next
  case False
  then show ?thesis by (auto simp: to_upper_char_def)
qed

lemma valid_lower [simp]: "validHeaderFieldByte (to_lower_char c) \<longleftrightarrow> validHeaderFieldByte c"
  by (simp add: validHeaderFieldByte_def to_lower_char_def)

lemma valid_canon_from: "list_all validHeaderFieldByte (canon_from up s) = list_all validHeaderFieldByte s"
  by (induction s arbitrary: up) (auto simp: Let_def)

lemma CanonicalMIMEHeaderKey_idem [simp]:
  "CanonicalMIMEHeaderKey (CanonicalMIMEHeaderKey s) = CanonicalMIMEHeaderKey s"
  by (simp add: CanonicalMIMEHeaderKey_def valid_canon_from canon_from_idem)

section \<open>Multi-valued maps\<close>

text \<open>
  The contract shared by \<^verbatim>\<open>http.Header\<close> and \<^verbatim>\<open>url.Values\<close>: what the values of a key are after
  each mutation, up to the normal form of the key.
\<close>

locale multimap =
  fixes norm :: "string \<Rightarrow> string"
    and vals :: "'m \<Rightarrow> string \<Rightarrow> string list"
    and put :: "'m \<Rightarrow> string \<Rightarrow> string \<Rightarrow> 'm"
    and add :: "'m \<Rightarrow> string \<Rightarrow> string \<Rightarrow> 'm"
    and del :: "'m \<Rightarrow> string \<Rightarrow> 'm"
  assumes vals_put: "vals (put m k v) k' = (if norm k = norm k' then [v] else vals m k')"
    and vals_add: "vals (add m k v) k' = (if norm k = norm k' then vals m k' @ [v] else vals m k')"
    and vals_del: "vals (del m k) k' = (if norm k = norm k' then [] else vals m k')"
begin

lemmas vals_laws = vals_put vals_add vals_del

lemma vals_fold_add:
  "vals (fold (\<lambda>v m. add m k v) vs m) k' = (if norm k = norm k' then vals m k' @ vs else vals m k')"
  by (induction vs arbitrary: m) (simp_all add: vals_add)

lemma vals_fold_del:
  "vals (fold (\<lambda>k m. del m k) ks m) k' = (if norm k' \<in> norm ` set ks then [] else vals m k')"
  by (induction ks arbitrary: m) (auto simp: vals_del)

lemma vals_del_put: "vals (put (del m k) k v) k' = vals (put m k v) k'"
  by (simp add: vals_laws)

lemma vals_put_put: "vals (put (put m k v) k w) k' = vals (put m k w) k'"
  by (simp add: vals_laws)

end

type_synonym header = "(string \<times> string list) list"
type_synonym url_values = "(string \<times> string list) list"

definition alist_values :: "(string \<times> string list) list \<Rightarrow> string \<Rightarrow> string list" where
  "alist_values m k = (case map_of m k of None \<Rightarrow> [] | Some vs \<Rightarrow> vs)"

definition first_value :: "string list \<Rightarrow> string" where
  "first_value vs = (case vs of [] \<Rightarrow> [] | v # _ \<Rightarrow> v)"

lemma first_value_simps [simp]: "first_value [] = []" "first_value (v # vs) = v"
  by (simp_all add: first_value_def)

subsection \<open>Header\<close>

definition HeaderValues :: "header \<Rightarrow> string \<Rightarrow> string list" where
  "HeaderValues h k = alist_values h (CanonicalMIMEHeaderKey k)"

definition HeaderGet :: "header \<Rightarrow> string \<Rightarrow> string" where
  "HeaderGet h k = first_value (HeaderValues h k)"

definition HeaderSet :: "header \<Rightarrow> string \<Rightarrow> string \<Rightarrow> header" where
  "HeaderSet h k v = AList.update (CanonicalMIMEHeaderKey k) [v] h"

definition HeaderAdd :: "header \<Rightarrow> string \<Rightarrow> string \<Rightarrow> header" where
  "HeaderAdd h k v = AList.update (CanonicalMIMEHeaderKey k) (HeaderValues h k @ [v]) h"

definition HeaderDel :: "header \<Rightarrow> string \<Rightarrow> header" where
  "HeaderDel h k = AList.delete (CanonicalMIMEHeaderKey k) h"

interpretation hdr: multimap CanonicalMIMEHeaderKey HeaderValues HeaderSet HeaderAdd HeaderDel
  by unfold_locales
     (auto simp: HeaderValues_def HeaderSet_def HeaderAdd_def HeaderDel_def alist_values_def
        update_conv' delete_conv')

subsection \<open>Query values\<close>

definition ValuesGet :: "url_values \<Rightarrow> string \<Rightarrow> string" where
  "ValuesGet q k = first_value (alist_values q k)"

definition ValuesSet :: "url_values \<Rightarrow> string \<Rightarrow> string \<Rightarrow> url_values" where
  "ValuesSet q k v = AList.update k [v] q"

definition ValuesAdd :: "url_values \<Rightarrow> string \<Rightarrow> string \<Rightarrow> url_values" where
  "ValuesAdd q k v = AList.update k (alist_values q k @ [v]) q"

definition ValuesDel :: "url_values \<Rightarrow> string \<Rightarrow> url_values" where
  "ValuesDel q k = AList.delete k q"

interpretation qry: multimap "\<lambda>k. k" alist_values ValuesSet ValuesAdd ValuesDel
  by unfold_locales
     (auto simp: ValuesSet_def ValuesAdd_def ValuesDel_def alist_values_def update_conv' delete_conv')

section \<open>Requests\<close>

text \<open>
  The subject of an X.509 certificate and its DER bytes, and the fields of a request. \<open>TLSPeers\<close>
  is \<^const>\<open>None\<close> when \<^verbatim>\<open>request.TLS\<close> is nil; \<open>URLQuery\<close> is the parsed form of \<^verbatim>\<open>RawQuery\<close>;
  \<open>Vars\<close> are the route variables of gorilla/mux; \<open>CtxUser\<close> is the identity cached in the request
  context by internal/request/http.go.
\<close>

record certificate =
  CommonName :: string
  Organization :: "string list"
  RawDER :: string

record http_request =
  Method :: string
  URLPath :: string
  URLQuery :: url_values
  Header :: header
  Vars :: "(string \<times> string) list"
  RemoteAddr :: string
  TLSPeers :: "certificate list option"
  CtxUser :: "(string \<times> string list) option"

definition Var :: "http_request \<Rightarrow> string \<Rightarrow> string" where
  "Var r k = (case map_of (Vars r) k of None \<Rightarrow> [] | Some v \<Rightarrow> v)"

abbreviation MethodGet :: string where "MethodGet \<equiv> ''GET''"
abbreviation MethodPut :: string where "MethodPut \<equiv> ''PUT''"
abbreviation MethodPatch :: string where "MethodPatch \<equiv> ''PATCH''"
abbreviation MethodDelete :: string where "MethodDelete \<equiv> ''DELETE''"

end
