(* ===== verification/Objects.thy ===== *)
theory Objects
  imports Http
begin

text \<open>
  The data the proxy works on: the objects of its own API (api/v1beta1) and the parts of the
  Kubernetes and Capsule objects its code reads. The operations of third-party packages on label
  selectors and the API server itself are arguments of the model: \<open>labels_api\<close> collects the
  functions of \<^verbatim>\<open>k8s.io/apimachinery/pkg/labels\<close>, \<open>api_reader\<close> the reads of a
  \<^verbatim>\<open>client.Reader\<close>. One request sees one answer per query.
\<close>

section \<open>Labels and selectors\<close>

type_synonym labels = "(string \<times> string) list"

record requirement =
  Key :: string
  Operator :: string
  Values :: "string list"

type_synonym selector = "requirement list"

record label_selector =
  matchLabels :: labels
  matchExpressions :: "requirement list"

text \<open>The published values of \<^verbatim>\<open>k8s.io/apimachinery/pkg/selection\<close>.\<close>

abbreviation op_In :: string where "op_In \<equiv> ''in''"
abbreviation op_NotIn :: string where "op_NotIn \<equiv> ''notin''"
abbreviation op_Equals :: string where "op_Equals \<equiv> ''=''"
abbreviation op_DoubleEquals :: string where "op_DoubleEquals \<equiv> ''==''"
abbreviation op_NotEquals :: string where "op_NotEquals \<equiv> ''!=''"
abbreviation op_Exists :: string where "op_Exists \<equiv> ''exists''"

text \<open>
  The label functions the proxy calls: \<^verbatim>\<open>labels.NewRequirement\<close> (an error where the key, the
  operator or the values do not validate), \<^verbatim>\<open>Requirement.Matches\<close>, and
  \<^verbatim>\<open>metav1.LabelSelectorAsSelector\<close> followed by \<^verbatim>\<open>Selector.Requirements\<close>, which returns the
  requirements and whether the selector can select at all.
\<close>

record labels_api =
  newRequirement :: "string \<Rightarrow> string \<Rightarrow> string list \<Rightarrow> error + requirement"
  reqMatches :: "requirement \<Rightarrow> labels \<Rightarrow> bool"
  asRequirements :: "label_selector option \<Rightarrow> error + (requirement list \<times> bool)"
  selectorString :: "selector \<Rightarrow> string"

text \<open>An object is selected when it matches every requirement of the selector.\<close>

definition selects :: "labels_api \<Rightarrow> selector \<Rightarrow> labels \<Rightarrow> bool" where
  "selects L sel ls \<longleftrightarrow> list_all (\<lambda>r. reqMatches L r ls) sel"

lemma selects_simps [simp]:
  "selects L [] ls"
  "selects L (r # rs) ls \<longleftrightarrow> reqMatches L r ls \<and> selects L rs ls"
  by (simp_all add: selects_def)

text \<open>
  Documented behaviour of \<^verbatim>\<open>NewRequirement\<close>: a requirement it returns carries the arguments, an
  empty value set is refused for the set operators, and \<^verbatim>\<open>Exists\<close> takes no values.
\<close>

definition new_requirement_ok :: "labels_api \<Rightarrow> bool" where
  "new_requirement_ok L \<longleftrightarrow>
     (\<forall>k op vs r. newRequirement L k op vs = Inr r \<longrightarrow> Key r = k \<and> Operator r = op \<and> set (Values r) = set vs) \<and>
     (\<forall>k op. op = op_In \<or> op = op_NotIn \<longrightarrow> isl (newRequirement L k op [])) \<and>
     \<not> isl (newRequirement L ''dontexistsignoreme'' op_Exists [])"

text \<open>
  Documented behaviour of \<^verbatim>\<open>Matches\<close> for the operators with values and for \<^verbatim>\<open>Exists\<close>. The
  operators of equality are those of membership in a set of one value.
\<close>

definition matches_ok :: "labels_api \<Rightarrow> bool" where
  "matches_ok L \<longleftrightarrow>
     (\<forall>r ls. Operator r \<in> {op_In, op_Equals, op_DoubleEquals} \<longrightarrow> reqMatches L r ls = (\<exists>v \<in> set (Values r). map_of ls (Key r) = Some v)) \<and>
     (\<forall>r ls. Operator r \<in> {op_NotIn, op_NotEquals} \<longrightarrow> reqMatches L r ls = (\<forall>v \<in> set (Values r). map_of ls (Key r) \<noteq> Some v)) \<and>
     (\<forall>r ls. Operator r = op_Exists \<longrightarrow> reqMatches L r ls = (map_of ls (Key r) \<noteq> None))"

section \<open>API objects of the proxy\<close>

text \<open>\<^verbatim>\<open>ClusterResource\<close> of api/v1beta1/clusterresoure.go; operations are strings there.\<close>

record ClusterResource =
  cr_APIGroups :: "string list"
  cr_Resources :: "string list"
  cr_Operations :: "string list"
  cr_Selector :: "label_selector option"

text \<open>The deprecated per-owner settings of Capsule: a service kind and the operations allowed on it.\<close>

record ProxySettings =
  ps_Kind :: string
  ps_Operations :: "string list"

record OwnerSpec =
  os_Kind :: string
  os_Name :: string
  os_ClusterResources :: "ClusterResource list"
  os_ProxyOperations :: "ProxySettings list"

record ProxySetting =
  pset_Name :: string
  pset_Namespace :: string
  pset_Subjects :: "OwnerSpec list"

record GlobalSubject =
  gs_Kind :: string
  gs_Name :: string

record GlobalSubjectSpec =
  gr_Subjects :: "GlobalSubject list"
  gr_ClusterResources :: "ClusterResource list"

record GlobalProxySettings =
  gps_Name :: string
  gps_Rules :: "GlobalSubjectSpec list"

section \<open>Capsule and Kubernetes objects\<close>

record CapsuleOwner =
  co_Kind :: string
  co_Name :: string
  co_ProxyOperations :: "ProxySettings list"

record AllowedList =
  al_Exact :: "string list"
  al_Default :: string
  al_Regex :: string
  al_LabelSelector :: label_selector

record Tenant =
  t_Name :: string
  t_Labels :: labels
  t_NodeSelector :: labels
  t_IngressClasses :: "AllowedList option"
  t_StorageClasses :: "AllowedList option"
  t_PriorityClasses :: "AllowedList option"
  t_RuntimeClasses :: "AllowedList option"
  t_Owners :: "CapsuleOwner list"
  t_StatusNamespaces :: "string list"
  t_StatusOwners :: "CapsuleOwner list"

record OwnerReference =
  or_Kind :: string
  or_Name :: string

text \<open>The metadata of any other object the modules read.\<close>

record kobject =
  o_Name :: string
  o_Labels :: labels
  o_OwnerReferences :: "OwnerReference list"

datatype list_option = ListAll | MatchingLabels labels | MatchingSelector selector

text \<open>Reads of the API server, by resource name.\<close>

record api_reader =
  GetObject :: "string \<Rightarrow> string \<Rightarrow> error + kobject"
  ListObjects :: "string \<Rightarrow> list_option \<Rightarrow> error + kobject list"

abbreviation UserOwner :: string where "UserOwner \<equiv> ''User''"
abbreviation GroupOwner :: string where "GroupOwner \<equiv> ''Group''"
abbreviation ServiceAccountOwner :: string where "ServiceAccountOwner \<equiv> ''ServiceAccount''"

text \<open>A group, version and kind; \<^verbatim>\<open>Kind\<close> holds the plural resource name until discovery resolves it.\<close>

record GroupVersionKind =
  Group :: string
  Version :: string
  Kind :: string

lemma newRequirement_Inr:
  assumes "new_requirement_ok L" and "newRequirement L k opn vs = Inr r"
  shows "Key r = k" and "Operator r = opn" and "set (Values r) = set vs"
  using assms unfolding new_requirement_ok_def by simp_all

lemma matches_In:
  assumes "matches_ok L" and "Operator r = op_In"
  shows "reqMatches L r ls = (\<exists>v \<in> set (Values r). map_of ls (Key r) = Some v)"
  using assms(1) assms(2) by (simp add: matches_ok_def)

lemma matches_Exists:
  assumes "matches_ok L" and "Operator r = op_Exists"
  shows "reqMatches L r ls = (map_of ls (Key r) \<noteq> None)"
  using assms(1) assms(2) by (simp add: matches_ok_def)

section \<open>A concrete label library\<close>

text \<open>
  An instance of the parameter \<^typ>\<open>labels_api\<close> with the documented semantics of the operators,
  without the syntactic validation of keys and values. It shows that the hypotheses on the library
  can hold, and the closed examples evaluate with it.
\<close>

definition doc_newRequirement :: "string \<Rightarrow> string \<Rightarrow> string list \<Rightarrow> error + requirement" where
  "doc_newRequirement k opn vs =
     (if (opn = op_In \<or> opn = op_NotIn) \<and> vs = [] then Inl (PlainError ''values set can't be empty'')
      else if (opn = op_Equals \<or> opn = op_DoubleEquals \<or> opn = op_NotEquals) \<and> length vs \<noteq> 1
        then Inl (PlainError ''exact-match compatibility requires one single value'')
      else if opn = op_Exists \<and> vs \<noteq> [] then Inl (PlainError ''values set must be empty for exists'')
      else Inr \<lparr>Key = k, Operator = opn, Values = vs\<rparr>)"

definition doc_matches :: "requirement \<Rightarrow> labels \<Rightarrow> bool" where
  "doc_matches r ls =
     (if Operator r \<in> {op_In, op_Equals, op_DoubleEquals}
        then (case map_of ls (Key r) of None \<Rightarrow> False | Some v \<Rightarrow> v \<in> set (Values r))
      else if Operator r \<in> {op_NotIn, op_NotEquals}
        then (case map_of ls (Key r) of None \<Rightarrow> True | Some v \<Rightarrow> v \<notin> set (Values r))
      else map_of ls (Key r) \<noteq> None)"

definition doc_asRequirements :: "label_selector option \<Rightarrow> error + (requirement list \<times> bool)" where
  "doc_asRequirements so =
     (case so of
        None \<Rightarrow> Inr ([], False)
      | Some s \<Rightarrow> Inr (map (\<lambda>(k, v). \<lparr>Key = k, Operator = op_In, Values = [v]\<rparr>) (matchLabels s) @ matchExpressions s, True))"

definition doc_selectorString :: "selector \<Rightarrow> string" where
  "doc_selectorString sel =
     Join (map (\<lambda>r. if Operator r = op_Exists then Key r
                     else Key r @ '' '' @ Operator r @ '' ('' @ Join (Values r) '','' @ '')'') sel) '',''"

definition doc_labels :: labels_api where
  "doc_labels = \<lparr>newRequirement = doc_newRequirement, reqMatches = doc_matches,
     asRequirements = doc_asRequirements, selectorString = doc_selectorString\<rparr>"

lemmas doc_labels_defs = doc_labels_def doc_newRequirement_def doc_matches_def doc_asRequirements_def

lemma doc_new_requirement_ok: "new_requirement_ok doc_labels"
  by (auto simp: new_requirement_ok_def doc_labels_defs split: if_splits)

lemma doc_matches_ok: "matches_ok doc_labels"
  by (auto simp: matches_ok_def doc_labels_defs split: option.split)

end
