(* ===== verification/DeepCopy.thy ===== *)
theory DeepCopy
  imports Objects "HOL-Library.Word"
begin

text \<open>
  api/v1beta1/zz_generated.deepcopy.go: the deep copies of the API types. The other theories take objects
  as values; here they are what they are in Go, structs whose slices and pointers refer to memory, because
  what a deep copy is for is that two readers of the informer cache never share an array. The memory is an
  explicit store of arrays of cells. The types of other packages (label selectors, conditions, proxy
  settings, object and list metadata) are one type parameter \<open>'x\<close>, with their own \<^verbatim>\<open>DeepCopyInto\<close> and
  their zero values in the record \<open>externs\<close>.
\<close>

section \<open>Memory\<close>

text \<open>
  A slice is nil or an array with an offset and a length; a pointer is nil or an element of an array, which
  has one element where \<^verbatim>\<open>new\<close> made it.
\<close>

type_synonym addr = nat

type_synonym slice = "(addr \<times> nat \<times> nat) option"

type_synonym pointer = "(addr \<times> nat) option"

text \<open>
  The structs. Strings are immutable and \<^verbatim>\<open>ClusterResourceOperation\<close> is a string. The two statuses, the two
  lists and, but for the type of the specification, the two objects have the same fields.
\<close>

record ClusterResource_struct =
  crs_APIGroups :: slice
  crs_Resources :: slice
  crs_Operations :: slice
  crs_Selector :: pointer

record GlobalSubjectSpec_struct =
  gss_Subjects :: slice
  gss_ClusterResources :: slice

record OwnerSpec_struct =
  oss_Kind :: string
  oss_Name :: string
  oss_ClusterResources :: slice
  oss_ProxyOperations :: slice

record GlobalProxySettingsSpec_struct =
  gps_spec_Rules :: slice

record ProxySettingSpec_struct =
  ps_spec_Subjects :: slice

record status_struct =
  st_ObservedGeneration :: "64 word"
  st_Conditions :: slice

record TypeMeta =
  tm_Kind :: string
  tm_APIVersion :: string

record ('x, 's) object_struct =
  ob_TypeMeta :: TypeMeta
  ob_ObjectMeta :: 'x
  ob_Spec :: 's
  ob_Status :: status_struct

record 'x list_struct =
  ls_TypeMeta :: TypeMeta
  ls_ListMeta :: 'x
  ls_Items :: slice

text \<open>An element of an array, by its type; Go is statically typed, so that a read finds the type it expects.\<close>

datatype 'x cell =
    StringCell (the_string: string)
  | SubjectCell (the_subject: GlobalSubject)
  | ResourceCell (the_resource: ClusterResource_struct)
  | SubjectSpecCell (the_subject_spec: GlobalSubjectSpec_struct)
  | OwnerCell (the_owner: OwnerSpec_struct)
  | GlobalSpecCell (the_global_spec: GlobalProxySettingsSpec_struct)
  | ProxySpecCell (the_proxy_spec: ProxySettingSpec_struct)
  | StatusCell (the_status: status_struct)
  | GlobalCell (the_global: "('x, GlobalProxySettingsSpec_struct) object_struct")
  | ProxyCell (the_proxy: "('x, ProxySettingSpec_struct) object_struct")
  | ListCell (the_list: "'x list_struct")
  | ExternCell (the_extern: 'x)

text \<open>\<open>lim\<close> is the first address that is not in use.\<close>

record 'x memory =
  mem :: "addr \<Rightarrow> 'x cell list"
  lim :: addr

definition alloc :: "'x cell list \<Rightarrow> 'x memory \<Rightarrow> addr \<times> 'x memory" where
  "alloc cs m = (lim m, m\<lparr>mem := (mem m)(lim m := cs), lim := Suc (lim m)\<rparr>)"

definition store :: "addr \<Rightarrow> nat \<Rightarrow> 'x cell \<Rightarrow> 'x memory \<Rightarrow> 'x memory" where
  "store a i c m = m\<lparr>mem := (mem m)(a := (mem m a)[i := c])\<rparr>"

section \<open>Copies\<close>

text \<open>The body of the loop over the elements: \<^verbatim>\<open>(*in)[i].DeepCopyInto(&(*out)[i])\<close>.\<close>

definition copy_cell :: "('a \<Rightarrow> 'x cell) \<Rightarrow> ('x cell \<Rightarrow> 'a) \<Rightarrow> ('a \<Rightarrow> 'x memory \<Rightarrow> 'a \<times> 'x memory) \<Rightarrow> addr \<Rightarrow> nat \<Rightarrow> addr \<Rightarrow> nat \<Rightarrow> 'x memory \<Rightarrow> 'x memory" where
  "copy_cell mk un into a off b i m = (case into (un (mem m a ! (off + i))) m of (y, m') \<Rightarrow> store b i (mk y) m')"

text \<open>
  \<^verbatim>\<open>make\<close> (or \<^verbatim>\<open>new\<close>, with one element) and the loop. The new array is not the one that is read, so a struct
  may be copied as a value and stored afterwards.
\<close>

definition copy_cells :: "('a \<Rightarrow> 'x cell) \<Rightarrow> ('x cell \<Rightarrow> 'a) \<Rightarrow> 'a \<Rightarrow> ('a \<Rightarrow> 'x memory \<Rightarrow> 'a \<times> 'x memory) \<Rightarrow> addr \<Rightarrow> nat \<Rightarrow> nat \<Rightarrow> 'x memory \<Rightarrow> addr \<times> 'x memory" where
  "copy_cells mk un z into a off n m =
     (case alloc (replicate n (mk z)) m of (b, m1) \<Rightarrow> (b, fold (copy_cell mk un into a off b) [0..<n] m1))"

text \<open>The blocks for a field: nothing is done for a nil slice or pointer.\<close>

definition copy_slice :: "('a \<Rightarrow> 'x cell) \<Rightarrow> ('x cell \<Rightarrow> 'a) \<Rightarrow> 'a \<Rightarrow> ('a \<Rightarrow> 'x memory \<Rightarrow> 'a \<times> 'x memory) \<Rightarrow> slice \<Rightarrow> 'x memory \<Rightarrow> slice \<times> 'x memory" where
  "copy_slice mk un z into s m = (case s of None \<Rightarrow> (None, m)
     | Some (a, off, n) \<Rightarrow> (case copy_cells mk un z into a off n m of (b, m') \<Rightarrow> (Some (b, 0, n), m')))"

definition copy_pointer :: "('a \<Rightarrow> 'x cell) \<Rightarrow> ('x cell \<Rightarrow> 'a) \<Rightarrow> 'a \<Rightarrow> ('a \<Rightarrow> 'x memory \<Rightarrow> 'a \<times> 'x memory) \<Rightarrow> pointer \<Rightarrow> 'x memory \<Rightarrow> pointer \<times> 'x memory" where
  "copy_pointer mk un z into p m = (case p of None \<Rightarrow> (None, m)
     | Some (a, i) \<Rightarrow> (case copy_cells mk un z into a i 1 m of (b, m') \<Rightarrow> (Some (b, 0), m')))"

text \<open>Elements without references are copied by \<^verbatim>\<open>copy\<close> or by an assignment.\<close>

definition flat_into :: "'a \<Rightarrow> 'x memory \<Rightarrow> 'a \<times> 'x memory" where
  "flat_into x m = (x, m)"

section \<open>The deep copies of the API types\<close>

text \<open>What the code calls of other packages: \<^verbatim>\<open>DeepCopyInto\<close> on each of their types, and the zero values.\<close>

record 'x externs =
  ex_DeepCopyInto :: "'x \<Rightarrow> 'x memory \<Rightarrow> 'x \<times> 'x memory"
  ex_LabelSelector :: 'x
  ex_Condition :: 'x
  ex_ProxySettings :: 'x
  ex_ObjectMeta :: 'x
  ex_ListMeta :: 'x

text \<open>The zero values that \<^verbatim>\<open>make\<close> and \<^verbatim>\<open>new\<close> fill memory with.\<close>

definition zero_ClusterResource :: ClusterResource_struct where
  "zero_ClusterResource = \<lparr>crs_APIGroups = None, crs_Resources = None, crs_Operations = None, crs_Selector = None\<rparr>"

definition zero_GlobalSubject :: GlobalSubject where
  "zero_GlobalSubject = \<lparr>gs_Kind = [], gs_Name = []\<rparr>"

definition zero_GlobalSubjectSpec :: GlobalSubjectSpec_struct where
  "zero_GlobalSubjectSpec = \<lparr>gss_Subjects = None, gss_ClusterResources = None\<rparr>"

definition zero_OwnerSpec :: OwnerSpec_struct where
  "zero_OwnerSpec = \<lparr>oss_Kind = [], oss_Name = [], oss_ClusterResources = None, oss_ProxyOperations = None\<rparr>"

definition zero_GlobalProxySettingsSpec :: GlobalProxySettingsSpec_struct where
  "zero_GlobalProxySettingsSpec = \<lparr>gps_spec_Rules = None\<rparr>"

definition zero_ProxySettingSpec :: ProxySettingSpec_struct where
  "zero_ProxySettingSpec = \<lparr>ps_spec_Subjects = None\<rparr>"

definition zero_status :: status_struct where
  "zero_status = \<lparr>st_ObservedGeneration = 0, st_Conditions = None\<rparr>"

definition zero_TypeMeta :: TypeMeta where
  "zero_TypeMeta = \<lparr>tm_Kind = [], tm_APIVersion = []\<rparr>"

definition zero_object :: "'x externs \<Rightarrow> 's \<Rightarrow> ('x, 's) object_struct" where
  "zero_object E spec = \<lparr>ob_TypeMeta = zero_TypeMeta, ob_ObjectMeta = ex_ObjectMeta E, ob_Spec = spec, ob_Status = zero_status\<rparr>"

definition zero_list :: "'x externs \<Rightarrow> 'x list_struct" where
  "zero_list E = \<lparr>ls_TypeMeta = zero_TypeMeta, ls_ListMeta = ex_ListMeta E, ls_Items = None\<rparr>"

text \<open>
  \<^verbatim>\<open>DeepCopyInto\<close> starts from the struct itself (\<^verbatim>\<open>*out = *in\<close>) and replaces the fields that refer to memory;
  \<^verbatim>\<open>DeepCopy\<close> copies what a pointer refers to.
\<close>

definition ClusterResource_DeepCopyInto :: "'x externs \<Rightarrow> ClusterResource_struct \<Rightarrow> 'x memory \<Rightarrow> ClusterResource_struct \<times> 'x memory" where
  "ClusterResource_DeepCopyInto E r m =
     (case copy_slice StringCell the_string [] flat_into (crs_APIGroups r) m of (groups, m1) \<Rightarrow>
      case copy_slice StringCell the_string [] flat_into (crs_Resources r) m1 of (resources, m2) \<Rightarrow>
      case copy_slice StringCell the_string [] flat_into (crs_Operations r) m2 of (operations, m3) \<Rightarrow>
      case copy_pointer ExternCell the_extern (ex_LabelSelector E) (ex_DeepCopyInto E) (crs_Selector r) m3 of (sel, m4) \<Rightarrow>
        (r\<lparr>crs_APIGroups := groups, crs_Resources := resources, crs_Operations := operations, crs_Selector := sel\<rparr>, m4))"

definition ClusterResource_DeepCopy :: "'x externs \<Rightarrow> pointer \<Rightarrow> 'x memory \<Rightarrow> pointer \<times> 'x memory" where
  "ClusterResource_DeepCopy E = copy_pointer ResourceCell the_resource zero_ClusterResource (ClusterResource_DeepCopyInto E)"

definition GlobalProxySettingsStatus_DeepCopyInto :: "'x externs \<Rightarrow> status_struct \<Rightarrow> 'x memory \<Rightarrow> status_struct \<times> 'x memory" where
  "GlobalProxySettingsStatus_DeepCopyInto E s m =
     (case copy_slice ExternCell the_extern (ex_Condition E) (ex_DeepCopyInto E) (st_Conditions s) m of (conditions, m') \<Rightarrow>
        (s\<lparr>st_Conditions := conditions\<rparr>, m'))"

definition GlobalProxySettingsStatus_DeepCopy :: "'x externs \<Rightarrow> pointer \<Rightarrow> 'x memory \<Rightarrow> pointer \<times> 'x memory" where
  "GlobalProxySettingsStatus_DeepCopy E = copy_pointer StatusCell the_status zero_status (GlobalProxySettingsStatus_DeepCopyInto E)"

definition GlobalSubject_DeepCopyInto :: "GlobalSubject \<Rightarrow> 'x memory \<Rightarrow> GlobalSubject \<times> 'x memory" where
  "GlobalSubject_DeepCopyInto s m = (s, m)"

definition GlobalSubject_DeepCopy :: "pointer \<Rightarrow> 'x memory \<Rightarrow> pointer \<times> 'x memory" where
  "GlobalSubject_DeepCopy = copy_pointer SubjectCell the_subject zero_GlobalSubject GlobalSubject_DeepCopyInto"

definition GlobalSubjectSpec_DeepCopyInto :: "'x externs \<Rightarrow> GlobalSubjectSpec_struct \<Rightarrow> 'x memory \<Rightarrow> GlobalSubjectSpec_struct \<times> 'x memory" where
  "GlobalSubjectSpec_DeepCopyInto E s m =
     (case copy_slice SubjectCell the_subject zero_GlobalSubject flat_into (gss_Subjects s) m of (subjects, m1) \<Rightarrow>
      case copy_slice ResourceCell the_resource zero_ClusterResource (ClusterResource_DeepCopyInto E) (gss_ClusterResources s) m1 of (resources, m2) \<Rightarrow>
        (s\<lparr>gss_Subjects := subjects, gss_ClusterResources := resources\<rparr>, m2))"

definition GlobalSubjectSpec_DeepCopy :: "'x externs \<Rightarrow> pointer \<Rightarrow> 'x memory \<Rightarrow> pointer \<times> 'x memory" where
  "GlobalSubjectSpec_DeepCopy E = copy_pointer SubjectSpecCell the_subject_spec zero_GlobalSubjectSpec (GlobalSubjectSpec_DeepCopyInto E)"

definition GlobalProxySettingsSpec_DeepCopyInto :: "'x externs \<Rightarrow> GlobalProxySettingsSpec_struct \<Rightarrow> 'x memory \<Rightarrow> GlobalProxySettingsSpec_struct \<times> 'x memory" where
  "GlobalProxySettingsSpec_DeepCopyInto E s m =
     (case copy_slice SubjectSpecCell the_subject_spec zero_GlobalSubjectSpec (GlobalSubjectSpec_DeepCopyInto E) (gps_spec_Rules s) m of (rules, m') \<Rightarrow>
        (s\<lparr>gps_spec_Rules := rules\<rparr>, m'))"

definition GlobalProxySettingsSpec_DeepCopy :: "'x externs \<Rightarrow> pointer \<Rightarrow> 'x memory \<Rightarrow> pointer \<times> 'x memory" where
  "GlobalProxySettingsSpec_DeepCopy E = copy_pointer GlobalSpecCell the_global_spec zero_GlobalProxySettingsSpec (GlobalProxySettingsSpec_DeepCopyInto E)"

definition OwnerSpec_DeepCopyInto :: "'x externs \<Rightarrow> OwnerSpec_struct \<Rightarrow> 'x memory \<Rightarrow> OwnerSpec_struct \<times> 'x memory" where
  "OwnerSpec_DeepCopyInto E s m =
     (case copy_slice ResourceCell the_resource zero_ClusterResource (ClusterResource_DeepCopyInto E) (oss_ClusterResources s) m of (resources, m1) \<Rightarrow>
      case copy_slice ExternCell the_extern (ex_ProxySettings E) (ex_DeepCopyInto E) (oss_ProxyOperations s) m1 of (operations, m2) \<Rightarrow>
        (s\<lparr>oss_ClusterResources := resources, oss_ProxyOperations := operations\<rparr>, m2))"

definition OwnerSpec_DeepCopy :: "'x externs \<Rightarrow> pointer \<Rightarrow> 'x memory \<Rightarrow> pointer \<times> 'x memory" where
  "OwnerSpec_DeepCopy E = copy_pointer OwnerCell the_owner zero_OwnerSpec (OwnerSpec_DeepCopyInto E)"

definition ProxySettingSpec_DeepCopyInto :: "'x externs \<Rightarrow> ProxySettingSpec_struct \<Rightarrow> 'x memory \<Rightarrow> ProxySettingSpec_struct \<times> 'x memory" where
  "ProxySettingSpec_DeepCopyInto E s m =
     (case copy_slice OwnerCell the_owner zero_OwnerSpec (OwnerSpec_DeepCopyInto E) (ps_spec_Subjects s) m of (subjects, m') \<Rightarrow>
        (s\<lparr>ps_spec_Subjects := subjects\<rparr>, m'))"

definition ProxySettingSpec_DeepCopy :: "'x externs \<Rightarrow> pointer \<Rightarrow> 'x memory \<Rightarrow> pointer \<times> 'x memory" where
  "ProxySettingSpec_DeepCopy E = copy_pointer ProxySpecCell the_proxy_spec zero_ProxySettingSpec (ProxySettingSpec_DeepCopyInto E)"

definition ProxySettingStatus_DeepCopyInto :: "'x externs \<Rightarrow> status_struct \<Rightarrow> 'x memory \<Rightarrow> status_struct \<times> 'x memory" where
  "ProxySettingStatus_DeepCopyInto E s m =
     (case copy_slice ExternCell the_extern (ex_Condition E) (ex_DeepCopyInto E) (st_Conditions s) m of (conditions, m') \<Rightarrow>
        (s\<lparr>st_Conditions := conditions\<rparr>, m'))"

definition ProxySettingStatus_DeepCopy :: "'x externs \<Rightarrow> pointer \<Rightarrow> 'x memory \<Rightarrow> pointer \<times> 'x memory" where
  "ProxySettingStatus_DeepCopy E = copy_pointer StatusCell the_status zero_status (ProxySettingStatus_DeepCopyInto E)"

definition GlobalProxySettings_DeepCopyInto :: "'x externs \<Rightarrow> ('x, GlobalProxySettingsSpec_struct) object_struct \<Rightarrow> 'x memory \<Rightarrow> ('x, GlobalProxySettingsSpec_struct) object_struct \<times> 'x memory" where
  "GlobalProxySettings_DeepCopyInto E g m =
     (case ex_DeepCopyInto E (ob_ObjectMeta g) m of (objectMeta, m1) \<Rightarrow>
      case GlobalProxySettingsSpec_DeepCopyInto E (ob_Spec g) m1 of (spec, m2) \<Rightarrow>
      case GlobalProxySettingsStatus_DeepCopyInto E (ob_Status g) m2 of (status, m3) \<Rightarrow>
        (g\<lparr>ob_TypeMeta := ob_TypeMeta g, ob_ObjectMeta := objectMeta, ob_Spec := spec, ob_Status := status\<rparr>, m3))"

definition GlobalProxySettings_DeepCopy :: "'x externs \<Rightarrow> pointer \<Rightarrow> 'x memory \<Rightarrow> pointer \<times> 'x memory" where
  "GlobalProxySettings_DeepCopy E = copy_pointer GlobalCell the_global (zero_object E zero_GlobalProxySettingsSpec) (GlobalProxySettings_DeepCopyInto E)"

definition ProxySetting_DeepCopyInto :: "'x externs \<Rightarrow> ('x, ProxySettingSpec_struct) object_struct \<Rightarrow> 'x memory \<Rightarrow> ('x, ProxySettingSpec_struct) object_struct \<times> 'x memory" where
  "ProxySetting_DeepCopyInto E p m =
     (case ex_DeepCopyInto E (ob_ObjectMeta p) m of (objectMeta, m1) \<Rightarrow>
      case ProxySettingSpec_DeepCopyInto E (ob_Spec p) m1 of (spec, m2) \<Rightarrow>
      case ProxySettingStatus_DeepCopyInto E (ob_Status p) m2 of (status, m3) \<Rightarrow>
        (p\<lparr>ob_TypeMeta := ob_TypeMeta p, ob_ObjectMeta := objectMeta, ob_Spec := spec, ob_Status := status\<rparr>, m3))"

definition ProxySetting_DeepCopy :: "'x externs \<Rightarrow> pointer \<Rightarrow> 'x memory \<Rightarrow> pointer \<times> 'x memory" where
  "ProxySetting_DeepCopy E = copy_pointer ProxyCell the_proxy (zero_object E zero_ProxySettingSpec) (ProxySetting_DeepCopyInto E)"

definition GlobalProxySettingsList_DeepCopyInto :: "'x externs \<Rightarrow> 'x list_struct \<Rightarrow> 'x memory \<Rightarrow> 'x list_struct \<times> 'x memory" where
  "GlobalProxySettingsList_DeepCopyInto E l m =
     (case ex_DeepCopyInto E (ls_ListMeta l) m of (listMeta, m1) \<Rightarrow>
      case copy_slice GlobalCell the_global (zero_object E zero_GlobalProxySettingsSpec) (GlobalProxySettings_DeepCopyInto E) (ls_Items l) m1 of (items, m2) \<Rightarrow>
        (l\<lparr>ls_TypeMeta := ls_TypeMeta l, ls_ListMeta := listMeta, ls_Items := items\<rparr>, m2))"

definition GlobalProxySettingsList_DeepCopy :: "'x externs \<Rightarrow> pointer \<Rightarrow> 'x memory \<Rightarrow> pointer \<times> 'x memory" where
  "GlobalProxySettingsList_DeepCopy E = copy_pointer ListCell the_list (zero_list E) (GlobalProxySettingsList_DeepCopyInto E)"

definition ProxySettingList_DeepCopyInto :: "'x externs \<Rightarrow> 'x list_struct \<Rightarrow> 'x memory \<Rightarrow> 'x list_struct \<times> 'x memory" where
  "ProxySettingList_DeepCopyInto E l m =
     (case ex_DeepCopyInto E (ls_ListMeta l) m of (listMeta, m1) \<Rightarrow>
      case copy_slice ProxyCell the_proxy (zero_object E zero_ProxySettingSpec) (ProxySetting_DeepCopyInto E) (ls_Items l) m1 of (items, m2) \<Rightarrow>
        (l\<lparr>ls_TypeMeta := ls_TypeMeta l, ls_ListMeta := listMeta, ls_Items := items\<rparr>, m2))"

definition ProxySettingList_DeepCopy :: "'x externs \<Rightarrow> pointer \<Rightarrow> 'x memory \<Rightarrow> pointer \<times> 'x memory" where
  "ProxySettingList_DeepCopy E = copy_pointer ListCell the_list (zero_list E) (ProxySettingList_DeepCopyInto E)"

text \<open>
  \<^verbatim>\<open>DeepCopyObject\<close> returns an interface: the copy, or nil where the copy is a nil pointer.
\<close>

datatype kind = GlobalProxySettingsKind | GlobalProxySettingsListKind | ProxySettingKind | ProxySettingListKind

type_synonym runtime_object = "(kind \<times> addr \<times> nat) option"

definition as_object :: "kind \<Rightarrow> pointer \<times> 'x memory \<Rightarrow> runtime_object \<times> 'x memory" where
  "as_object k c = (case c of (Some p, m) \<Rightarrow> (Some (k, p), m) | (None, m) \<Rightarrow> (None, m))"

definition GlobalProxySettings_DeepCopyObject :: "'x externs \<Rightarrow> pointer \<Rightarrow> 'x memory \<Rightarrow> runtime_object \<times> 'x memory" where
  "GlobalProxySettings_DeepCopyObject E p m = as_object GlobalProxySettingsKind (GlobalProxySettings_DeepCopy E p m)"

definition GlobalProxySettingsList_DeepCopyObject :: "'x externs \<Rightarrow> pointer \<Rightarrow> 'x memory \<Rightarrow> runtime_object \<times> 'x memory" where
  "GlobalProxySettingsList_DeepCopyObject E p m = as_object GlobalProxySettingsListKind (GlobalProxySettingsList_DeepCopy E p m)"

definition ProxySetting_DeepCopyObject :: "'x externs \<Rightarrow> pointer \<Rightarrow> 'x memory \<Rightarrow> runtime_object \<times> 'x memory" where
  "ProxySetting_DeepCopyObject E p m = as_object ProxySettingKind (ProxySetting_DeepCopy E p m)"

definition ProxySettingList_DeepCopyObject :: "'x externs \<Rightarrow> pointer \<Rightarrow> 'x memory \<Rightarrow> runtime_object \<times> 'x memory" where
  "ProxySettingList_DeepCopyObject E p m = as_object ProxySettingListKind (ProxySettingList_DeepCopy E p m)"

section \<open>The contract\<close>

text \<open>
  A copy writes to fresh memory only. Of a value of some type, \<open>view\<close> is what a reader sees, \<open>foot\<close> the arrays
  it reads, and \<open>valid\<close> that they are in use and that slices are in range.
\<close>

definition extends :: "'x memory \<Rightarrow> 'x memory \<Rightarrow> bool" where
  "extends m m' \<longleftrightarrow> lim m \<le> lim m' \<and> (\<forall>a < lim m. mem m' a = mem m a)"

definition same_on :: "addr set \<Rightarrow> 'x memory \<Rightarrow> 'x memory \<Rightarrow> bool" where
  "same_on A m m' \<longleftrightarrow> (\<forall>a \<in> A. mem m' a = mem m a)"

lemma same_on_simps [simp]:
  "same_on {} m m'" "same_on (insert a A) m m' \<longleftrightarrow> mem m' a = mem m a \<and> same_on A m m'"
  "same_on (A \<union> B) m m' \<longleftrightarrow> same_on A m m' \<and> same_on B m m'"
  by (auto simp: same_on_def)

lemma extends_refl [simp]: "extends m m"
  by (simp add: extends_def)

lemma extends_trans: "extends m m' \<Longrightarrow> extends m' m'' \<Longrightarrow> extends m m''"
  by (simp add: extends_def)

lemma extends_same_on: "extends m m' \<Longrightarrow> A \<subseteq> {..<lim m} \<Longrightarrow> same_on A m m'"
  by (auto simp: extends_def same_on_def)

lemma extends_lim: "extends m m' \<Longrightarrow> lim m \<le> lim m'"
  by (simp add: extends_def)

locale deep_copy =
  fixes copy :: "'a \<Rightarrow> 'x memory \<Rightarrow> 'a \<times> 'x memory"
    and view :: "'x memory \<Rightarrow> 'a \<Rightarrow> 'v"
    and foot :: "'x memory \<Rightarrow> 'a \<Rightarrow> addr set"
    and valid :: "'x memory \<Rightarrow> 'a \<Rightarrow> bool"
  assumes bounded: "valid m x \<Longrightarrow> foot m x \<subseteq> {..<lim m}"
    and local_view: "same_on (foot m x) m m' \<Longrightarrow> view m' x = view m x"
    and local_foot: "same_on (foot m x) m m' \<Longrightarrow> foot m' x = foot m x"
    and local_valid: "valid m x \<Longrightarrow> same_on (foot m x) m m' \<Longrightarrow> lim m \<le> lim m' \<Longrightarrow> valid m' x"
    and copied: "valid m x \<Longrightarrow> copy x m = (y, m') \<Longrightarrow>
      extends m m' \<and> valid m' y \<and> view m' y = view m x \<and> foot m' y \<subseteq> {lim m..<lim m'}"
begin

text \<open>An allocation elsewhere does not change a value, and neither do writes to its copy or to its original.\<close>

lemma kept:
  assumes "extends m m'" "valid m x"
  shows "view m' x = view m x" "foot m' x = foot m x" "valid m' x"
  using assms local_view local_foot local_valid bounded extends_same_on extends_lim by metis+

lemma independent:
  assumes "valid m x" "copy x m = (y, m')" and writes: "same_on (- foot m' y) m' m''"
  shows "view m'' x = view m x"
proof -
  note c = copied [OF assms(1,2)]
  from c bounded [OF assms(1)] have "foot m x \<inter> foot m' y = {}" by fastforce
  with writes have "same_on (foot m x) m' m''" by (auto simp: same_on_def)
  moreover from c bounded [OF assms(1)] have "same_on (foot m x) m m'" by (simp add: extends_same_on)
  ultimately have "same_on (foot m x) m m''" by (simp add: same_on_def)
  then show ?thesis by (rule local_view)
qed

lemma independent_copy:
  assumes "valid m x" "copy x m = (y, m')" and writes: "same_on (- foot m x) m' m''"
  shows "view m'' y = view m x"
proof -
  note c = copied [OF assms(1,2)]
  from c bounded [OF assms(1)] have "foot m x \<inter> foot m' y = {}" by fastforce
  with writes have "same_on (foot m' y) m' m''" by (auto simp: same_on_def)
  with c show ?thesis by (simp add: local_view)
qed

end

section \<open>Building contracts\<close>

interpretation flat: deep_copy flat_into "\<lambda>m x. x" "\<lambda>m x. {}" "\<lambda>m x. True"
  by unfold_locales (auto simp: flat_into_def)

lemma copied_pair:
  assumes "deep_copy c1 v1 f1 ok1" "deep_copy c2 v2 f2 ok2"
  shows "deep_copy (\<lambda>(x, y) m. case c1 x m of (x', m1) \<Rightarrow> case c2 y m1 of (y', m2) \<Rightarrow> ((x', y'), m2))
    (\<lambda>m (x, y). (v1 m x, v2 m y)) (\<lambda>m (x, y). f1 m x \<union> f2 m y) (\<lambda>m (x, y). ok1 m x \<and> ok2 m y)"
    (is "deep_copy ?c ?v ?f ?ok")
proof -
  note A = assms(1) and B = assms(2)
  show ?thesis
  proof (unfold_locales, goal_cases)
    case (1 m x)
    then show ?case using deep_copy.bounded [OF A] deep_copy.bounded [OF B] by (auto split: prod.splits)
  next
    case (2 m x m')
    then show ?case by (auto simp: deep_copy.local_view [OF A] deep_copy.local_view [OF B] split: prod.splits)
  next
    case (3 m x m')
    then show ?case by (auto simp: deep_copy.local_foot [OF A] deep_copy.local_foot [OF B] split: prod.splits)
  next
    case (4 m x m')
    then show ?case by (auto simp: deep_copy.local_valid [OF A] deep_copy.local_valid [OF B] split: prod.splits)
  next
    case (5 m p q m'')
    obtain x y where p: "p = (x, y)" by (cases p)
    with 5 obtain x' m1 y' where cx: "c1 x m = (x', m1)" and cy: "c2 y m1 = (y', m'')" and q: "q = (x', y')"
      by (auto split: prod.splits)
    from 5 p have ok: "ok1 m x" "ok2 m y" by simp_all
    note X = deep_copy.copied [OF A ok(1) cx]
    then have e: "extends m m1" by simp
    note y = deep_copy.kept [OF B e ok(2)]
    note Y = deep_copy.copied [OF B y(3) cy]
    then have e': "extends m1 m''" by simp
    note x = deep_copy.kept [OF A e', of x']
    from X Y x y extends_trans [OF e e'] extends_lim [OF e] extends_lim [OF e'] show ?case
      by (auto simp: p q)
  qed
qed

lemma copied_struct:
  assumes "deep_copy c v f ok" and sel: "\<And>r p. sel (upd p r) = p" and rest: "\<And>r p. flat (upd p r) = flat r"
  shows "deep_copy (\<lambda>r m. case c (sel r) m of (p, m') \<Rightarrow> (upd p r, m'))
    (\<lambda>m r. W (flat r) (v m (sel r))) (\<lambda>m r. f m (sel r)) (\<lambda>m r. ok m (sel r))"
proof (unfold_locales, goal_cases)
  case (5 m r r' m')
  then obtain p where "c (sel r) m = (p, m')" "r' = upd p r" by (auto split: prod.splits)
  with 5 deep_copy.copied [OF assms(1), of m "sel r" p m'] show ?case by (simp add: sel rest)
qed (simp_all add: deep_copy.bounded [OF assms(1)] deep_copy.local_view [OF assms(1)] deep_copy.local_foot [OF assms(1)]
  deep_copy.local_valid [OF assms(1)])

section \<open>Slices and pointers\<close>

definition cells :: "('x cell \<Rightarrow> 'a) \<Rightarrow> 'x memory \<Rightarrow> addr \<times> nat \<times> nat \<Rightarrow> 'a list" where
  "cells un m = (\<lambda>(a, off, n). map (\<lambda>i. un (mem m a ! (off + i))) [0..<n])"

definition range_foot :: "('x cell \<Rightarrow> 'a) \<Rightarrow> ('x memory \<Rightarrow> 'a \<Rightarrow> addr set) \<Rightarrow> 'x memory \<Rightarrow> addr \<times> nat \<times> nat \<Rightarrow> addr set" where
  "range_foot un f m r = insert (fst r) (\<Union>x \<in> set (cells un m r). f m x)"

definition range_valid :: "('x cell \<Rightarrow> 'a) \<Rightarrow> ('x memory \<Rightarrow> 'a \<Rightarrow> bool) \<Rightarrow> 'x memory \<Rightarrow> addr \<times> nat \<times> nat \<Rightarrow> bool" where
  "range_valid un ok m r \<longleftrightarrow> (case r of (a, off, n) \<Rightarrow> a < lim m \<and> off + n \<le> length (mem m a)) \<and> (\<forall>x \<in> set (cells un m r). ok m x)"

definition copy_range :: "('a \<Rightarrow> 'x cell) \<Rightarrow> ('x cell \<Rightarrow> 'a) \<Rightarrow> 'a \<Rightarrow> ('a \<Rightarrow> 'x memory \<Rightarrow> 'a \<times> 'x memory) \<Rightarrow> addr \<times> nat \<times> nat \<Rightarrow> 'x memory \<Rightarrow> (addr \<times> nat \<times> nat) \<times> 'x memory" where
  "copy_range mk un z into = (\<lambda>(a, off, n) m. case copy_cells mk un z into a off n m of (b, m') \<Rightarrow> ((b, 0, n), m'))"

lemma cells_same: "mem m' (fst r) = mem m (fst r) \<Longrightarrow> cells un m' r = cells un m r"
  by (cases r) (simp add: cells_def)

lemma same_on_Union: "same_on (\<Union>x \<in> A. f x) m m' \<longleftrightarrow> (\<forall>x \<in> A. same_on (f x) m m')"
  by (auto simp: same_on_def)

text \<open>What holds when \<open>i\<close> elements have been copied into the new array \<open>lim m\<close>.\<close>

definition copied_upto :: "('x cell \<Rightarrow> 'a) \<Rightarrow> ('x memory \<Rightarrow> 'a \<Rightarrow> 'v) \<Rightarrow> ('x memory \<Rightarrow> 'a \<Rightarrow> addr set) \<Rightarrow> ('x memory \<Rightarrow> 'a \<Rightarrow> bool)
    \<Rightarrow> addr \<Rightarrow> nat \<Rightarrow> nat \<Rightarrow> 'x memory \<Rightarrow> nat \<Rightarrow> 'x memory \<Rightarrow> bool" where
  "copied_upto un v f ok a off n m i mi \<longleftrightarrow> extends m mi \<and> lim m < lim mi \<and> length (mem mi (lim m)) = n
     \<and> (\<forall>j < i. let y = un (mem mi (lim m) ! j) in
          ok mi y \<and> v mi y = v m (un (mem m a ! (off + j))) \<and> f mi y \<subseteq> {Suc (lim m)..<lim mi})"

lemma copied_upto_0: "alloc (replicate n c) m = (b, m1) \<Longrightarrow> copied_upto un v f ok a off n m 0 m1"
  by (auto simp: copied_upto_def alloc_def extends_def)

lemma copied_upto_Suc:
  assumes D: "deep_copy c v f ok" and un: "\<And>x. un (mk x) = x" and r: "range_valid un ok m (a, off, n)" and i: "i < n"
    and upto: "copied_upto un v f ok a off n m i mi"
  shows "copied_upto un v f ok a off n m (Suc i) (copy_cell mk un c a off (lim m) i mi)"
proof -
  let ?x = "un (mem m a ! (off + i))"
  from upto have e: "extends m mi" and b: "lim m < lim mi" and len: "length (mem mi (lim m)) = n" by (simp_all add: copied_upto_def)
  from r have a: "a < lim m" by (simp add: range_valid_def)
  with e have src: "un (mem mi a ! (off + i)) = ?x" by (simp add: extends_def)
  from r i have "ok m ?x" by (auto simp: range_valid_def cells_def)
  note x = deep_copy.kept [OF D e this]
  obtain y m' where c: "c ?x mi = (y, m')" by (cases "c ?x mi")
  note C = deep_copy.copied [OF D x(3) c]
  then have e': "extends mi m'" by simp
  let ?m = "store (lim m) i (mk y) m'"
  have upd: "copy_cell mk un c a off (lim m) i mi = ?m" by (simp add: copy_cell_def src c)
  have same: "same_on A m' ?m" if "A \<subseteq> {Suc (lim m)..<k}" for A k
    using that by (auto simp: same_on_def store_def)
  have lim: "lim ?m = lim m'" by (simp add: store_def)
  have arr: "mem m' (lim m) = mem mi (lim m)" using e' b by (simp add: extends_def)
  have "extends m ?m" using extends_trans [OF e e'] by (auto simp: extends_def store_def)
  moreover have "length (mem ?m (lim m)) = n" by (simp add: store_def arr len)
  moreover have "let y = un (mem ?m (lim m) ! j) in
      ok ?m y \<and> v ?m y = v m (un (mem m a ! (off + j))) \<and> f ?m y \<subseteq> {Suc (lim m)..<lim ?m}" if "j < Suc i" for j
  proof (cases "j = i")
    case True
    from C b have sub: "f m' y \<subseteq> {Suc (lim m)..<lim m'}" by auto
    note s = same [OF sub]
    from True C x sub show ?thesis
      using deep_copy.local_view [OF D s] deep_copy.local_foot [OF D s] deep_copy.local_valid [OF D _ s] lim
      by (simp add: store_def arr len i un Let_def)
  next
    case False
    let ?y = "un (mem mi (lim m) ! j)"
    from False that have "j < i" by simp
    with upto have Y: "ok mi ?y" "v mi ?y = v m (un (mem m a ! (off + j)))" "f mi ?y \<subseteq> {Suc (lim m)..<lim mi}"
      by (simp_all add: copied_upto_def Let_def)
    note k = deep_copy.kept [OF D e' Y(1)]
    from Y(3) extends_lim [OF e'] have sub: "f m' ?y \<subseteq> {Suc (lim m)..<lim m'}" by (auto simp: k(2))
    note s = same [OF sub]
    from False k Y sub show ?thesis
      using deep_copy.local_view [OF D s] deep_copy.local_foot [OF D s] deep_copy.local_valid [OF D _ s] lim
      by (simp add: store_def arr Let_def)
  qed
  ultimately show ?thesis using b extends_lim [OF e'] by (simp add: copied_upto_def upd lim)
qed

lemma copied_upto_all:
  assumes D: "deep_copy c v f ok" and un: "\<And>x. un (mk x) = x" and r: "range_valid un ok m (a, off, n)"
    and c: "copy_cells mk un z c a off n m = (b, m')"
  shows "b = lim m \<and> copied_upto un v f ok a off n m n m'"
proof -
  obtain m1 where m1: "alloc (replicate n (mk z)) m = (lim m, m1)" by (simp add: alloc_def)
  have "copied_upto un v f ok a off n m k (fold (copy_cell mk un c a off (lim m)) [0..<k] m1)" if "k \<le> n" for k
    using that by (induction k) (simp_all add: copied_upto_0 [OF m1] copied_upto_Suc [OF D un r])
  from this [of n] c show ?thesis by (auto simp: copy_cells_def m1)
qed

lemma copied_range:
  assumes D: "deep_copy c v f ok" and un: "\<And>x. un (mk x) = x"
  shows "deep_copy (copy_range mk un z c) (\<lambda>m r. map (v m) (cells un m r)) (range_foot un f) (range_valid un ok)"
proof (unfold_locales, goal_cases)
  case (1 m r)
  then show ?case using deep_copy.bounded [OF D] by (auto simp: range_valid_def range_foot_def)
next
  case (2 m r m')
  then have "cells un m' r = cells un m r" by (intro cells_same) (simp add: range_foot_def)
  with 2 show ?case by (auto simp: range_foot_def same_on_Union intro: deep_copy.local_view [OF D])
next
  case (3 m r m')
  then have "cells un m' r = cells un m r" by (intro cells_same) (simp add: range_foot_def)
  moreover from 3 have "f m' x = f m x" if "x \<in> set (cells un m r)" for x
    using that by (intro deep_copy.local_foot [OF D]) (simp add: range_foot_def same_on_Union)
  ultimately show ?case by (simp add: range_foot_def)
next
  case (4 m r m')
  then have same: "mem m' (fst r) = mem m (fst r)" by (simp add: range_foot_def)
  with 4 show ?case unfolding range_valid_def cells_same [OF same]
    by (auto simp: range_foot_def same_on_Union intro: deep_copy.local_valid [OF D])
next
  case (5 m r r' m')
  obtain a off n where r: "r = (a, off, n)" by (cases r)
  with 5 obtain b where c: "copy_cells mk un z c a off n m = (b, m')" and r': "r' = (b, 0, n)"
    by (auto simp: copy_range_def split: prod.splits)
  from 5 r have "range_valid un ok m (a, off, n)" by simp
  with copied_upto_all [OF D un _ c] have b: "b = lim m" and all: "copied_upto un v f ok a off n m n m'" by blast+
  then have el: "ok m' y \<and> f m' y \<subseteq> {Suc (lim m)..<lim m'}" if "y \<in> set (cells un m' r')" for y
    using that by (auto simp: copied_upto_def Let_def cells_def r')
  from all have "map (v m') (cells un m' r') = map (v m) (cells un m r)"
    by (auto simp: copied_upto_def Let_def cells_def r r' b)
  with all el b show ?case
    by (fastforce simp: copied_upto_def range_valid_def range_foot_def r')
qed

text \<open>A nil slice and a nil pointer own nothing and are valid.\<close>

definition opt_foot :: "('x memory \<Rightarrow> 'a \<Rightarrow> addr set) \<Rightarrow> 'x memory \<Rightarrow> 'a option \<Rightarrow> addr set" where
  "opt_foot f m p = (case p of None \<Rightarrow> {} | Some x \<Rightarrow> f m x)"

definition opt_valid :: "('x memory \<Rightarrow> 'a \<Rightarrow> bool) \<Rightarrow> 'x memory \<Rightarrow> 'a option \<Rightarrow> bool" where
  "opt_valid ok m p \<longleftrightarrow> (case p of None \<Rightarrow> True | Some x \<Rightarrow> ok m x)"

lemma copied_option:
  assumes D: "deep_copy c v f ok"
  shows "deep_copy (\<lambda>p m. case p of None \<Rightarrow> (None, m) | Some x \<Rightarrow> (case c x m of (y, m') \<Rightarrow> (Some y, m')))
    (\<lambda>m. map_option (v m)) (opt_foot f) (opt_valid ok)"
proof (unfold_locales, goal_cases)
  case (1 m p)
  then show ?case using deep_copy.bounded [OF D] by (auto simp: opt_foot_def opt_valid_def split: option.splits)
next
  case (2 m p m')
  then show ?case by (cases p) (auto simp: opt_foot_def intro: deep_copy.local_view [OF D])
next
  case (3 m p m')
  then show ?case by (cases p) (auto simp: opt_foot_def dest: deep_copy.local_foot [OF D])
next
  case (4 m p m')
  then show ?case by (cases p) (auto simp: opt_foot_def opt_valid_def intro: deep_copy.local_valid [OF D])
next
  case (5 m p q m')
  then show ?case
  proof (cases p)
    case (Some x)
    with 5 obtain y where c: "c x m = (y, m')" and q: "q = Some y" by (auto split: prod.splits)
    from 5 Some have "ok m x" by (simp add: opt_valid_def)
    from deep_copy.copied [OF D this c] show ?thesis by (simp add: Some q opt_foot_def opt_valid_def)
  qed (simp add: opt_foot_def opt_valid_def)
qed

section \<open>How a type is represented\<close>

text \<open>View, footprint and validity of a type, built from those of its parts; a nil slice differs from an empty one.\<close>

record ('x, 'a, 'v) rep =
  rep_view :: "'x memory \<Rightarrow> 'a \<Rightarrow> 'v"
  rep_foot :: "'x memory \<Rightarrow> 'a \<Rightarrow> addr set"
  rep_valid :: "'x memory \<Rightarrow> 'a \<Rightarrow> bool"

abbreviation copies :: "('a \<Rightarrow> 'x memory \<Rightarrow> 'a \<times> 'x memory) \<Rightarrow> ('x, 'a, 'v) rep \<Rightarrow> bool" where
  "copies c R \<equiv> deep_copy c (rep_view R) (rep_foot R) (rep_valid R)"

definition flat_rep :: "('x, 'a, 'a) rep" where
  "flat_rep = \<lparr>rep_view = (\<lambda>m x. x), rep_foot = (\<lambda>m x. {}), rep_valid = (\<lambda>m x. True)\<rparr>"

definition pair_rep :: "('x, 'a, 'v) rep \<Rightarrow> ('x, 'b, 'w) rep \<Rightarrow> ('x, 'a \<times> 'b, 'v \<times> 'w) rep" where
  "pair_rep R S = \<lparr>rep_view = (\<lambda>m (x, y). (rep_view R m x, rep_view S m y)),
     rep_foot = (\<lambda>m (x, y). rep_foot R m x \<union> rep_foot S m y), rep_valid = (\<lambda>m (x, y). rep_valid R m x \<and> rep_valid S m y)\<rparr>"

definition slice_rep :: "('x cell \<Rightarrow> 'a) \<Rightarrow> ('x, 'a, 'v) rep \<Rightarrow> ('x, slice, 'v list option) rep" where
  "slice_rep un R = \<lparr>rep_view = (\<lambda>m. map_option (\<lambda>r. map (rep_view R m) (cells un m r))),
     rep_foot = opt_foot (range_foot un (rep_foot R)), rep_valid = opt_valid (range_valid un (rep_valid R))\<rparr>"

abbreviation single :: "addr \<times> nat \<Rightarrow> addr \<times> nat \<times> nat" where
  "single \<equiv> \<lambda>(a, i). (a, i, 1)"

definition pointer_rep :: "('x cell \<Rightarrow> 'a) \<Rightarrow> ('x, 'a, 'v) rep \<Rightarrow> ('x, pointer, 'v option) rep" where
  "pointer_rep un R = \<lparr>rep_view = (\<lambda>m. map_option (\<lambda>p. hd (map (rep_view R m) (cells un m (single p))))),
     rep_foot = opt_foot (\<lambda>m p. range_foot un (rep_foot R) m (single p)),
     rep_valid = opt_valid (\<lambda>m p. range_valid un (rep_valid R) m (single p))\<rparr>"

text \<open>A struct is its flat fields and the fields that refer to memory.\<close>

definition struct_rep :: "('r \<Rightarrow> 'k) \<Rightarrow> ('r \<Rightarrow> 'a) \<Rightarrow> ('x, 'a, 'v) rep \<Rightarrow> ('x, 'r, 'k \<times> 'v) rep" where
  "struct_rep flat sel R = \<lparr>rep_view = (\<lambda>m r. (flat r, rep_view R m (sel r))),
     rep_foot = (\<lambda>m r. rep_foot R m (sel r)), rep_valid = (\<lambda>m r. rep_valid R m (sel r))\<rparr>"

lemma copies_flat: "copies flat_into flat_rep"
  by (simp add: flat_rep_def flat.deep_copy_axioms)

lemma copies_pair:
  "copies c R \<Longrightarrow> copies d S \<Longrightarrow>
   copies (\<lambda>(x, y) m. case c x m of (x', m1) \<Rightarrow> case d y m1 of (y', m2) \<Rightarrow> ((x', y'), m2)) (pair_rep R S)"
  by (simp add: pair_rep_def copied_pair)

lemma copies_struct:
  assumes "copies c R" and "\<And>r p. sel (upd p r) = p" and "\<And>r p. flat (upd p r) = flat r"
  shows "copies (\<lambda>r m. case c (sel r) m of (p, m') \<Rightarrow> (upd p r, m')) (struct_rep flat sel R)"
  using copied_struct [OF assms, where W = Pair] by (simp add: struct_rep_def)

lemma copies_slice:
  assumes "copies c R" and "\<And>x. un (mk x) = x"
  shows "copies (copy_slice mk un z c) (slice_rep un R)"
proof -
  have eq: "copy_slice mk un z c = (\<lambda>p m. case p of None \<Rightarrow> (None, m) | Some x \<Rightarrow> (case copy_range mk un z c x m of (y, m') \<Rightarrow> (Some y, m')))"
    by (intro ext) (simp add: copy_slice_def copy_range_def split: option.split prod.split)
  show ?thesis unfolding eq slice_rep_def rep.simps by (rule copied_option [OF copied_range [OF assms]])
qed

lemma copies_pointer:
  assumes "copies c R" and "\<And>x. un (mk x) = x"
  shows "copies (copy_pointer mk un z c) (pointer_rep un R)"
proof -
  let ?c = "\<lambda>p m. case copy_cells mk un z c (fst p) (snd p) 1 m of (b, m') \<Rightarrow> ((b, 0), m')"
  note D = copied_range [OF assms, where z = z]
  have "deep_copy ?c (\<lambda>m p. hd (map (rep_view R m) (cells un m (single p)))) (\<lambda>m p. range_foot un (rep_foot R) m (single p))
    (\<lambda>m p. range_valid un (rep_valid R) m (single p))"
  proof (unfold_locales, goal_cases)
    case (1 m p)
    then show ?case by (rule deep_copy.bounded [OF D])
  next
    case (2 m p m')
    then show ?case by (simp only: deep_copy.local_view [OF D 2])
  next
    case (3 m p m')
    then show ?case by (rule deep_copy.local_foot [OF D])
  next
    case (4 m p m')
    then show ?case by (rule deep_copy.local_valid [OF D])
  next
    case (5 m p q m')
    then obtain b where "copy_range mk un z c (single p) m = (single (b, 0), m')" and q: "q = (b, 0)"
      by (auto simp: copy_range_def split: prod.splits)
    from deep_copy.copied [OF D 5(1) this(1)] show ?case by (simp add: q)
  qed
  moreover have eq: "copy_pointer mk un z c = (\<lambda>p m. case p of None \<Rightarrow> (None, m) | Some x \<Rightarrow> (case ?c x m of (y, m') \<Rightarrow> (Some y, m')))"
    by (intro ext) (simp add: copy_pointer_def split: option.split prod.split)
  ultimately show ?thesis unfolding eq pointer_rep_def rep.simps by (intro copied_option)
qed

section \<open>Every deep copy keeps the contract\<close>

definition ClusterResource_rep :: "('x, 'x, 'v) rep \<Rightarrow> ('x, ClusterResource_struct, _) rep" where
  "ClusterResource_rep X = struct_rep (\<lambda>r. ()) (\<lambda>r. (crs_APIGroups r, crs_Resources r, crs_Operations r, crs_Selector r))
     (pair_rep (slice_rep the_string flat_rep) (pair_rep (slice_rep the_string flat_rep)
       (pair_rep (slice_rep the_string flat_rep) (pointer_rep the_extern X))))"

definition GlobalSubjectSpec_rep :: "('x, 'x, 'v) rep \<Rightarrow> ('x, GlobalSubjectSpec_struct, _) rep" where
  "GlobalSubjectSpec_rep X = struct_rep (\<lambda>s. ()) (\<lambda>s. (gss_Subjects s, gss_ClusterResources s))
     (pair_rep (slice_rep the_subject flat_rep) (slice_rep the_resource (ClusterResource_rep X)))"

definition OwnerSpec_rep :: "('x, 'x, 'v) rep \<Rightarrow> ('x, OwnerSpec_struct, _) rep" where
  "OwnerSpec_rep X = struct_rep (\<lambda>s. (oss_Kind s, oss_Name s)) (\<lambda>s. (oss_ClusterResources s, oss_ProxyOperations s))
     (pair_rep (slice_rep the_resource (ClusterResource_rep X)) (slice_rep the_extern X))"

definition GlobalProxySettingsSpec_rep :: "('x, 'x, 'v) rep \<Rightarrow> ('x, GlobalProxySettingsSpec_struct, _) rep" where
  "GlobalProxySettingsSpec_rep X = struct_rep (\<lambda>s. ()) gps_spec_Rules (slice_rep the_subject_spec (GlobalSubjectSpec_rep X))"

definition ProxySettingSpec_rep :: "('x, 'x, 'v) rep \<Rightarrow> ('x, ProxySettingSpec_struct, _) rep" where
  "ProxySettingSpec_rep X = struct_rep (\<lambda>s. ()) ps_spec_Subjects (slice_rep the_owner (OwnerSpec_rep X))"

definition status_rep :: "('x, 'x, 'v) rep \<Rightarrow> ('x, status_struct, _) rep" where
  "status_rep X = struct_rep st_ObservedGeneration st_Conditions (slice_rep the_extern X)"

definition object_rep :: "('x, 'x, 'v) rep \<Rightarrow> ('x, 's, 'w) rep \<Rightarrow> ('x, ('x, 's) object_struct, _) rep" where
  "object_rep X S = struct_rep ob_TypeMeta (\<lambda>g. (ob_ObjectMeta g, ob_Spec g, ob_Status g)) (pair_rep X (pair_rep S (status_rep X)))"

definition list_rep :: "('x, 'x, 'v) rep \<Rightarrow> ('x cell \<Rightarrow> 'a) \<Rightarrow> ('x, 'a, 'w) rep \<Rightarrow> ('x, 'x list_struct, _) rep" where
  "list_rep X un R = struct_rep ls_TypeMeta (\<lambda>l. (ls_ListMeta l, ls_Items l)) (pair_rep X (slice_rep un R))"

lemma copies_cong: "copies c R \<Longrightarrow> (\<And>x m. d x m = c x m) \<Longrightarrow> copies d R"
  using ext [of d c] ext [of "d x" "c x" for x] by (metis (no_types, lifting))

lemma copies_GlobalSubject: "copies GlobalSubject_DeepCopyInto flat_rep"
  by (rule copies_cong [OF copies_flat]) (simp add: GlobalSubject_DeepCopyInto_def flat_into_def)

lemmas copies_strings = copies_slice [OF copies_flat, of the_string StringCell "[]", OF cell.sel(1)]

interpretation strings: deep_copy "copy_slice StringCell the_string [] flat_into" "rep_view (slice_rep the_string flat_rep)"
  "rep_foot (slice_rep the_string flat_rep)" "rep_valid (slice_rep the_string flat_rep)"
  by (rule copies_strings)

lemma copies_ClusterResource:
  assumes "copies (ex_DeepCopyInto E) X"
  shows "copies (ClusterResource_DeepCopyInto E) (ClusterResource_rep X)"
  unfolding ClusterResource_rep_def
  by (rule copies_cong [OF copies_struct [OF copies_pair [OF copies_strings copies_pair [OF copies_strings
        copies_pair [OF copies_strings copies_pointer [OF assms, of the_extern ExternCell "ex_LabelSelector E"]]]],
      where upd = "\<lambda>(a, b, c, d) r. r\<lparr>crs_APIGroups := a, crs_Resources := b, crs_Operations := c, crs_Selector := d\<rparr>"]])
    (simp_all add: ClusterResource_DeepCopyInto_def split: prod.split)

interpretation subjects: deep_copy GlobalSubject_DeepCopyInto "rep_view flat_rep" "rep_foot flat_rep" "rep_valid flat_rep"
  by (rule copies_GlobalSubject)

lemmas copies_resources = copies_slice [OF copies_ClusterResource, of _ _ the_resource ResourceCell zero_ClusterResource, OF _ cell.sel(3)]

lemma copies_GlobalSubjectSpec:
  assumes "copies (ex_DeepCopyInto E) X"
  shows "copies (GlobalSubjectSpec_DeepCopyInto E) (GlobalSubjectSpec_rep X)"
  unfolding GlobalSubjectSpec_rep_def
  by (rule copies_cong [OF copies_struct [OF copies_pair [OF copies_slice [OF copies_flat, of the_subject SubjectCell zero_GlobalSubject]
        copies_resources [OF assms]], where upd = "\<lambda>(a, b) s. s\<lparr>gss_Subjects := a, gss_ClusterResources := b\<rparr>"]])
    (simp_all add: GlobalSubjectSpec_DeepCopyInto_def split: prod.split)

lemma copies_OwnerSpec:
  assumes "copies (ex_DeepCopyInto E) X"
  shows "copies (OwnerSpec_DeepCopyInto E) (OwnerSpec_rep X)"
  unfolding OwnerSpec_rep_def
  by (rule copies_cong [OF copies_struct [OF copies_pair [OF copies_resources [OF assms]
        copies_slice [OF assms, of the_extern ExternCell "ex_ProxySettings E"]],
      where upd = "\<lambda>(a, b) s. s\<lparr>oss_ClusterResources := a, oss_ProxyOperations := b\<rparr>"]])
    (simp_all add: OwnerSpec_DeepCopyInto_def split: prod.split)

lemma copies_GlobalProxySettingsSpec:
  assumes "copies (ex_DeepCopyInto E) X"
  shows "copies (GlobalProxySettingsSpec_DeepCopyInto E) (GlobalProxySettingsSpec_rep X)"
  unfolding GlobalProxySettingsSpec_rep_def
  by (rule copies_cong [OF copies_struct [OF copies_slice [OF copies_GlobalSubjectSpec [OF assms], of the_subject_spec SubjectSpecCell zero_GlobalSubjectSpec],
      where upd = "\<lambda>a s. s\<lparr>gps_spec_Rules := a\<rparr>"]])
    (simp_all add: GlobalProxySettingsSpec_DeepCopyInto_def split: prod.split)

lemma copies_ProxySettingSpec:
  assumes "copies (ex_DeepCopyInto E) X"
  shows "copies (ProxySettingSpec_DeepCopyInto E) (ProxySettingSpec_rep X)"
  unfolding ProxySettingSpec_rep_def
  by (rule copies_cong [OF copies_struct [OF copies_slice [OF copies_OwnerSpec [OF assms], of the_owner OwnerCell zero_OwnerSpec],
      where upd = "\<lambda>a s. s\<lparr>ps_spec_Subjects := a\<rparr>"]])
    (simp_all add: ProxySettingSpec_DeepCopyInto_def split: prod.split)

lemma copies_status:
  assumes "copies (ex_DeepCopyInto E) X"
  shows "copies (GlobalProxySettingsStatus_DeepCopyInto E) (status_rep X)" "copies (ProxySettingStatus_DeepCopyInto E) (status_rep X)"
  unfolding status_rep_def
  by (rule copies_cong [OF copies_struct [OF copies_slice [OF assms, of the_extern ExternCell "ex_Condition E"], where upd = "\<lambda>a s. s\<lparr>st_Conditions := a\<rparr>"]];
    simp add: GlobalProxySettingsStatus_DeepCopyInto_def ProxySettingStatus_DeepCopyInto_def split: prod.split)+

text \<open>The two kinds of objects differ in the type of their specification only.\<close>

lemma copies_object:
  assumes "copies (ex_DeepCopyInto E) X" and "copies spec S" and "copies status (status_rep X)"
    and "\<And>g m. into g m = (case ex_DeepCopyInto E (ob_ObjectMeta g) m of (a, m1) \<Rightarrow> case spec (ob_Spec g) m1 of (b, m2) \<Rightarrow>
      case status (ob_Status g) m2 of (c, m3) \<Rightarrow> (g\<lparr>ob_ObjectMeta := a, ob_Spec := b, ob_Status := c\<rparr>, m3))"
  shows "copies into (object_rep X S)"
  unfolding object_rep_def
  by (rule copies_cong [OF copies_struct [OF copies_pair [OF assms(1) copies_pair [OF assms(2,3)]],
      where upd = "\<lambda>(a, b, c) g. g\<lparr>ob_ObjectMeta := a, ob_Spec := b, ob_Status := c\<rparr>"]])
    (simp_all add: assms(4) split: prod.split)

lemma copies_list:
  assumes "copies (ex_DeepCopyInto E) X" and "copies item R" and "\<And>x. un (mk x) = x"
    and "\<And>l m. into l m = (case ex_DeepCopyInto E (ls_ListMeta l) m of (a, m1) \<Rightarrow> case copy_slice mk un z item (ls_Items l) m1 of (b, m2) \<Rightarrow>
      (l\<lparr>ls_ListMeta := a, ls_Items := b\<rparr>, m2))"
  shows "copies into (list_rep X un R)"
  unfolding list_rep_def
  by (rule copies_cong [OF copies_struct [OF copies_pair [OF assms(1) copies_slice [OF assms(2,3), where z = z]],
      where upd = "\<lambda>(a, b) l. l\<lparr>ls_ListMeta := a, ls_Items := b\<rparr>"]])
    (simp_all add: assms(4) split: prod.split)

abbreviation GlobalProxySettings_rep :: "('x, 'x, 'v) rep \<Rightarrow> ('x, ('x, GlobalProxySettingsSpec_struct) object_struct, _) rep" where
  "GlobalProxySettings_rep X \<equiv> object_rep X (GlobalProxySettingsSpec_rep X)"

abbreviation ProxySetting_rep :: "('x, 'x, 'v) rep \<Rightarrow> ('x, ('x, ProxySettingSpec_struct) object_struct, _) rep" where
  "ProxySetting_rep X \<equiv> object_rep X (ProxySettingSpec_rep X)"

lemma copies_objects:
  assumes X: "copies (ex_DeepCopyInto E) X"
  shows "copies (GlobalProxySettings_DeepCopyInto E) (GlobalProxySettings_rep X)"
    and "copies (ProxySetting_DeepCopyInto E) (ProxySetting_rep X)"
    and "copies (GlobalProxySettingsList_DeepCopyInto E) (list_rep X the_global (GlobalProxySettings_rep X))"
    and "copies (ProxySettingList_DeepCopyInto E) (list_rep X the_proxy (ProxySetting_rep X))"
proof -
  show g: "copies (GlobalProxySettings_DeepCopyInto E) (GlobalProxySettings_rep X)"
    by (rule copies_object [OF X copies_GlobalProxySettingsSpec [OF X] copies_status(1) [OF X]]) (simp add: GlobalProxySettings_DeepCopyInto_def)
  show p: "copies (ProxySetting_DeepCopyInto E) (ProxySetting_rep X)"
    by (rule copies_object [OF X copies_ProxySettingSpec [OF X] copies_status(2) [OF X]]) (simp add: ProxySetting_DeepCopyInto_def)
  show "copies (GlobalProxySettingsList_DeepCopyInto E) (list_rep X the_global (GlobalProxySettings_rep X))"
    by (rule copies_list [OF X g]) (simp_all add: GlobalProxySettingsList_DeepCopyInto_def)
  show "copies (ProxySettingList_DeepCopyInto E) (list_rep X the_proxy (ProxySetting_rep X))"
    by (rule copies_list [OF X p]) (simp_all add: ProxySettingList_DeepCopyInto_def)
qed

section \<open>What a caller may rely on\<close>

text \<open>
  The copy has the view of the original, which keeps it; whatever is then written to the arrays of the copy is
  not seen through the original, and the other way round.
\<close>

definition independent_copy :: "('x, 'a, 'v) rep \<Rightarrow> 'x memory \<Rightarrow> 'a \<Rightarrow> 'a \<Rightarrow> 'x memory \<Rightarrow> bool" where
  "independent_copy R m p q m' \<longleftrightarrow> rep_view R m' q = rep_view R m p
     \<and> (\<forall>m''. same_on (- rep_foot R m' q) m' m'' \<longrightarrow> rep_view R m'' p = rep_view R m p)
     \<and> (\<forall>m''. same_on (- rep_foot R m p) m' m'' \<longrightarrow> rep_view R m'' q = rep_view R m p)"

lemma deep_copied_object:
  assumes "copies into R" and "\<And>x. un (mk x) = x" and "rep_valid (pointer_rep un R) m p"
  shows "\<exists>q m'. as_object k (copy_pointer mk un z into p m) = (map_option (Pair k) q, m') \<and> independent_copy (pointer_rep un R) m p q m'"
proof -
  note P = copies_pointer [OF assms(1,2), where z = z]
  obtain q m' where c: "copy_pointer mk un z into p m = (q, m')" by (cases "copy_pointer mk un z into p m")
  have "independent_copy (pointer_rep un R) m p q m'"
    using deep_copy.copied [OF P assms(3) c] deep_copy.independent [OF P assms(3) c] deep_copy.independent_copy [OF P assms(3) c]
    by (simp add: independent_copy_def)
  moreover have "as_object k (copy_pointer mk un z into p m) = (map_option (Pair k) q, m')"
    by (simp add: c as_object_def split: option.split)
  ultimately show ?thesis by blast
qed

text \<open>
  C24: deep copies of the four API objects share no memory with their originals. Where \<^verbatim>\<open>DeepCopyInto\<close> of the
  types of other packages keeps the contract of a deep copy, \<^verbatim>\<open>DeepCopyObject\<close> of a valid pointer, nil
  included, returns an object of its kind (nil for nil) that reads as the original does, down to the strings
  of every resource block; no write to the memory of the copy changes what is read through the original,
  and no write to the memory of the original changes the copy.
\<close>

theorem deep_copies_independent:
  assumes X: "copies (ex_DeepCopyInto E) X"
  shows "(rep_valid (pointer_rep the_global (GlobalProxySettings_rep X)) m p \<longrightarrow>
      (\<exists>q m'. GlobalProxySettings_DeepCopyObject E p m = (map_option (Pair GlobalProxySettingsKind) q, m')
        \<and> independent_copy (pointer_rep the_global (GlobalProxySettings_rep X)) m p q m'))
    \<and> (rep_valid (pointer_rep the_proxy (ProxySetting_rep X)) m p \<longrightarrow>
      (\<exists>q m'. ProxySetting_DeepCopyObject E p m = (map_option (Pair ProxySettingKind) q, m')
        \<and> independent_copy (pointer_rep the_proxy (ProxySetting_rep X)) m p q m'))
    \<and> (rep_valid (pointer_rep the_list (list_rep X the_global (GlobalProxySettings_rep X))) m p \<longrightarrow>
      (\<exists>q m'. GlobalProxySettingsList_DeepCopyObject E p m = (map_option (Pair GlobalProxySettingsListKind) q, m')
        \<and> independent_copy (pointer_rep the_list (list_rep X the_global (GlobalProxySettings_rep X))) m p q m'))
    \<and> (rep_valid (pointer_rep the_list (list_rep X the_proxy (ProxySetting_rep X))) m p \<longrightarrow>
      (\<exists>q m'. ProxySettingList_DeepCopyObject E p m = (map_option (Pair ProxySettingListKind) q, m')
        \<and> independent_copy (pointer_rep the_list (list_rep X the_proxy (ProxySetting_rep X))) m p q m'))"
  unfolding GlobalProxySettings_DeepCopyObject_def ProxySetting_DeepCopyObject_def GlobalProxySettingsList_DeepCopyObject_def
    ProxySettingList_DeepCopyObject_def GlobalProxySettings_DeepCopy_def ProxySetting_DeepCopy_def
    GlobalProxySettingsList_DeepCopy_def ProxySettingList_DeepCopy_def
  by (intro conjI impI; rule deep_copied_object [OF copies_objects(1) [OF X]] deep_copied_object [OF copies_objects(2) [OF X]]
    deep_copied_object [OF copies_objects(3) [OF X]] deep_copied_object [OF copies_objects(4) [OF X]]; simp)

text \<open>
  Two objects and their lists in memory. The rule of the global settings has one subject and one resource block,
  whose two slices share an array; the owner of the proxy setting refers to the same resource block. The values of
  other packages are slices of strings.
\<close>

definition doc_externs :: "slice externs" where
  "doc_externs = \<lparr>ex_DeepCopyInto = copy_slice StringCell the_string [] flat_into, ex_LabelSelector = None, ex_Condition = None,
     ex_ProxySettings = None, ex_ObjectMeta = None, ex_ListMeta = None\<rparr>"

definition doc_object :: "(slice, GlobalProxySettingsSpec_struct) object_struct" where
  "doc_object = \<lparr>ob_TypeMeta = \<lparr>tm_Kind = ''GlobalProxySettings'', tm_APIVersion = ''v1beta1''\<rparr>, ob_ObjectMeta = Some (4, 2, 1),
     ob_Spec = \<lparr>gps_spec_Rules = Some (1, 0, 1)\<rparr>, ob_Status = \<lparr>st_ObservedGeneration = 7, st_Conditions = None\<rparr>\<rparr>"

definition doc_setting :: "(slice, ProxySettingSpec_struct) object_struct" where
  "doc_setting = \<lparr>ob_TypeMeta = \<lparr>tm_Kind = ''ProxySetting'', tm_APIVersion = ''v1beta1''\<rparr>, ob_ObjectMeta = None,
     ob_Spec = \<lparr>ps_spec_Subjects = Some (7, 0, 1)\<rparr>, ob_Status = \<lparr>st_ObservedGeneration = 1, st_Conditions = Some (5, 0, 1)\<rparr>\<rparr>"

definition doc_memory :: "slice memory" where
  "doc_memory = \<lparr>mem = (\<lambda>_. [])
     (0 := [GlobalCell doc_object],
      1 := [SubjectSpecCell \<lparr>gss_Subjects = Some (2, 0, 1), gss_ClusterResources = Some (3, 0, 1)\<rparr>],
      2 := [SubjectCell \<lparr>gs_Kind = ''User'', gs_Name = ''alice''\<rparr>],
      3 := [ResourceCell \<lparr>crs_APIGroups = Some (4, 0, 1), crs_Resources = Some (4, 1, 1), crs_Operations = None, crs_Selector = Some (5, 0)\<rparr>],
      4 := [StringCell ''apps'', StringCell ''nodes'', StringCell ''settings''],
      5 := [ExternCell (Some (4, 0, 2))],
      6 := [ProxyCell doc_setting],
      7 := [OwnerCell \<lparr>oss_Kind = ''User'', oss_Name = ''alice'', oss_ClusterResources = Some (3, 0, 1), oss_ProxyOperations = None\<rparr>],
      8 := [ListCell \<lparr>ls_TypeMeta = zero_TypeMeta, ls_ListMeta = None, ls_Items = Some (0, 0, 1)\<rparr>],
      9 := [ListCell \<lparr>ls_TypeMeta = zero_TypeMeta, ls_ListMeta = None, ls_Items = Some (6, 0, 1)\<rparr>]), lim = 10\<rparr>"

lemma doc_externs_copy: "copies (ex_DeepCopyInto doc_externs) (slice_rep the_string flat_rep)"
  by (simp add: doc_externs_def strings.deep_copy_axioms)

abbreviation doc_rep :: "(slice, slice, string list option) rep" where
  "doc_rep \<equiv> slice_rep the_string flat_rep"

lemma doc_memory_valid:
  "rep_valid (pointer_rep the_global (GlobalProxySettings_rep doc_rep)) doc_memory (Some (0, 0))"
  "rep_valid (pointer_rep the_proxy (ProxySetting_rep doc_rep)) doc_memory (Some (6, 0))"
  "rep_valid (pointer_rep the_list (list_rep doc_rep the_global (GlobalProxySettings_rep doc_rep))) doc_memory (Some (8, 0))"
  "rep_valid (pointer_rep the_list (list_rep doc_rep the_proxy (ProxySetting_rep doc_rep))) doc_memory (Some (9, 0))"
  by code_simp+

theorem deep_copies_independent_witness:
  "(\<exists>q m'. GlobalProxySettings_DeepCopyObject doc_externs (Some (0, 0)) doc_memory = (map_option (Pair GlobalProxySettingsKind) q, m')
     \<and> independent_copy (pointer_rep the_global (GlobalProxySettings_rep doc_rep)) doc_memory (Some (0, 0)) q m')
   \<and> (\<exists>q m'. ProxySetting_DeepCopyObject doc_externs (Some (6, 0)) doc_memory = (map_option (Pair ProxySettingKind) q, m')
     \<and> independent_copy (pointer_rep the_proxy (ProxySetting_rep doc_rep)) doc_memory (Some (6, 0)) q m')
   \<and> (\<exists>q m'. GlobalProxySettingsList_DeepCopyObject doc_externs (Some (8, 0)) doc_memory = (map_option (Pair GlobalProxySettingsListKind) q, m')
     \<and> independent_copy (pointer_rep the_list (list_rep doc_rep the_global (GlobalProxySettings_rep doc_rep))) doc_memory (Some (8, 0)) q m')
   \<and> (\<exists>q m'. ProxySettingList_DeepCopyObject doc_externs (Some (9, 0)) doc_memory = (map_option (Pair ProxySettingListKind) q, m')
     \<and> independent_copy (pointer_rep the_list (list_rep doc_rep the_proxy (ProxySetting_rep doc_rep))) doc_memory (Some (9, 0)) q m')"
proof -
  note copies = deep_copies_independent [OF doc_externs_copy, of doc_memory]
  show ?thesis
    using copies [of "Some (0, 0)"] copies [of "Some (6, 0)"] copies [of "Some (8, 0)"] copies [of "Some (9, 0)"] doc_memory_valid
    by simp
qed

text \<open>The copy of the example has nine arrays of its own; the shared array is copied once for each slice of it.\<close>

lemma doc_copy: "(case GlobalProxySettings_DeepCopyObject doc_externs (Some (0, 0)) doc_memory of (_, m) \<Rightarrow> lim m) = 19"
  by code_simp

end
