(* ===== verification/Tenants.thy ===== *)
theory Tenants
  imports Objects
begin

text \<open>
  internal/tenant: the legacy per-service operations of an owner (\<^verbatim>\<open>Operations\<close>) and the view of
  a tenant the modules filter with (\<^verbatim>\<open>ProxyTenant\<close>). A missing entry of the settings map is a nil
  \<^verbatim>\<open>*Operations\<close>: calling a method on it panics exactly where the method reads or writes a field.
\<close>

section \<open>Operations\<close>

record Operations =
  op_List :: bool
  op_Update :: bool
  op_Delete :: bool

definition defaultOperations :: Operations where
  "defaultOperations = \<lparr>op_List = False, op_Update = False, op_Delete = False\<rparr>"

text \<open>A nil receiver (\<^const>\<open>None\<close>) panics only in the three cases that assign a field.\<close>

definition Allow :: "Operations option \<Rightarrow> string \<Rightarrow> Operations option outcome" where
  "Allow recv operation =
     (if operation = ''List'' then (case recv of None \<Rightarrow> Panic | Some x \<Rightarrow> Ok (Some (x\<lparr>op_List := True\<rparr>)))
      else if operation = ''Update'' then (case recv of None \<Rightarrow> Panic | Some x \<Rightarrow> Ok (Some (x\<lparr>op_Update := True\<rparr>)))
      else if operation = ''Delete'' then (case recv of None \<Rightarrow> Panic | Some x \<Rightarrow> Ok (Some (x\<lparr>op_Delete := True\<rparr>)))
      else Ok recv)"

definition IsAllowed :: "Operations option \<Rightarrow> string \<Rightarrow> bool outcome" where
  "IsAllowed recv meth =
     (if meth = MethodGet then (case recv of None \<Rightarrow> Panic | Some x \<Rightarrow> Ok (op_List x))
      else if meth = MethodPut \<or> meth = MethodPatch
        then (case recv of None \<Rightarrow> Panic | Some x \<Rightarrow> Ok (op_List x \<and> op_Update x))
      else if meth = MethodDelete
        then (case recv of None \<Rightarrow> Panic | Some x \<Rightarrow> Ok (op_List x \<and> op_Delete x))
      else Ok False)"

section \<open>ProxyTenant\<close>

type_synonym proxy_settings = "(string \<times> Operations) list"

record ProxyTenant =
  pt_Tenant :: Tenant
  pt_ProxySetting :: proxy_settings
  pt_ClusterResources :: "ClusterResource list"

abbreviation NodesProxy :: string where "NodesProxy \<equiv> ''Nodes''"
abbreviation StorageClassesProxy :: string where "StorageClassesProxy \<equiv> ''StorageClasses''"
abbreviation IngressClassesProxy :: string where "IngressClassesProxy \<equiv> ''IngressClasses''"
abbreviation PriorityClassesProxy :: string where "PriorityClassesProxy \<equiv> ''PriorityClasses''"
abbreviation RuntimeClassesProxy :: string where "RuntimeClassesProxy \<equiv> ''RuntimeClasses''"
abbreviation PersistentVolumesProxy :: string where "PersistentVolumesProxy \<equiv> ''PersistentVolumes''"

definition service_kinds :: "string list" where
  "service_kinds = [NodesProxy, StorageClassesProxy, IngressClassesProxy, PriorityClassesProxy,
     RuntimeClassesProxy, PersistentVolumesProxy]"

definition defaultProxySettings :: proxy_settings where
  "defaultProxySettings = map (\<lambda>k. (k, defaultOperations)) service_kinds"

text \<open>
  The two nested loops over the settings of the owner. The map holds pointers, so
  \<^verbatim>\<open>proxySettings[setting.Kind].Allow(operation)\<close> updates the entry of an existing kind and works
  on a nil pointer for any other kind, without creating an entry.
\<close>

fun allow_operations :: "proxy_settings \<Rightarrow> string \<Rightarrow> string list \<Rightarrow> proxy_settings outcome" where
  "allow_operations m k [] = Ok m"
| "allow_operations m k (opn # opns) =
     bind_outcome (Allow (map_of m k) opn)
       (\<lambda>opt. allow_operations (case opt of None \<Rightarrow> m | Some x \<Rightarrow> AList.update k x m) k opns)"

fun allow_settings :: "proxy_settings \<Rightarrow> ProxySettings list \<Rightarrow> proxy_settings outcome" where
  "allow_settings m [] = Ok m"
| "allow_settings m (s # ss) =
     bind_outcome (allow_operations m (ps_Kind s) (ps_Operations s)) (\<lambda>m'. allow_settings m' ss)"

text \<open>The loop over the owners keeps the values of the last match.\<close>

fun owner_settings :: "string \<Rightarrow> string \<Rightarrow> bool \<Rightarrow> OwnerSpec list \<Rightarrow>
    ClusterResource list \<times> ProxySettings list \<Rightarrow> ClusterResource list \<times> ProxySettings list" where
  "owner_settings name kind legacyOff [] acc = acc"
| "owner_settings name kind legacyOff (w # ws) (crs, ops) =
     (if os_Name w = name \<and> os_Kind w = kind
      then owner_settings name kind legacyOff ws
             (os_ClusterResources w, if legacyOff then ops else os_ProxyOperations w)
      else owner_settings name kind legacyOff ws (crs, ops))"

definition NewProxyTenant :: "Tenant \<Rightarrow> string \<Rightarrow> string \<Rightarrow> OwnerSpec list \<Rightarrow> bool \<Rightarrow> ProxyTenant outcome" where
  "NewProxyTenant tnt ownerName ownerKind owners legacyOff =
     (case owner_settings ownerName ownerKind legacyOff owners ([], []) of (crs, ops) \<Rightarrow>
        if legacyOff then Ok \<lparr>pt_Tenant = tnt, pt_ProxySetting = [], pt_ClusterResources = crs\<rparr>
        else bind_outcome (allow_settings defaultProxySettings ops)
          (\<lambda>m. Ok \<lparr>pt_Tenant = tnt, pt_ProxySetting = m, pt_ClusterResources = crs\<rparr>))"

text \<open>The empty tenant named "global" that carries the rules of GlobalProxySettings.\<close>

definition globalTenant :: Tenant where
  "globalTenant = \<lparr>t_Name = ''global'', t_Labels = [], t_NodeSelector = [], t_IngressClasses = None,
     t_StorageClasses = None, t_PriorityClasses = None, t_RuntimeClasses = None, t_Owners = [],
     t_StatusNamespaces = [], t_StatusOwners = []\<rparr>"

definition global_matches :: "string \<Rightarrow> string \<Rightarrow> GlobalSubject \<Rightarrow> bool" where
  "global_matches name kind s \<longleftrightarrow> gs_Name s = name \<and> gs_Kind s = kind"

definition NewClusterProxy :: "string \<Rightarrow> string \<Rightarrow> GlobalSubjectSpec list \<Rightarrow> ProxyTenant" where
  "NewClusterProxy ownerName ownerKind owners =
     \<lparr>pt_Tenant = globalTenant, pt_ProxySetting = [],
      pt_ClusterResources =
        concat (map (\<lambda>g. concat (map (\<lambda>s. if global_matches ownerName ownerKind s
                                           then gr_ClusterResources g else []) (gr_Subjects g))) owners)\<rparr>"

definition RequestAllowed :: "ProxyTenant \<Rightarrow> http_request \<Rightarrow> string \<Rightarrow> bool outcome" where
  "RequestAllowed p r serviceKind = IsAllowed (map_of (pt_ProxySetting p) serviceKind) (Method r)"

section \<open>Correctness\<close>

text \<open>The operations a list of settings grants on a service kind.\<close>

definition grants :: "ProxySettings list \<Rightarrow> string \<Rightarrow> string \<Rightarrow> bool" where
  "grants ss k opn \<longleftrightarrow> (\<exists>s \<in> set ss. ps_Kind s = k \<and> opn \<in> set (ps_Operations s))"

definition granted :: "ProxySettings list \<Rightarrow> string \<Rightarrow> Operations" where
  "granted ss k = \<lparr>op_List = grants ss k ''List'', op_Update = grants ss k ''Update'',
     op_Delete = grants ss k ''Delete''\<rparr>"

definition add_operation :: "Operations \<Rightarrow> string \<Rightarrow> Operations" where
  "add_operation x opn = \<lparr>op_List = (op_List x \<or> opn = ''List''), op_Update = (op_Update x \<or> opn = ''Update''),
     op_Delete = (op_Delete x \<or> opn = ''Delete'')\<rparr>"

definition known_operation :: "string \<Rightarrow> bool" where
  "known_operation opn \<longleftrightarrow> opn \<in> {''List'', ''Update'', ''Delete''}"

lemma Allow_Some [simp]: "Allow (Some x) opn = Ok (Some (add_operation x opn))"
  by (simp add: Allow_def add_operation_def)

lemma Allow_None [simp]: "Allow None opn = (if known_operation opn then Panic else Ok None)"
  by (auto simp: Allow_def known_operation_def)

text \<open>A list of operations on a kind that has an entry never panics and folds into that entry only.\<close>

lemma allow_operations_Some:
  "map_of m k = Some x \<Longrightarrow> \<exists>m'. allow_operations m k opns = Ok m'
     \<and> map_of m' = (map_of m)(k \<mapsto> fold (\<lambda>opn x. add_operation x opn) opns x)"
proof (induction opns arbitrary: m x)
  case Nil
  then show ?case by (auto simp: fun_upd_idem)
next
  case (Cons opn opns)
  let ?m = "AList.update k (add_operation x opn) m"
  have "map_of ?m k = Some (add_operation x opn)" by (simp add: update_conv')
  from Cons.IH [OF this] obtain m' where
    "allow_operations ?m k opns = Ok m'"
    and "map_of m' = (map_of ?m)(k \<mapsto> fold (\<lambda>opn x. add_operation x opn) opns (add_operation x opn))"
    by blast
  moreover have "(map_of ?m)(k \<mapsto> y) = (map_of m)(k \<mapsto> y)" for y
    by (simp add: update_conv')
  ultimately show ?case using Cons.prems by (simp add: fun_eq_iff)
qed

lemma allow_operations_None:
  "map_of m k = None \<Longrightarrow> allow_operations m k opns = (if \<exists>opn \<in> set opns. known_operation opn then Panic else Ok m)"
  by (induction opns) auto

lemma fold_add_operation:
  "fold (\<lambda>opn x. add_operation x opn) opns x =
     \<lparr>op_List = (op_List x \<or> ''List'' \<in> set opns), op_Update = (op_Update x \<or> ''Update'' \<in> set opns),
      op_Delete = (op_Delete x \<or> ''Delete'' \<in> set opns)\<rparr>"
  by (induction opns arbitrary: x) (auto simp: add_operation_def)

definition merge_operations :: "Operations \<Rightarrow> Operations \<Rightarrow> Operations" where
  "merge_operations x y = \<lparr>op_List = (op_List x \<or> op_List y), op_Update = (op_Update x \<or> op_Update y),
     op_Delete = (op_Delete x \<or> op_Delete y)\<rparr>"

text \<open>Settings that name an unknown kind with an operation the switch knows are a nil dereference.\<close>

definition unknown_kind :: "proxy_settings \<Rightarrow> ProxySettings \<Rightarrow> bool" where
  "unknown_kind m s \<longleftrightarrow> map_of m (ps_Kind s) = None \<and> (\<exists>opn \<in> set (ps_Operations s). known_operation opn)"

lemma allow_settings_spec:
  "if \<exists>s \<in> set ss. unknown_kind m s then allow_settings m ss = Panic
   else \<exists>m'. allow_settings m ss = Ok m' \<and>
     map_of m' = (\<lambda>k. map_option (\<lambda>x. merge_operations x (granted ss k)) (map_of m k))"
proof (induction ss arbitrary: m)
  case Nil
  have "merge_operations x (granted [] k) = x" for x k
    by (simp add: merge_operations_def granted_def grants_def)
  then show ?case by (simp add: option.map_ident)
next
  case (Cons s ss)
  show ?case
  proof (cases "map_of m (ps_Kind s)")
    case None
    then show ?thesis
    proof (cases "\<exists>opn \<in> set (ps_Operations s). known_operation opn")
      case True
      with None have "unknown_kind m s" by (simp add: unknown_kind_def)
      with True None show ?thesis by (simp add: allow_operations_None)
    next
      case False
      have "map_option (\<lambda>x. merge_operations x (granted (s # ss) k)) (map_of m k)
          = map_option (\<lambda>x. merge_operations x (granted ss k)) (map_of m k)" for k
        using None by (cases "k = ps_Kind s") (auto simp: granted_def grants_def)
      moreover have "\<not> unknown_kind m s" using False by (simp add: unknown_kind_def)
      ultimately show ?thesis using None False Cons.IH [of m]
        by (simp add: allow_operations_None)
    qed
  next
    case (Some x)
    let ?x = "fold (\<lambda>opn x. add_operation x opn) (ps_Operations s) x"
    from allow_operations_Some [OF Some] obtain m1 where
      m1: "allow_operations m (ps_Kind s) (ps_Operations s) = Ok m1"
      and upd: "map_of m1 = (map_of m)(ps_Kind s \<mapsto> ?x)"
      by blast
    have unk: "unknown_kind m1 t = unknown_kind m t" for t
      using Some by (simp add: unknown_kind_def upd)
    have mrg: "map_option (\<lambda>x. merge_operations x (granted ss k)) (map_of m1 k)
        = map_option (\<lambda>x. merge_operations x (granted (s # ss) k)) (map_of m k)" for k
      using Some by (cases "k = ps_Kind s")
        (auto simp: upd fold_add_operation merge_operations_def granted_def grants_def)
    have "\<not> unknown_kind m s" using Some by (simp add: unknown_kind_def)
    with Cons.IH [of m1] show ?thesis by (auto simp: m1 unk mrg split: if_splits)
  qed
qed

lemma map_of_default [simp]:
  "map_of defaultProxySettings k = (if k \<in> set service_kinds then Some defaultOperations else None)"
  by (auto simp: defaultProxySettings_def map_of_map_restrict restrict_map_def)

lemma merge_default [simp]: "merge_operations defaultOperations x = x"
  by (simp add: merge_operations_def defaultOperations_def)

definition owner_matches :: "string \<Rightarrow> string \<Rightarrow> OwnerSpec \<Rightarrow> bool" where
  "owner_matches name kind w \<longleftrightarrow> os_Name w = name \<and> os_Kind w = kind"

lemma owner_settings_last:
  "owner_settings name kind off ws (crs, ops) =
     (case filter (owner_matches name kind) ws of
        [] \<Rightarrow> (crs, ops)
      | m # ms \<Rightarrow> (os_ClusterResources (last (m # ms)), if off then ops else os_ProxyOperations (last (m # ms))))"
  by (induction ws arbitrary: crs ops) (auto simp: owner_matches_def split: list.split)

text \<open>The legacy settings of an owner: those of its last entry.\<close>

definition last_settings :: "string \<Rightarrow> string \<Rightarrow> OwnerSpec list \<Rightarrow> ProxySettings list" where
  "last_settings name kind ws =
     (case filter (owner_matches name kind) ws of [] \<Rightarrow> [] | m # ms \<Rightarrow> os_ProxyOperations (last (m # ms)))"

lemma owner_settings_legacy: "\<exists>crs. owner_settings name kind False ws ([], []) = (crs, last_settings name kind ws)"
  by (cases "filter (owner_matches name kind) ws") (simp_all add: owner_settings_last last_settings_def)

section \<open>Properties\<close>

text \<open>
  C14: the legacy permissions of an owner. The view of a tenant for an owner panics exactly when the last
  entry of that owner grants a known operation on an unknown service kind. Otherwise a request on a
  service kind is allowed by method: GET needs List, PUT and PATCH need List and Update, DELETE needs
  List and Delete, as the last entry of the owner grants them on that kind; every other method is denied.
\<close>

theorem owner_operations:
  "(NewProxyTenant tnt name kind ws False = Panic \<longleftrightarrow>
      (\<exists>s \<in> set (last_settings name kind ws). unknown_kind defaultProxySettings s))
   \<and> (NewProxyTenant tnt name kind ws False = Ok pt \<and> k \<in> set service_kinds \<longrightarrow>
      RequestAllowed pt r k = Ok (grants (last_settings name kind ws) k ''List'' \<and>
        (Method r = ''GET''
         \<or> Method r \<in> {''PUT'', ''PATCH''} \<and> grants (last_settings name kind ws) k ''Update''
         \<or> Method r = ''DELETE'' \<and> grants (last_settings name kind ws) k ''Delete'')))"
proof -
  let ?ss = "last_settings name kind ws"
  obtain crs where os: "owner_settings name kind False ws ([], []) = (crs, ?ss)" using owner_settings_legacy by blast
  note spec = allow_settings_spec [of ?ss defaultProxySettings]
  have "NewProxyTenant tnt name kind ws False = Panic \<longleftrightarrow> (\<exists>s \<in> set ?ss. unknown_kind defaultProxySettings s)"
    using spec by (auto simp: NewProxyTenant_def os split: if_splits)
  moreover have "map_of (pt_ProxySetting pt) k = Some (granted ?ss k)"
    if "NewProxyTenant tnt name kind ws False = Ok pt" "k \<in> set service_kinds"
    using spec that by (auto simp: NewProxyTenant_def os split: if_splits)
  ultimately show ?thesis by (auto simp: RequestAllowed_def IsAllowed_def granted_def)
qed

theorem owner_operations_witness:
  "\<exists>pt. NewProxyTenant globalTenant ''alice'' ''User''
      [\<lparr>os_Kind = ''User'', os_Name = ''alice'', os_ClusterResources = [], os_ProxyOperations = [\<lparr>ps_Kind = NodesProxy, ps_Operations = [''List'']\<rparr>]\<rparr>] False = Ok pt
    \<and> RequestAllowed pt \<lparr>Method = ''GET'', URLPath = [], URLQuery = [], Header = [], Vars = [], RemoteAddr = [], TLSPeers = None, CtxUser = None\<rparr> NodesProxy = Ok True"
proof -
  let ?ws = "[\<lparr>os_Kind = ''User'', os_Name = ''alice'', os_ClusterResources = [], os_ProxyOperations = [\<lparr>ps_Kind = NodesProxy, ps_Operations = [''List'']\<rparr>]\<rparr>]"
  let ?r = "\<lparr>Method = ''GET'', URLPath = [], URLQuery = [], Header = [], Vars = [], RemoteAddr = [], TLSPeers = None, CtxUser = None\<rparr>"
  obtain pt where pt: "NewProxyTenant globalTenant ''alice'' ''User'' ?ws False = Ok pt"
    by (simp add: NewProxyTenant_def service_kinds_def)
  have "grants (last_settings ''alice'' ''User'' ?ws) NodesProxy ''List''"
    by (simp add: grants_def last_settings_def owner_matches_def)
  with owner_operations [of globalTenant "''alice''" "''User''" ?ws pt NodesProxy ?r] pt show ?thesis
    by (simp add: service_kinds_def)
qed

end
