(* ===== verification/Selectors.thy ===== *)
theory Selectors
  imports Tenants
begin

text \<open>
  internal/modules/utils and internal/utils/gvk.go: paths and their group, version and kind,
  discovery of the kind behind a plural name, the node selector, and the two ways the modules turn
  label requirements into an answer, \<^verbatim>\<open>HandleGetSelector\<close> for a named object and
  \<^verbatim>\<open>HandleListSelector\<close> for a collection.
\<close>

section \<open>Status errors\<close>

text \<open>internal/modules/errors: bad request, not allowed and not found carry the group and kind.\<close>

fun error_text :: "error \<Rightarrow> string" where
  "error_text (ErrUnauthorized m) = m"
| "error_text (NotFoundAPI m) = m"
| "error_text (BadRequestStatus m g k) = m"
| "error_text (NotFoundStatus n g k) = k @ ''.'' @ g @ '' \"'' @ n @ ''\" not found''"
| "error_text (PlainError m) = m"

definition NewBadRequest :: "error \<Rightarrow> string \<times> string \<Rightarrow> error" where
  "NewBadRequest e gk = BadRequestStatus (error_text e) (fst gk) (snd gk)"

definition NewNotAllowed :: "string \<times> string \<Rightarrow> error" where
  "NewNotAllowed gk = BadRequestStatus ''not allowed'' (fst gk) (snd gk)"

definition NewNotFoundError :: "string \<Rightarrow> string \<times> string \<Rightarrow> error" where
  "NewNotFoundError name gk = NotFoundStatus name (fst gk) (snd gk)"

text \<open>
  \<^verbatim>\<open>metav1.Status\<close> as the code fills it, with name, group and kind as the details; every status is a failure.
  Two errors have a status, the others do not implement the interface. The name in the message is quoted
  without escapes, which names of Kubernetes objects do not need.
\<close>

record api_status =
  st_Reason :: string
  st_Message :: string
  st_Code :: nat
  st_Details :: "(string \<times> string \<times> string) option"

fun Status :: "error \<Rightarrow> api_status option" where
  "Status (BadRequestStatus m g k) = Some \<lparr>st_Reason = ''BadRequest'', st_Message = m, st_Code = 400, st_Details = Some ('''', g, k)\<rparr>"
| "Status (NotFoundStatus n g k) =
     Some \<lparr>st_Reason = ''NotFound'', st_Message = error_text (NotFoundStatus n g k), st_Code = 404, st_Details = Some (n, g, k)\<rparr>"
| "Status _ = None"

section \<open>Paths\<close>

record ProxyGroupVersionKind = GroupVersionKind +
  URLName :: string

definition Path :: "ProxyGroupVersionKind \<Rightarrow> string" where
  "Path g = ''/'' @ Join ((if Group g \<noteq> '''' then [''apis'', Group g] else [''api'']) @ [Version g, URLName g]) ''/''"

definition ResourcePath :: "ProxyGroupVersionKind \<Rightarrow> string" where
  "ResourcePath g = Path g @ ''/{name}''"

definition GetGVKFromURL :: "string \<Rightarrow> GroupVersionKind option" where
  "GetGVKFromURL path =
     (let parts = Split (Trim path (CHR ''/'')) (CHR ''/'') in
      if parts ! 0 = ''api'' \<and> (length parts = 3 \<or> length parts = 4)
        then Some \<lparr>Group = [], Version = parts ! 1, Kind = parts ! 2\<rparr>
      else if parts ! 0 = ''apis'' \<and> (length parts = 4 \<or> length parts = 5)
        then Some \<lparr>Group = parts ! 1, Version = parts ! 2, Kind = parts ! 3\<rparr>
      else None)"

text \<open>
  The discovery call is an argument: the plural names and kinds of a group version. The loop stops
  at the first resource with the plural name.
\<close>

definition ReplacePluralWithKind ::
    "(string \<Rightarrow> error + (string \<times> string) list) \<Rightarrow> GroupVersionKind \<Rightarrow> GroupVersionKind outcome" where
  "ReplacePluralWithKind discovery gvk =
     (let groupVersion = (if Group gvk \<noteq> '''' then Group gvk @ ''/'' @ Version gvk else Version gvk) in
      case discovery groupVersion of
        Inl e \<Rightarrow> Err e
      | Inr resources \<Rightarrow>
          (case find (\<lambda>r. fst r = Kind gvk) resources of
             None \<Rightarrow> Err (PlainError (''could not find GVK for plural name: '' @ Kind gvk))
           | Some r \<Rightarrow> Ok (gvk\<lparr>Kind := snd r\<rparr>)))"

section \<open>Node selector\<close>

definition label_value :: "labels \<Rightarrow> string \<Rightarrow> string" where
  "label_value ls k = (case map_of ls k of None \<Rightarrow> '''' | Some v \<Rightarrow> v)"

text \<open>
  \<^verbatim>\<open>GetNodeSelector\<close> counts the keys of a selector whose value the node carries; a missing label
  reads as the empty string. A node is added once per selector it matches. The map iteration is over
  the entries of the association list, whose keys are distinct.
\<close>

definition node_matches :: "labels \<Rightarrow> labels \<Rightarrow> bool" where
  "node_matches sel nodeLabels \<longleftrightarrow>
     length (filter (\<lambda>(k, v). label_value sel k = label_value nodeLabels k) sel) = length sel"

definition node_names :: "kobject list \<Rightarrow> labels list \<Rightarrow> string list" where
  "node_names nl selectors =
     concat (map (\<lambda>n. concat (map (\<lambda>s. if node_matches s (o_Labels n) then [o_Name n] else []) selectors)) nl)"

definition GetNodeSelector :: "labels_api \<Rightarrow> kobject list \<Rightarrow> labels list \<Rightarrow> error + requirement" where
  "GetNodeSelector L nl selectors =
     (let names = node_names nl selectors in
      if 0 < length names then newRequirement L ''kubernetes.io/hostname'' op_In names
      else Inl (PlainError ''cannot create LabelSelector for the requested Node requirement''))"

definition GetNodeSelectors :: "ProxyTenant list \<Rightarrow> labels list" where
  "GetNodeSelectors proxyTenants = map (\<lambda>pt. t_NodeSelector (pt_Tenant pt)) proxyTenants"

section \<open>HandleGetSelector\<close>

text \<open>
  A module answers with a selector, with no selector (\<^const>\<open>None\<close>, the request is passed on with
  impersonation) or with an error.
\<close>

type_synonym answer = "selector option outcome"

definition HandleGetSelector ::
    "labels_api \<Rightarrow> (string \<Rightarrow> error + kobject) \<Rightarrow> requirement list \<Rightarrow> string \<Rightarrow> string \<times> string \<Rightarrow> answer" where
  "HandleGetSelector L getObj requirements name gk =
     (case getObj name of
        Inl e \<Rightarrow> Err (if is_not_found e then NewNotFoundError name gk else e)
      | Inr obj \<Rightarrow>
          (case find (\<lambda>r. reqMatches L r (o_Labels obj)) requirements of
             Some r \<Rightarrow> Ok (Some [r])
           | None \<Rightarrow> Err (NewNotFoundError name gk)))"

section \<open>HandleListSelector\<close>

definition generateRequirementsKey :: "requirement \<Rightarrow> string" where
  "generateRequirementsKey r =
     (if Operator r = op_Equals \<or> Operator r = op_DoubleEquals \<or> Operator r = op_In then Key r @ '':'' @ op_In
      else if Operator r = op_NotEquals \<or> Operator r = op_NotIn then Key r @ '':'' @ op_NotIn
      else Key r @ '':'' @ Operator r)"

text \<open>The first loop: the values of the requirements with the same key are united.\<close>

fun collect_requirements :: "(string \<times> string list) list \<Rightarrow> requirement list \<Rightarrow> (string \<times> string list) list" where
  "collect_requirements m [] = m"
| "collect_requirements m (r # rs) =
     (let k = generateRequirementsKey r in
      collect_requirements
        (case map_of m k of
           None \<Rightarrow> AList.update k (Values r) m
         | Some vs \<Rightarrow> AList.update k (List.union (Values r) vs) m) rs)"

text \<open>
  The second loop: each key is split again at the colon and becomes one requirement. Go iterates the
  map in an unspecified order; the model takes the entries in the order they were inserted.
\<close>

fun build_selector :: "labels_api \<Rightarrow> (string \<times> string list) list \<Rightarrow> selector \<Rightarrow> selector outcome" where
  "build_selector L [] sel = Ok sel"
| "build_selector L ((k, v) # m) sel =
     (let parts = Split k (CHR '':'') in
      case newRequirement L (parts ! 0) (parts ! 1) v of
        Inl e \<Rightarrow> Err e
      | Inr r \<Rightarrow> build_selector L m (sel @ [r]))"

definition HandleListSelector :: "labels_api \<Rightarrow> requirement list \<Rightarrow> answer" where
  "HandleListSelector L requirements =
     bind_outcome (build_selector L (collect_requirements [] requirements) []) (\<lambda>s. Ok (Some s))"

section \<open>Lemmas on paths\<close>

lemma hd_Join: "ps \<noteq> [] \<Longrightarrow> \<forall>p \<in> set ps. p \<noteq> [] \<Longrightarrow> hd (Join ps sep) = hd (hd ps)"
  by (cases "(ps, sep)" rule: Join.cases) auto

lemma last_Join: "ps \<noteq> [] \<Longrightarrow> \<forall>p \<in> set ps. p \<noteq> [] \<Longrightarrow> last (Join ps sep) = last (last ps)"
proof (induction ps)
  case Nil
  then show ?case by simp
next
  case (Cons p ps)
  then show ?case by (cases ps) (auto simp: Join_ne last_append)
qed

lemma trim_by_skip: "P c \<Longrightarrow> trim_by P (c # s) = trim_by P s"
  by (simp add: trim_by_def)

text \<open>A slash-rooted path of non-empty segments is split into its segments.\<close>

lemma Split_Trim_path:
  assumes "ps \<noteq> []" and "\<forall>p \<in> set ps. p \<noteq> [] \<and> c \<notin> set p"
  shows "Split (Trim (c # Join ps [c]) c) c = ps"
proof -
  have "hd ps \<in> set ps" and "last ps \<in> set ps" using assms(1) by auto
  with assms have "hd (Join ps [c]) \<noteq> c" and "last (Join ps [c]) \<noteq> c"
    by (metis hd_Join hd_in_set, metis last_Join last_in_set)
  then have "trim_by (\<lambda>x. x = c) (Join ps [c]) = Join ps [c]"
    by (intro trim_by_id) simp
  then have "Trim (c # Join ps [c]) c = Join ps [c]"
    by (simp add: Trim_def trim_by_skip)
  with assms show ?thesis by (simp add: Split_Join)
qed

definition path_segment :: "string \<Rightarrow> bool" where
  "path_segment s \<longleftrightarrow> s \<noteq> [] \<and> CHR ''/'' \<notin> set s"

lemma GetGVKFromURL_segments:
  assumes "ps \<noteq> []" and "\<forall>p \<in> set ps. path_segment p"
  shows "GetGVKFromURL (''/'' @ Join ps ''/'') =
     (if ps ! 0 = ''api'' \<and> (length ps = 3 \<or> length ps = 4)
        then Some \<lparr>Group = [], Version = ps ! 1, Kind = ps ! 2\<rparr>
      else if ps ! 0 = ''apis'' \<and> (length ps = 4 \<or> length ps = 5)
        then Some \<lparr>Group = ps ! 1, Version = ps ! 2, Kind = ps ! 3\<rparr>
      else None)"
  using assms by (simp add: GetGVKFromURL_def Split_Trim_path path_segment_def Let_def)

lemma Join_snoc: "ps \<noteq> [] \<Longrightarrow> Join (ps @ [p]) sep = Join ps sep @ sep @ p"
proof (induction ps)
  case Nil
  then show ?case by simp
next
  case (Cons q ps)
  then show ?case by (cases ps) auto
qed

section \<open>Lemmas on the list selector\<close>

definition alist_set :: "(string \<times> string list) list \<Rightarrow> string \<Rightarrow> string set" where
  "alist_set m k = set (alist_values m k)"

lemma alist_set_update [simp]: "alist_set (AList.update k vs m) k' = (if k = k' then set vs else alist_set m k')"
  by (simp add: alist_set_def alist_values_def update_conv')

lemma collect_requirements_dom:
  "fst ` set (collect_requirements m rs) = fst ` set m \<union> generateRequirementsKey ` set rs"
  by (induction rs arbitrary: m) (auto simp: Let_def dom_update split: option.split)

lemma collect_requirements_distinct:
  "distinct (map fst m) \<Longrightarrow> distinct (map fst (collect_requirements m rs))"
  by (induction rs arbitrary: m) (auto simp: Let_def distinct_update split: option.split)

lemma collect_requirements_set:
  "alist_set (collect_requirements m rs) k =
     alist_set m k \<union> (\<Union>r \<in> {r \<in> set rs. generateRequirementsKey r = k}. set (Values r))"
proof (induction rs arbitrary: m)
  case Nil
  then show ?case by simp
next
  case (Cons r rs)
  let ?k = "generateRequirementsKey r"
  let ?m = "case map_of m ?k of None \<Rightarrow> AList.update ?k (Values r) m
     | Some vs \<Rightarrow> AList.update ?k (List.union (Values r) vs) m"
  have "alist_set ?m k = (if ?k = k then set (Values r) \<union> alist_set m k else alist_set m k)"
    by (auto simp: alist_set_def alist_values_def update_conv' split: option.split)
  with Cons.IH [of ?m] show ?case by (auto simp: Let_def)
qed

lemma build_selector_Ok:
  "build_selector L m sel = Ok sel' \<Longrightarrow>
   \<exists>rs. sel' = sel @ rs \<and> list_all2 (\<lambda>(k, v) r. newRequirement L (Split k (CHR '':'') ! 0) (Split k (CHR '':'') ! 1) v = Inr r) m rs"
proof (induction L m sel rule: build_selector.induct)
  case (1 L sel)
  then show ?case by simp
next
  case (2 L k v m sel)
  then obtain r where r: "newRequirement L (Split k (CHR '':'') ! 0) (Split k (CHR '':'') ! 1) v = Inr r"
    and b: "build_selector L m (sel @ [r]) = Ok sel'"
    by (auto simp: Let_def split: sum.splits)
  from "2.IH" [OF refl r b] r show ?case by auto
qed

text \<open>
  The requirements a selector of the set operators is made of: equality and membership fall in the
  same group. Label keys contain no colon.
\<close>

definition in_like :: "requirement \<Rightarrow> bool" where
  "in_like r \<longleftrightarrow> Operator r \<in> {op_In, op_Equals, op_DoubleEquals} \<and> CHR '':'' \<notin> set (Key r)"

lemma generate_in_like: "in_like r \<Longrightarrow> generateRequirementsKey r = Key r @ '':in''"
  by (auto simp: in_like_def generateRequirementsKey_def)

lemma split_in_like: "in_like r \<Longrightarrow> Split (generateRequirementsKey r) (CHR '':'') = [Key r, ''in'']"
  by (simp add: generate_in_like in_like_def Split_append)

lemma matches_in_like:
  "matches_ok L \<Longrightarrow> in_like r \<Longrightarrow> reqMatches L r ls = (\<exists>v \<in> set (Values r). map_of ls (Key r) = Some v)"
  unfolding matches_ok_def in_like_def by blast

lemma selects_list_all2:
  "list_all2 P m rs \<Longrightarrow> (\<And>x r. P x r \<Longrightarrow> reqMatches L r ls = Q x) \<Longrightarrow> selects L rs ls = (\<forall>x \<in> set m. Q x)"
  by (induction m rs rule: list_all2_induct) auto

lemma alist_values_mem: "distinct (map fst m) \<Longrightarrow> (k, v) \<in> set m \<Longrightarrow> alist_set m k = set v"
  by (simp add: alist_set_def alist_values_def)

text \<open>
  What a list selector of membership requirements selects: for every label key among the
  requirements, the object matches one of the requirements on that key.
\<close>

lemma list_selector_in_like:
  assumes new: "new_requirement_ok L" and mat: "matches_ok L"
    and inl: "\<forall>r \<in> set reqs. in_like r"
    and ok: "HandleListSelector L reqs = Ok (Some sel)"
  shows "selects L sel ls \<longleftrightarrow> (\<forall>r \<in> set reqs. \<exists>r' \<in> set reqs. Key r' = Key r \<and> reqMatches L r' ls)"
proof -
  let ?m = "collect_requirements [] reqs"
  let ?Q = "\<lambda>(k, v). \<exists>x \<in> set v. map_of ls (Split k (CHR '':'') ! 0) = Some x"
  have keys: "fst ` set ?m = generateRequirementsKey ` set reqs"
    by (simp add: collect_requirements_dom)
  have dist: "distinct (map fst ?m)"
    by (simp add: collect_requirements_distinct)
  from ok have "build_selector L ?m [] = Ok sel"
    by (simp add: HandleListSelector_def)
  from build_selector_Ok [OF this]
  have all2: "list_all2 (\<lambda>(k, v) r. newRequirement L (Split k (CHR '':'') ! 0) (Split k (CHR '':'') ! 1) v = Inr r) ?m sel"
    by simp
  have "list_all2 (\<lambda>x r. reqMatches L r ls = ?Q x) ?m sel"
  proof (rule list_all2_all_nthI)
    show "length ?m = length sel" using all2 by (rule list_all2_lengthD)
    fix i assume i: "i < length ?m"
    obtain k v where kv: "?m ! i = (k, v)" by fastforce
    from all2 i kv have nr: "newRequirement L (Split k (CHR '':'') ! 0) (Split k (CHR '':'') ! 1) v = Inr (sel ! i)"
      by (auto dest: list_all2_nthD)
    from i kv have "k \<in> fst ` set ?m" by (force dest: nth_mem)
    then obtain q where q: "q \<in> set reqs" "k = generateRequirementsKey q" using keys by auto
    with inl have sp: "Split k (CHR '':'') = [Key q, ''in'']" by (simp add: split_in_like)
    with nr new have r: "Key (sel ! i) = Key q" "Operator (sel ! i) = ''in''" "set (Values (sel ! i)) = set v"
      unfolding new_requirement_ok_def by auto
    with q inl have "in_like (sel ! i)" by (simp add: in_like_def)
    with mat r sp kv show "reqMatches L (sel ! i) ls = ?Q (?m ! i)"
      by (simp add: matches_in_like)
  qed
  then have "selects L sel ls \<longleftrightarrow> (\<forall>x \<in> set ?m. ?Q x)"
    by (rule selects_list_all2) simp
  also have "\<dots> \<longleftrightarrow> (\<forall>k \<in> fst ` set ?m. \<exists>x \<in> alist_set ?m k. map_of ls (Split k (CHR '':'') ! 0) = Some x)"
    using alist_values_mem [OF dist] by force
  also have "\<dots> \<longleftrightarrow> (\<forall>r \<in> set reqs. \<exists>r' \<in> set reqs. Key r' = Key r \<and> (\<exists>x \<in> set (Values r'). map_of ls (Key r) = Some x))"
  proof -
    have "alist_set ?m (generateRequirementsKey r) = (\<Union>r' \<in> {r' \<in> set reqs. Key r' = Key r}. set (Values r'))"
      if "r \<in> set reqs" for r
      using inl that by (auto simp: collect_requirements_set alist_set_def [of "[]"] alist_values_def generate_in_like)
    with inl show ?thesis by (simp add: keys split_in_like) blast
  qed
  finally show ?thesis using mat inl by (metis (no_types, lifting) matches_in_like)
qed

section \<open>Reading paths back\<close>

lemma path_read:
  assumes "Group g = [] \<or> path_segment (Group g)" and "path_segment (Version g)" and "path_segment (URLName g)" and "path_segment name"
  shows "GetGVKFromURL (Path g) = Some \<lparr>Group = Group g, Version = Version g, Kind = URLName g\<rparr>
    \<and> GetGVKFromURL (Path g @ ''/'' @ name) = Some \<lparr>Group = Group g, Version = Version g, Kind = URLName g\<rparr>"
proof -
  let ?ps = "(if Group g \<noteq> '''' then [''apis'', Group g] else [''api'']) @ [Version g, URLName g]"
  have seg: "\<forall>p \<in> set ?ps. path_segment p" "\<forall>p \<in> set (?ps @ [name]). path_segment p"
    using assms by (auto simp: path_segment_def)
  have "Path g @ ''/'' @ name = ''/'' @ Join (?ps @ [name]) ''/''"
    by (subst Join_snoc) (simp_all add: Path_def)
  moreover have "Path g = ''/'' @ Join ?ps ''/''" by (simp add: Path_def)
  ultimately show ?thesis
    using GetGVKFromURL_segments [OF _ seg(1)] GetGVKFromURL_segments [OF _ seg(2)] assms(1) by auto
qed

section \<open>Properties\<close>

text \<open>
  C36: the resource of a registered path is read back from the URL of a request: for the path of a group,
  version and resource, with and without the name of an object, \<^verbatim>\<open>GetGVKFromURL\<close> returns that group
  and version with the resource as its kind.
\<close>

theorem path_roundtrip:
  assumes "Group g = [] \<or> path_segment (Group g)" and "path_segment (Version g)" and "path_segment (URLName g)" and "path_segment name"
  shows "GetGVKFromURL (Path g) = Some \<lparr>Group = Group g, Version = Version g, Kind = URLName g\<rparr>
    \<and> GetGVKFromURL (Path g @ ''/'' @ name) = Some \<lparr>Group = Group g, Version = Version g, Kind = URLName g\<rparr>"
  using assms by (rule path_read)

theorem path_roundtrip_witness:
  "GetGVKFromURL (Path \<lparr>Group = ''storage.k8s.io'', Version = ''v1'', Kind = ''StorageClass'', URLName = ''storageclasses''\<rparr> @ ''/'' @ ''fast'')
   = Some \<lparr>Group = ''storage.k8s.io'', Version = ''v1'', Kind = ''storageclasses''\<rparr>"
  using path_roundtrip [of "\<lparr>Group = ''storage.k8s.io'', Version = ''v1'', Kind = ''StorageClass'', URLName = ''storageclasses''\<rparr>" "''fast''"]
  by (simp add: path_segment_def)



end
