(* ===== verification/ClusterScoped.thy ===== *)
theory ClusterScoped
  imports Selectors
begin

text \<open>
  The cluster-scoped rules: \<^verbatim>\<open>ClusterResource\<close> (api/v1beta1/clusterresoure.go), the matching of a
  resource against a rule and the requirements it yields (internal/modules/clusterscoped/utils.go),
  and the generic list and get modules (list.go, get.go).
\<close>

section \<open>Operations of a rule\<close>

abbreviation OperationList :: string where "OperationList \<equiv> ''List''"
abbreviation OperationGet :: string where "OperationGet \<equiv> ''Get''"

definition AllowsOperation :: "ClusterResource \<Rightarrow> string \<Rightarrow> bool" where
  "AllowsOperation r operation =
     (if cr_Operations r = [] then operation = OperationList \<or> operation = OperationGet
      else list_ex (\<lambda>configured. configured = operation \<or> (operation = OperationGet \<and> configured = OperationList))
             (cr_Operations r))"

fun effective_flags :: "string list \<Rightarrow> bool \<times> bool \<Rightarrow> bool \<times> bool" where
  "effective_flags [] (lst, gt) = (lst, gt)"
| "effective_flags (opn # opns) (lst, gt) =
     effective_flags opns
       (if opn = OperationList then (True, True)
        else if opn = OperationGet then (lst, True) else (lst, gt))"

definition EffectiveOperations :: "ClusterResource \<Rightarrow> string list" where
  "EffectiveOperations r =
     (case effective_flags (cr_Operations r) (cr_Operations r = [], cr_Operations r = []) of (lst, gt) \<Rightarrow>
        (if lst then [OperationList] else []) @ (if gt then [OperationGet] else []))"

section \<open>Patterns\<close>

text \<open>
  The loop of \<^verbatim>\<open>matchPattern\<close> after the special cases: each non-empty part is searched in what is
  left of the value behind the previous part.
\<close>

fun match_parts :: "string list \<Rightarrow> string \<Rightarrow> bool" where
  "match_parts [] v = True"
| "match_parts (p # ps) v =
     (if p = [] then match_parts ps v
      else (case Index v p of None \<Rightarrow> False | Some i \<Rightarrow> match_parts ps (drop (i + length p) v)))"

definition matchPattern :: "string \<Rightarrow> string \<Rightarrow> bool" where
  "matchPattern pattern value =
     (if pattern = ''*'' then True
      else if \<not> Contains pattern ''*'' then pattern = value
      else let parts = Split pattern (CHR ''*'') in
        if length parts = 2 \<and> parts ! 0 = [] then HasSuffix value (parts ! 1)
        else if length parts = 2 \<and> parts ! 1 = [] then HasPrefix value (parts ! 0)
        else match_parts parts value)"

definition group_matches :: "GroupVersionKind \<Rightarrow> string \<Rightarrow> bool" where
  "group_matches gvk apiGroup =
     (if apiGroup = ''*'' then True
      else matchPattern apiGroup
        (if Contains apiGroup ''/'' then Group gvk @ ''/'' @ Version gvk else Group gvk))"

definition matchResource :: "GroupVersionKind option \<Rightarrow> ClusterResource \<Rightarrow> bool" where
  "matchResource gvko cr =
     (case gvko of
        None \<Rightarrow> False
      | Some gvk \<Rightarrow>
          if \<not> list_ex (\<lambda>r. r = ''*'' \<or> r = Kind gvk) (cr_Resources cr) then False
          else list_ex (group_matches gvk) (cr_APIGroups cr))"

section \<open>Requirements\<close>

definition rule_requirements ::
    "labels_api \<Rightarrow> GroupVersionKind option \<Rightarrow> string \<Rightarrow> ClusterResource \<Rightarrow> requirement list" where
  "rule_requirements L gvk operation cr =
     (if \<not> matchResource gvk cr \<or> \<not> AllowsOperation cr operation then []
      else (case asRequirements L (cr_Selector cr) of
              Inl e \<Rightarrow> []
            | Inr (reqs, selectable) \<Rightarrow> if selectable then reqs else []))"

definition GetClusterScopeRequirements ::
    "labels_api \<Rightarrow> GroupVersionKind option \<Rightarrow> string \<Rightarrow> ProxyTenant list \<Rightarrow> requirement list" where
  "GetClusterScopeRequirements L gvk operation proxyTenants =
     concat (map (\<lambda>pt. concat (map (rule_requirements L gvk operation) (pt_ClusterResources pt))) proxyTenants)"

section \<open>The generic modules\<close>

text \<open>
  The requirement no object satisfies, used where nothing may be listed. Its error is ignored by the
  code, so a refusal by the library is a nil dereference.
\<close>

definition nothing_selector :: "labels_api \<Rightarrow> answer" where
  "nothing_selector L =
     (case newRequirement L ''dontexistsignoreme'' op_Exists [] of
        Inl e \<Rightarrow> Panic
      | Inr r \<Rightarrow> Ok (Some [r]))"

definition clusterscoped_list_Handle :: "labels_api \<Rightarrow> ProxyTenant list \<Rightarrow> http_request \<Rightarrow> answer" where
  "clusterscoped_list_Handle L proxyTenants httpRequest =
     (let gvk = GetGVKFromURL (URLPath httpRequest);
          requirements = GetClusterScopeRequirements L gvk OperationList proxyTenants in
      if 0 < length requirements then
        (if Method httpRequest = MethodGet then HandleListSelector L requirements else Ok None)
      else nothing_selector L)"

definition clusterscoped_handleSelector ::
    "labels_api \<Rightarrow> (string \<Rightarrow> error + (string \<times> string) list) \<Rightarrow> (GroupVersionKind \<Rightarrow> string \<Rightarrow> error + kobject)
      \<Rightarrow> GroupVersionKind \<Rightarrow> requirement list \<Rightarrow> string \<Rightarrow> answer" where
  "clusterscoped_handleSelector L discovery getObj gvk requirements name =
     bind_outcome (ReplacePluralWithKind discovery gvk) (\<lambda>gvk'.
       case getObj gvk' name of
         Inl e \<Rightarrow> Err (if is_not_found e then NewNotFoundError name (Group gvk', Kind gvk') else e)
       | Inr obj \<Rightarrow>
           (case find (\<lambda>r. reqMatches L r (o_Labels obj)) requirements of
              Some r \<Rightarrow> Ok (Some [r])
            | None \<Rightarrow> Ok None))"

text \<open>
  Requirements exist only for a path that \<^verbatim>\<open>GetGVKFromURL\<close> recognises, so the nil pointer is never
  passed on (\<open>GetClusterScopeRequirements_None\<close>).
\<close>

definition clusterscoped_get_Handle ::
    "labels_api \<Rightarrow> (string \<Rightarrow> error + (string \<times> string) list) \<Rightarrow> (GroupVersionKind \<Rightarrow> string \<Rightarrow> error + kobject)
      \<Rightarrow> ProxyTenant list \<Rightarrow> http_request \<Rightarrow> answer" where
  "clusterscoped_get_Handle L discovery getObj proxyTenants httpRequest =
     (let gvk = GetGVKFromURL (URLPath httpRequest);
          requirements = GetClusterScopeRequirements L gvk OperationGet proxyTenants in
      if 0 < length requirements then
        (if Method httpRequest = MethodGet
         then (case gvk of
                 None \<Rightarrow> Panic
               | Some g \<Rightarrow> clusterscoped_handleSelector L discovery getObj g requirements (Var httpRequest ''name''))
         else Ok None)
      else Ok None)"

section \<open>Lemmas on patterns\<close>

text \<open>The specification of the loop: the parts occur in the value one behind the other.\<close>

fun in_order :: "string list \<Rightarrow> string \<Rightarrow> bool" where
  "in_order [] v = True"
| "in_order (p # ps) v = (\<exists>a b. v = a @ p @ b \<and> in_order ps b)"

lemma in_order_suffix: "in_order ps b \<Longrightarrow> in_order ps (a @ b)"
proof (cases ps)
  case (Cons p qs)
  moreover assume "in_order ps b"
  ultimately show ?thesis by (metis append_assoc in_order.simps(2))
qed simp

text \<open>Taking the leftmost occurrence of each part loses no match.\<close>

lemma match_parts_in_order: "match_parts ps v = in_order ps v"
proof (induction ps v rule: match_parts.induct)
  case (1 v)
  then show ?case by simp
next
  case (2 p ps v)
  show ?case
  proof (cases "p = []")
    case True
    moreover have "(\<exists>a b. v = a @ b \<and> in_order ps b) \<longleftrightarrow> in_order ps v"
      by (metis append_Nil in_order_suffix)
    ultimately show ?thesis using "2.IH"(1) by simp
  next
    case False
    show ?thesis
    proof (cases "Index v p")
      case None
      then have "\<forall>a b. v \<noteq> a @ p @ b" by (simp add: Index_None_iff)
      with None False show ?thesis by simp
    next
      case (Some i)
      have split: "v = take i v @ p @ drop (i + length p) v"
        using Index_Some_split [OF Some] by blast
      have "in_order ps (drop (i + length p) v)" if v: "v = a @ p @ b" and b: "in_order ps b" for a b
      proof -
        have "i \<le> length a" using Index_least [OF Some v] .
        then have "drop (i + length p) v = drop (i + length p) (a @ p) @ b"
          by (simp add: v)
        with b show ?thesis by (simp add: in_order_suffix)
      qed
      with split have "in_order (p # ps) v \<longleftrightarrow> in_order ps (drop (i + length p) v)"
        by (metis in_order.simps(2))
      with Some False "2.IH"(2) [OF False Some] show ?thesis by simp
    qed
  qed
qed

text \<open>The usual meaning of a pattern: the star stands for any sequence, every other byte for itself.\<close>

fun glob :: "string \<Rightarrow> string \<Rightarrow> bool" where
  "glob [] v = (v = [])"
| "glob (c # p) [] = (c = CHR ''*'' \<and> glob p [])"
| "glob (c # p) (x # v) =
     (if c = CHR ''*'' then glob p (x # v) \<or> glob (c # p) v else c = x \<and> glob p v)"

lemma glob_star: "glob (CHR ''*'' # q) v \<longleftrightarrow> (\<exists>a b. v = a @ b \<and> glob q b)"
proof (induction v)
  case Nil
  then show ?case by simp
next
  case (Cons x v)
  have "(\<exists>a b. x # v = a @ b \<and> glob q b) \<longleftrightarrow> glob q (x # v) \<or> (\<exists>a b. v = a @ b \<and> glob q b)"
    by (metis append_Cons append_Nil list.inject neq_Nil_conv)
  with Cons show ?case by simp
qed

lemma glob_literal_prefix:
  "CHR ''*'' \<notin> set p \<Longrightarrow> glob (p @ q) v \<longleftrightarrow> (\<exists>b. v = p @ b \<and> glob q b)"
proof (induction p arbitrary: v)
  case Nil
  then show ?case by simp
next
  case (Cons c p)
  then show ?case by (cases v) auto
qed

lemma glob_literal: "CHR ''*'' \<notin> set p \<Longrightarrow> glob p v \<longleftrightarrow> v = p"
  using glob_literal_prefix [of p "[]" v] by auto

lemma glob_parts:
  assumes "ps \<noteq> []" and "\<forall>p \<in> set ps. CHR ''*'' \<notin> set p"
  shows "glob (Join ps ''*'') v \<Longrightarrow> \<exists>b. v = hd ps @ b \<and> in_order (tl ps) b"
  using assms
proof (induction ps arbitrary: v)
  case Nil
  then show ?case by simp
next
  case (Cons p ps)
  show ?case
  proof (cases "ps = []")
    case True
    with Cons.prems show ?thesis by (simp add: glob_literal)
  next
    case False
    from Cons.prems(1) have "glob (p @ CHR ''*'' # Join ps ''*'') v"
      using False by (simp add: Join_Cons)
    with Cons.prems(3) obtain a b where v: "v = p @ a @ b" and g: "glob (Join ps ''*'') b"
      by (auto simp: glob_literal_prefix glob_star)
    from Cons.IH [OF g False] Cons.prems(3) obtain b' where "b = hd ps @ b'" and "in_order (tl ps) b'"
      by auto
    then have "in_order ps (a @ b)"
      using False by (metis in_order.simps(2) list.collapse)
    with v show ?thesis by simp
  qed
qed

lemma Split_star_single:
  "pattern = p @ ''*'' @ q \<Longrightarrow> CHR ''*'' \<notin> set p \<Longrightarrow> CHR ''*'' \<notin> set q \<Longrightarrow> Split pattern (CHR ''*'') = [p, q]"
  by (simp add: Split_append)

section \<open>Lemmas on requirements\<close>

lemma List_allows_Get: "AllowsOperation cr OperationList \<Longrightarrow> AllowsOperation cr OperationGet"
  by (auto simp: AllowsOperation_def list_ex_iff split: if_splits)

lemma requirements_List_Get:
  "set (GetClusterScopeRequirements L gvk OperationList pts) \<subseteq> set (GetClusterScopeRequirements L gvk OperationGet pts)"
  by (auto simp: GetClusterScopeRequirements_def rule_requirements_def dest: List_allows_Get split: if_splits)

lemma match_literal: "CHR ''*'' \<notin> set a \<Longrightarrow> matchPattern a v \<longleftrightarrow> glob a v"
  by (auto simp: matchPattern_def glob_literal)

lemma match_prefix: "CHR ''*'' \<notin> set a \<Longrightarrow> matchPattern (a @ ''*'') v \<longleftrightarrow> glob (a @ ''*'') v"
  by (cases "a = []") (auto simp: matchPattern_def glob_literal_prefix glob_star Split_append HasPrefix_iff)

lemma match_suffix: "CHR ''*'' \<notin> set a \<Longrightarrow> matchPattern (CHR ''*'' # a) v \<longleftrightarrow> glob (CHR ''*'' # a) v"
  by (cases "a = []") (auto simp: matchPattern_def glob_literal glob_star HasSuffix_iff)

lemma match_general:
  assumes "glob p v"
  shows "matchPattern p v"
proof -
  let ?parts = "Split p (CHR ''*'')"

  have ne: "?parts \<noteq> []" and plain: "\<forall>q \<in> set ?parts. CHR ''*'' \<notin> set q" by (auto dest: Split_no_sep)
  have "glob (Join ?parts ''*'') v" using assms by (simp add: Join_Split)
  then obtain b where b: "v = hd ?parts @ b" "in_order (tl ?parts) b" using glob_parts [OF ne plain, of v] by blast
  then have "in_order (hd ?parts # tl ?parts) v" by (metis append_Nil in_order.simps(2))
  then have order: "match_parts ?parts v" using ne by (simp add: match_parts_in_order)
  show ?thesis
  proof (cases "length ?parts = 2 \<and> (?parts ! 0 = [] \<or> ?parts ! 1 = [])")
    case True
    then obtain x y where xy: "?parts = [x, y]" by (auto simp: length_Suc_conv numeral_2_eq_2)
    then have "Join [x, y] ''*'' = p" using Join_Split [of p "CHR ''*''"] by simp
    then have p: "p = x @ CHR ''*'' # y" by simp
    have "CHR ''*'' \<notin> set x" "CHR ''*'' \<notin> set y" and "x = [] \<or> y = []" using True plain by (simp_all add: xy)
    then show ?thesis using match_prefix [of x v] match_suffix [of y v] assms unfolding p by auto
  next
    case False
    then show ?thesis using order assms match_literal [of p v] by (auto simp: matchPattern_def Let_def)
  qed
qed

lemma nothing_selector_selects:
  assumes "new_requirement_ok L" and "matches_ok L" and "nothing_selector L = Ok (Some sel)" and "map_of ls ''dontexistsignoreme'' = None"
  shows "\<not> selects L sel ls"
proof -
  from assms(3) obtain req where req: "newRequirement L ''dontexistsignoreme'' op_Exists [] = Inr req" and "sel = [req]"
    by (auto simp: nothing_selector_def split: sum.splits)
  note new = newRequirement_Inr [OF assms(1) req]
  show ?thesis using assms(4) new matches_Exists [OF assms(2) new(2), of ls] \<open>sel = [req]\<close> by simp
qed

section \<open>Properties\<close>

text \<open>
  C37: every name that a pattern means is matched by \<^verbatim>\<open>matchPattern\<close>, and for a pattern without a star or
  with one star at its beginning or end the two agree. With the star elsewhere the match is not anchored
  and may accept more.
\<close>

theorem pattern_matches_glob:
  "(glob p v \<longrightarrow> matchPattern p v)
   \<and> (CHR ''*'' \<notin> set a \<longrightarrow> (matchPattern a v \<longleftrightarrow> glob a v)
        \<and> (matchPattern (a @ ''*'') v \<longleftrightarrow> glob (a @ ''*'') v) \<and> (matchPattern (CHR ''*'' # a) v \<longleftrightarrow> glob (CHR ''*'' # a) v))
   \<and> matchPattern ''a*b'' ''xaybz'' \<and> \<not> glob ''a*b'' ''xaybz''"
proof -
  have "matchPattern ''a*b'' ''xaybz''" "\<not> glob ''a*b'' ''xaybz''" by code_simp+
  then show ?thesis using match_general match_literal match_prefix match_suffix by blast
qed

theorem pattern_matches_glob_witness: "matchPattern ''*.k8s.io'' ''apps.k8s.io'' \<and> \<not> matchPattern ''apps'' ''batch''"
  using pattern_matches_glob [of "''*.k8s.io''" "''apps.k8s.io''"] pattern_matches_glob [of _ "''batch''" "''apps''"] by simp


section \<open>A concrete rule\<close>

definition doc_resource :: ProxyGroupVersionKind where
  "doc_resource = \<lparr>Group = ''storage.k8s.io'', Version = ''v1'', Kind = ''StorageClass'', URLName = ''storageclasses''\<rparr>"

definition doc_gold :: kobject where
  "doc_gold = \<lparr>o_Name = ''fast'', o_Labels = [(''tier'', ''gold'')], o_OwnerReferences = []\<rparr>"

definition doc_rule_view :: ProxyTenant where
  "doc_rule_view = \<lparr>pt_Tenant = globalTenant, pt_ProxySetting = [], pt_ClusterResources = [\<lparr>cr_APIGroups = [''storage.k8s.io''],
     cr_Resources = [''storageclasses''], cr_Operations = [''List''],
     cr_Selector = Some \<lparr>matchLabels = [(''tier'', ''gold'')], matchExpressions = []\<rparr>\<rparr>]\<rparr>"

definition doc_get :: "string \<Rightarrow> http_request" where
  "doc_get path = \<lparr>Method = MethodGet, URLPath = path, URLQuery = [], Header = [], Vars = [(''name'', ''fast'')], RemoteAddr = '''',
     TLSPeers = None, CtxUser = None\<rparr>"

lemma doc_requirements:
  assumes "opn = OperationList \<or> opn = OperationGet"
  shows "GetClusterScopeRequirements doc_labels (Some \<lparr>Group = ''storage.k8s.io'', Version = ''v1'', Kind = ''storageclasses''\<rparr>) opn [doc_rule_view]
    = [\<lparr>Key = ''tier'', Operator = op_In, Values = [''gold'']\<rparr>]"
  using assms
  by (auto simp: GetClusterScopeRequirements_def rule_requirements_def doc_rule_view_def matchResource_def group_matches_def
      matchPattern_def AllowsOperation_def doc_labels_defs)

lemma doc_list_rule:
  "clusterscoped_list_Handle doc_labels [doc_rule_view] (doc_get (Path doc_resource))
   = Ok (Some [\<lparr>Key = ''tier'', Operator = op_In, Values = [''gold'']\<rparr>])"
proof -
  have "GetGVKFromURL (Path doc_resource) = Some \<lparr>Group = ''storage.k8s.io'', Version = ''v1'', Kind = ''storageclasses''\<rparr>"
    using path_read [of doc_resource "''fast''"] by (simp add: doc_resource_def path_segment_def)
  then show ?thesis
    by (simp add: clusterscoped_list_Handle_def doc_get_def doc_requirements HandleListSelector_def generateRequirementsKey_def Let_def)
       (simp add: doc_labels_defs)
qed


end
