(* ===== verification/Encoding.thy ===== *)
theory Encoding
  imports Http
begin

text \<open>
  The encodings the proxy reads from requests, as the Go standard library defines them: UTF-8 runes
  (a \<^verbatim>\<open>range\<close> over a string and \<^verbatim>\<open>Builder.WriteRune\<close>), Unicode white space for
  \<^verbatim>\<open>strings.TrimSpace\<close>, \<^verbatim>\<open>strings.EqualFold\<close> against an ASCII word, \<^verbatim>\<open>url.QueryUnescape\<close> and
  \<^verbatim>\<open>base64.RawStdEncoding\<close>.
\<close>

section \<open>Runes\<close>

type_synonym rune = nat

abbreviation RuneError :: rune where "RuneError \<equiv> 65533"

definition cont_byte :: "char \<Rightarrow> bool" where
  "cont_byte c \<longleftrightarrow> 128 \<le> byte c \<and> byte c \<le> 191"

text \<open>The rune at the start of a byte sequence and its width; an invalid sequence is one byte wide.\<close>

definition decode_rune :: "char \<Rightarrow> string \<Rightarrow> rune \<times> nat" where
  "decode_rune b bs =
     (let x = byte b in
      if x < 128 then (x, 1)
      else if 194 \<le> x \<and> x \<le> 223 then
        (case bs of
           c1 # _ \<Rightarrow> if cont_byte c1 then ((x - 192) * 64 + (byte c1 - 128), 2) else (RuneError, 1)
         | _ \<Rightarrow> (RuneError, 1))
      else if 224 \<le> x \<and> x \<le> 239 then
        (case bs of
           c1 # c2 # _ \<Rightarrow>
             if (if x = 224 then 160 else 128) \<le> byte c1 \<and> byte c1 \<le> (if x = 237 then 159 else 191) \<and> cont_byte c2
             then ((x - 224) * 4096 + (byte c1 - 128) * 64 + (byte c2 - 128), 3) else (RuneError, 1)
         | _ \<Rightarrow> (RuneError, 1))
      else if 240 \<le> x \<and> x \<le> 244 then
        (case bs of
           c1 # c2 # c3 # _ \<Rightarrow>
             if (if x = 240 then 144 else 128) \<le> byte c1 \<and> byte c1 \<le> (if x = 244 then 143 else 191)
                \<and> cont_byte c2 \<and> cont_byte c3
             then ((x - 240) * 262144 + (byte c1 - 128) * 4096 + (byte c2 - 128) * 64 + (byte c3 - 128), 4)
             else (RuneError, 1)
         | _ \<Rightarrow> (RuneError, 1))
      else (RuneError, 1))"

function runes :: "string \<Rightarrow> rune list" where
  "runes [] = []"
| "runes (b # bs) = (case decode_rune b bs of (r, n) \<Rightarrow> r # runes (drop (n - 1) bs))"
  by pat_completeness auto
termination
  by (relation "measure length") auto

definition encode_rune :: "rune \<Rightarrow> string" where
  "encode_rune r0 =
     (let r = (if r0 > 1114111 \<or> 55296 \<le> r0 \<and> r0 \<le> 57343 then RuneError else r0) in
      if r < 128 then [char_of r]
      else if r < 2048 then [char_of (192 + r div 64), char_of (128 + r mod 64)]
      else if r < 65536 then [char_of (224 + r div 4096), char_of (128 + (r div 64) mod 64), char_of (128 + r mod 64)]
      else [char_of (240 + r div 262144), char_of (128 + (r div 4096) mod 64),
            char_of (128 + (r div 64) mod 64), char_of (128 + r mod 64)])"

definition string_of_runes :: "rune list \<Rightarrow> string" where
  "string_of_runes rs = concat (map encode_rune rs)"

definition ascii :: "string \<Rightarrow> bool" where
  "ascii s \<longleftrightarrow> list_all (\<lambda>c. byte c < 128) s"

lemma runes_ascii: "ascii s \<Longrightarrow> runes s = map byte s"
  by (induction s) (auto simp: ascii_def decode_rune_def)

lemma encode_rune_ascii: "byte c < 128 \<Longrightarrow> encode_rune (byte c) = [c]"
  by (simp add: encode_rune_def byte_def)

lemma string_of_runes_ascii: "ascii s \<Longrightarrow> string_of_runes (map byte s) = s"
  by (induction s) (auto simp: ascii_def string_of_runes_def encode_rune_ascii)

text \<open>\<^verbatim>\<open>unicode.IsSpace\<close>.\<close>

definition is_space :: "rune \<Rightarrow> bool" where
  "is_space r \<longleftrightarrow> r \<in> {9, 10, 11, 12, 13, 32, 133, 160, 5760, 8232, 8233, 8239, 8287, 12288}
     \<or> 8192 \<le> r \<and> r \<le> 8202"

text \<open>\<^verbatim>\<open>strings.TrimSpace\<close> on the runes of a valid UTF-8 string.\<close>

definition TrimSpace :: "rune list \<Rightarrow> rune list" where
  "TrimSpace s = trim_by is_space s"

text \<open>
  \<^verbatim>\<open>strings.EqualFold\<close> with an ASCII word \<open>t\<close>: beside the two cases of a letter, the long s (U+017F)
  folds to s and the Kelvin sign (U+212A) folds to k.
\<close>

definition fold_rune :: "rune \<Rightarrow> rune" where
  "fold_rune r = (if 65 \<le> r \<and> r \<le> 90 then r + 32 else if r = 383 then 115 else if r = 8490 then 107 else r)"

definition EqualFoldASCII :: "string \<Rightarrow> string \<Rightarrow> bool" where
  "EqualFoldASCII s t \<longleftrightarrow> map fold_rune (runes s) = map fold_rune (map byte t)"

section \<open>Query escapes\<close>

definition is_hex :: "char \<Rightarrow> bool" where
  "is_hex c \<longleftrightarrow> 48 \<le> byte c \<and> byte c \<le> 57 \<or> 65 \<le> byte c \<and> byte c \<le> 70 \<or> 97 \<le> byte c \<and> byte c \<le> 102"

definition unhex :: "char \<Rightarrow> nat" where
  "unhex c = (if byte c \<le> 57 then byte c - 48 else if byte c \<le> 70 then byte c - 55 else byte c - 87)"

fun QueryUnescape :: "string \<Rightarrow> string option" where
  "QueryUnescape [] = Some []"
| "QueryUnescape (c # s) =
     (if c = CHR ''%'' then
        (case s of
           a # b # t \<Rightarrow>
             if is_hex a \<and> is_hex b
             then map_option (\<lambda>r. char_of (unhex a * 16 + unhex b) # r) (QueryUnescape t) else None
         | _ \<Rightarrow> None)
      else map_option (\<lambda>r. (if c = CHR ''+'' then CHR '' '' else c) # r) (QueryUnescape s))"

section \<open>Base64 without padding\<close>

definition b64_value :: "char \<Rightarrow> nat option" where
  "b64_value c =
     (let x = byte c in
      if 65 \<le> x \<and> x \<le> 90 then Some (x - 65)
      else if 97 \<le> x \<and> x \<le> 122 then Some (x - 71)
      else if 48 \<le> x \<and> x \<le> 57 then Some (x + 4)
      else if x = 43 then Some 62
      else if x = 47 then Some 63
      else None)"

fun b64_values :: "string \<Rightarrow> nat list option" where
  "b64_values [] = Some []"
| "b64_values (c # s) =
     (if c = CHR 0x0A \<or> c = CHR 0x0D then b64_values s
      else (case b64_value c of
              None \<Rightarrow> None
            | Some v \<Rightarrow> map_option (\<lambda>vs. v # vs) (b64_values s)))"

fun b64_bytes :: "nat list \<Rightarrow> nat list option" where
  "b64_bytes [] = Some []"
| "b64_bytes [a] = None"
| "b64_bytes [a, b] = Some [a * 4 + b div 16]"
| "b64_bytes [a, b, c] = Some [a * 4 + b div 16, (b mod 16) * 16 + c div 4]"
| "b64_bytes (a # b # c # d # vs) =
     map_option (\<lambda>r. (a * 4 + b div 16) # ((b mod 16) * 16 + c div 4) # ((c mod 4) * 64 + d) # r) (b64_bytes vs)"

text \<open>\<^verbatim>\<open>DecodeString\<close> of the raw standard encoding: line ends are skipped, padding is not accepted.\<close>

definition RawStdDecodeString :: "string \<Rightarrow> string option" where
  "RawStdDecodeString s =
     (case b64_values s of None \<Rightarrow> None | Some vs \<Rightarrow> map_option (map char_of) (b64_bytes vs))"

text \<open>The encoder of the same alphabet, the specification of what a client sends.\<close>

definition b64_char :: "nat \<Rightarrow> char" where
  "b64_char v = char_of (if v < 26 then v + 65 else if v < 52 then v + 71 else if v < 62 then v - 4
     else if v = 62 then 43 else 47)"

fun b64_sextets :: "nat list \<Rightarrow> nat list" where
  "b64_sextets [] = []"
| "b64_sextets [x] = [x div 4, (x mod 4) * 16]"
| "b64_sextets [x, y] = [x div 4, (x mod 4) * 16 + y div 16, (y mod 16) * 4]"
| "b64_sextets (x # y # z # s) =
     (x div 4) # ((x mod 4) * 16 + y div 16) # ((y mod 16) * 4 + z div 64) # (z mod 64) # b64_sextets s"

definition RawStdEncodeToString :: "string \<Rightarrow> string" where
  "RawStdEncodeToString s = map b64_char (b64_sextets (map byte s))"

lemma b64_value_char: "v < 64 \<Longrightarrow> b64_value (b64_char v) = Some v \<and> b64_char v \<noteq> CHR 0x0A
    \<and> b64_char v \<noteq> CHR 0x0D \<and> b64_char v \<noteq> CHR '',''"
proof -
  assume v: "v < 64"
  let ?n = "if v < 26 then v + 65 else if v < 52 then v + 71 else if v < 62 then v - 4 else if v = 62 then 43 else (47 :: nat)"
  have n: "?n < 256" and lo: "43 \<le> ?n" and comma: "?n \<noteq> 44" using v by auto
  then have b: "byte (b64_char v) = ?n" by (simp add: b64_char_def)
  have "b64_value (b64_char v) = Some v"
    unfolding b64_value_def b Let_def using v by auto
  moreover have "byte (b64_char v) \<noteq> byte (CHR 0x0A)" "byte (b64_char v) \<noteq> byte (CHR 0x0D)"
    "byte (b64_char v) \<noteq> byte (CHR '','')"
    unfolding b using lo comma by (auto simp: byte_def)
  ultimately show ?thesis by auto
qed

lemma b64_values_map: "\<forall>v \<in> set vs. v < 64 \<Longrightarrow> b64_values (map b64_char vs) = Some vs"
  by (induction vs) (auto simp: b64_value_char)

lemma b64_sextets_lt: "\<forall>x \<in> set s. x < 256 \<Longrightarrow> \<forall>v \<in> set (b64_sextets s). v < 64"
  by (induction s rule: b64_sextets.induct) (auto simp: less_mult_imp_div_less)

lemma b64_bytes_sextets: "\<forall>x \<in> set s. x < 256 \<Longrightarrow> b64_bytes (b64_sextets s) = Some s"
proof (induction s rule: b64_sextets.induct)
  case (4 x y z s)
  then show ?case by auto
qed auto

lemma RawStd_roundtrip: "RawStdDecodeString (RawStdEncodeToString s) = Some s"
proof -
  have lt: "\<forall>x \<in> set (map byte s). x < 256" by simp
  have "map char_of (map byte s) = s" by (simp add: byte_def map_idI)
  then show ?thesis
    by (simp add: RawStdDecodeString_def RawStdEncodeToString_def b64_values_map
        b64_sextets_lt [OF lt] b64_bytes_sextets [OF lt])
qed

end
