(* ===== verification/Xfcc.thy ===== *)
theory Xfcc
  imports Encoding
begin

text \<open>
  internal/request/xfcc.go: the identity of a client certificate forwarded by a trusted proxy in the
  X-Forwarded-Client-Cert header. The header is scanned rune by rune; strings inside the parser are
  rune lists. PEM, X.509 and SHA-256 are arguments (\<open>x509_api\<close>).
\<close>

datatype parse_error =
    DanglingEscape
  | UnterminatedQuote
  | DanglingEscapeInQuoted
  | MissingEquals "rune list"
  | EmptyFieldName
  | InvalidValue "rune list" parse_error

abbreviation quote_r :: rune where "quote_r \<equiv> 34"
abbreviation backslash_r :: rune where "backslash_r \<equiv> 92"
abbreviation comma_r :: rune where "comma_r \<equiv> 44"
abbreviation semicolon_r :: rune where "semicolon_r \<equiv> 59"
abbreviation equals_r :: rune where "equals_r \<equiv> 61"

section \<open>Scanner\<close>

text \<open>The loop of \<^verbatim>\<open>splitOutsideQuotes\<close> with its variables: \<open>inQuotes\<close>, \<open>escaped\<close>, \<open>current\<close>, \<open>result\<close>.\<close>

fun split_scan :: "rune \<Rightarrow> rune list \<Rightarrow> bool \<Rightarrow> bool \<Rightarrow> rune list \<Rightarrow> rune list list \<Rightarrow> parse_error + rune list list" where
  "split_scan sep [] inQuotes escaped current result =
     (if escaped then Inl DanglingEscape
      else if inQuotes then Inl UnterminatedQuote
      else Inr (result @ [TrimSpace current]))"
| "split_scan sep (r # s) inQuotes escaped current result =
     (if escaped then split_scan sep s inQuotes False (current @ [r]) result
      else if r = backslash_r then split_scan sep s inQuotes inQuotes (current @ [r]) result
      else if r = quote_r then split_scan sep s (\<not> inQuotes) False (current @ [r]) result
      else if r = sep \<and> \<not> inQuotes then split_scan sep s inQuotes False [] (result @ [TrimSpace current])
      else split_scan sep s inQuotes False (current @ [r]) result)"

definition splitOutsideQuotes :: "rune list \<Rightarrow> rune \<Rightarrow> parse_error + rune list list" where
  "splitOutsideQuotes s sep = split_scan sep s False False [] []"

fun unescape_scan :: "rune list \<Rightarrow> bool \<Rightarrow> rune list \<Rightarrow> parse_error + rune list" where
  "unescape_scan [] escaped b = (if escaped then Inl DanglingEscapeInQuoted else Inr b)"
| "unescape_scan (r # s) escaped b =
     (if escaped then unescape_scan s False (b @ [r])
      else if r = backslash_r then unescape_scan s True b
      else unescape_scan s False (b @ [r]))"

definition unescapeQuoted :: "rune list \<Rightarrow> parse_error + rune list" where
  "unescapeQuoted s = unescape_scan s False []"

definition unquoteXFCCValue :: "rune list \<Rightarrow> parse_error + rune list" where
  "unquoteXFCCValue v =
     (if 2 \<le> length v \<and> hd v = quote_r \<and> last v = quote_r then unescapeQuoted (butlast (tl v)) else Inr v)"

section \<open>Fields\<close>

type_synonym xfcc_fields = "(rune list \<times> rune list) list"

fun parse_parts :: "rune list list \<Rightarrow> xfcc_fields \<Rightarrow> parse_error + xfcc_fields" where
  "parse_parts [] flds = Inr flds"
| "parse_parts (part0 # parts) flds =
     (let part = TrimSpace part0 in
      if part = [] then parse_parts parts flds
      else (case Cut part equals_r of
              None \<Rightarrow> Inl (MissingEquals part)
            | Some (k0, v0) \<Rightarrow>
                (let key = TrimSpace k0; value = TrimSpace v0 in
                 if key = [] then Inl EmptyFieldName
                 else (case unquoteXFCCValue value of
                         Inl e \<Rightarrow> Inl (InvalidValue key e)
                       | Inr unquoted \<Rightarrow> parse_parts parts (AList.update key unquoted flds)))))"

definition parseXFCCFields :: "rune list \<Rightarrow> parse_error + xfcc_fields" where
  "parseXFCCFields entry =
     (case splitOutsideQuotes entry semicolon_r of
        Inl e \<Rightarrow>
          (case Cut entry equals_r of
             None \<Rightarrow> Inl e
           | Some (k0, v0) \<Rightarrow>
               (let key = TrimSpace k0 in if key \<noteq> [] then Inl (InvalidValue key e) else Inl e))
      | Inr parts \<Rightarrow> parse_parts parts [])"

definition splitXFCCEntries :: "rune list \<Rightarrow> parse_error + rune list list" where
  "splitXFCCEntries header = splitOutsideQuotes header comma_r"

section \<open>Certificate\<close>

text \<open>
  \<open>pemDecode\<close> returns the type and the bytes of the first block and the rest; \<open>sha256Hex\<close> is the
  lower-case hexadecimal digest.
\<close>

record x509_api =
  pemDecode :: "string \<Rightarrow> (string \<times> string \<times> string) option"
  parseCertificate :: "string \<Rightarrow> certificate option"
  sha256Hex :: "string \<Rightarrow> string"

definition parseXFCCCert :: "x509_api \<Rightarrow> string \<Rightarrow> string + certificate" where
  "parseXFCCCert X v =
     (case QueryUnescape v of
        None \<Rightarrow> Inl ''cannot url-decode Cert field''
      | Some decoded \<Rightarrow>
          (case pemDecode X decoded of
             None \<Rightarrow> Inl ''cert field is not valid PEM''
           | Some (typ, bytes, rest) \<Rightarrow>
               if TrimSpace (runes rest) \<noteq> [] then Inl ''cert field contains trailing unexpected data''
               else if typ \<noteq> ''CERTIFICATE'' then Inl ''unexpected PEM block type''
               else (case parseCertificate X bytes of
                       None \<Rightarrow> Inl ''cannot parse certificate''
                     | Some cert \<Rightarrow> Inr cert)))"

text \<open>
  The provided digest is trimmed and lower-cased before the comparison. No rune outside ASCII has a
  lower-case form among the hexadecimal digits, so lowering the ASCII letters decides the comparison.
\<close>

definition lower_rune :: "rune \<Rightarrow> rune" where
  "lower_rune r = (if 65 \<le> r \<and> r \<le> 90 then r + 32 else r)"

definition verifyXFCCHash :: "x509_api \<Rightarrow> certificate \<Rightarrow> rune list \<Rightarrow> bool" where
  "verifyXFCCHash X cert provided \<longleftrightarrow>
     map lower_rune (TrimSpace provided) = map (\<lambda>c. lower_rune (byte c)) (sha256Hex X (RawDER cert))"

definition certIdentity :: "certificate \<Rightarrow> string \<times> string list" where
  "certIdentity cert = (CommonName cert, Organization cert)"

definition field :: "xfcc_fields \<Rightarrow> string \<Rightarrow> rune list" where
  "field fs k = (case map_of fs (map byte k) of None \<Rightarrow> [] | Some v \<Rightarrow> v)"

text \<open>The texts of the errors are cut where the code formats the cause.\<close>

definition processXFCC :: "x509_api \<Rightarrow> string \<Rightarrow> http_request \<Rightarrow> error + (string \<times> string list)" where
  "processXFCC X xfcc_header r =
     (case HeaderValues (Header r) xfcc_header of
        [] \<Rightarrow> Inl (ErrUnauthorized ''no x-forwarded-client-cert header provided'')
      | _ # _ # _ \<Rightarrow> Inl (ErrUnauthorized ''multiple x-forwarded-client-cert headers are not allowed'')
      | [value] \<Rightarrow>
          (case splitXFCCEntries (runes value) of
             Inl e \<Rightarrow> Inl (ErrUnauthorized ''invalid x-forwarded-client-cert header'')
           | Inr entries \<Rightarrow>
               if length entries \<noteq> 1 then Inl (ErrUnauthorized ''expected exactly one x-forwarded-client-cert entry'')
               else (case parseXFCCFields (entries ! 0) of
                       Inl e \<Rightarrow> Inl (ErrUnauthorized ''invalid x-forwarded-client-cert fields'')
                     | Inr flds \<Rightarrow>
                         if field flds ''Cert'' = [] then Inl (ErrUnauthorized ''x-forwarded-client-cert missing Cert field'')
                         else (case parseXFCCCert X (string_of_runes (field flds ''Cert'')) of
                                 Inl e \<Rightarrow> Inl (ErrUnauthorized ''invalid forwarded client certificate'')
                               | Inr cert \<Rightarrow>
                                   if field flds ''Hash'' \<noteq> [] \<and> \<not> verifyXFCCHash X cert (field flds ''Hash'')
                                   then Inl (ErrUnauthorized ''forwarded client certificate hash mismatch'')
                                   else (case certIdentity cert of (username, groups) \<Rightarrow>
                                           if username = [] then Inl (ErrUnauthorized ''forwarded client certificate does not contain a username'')
                                           else Inr (username, groups))))))"

section \<open>Rendering, and that parsing inverts it\<close>

text \<open>How a proxy writes a field: the value between quotes, with a backslash before quotes and backslashes.\<close>

definition escape_value :: "rune list \<Rightarrow> rune list" where
  "escape_value v = concat (map (\<lambda>r. if r = backslash_r \<or> r = quote_r then [backslash_r, r] else [r]) v)"

definition quote_value :: "rune list \<Rightarrow> rune list" where
  "quote_value v = quote_r # escape_value v @ [quote_r]"

definition render_field :: "rune list \<times> rune list \<Rightarrow> rune list" where
  "render_field kv = fst kv @ equals_r # quote_value (snd kv)"

definition render_fields :: "xfcc_fields \<Rightarrow> rune list" where
  "render_fields fs = Join (map render_field fs) [semicolon_r]"

text \<open>A field name without structure characters and without surrounding space.\<close>

definition field_name :: "rune list \<Rightarrow> bool" where
  "field_name k \<longleftrightarrow> k \<noteq> [] \<and> \<not> is_space (hd k) \<and> \<not> is_space (last k) \<and>
     quote_r \<notin> set k \<and> backslash_r \<notin> set k \<and> semicolon_r \<notin> set k \<and> comma_r \<notin> set k \<and> equals_r \<notin> set k"

lemma escape_value_simps [simp]:
  "escape_value [] = []"
  "escape_value (r # v) = (if r = backslash_r \<or> r = quote_r then [backslash_r, r] else [r]) @ escape_value v"
  by (simp_all add: escape_value_def)

lemma split_scan_escape:
  "split_scan sep (escape_value v @ s) True False cur res = split_scan sep s True False (cur @ escape_value v) res"
  by (induction v arbitrary: cur) auto

lemma split_scan_plain:
  "\<forall>r \<in> set k. r \<noteq> backslash_r \<and> r \<noteq> quote_r \<and> r \<noteq> sep \<Longrightarrow>
   split_scan sep (k @ s) False False cur res = split_scan sep s False False (cur @ k) res"
  by (induction k arbitrary: cur) auto

text \<open>A rendered field is passed over as a whole, whatever the value contains.\<close>

lemma split_scan_field:
  assumes "field_name k" and "sep = semicolon_r \<or> sep = comma_r"
  shows "split_scan sep (render_field (k, v) @ s) False False cur res =
         split_scan sep s False False (cur @ render_field (k, v)) res"
proof -
  have k: "\<forall>r \<in> set k. r \<noteq> backslash_r \<and> r \<noteq> quote_r \<and> r \<noteq> sep"
    using assms by (auto simp: field_name_def)
  have "render_field (k, v) @ s = k @ equals_r # quote_r # escape_value v @ quote_r # s"
    by (simp add: render_field_def quote_value_def)
  then show ?thesis using assms(2)
    by (auto simp: split_scan_plain [OF k] split_scan_escape render_field_def quote_value_def)
qed

lemma TrimSpace_field: "field_name k \<Longrightarrow> TrimSpace (render_field (k, v)) = render_field (k, v)"
  unfolding TrimSpace_def
  by (rule trim_by_id) (auto simp: render_field_def quote_value_def field_name_def is_space_def)

lemma split_fields_scan:
  assumes "\<forall>kv \<in> set fs. field_name (fst kv)" and "fs \<noteq> []"
  shows "split_scan semicolon_r (render_fields fs) False False [] res = Inr (res @ map render_field fs)"
  using assms
proof (induction fs arbitrary: res)
  case Nil
  then show ?case by simp
next
  case (Cons kv fs)
  obtain k v where kv: "kv = (k, v)" by fastforce
  with Cons.prems have k: "field_name k" by simp
  show ?case
  proof (cases fs)
    case Nil
    then show ?thesis
      using split_scan_field [OF k, of semicolon_r v "[]" "[]" res]
      by (simp add: render_fields_def kv TrimSpace_field [OF k])
  next
    case (Cons kv' fs')
    have "render_fields (kv # fs) = render_field kv @ semicolon_r # render_fields fs"
      by (simp add: render_fields_def Cons)
    then show ?thesis
      using Cons.IH [of "res @ [render_field kv]"] Cons.prems Cons
        split_scan_field [OF k, of semicolon_r v "semicolon_r # render_fields fs" "[]" res]
      by (simp add: kv TrimSpace_field [OF k])
  qed
qed

text \<open>Commas inside the fields are quoted, so the rendered fields are one entry.\<close>

lemma split_entry_scan:
  assumes "\<forall>kv \<in> set fs. field_name (fst kv)"
  shows "split_scan comma_r (render_fields fs @ s) False False cur res =
         split_scan comma_r s False False (cur @ render_fields fs) res"
  using assms
proof (induction fs arbitrary: cur)
  case Nil
  then show ?case by (simp add: render_fields_def)
next
  case (Cons kv fs)
  obtain k v where kv: "kv = (k, v)" by fastforce
  with Cons.prems have k: "field_name k" by simp
  show ?case
  proof (cases fs)
    case Nil
    then show ?thesis using split_scan_field [OF k] by (simp add: render_fields_def kv)
  next
    case (Cons kv' fs')
    have "render_fields (kv # fs) = render_field kv @ semicolon_r # render_fields fs"
      by (simp add: render_fields_def Cons)
    then show ?thesis
      using Cons.IH [of "cur @ render_field kv @ [semicolon_r]"] Cons.prems
      by (simp add: kv split_scan_field [OF k])
  qed
qed

lemma unescape_escape: "unescape_scan (escape_value v @ s) False b = unescape_scan s False (b @ v)"
  by (induction v arbitrary: b) auto

lemma unquote_quote: "unquoteXFCCValue (quote_value v) = Inr v"
  using unescape_escape [of v "[]" "[]"]
  by (simp add: unquoteXFCCValue_def quote_value_def unescapeQuoted_def butlast_append)

lemma TrimSpace_quote: "TrimSpace (quote_value v) = quote_value v"
  unfolding TrimSpace_def by (rule trim_by_id) (simp add: quote_value_def is_space_def)

lemma TrimSpace_name: "field_name k \<Longrightarrow> TrimSpace k = k"
  unfolding TrimSpace_def by (rule trim_by_id) (simp add: field_name_def)

lemma parse_parts_fields:
  "\<forall>kv \<in> set fs. field_name (fst kv) \<Longrightarrow>
   parse_parts (map render_field fs) m = Inr (fold (\<lambda>(k, v) m. AList.update k v m) fs m)"
proof (induction fs arbitrary: m)
  case Nil
  then show ?case by simp
next
  case (Cons kv fs)
  obtain k v where kv: "kv = (k, v)" by fastforce
  with Cons.prems have k: "field_name k" by simp
  then have "Cut (render_field kv) equals_r = Some (k, quote_value v)"
    by (simp add: kv render_field_def field_name_def Cut_append)
  moreover have "render_field kv \<noteq> []" by (simp add: render_field_def quote_value_def)
  moreover have "k \<noteq> []" using k by (simp add: field_name_def)
  ultimately show ?case using Cons k
    by (simp add: kv TrimSpace_field TrimSpace_name TrimSpace_quote unquote_quote Let_def)
qed

lemma fold_update_distinct:
  "distinct (map fst m @ map fst fs) \<Longrightarrow> fold (\<lambda>(k, v) m. AList.update k v m) fs m = m @ fs"
proof (induction fs arbitrary: m)
  case Nil
  then show ?case by simp
next
  case (Cons kv fs)
  obtain k v where kv: "kv = (k, v)" by fastforce
  have "AList.update k v m = m @ [(k, v)]"
    using Cons.prems kv by (intro update_fresh) auto
  with Cons kv show ?case by simp
qed

lemma TrimSpace_fields:
  assumes "\<forall>kv \<in> set fs. field_name (fst kv)" and "fs \<noteq> []"
  shows "TrimSpace (render_fields fs) = render_fields fs"
proof -
  have ne: "\<forall>p \<in> set (map render_field fs). p \<noteq> []" by (simp add: render_field_def)
  obtain k v gs where fs: "fs = (k, v) # gs" using assms(2) by (metis list.exhaust surj_pair)
  have "hd (render_fields fs) = hd k"
    using assms by (cases gs) (auto simp: fs render_fields_def render_field_def field_name_def)
  moreover have "last (render_fields fs) = quote_r"
  proof -
    have "last (Join ps [semicolon_r]) = last (last ps)" if "ps \<noteq> []" "\<forall>p \<in> set ps. p \<noteq> []" for ps :: "rune list list"
      using that by (induction ps "[semicolon_r]" rule: Join.induct) (auto simp: Join_ne)
    from this [of "map render_field fs"] ne assms(2) show ?thesis
      by (simp add: render_fields_def last_map render_field_def quote_value_def)
  qed
  moreover have "field_name k" using assms(1) fs by simp
  ultimately show ?thesis unfolding TrimSpace_def by (intro trim_by_id) (simp add: field_name_def is_space_def)
qed

section \<open>Properties\<close>

text \<open>
  C7: parsing inverts rendering: fields with plain distinct names and arbitrary values, quotes,
  backslashes, separators and spaces included, come back unchanged, and their rendering is one entry
  of the header.
\<close>

theorem xfcc_roundtrip:
  assumes "\<forall>kv \<in> set fs. field_name (fst kv)" and "distinct (map fst fs)" and "fs \<noteq> []"
  shows "splitXFCCEntries (render_fields fs) = Inr [render_fields fs] \<and> parseXFCCFields (render_fields fs) = Inr fs"
proof -
  have "splitXFCCEntries (render_fields fs) = Inr [render_fields fs]"
    using split_entry_scan [OF assms(1), of "[]" "[]" "[]"] TrimSpace_fields [OF assms(1,3)]
    by (simp add: splitXFCCEntries_def splitOutsideQuotes_def)
  moreover have "splitOutsideQuotes (render_fields fs) semicolon_r = Inr (map render_field fs)"
    using split_fields_scan [OF assms(1,3), of "[]"] by (simp add: splitOutsideQuotes_def)
  moreover have "parse_parts (map render_field fs) [] = Inr fs"
    using parse_parts_fields [OF assms(1), of "[]"] fold_update_distinct [of "[]" fs] assms(2) by simp
  ultimately show ?thesis by (simp add: parseXFCCFields_def)
qed

theorem xfcc_roundtrip_witness:
  "parseXFCCFields (render_fields [(map byte ''Cert'', map byte ''a;b\"c,d''), (map byte ''Hash'', [])])
   = Inr [(map byte ''Cert'', map byte ''a;b\"c,d''), (map byte ''Hash'', [])]"
  using xfcc_roundtrip [of "[(map byte ''Cert'', map byte ''a;b\"c,d''), (map byte ''Hash'', [])]"]
  by (simp add: field_name_def is_space_def byte_def)


text \<open>An instance of the certificate functions for closed examples: a certificate is a text of its common name.\<close>

definition doc_x509 :: x509_api where
  "doc_x509 = \<lparr>pemDecode = (\<lambda>d. Some (''CERTIFICATE'', d, [])),
     parseCertificate = (\<lambda>d. Some \<lparr>CommonName = d, Organization = [''dev''], RawDER = d\<rparr>),
     sha256Hex = (\<lambda>d. d)\<rparr>"


end
