(* ===== verification/Request.thy ===== *)
theory Request
  imports Xfcc Objects
begin

text \<open>
  internal/request: how the identity behind a request is found (bearer token, TLS client
  certificate, forwarded certificate), how impersonation headers change it after a review by the API
  server, and how the result is cached in the request context. The reviews of the API server, the
  regular expression matcher and \<^verbatim>\<open>serviceaccount.SplitUsername\<close> are arguments (\<open>auth_env\<close>).
\<close>

section \<open>Authentication types\<close>

datatype AuthType = BearerToken | TLSCertificate | Anonymous | XForwardedClientCert

fun auth_number :: "AuthType \<Rightarrow> nat" where
  "auth_number BearerToken = 0"
| "auth_number TLSCertificate = 1"
| "auth_number Anonymous = 2"
| "auth_number XForwardedClientCert = 3"

definition AuthType_name :: string where
  "AuthType_name = ''BearerTokenTLSCertificateAnonymous''"

definition AuthType_index :: "nat list" where
  "AuthType_index = [0, 11, 25, 34]"

text \<open>\<^verbatim>\<open>strconv.FormatInt\<close> in base ten.\<close>

fun format_nat :: "nat \<Rightarrow> string" where
  "format_nat n = (if n < 10 then [char_of (48 + n)] else format_nat (n div 10) @ [char_of (48 + n mod 10)])"

declare format_nat.simps [simp del]

definition AuthType_String :: "AuthType \<Rightarrow> string" where
  "AuthType_String t =
     (let i = auth_number t in
      if i \<ge> length AuthType_index - 1 then ''AuthType('' @ format_nat i @ '')''
      else drop (AuthType_index ! i) (take (AuthType_index ! (i + 1)) AuthType_name))"

section \<open>Reviews and configuration\<close>

record TokenReviewStatus =
  tr_Authenticated :: bool
  tr_Error :: string
  tr_Username :: string
  tr_Groups :: "string list"

record SubjectAccessReview =
  sar_Verb :: string
  sar_Group :: string
  sar_Version :: string
  sar_Resource :: string
  sar_Namespace :: string
  sar_Name :: string
  sar_User :: string
  sar_Groups :: "string list"

record auth_env =
  createTokenReview :: "string \<Rightarrow> error + TokenReviewStatus"
  createSAR :: "SubjectAccessReview \<Rightarrow> error + bool"
  regexpCompiles :: "string \<Rightarrow> bool"
  regexpMatch :: "string \<Rightarrow> string \<Rightarrow> bool"
  splitUsername :: "string \<Rightarrow> (string \<times> string) option"
  x509 :: x509_api

record http_config =
  authTypes :: "AuthType list"
  usernameClaimField :: string
  ignoredImpersonationGroups :: "string list"
  impersonationGroupsRegexp :: "string option"
  skipImpersonationReview :: bool
  xfcc_header :: string

abbreviation ImpersonateUserHeader :: string where "ImpersonateUserHeader \<equiv> ''Impersonate-User''"
abbreviation ImpersonateGroupHeader :: string where "ImpersonateGroupHeader \<equiv> ''Impersonate-Group''"
abbreviation ImpersonateUserExtraHeaderPrefix :: string where
  "ImpersonateUserExtraHeaderPrefix \<equiv> ''Impersonate-Extra-''"

section \<open>Impersonation headers\<close>

text \<open>
  The loop ranges over the keys of the header map while it deletes entries; each key is visited at
  most once and a key deleted before its visit has nothing left to delete.
\<close>

definition SanitizeImpersonationHeaders :: "http_request \<Rightarrow> http_request" where
  "SanitizeImpersonationHeaders r =
     (let h1 = HeaderDel (HeaderDel (Header r) ImpersonateUserHeader) ImpersonateGroupHeader in
      r\<lparr>Header := fold (\<lambda>k h. if HasPrefix k ImpersonateUserExtraHeaderPrefix then HeaderDel h k else h)
                       (map fst h1) h1\<rparr>)"

definition GetImpersonatingUser :: "http_request \<Rightarrow> string" where
  "GetImpersonatingUser r = HeaderGet (Header r) ImpersonateUserHeader"

definition filterGroups :: "auth_env \<Rightarrow> string list \<Rightarrow> string \<Rightarrow> string list" where
  "filterGroups E groups re = filter (\<lambda>g. regexpMatch E re g) groups"

definition ignoreGroups :: "auth_env \<Rightarrow> string list \<Rightarrow> string \<Rightarrow> string list" where
  "ignoreGroups E groups re = filter (\<lambda>g. \<not> regexpMatch E re g) groups"

definition GetImpersonatingGroups :: "auth_env \<Rightarrow> http_request \<Rightarrow> string list \<Rightarrow> string option \<Rightarrow> string list outcome" where
  "GetImpersonatingGroups E r ignored re =
     (let groups = HeaderValues (Header r) ImpersonateGroupHeader in
      if groups = [] then Ok groups
      else let groups' = (case re of None \<Rightarrow> groups | Some p \<Rightarrow> filterGroups E groups p) in
        if ignored = [] then Ok groups'
        else let p = Join ignored ''|'' in
          if regexpCompiles E p then Ok (ignoreGroups E groups' p) else Panic)"

section \<open>Authentication\<close>

definition websocket_prefix :: string where
  "websocket_prefix = ''base64url.bearer.authorization.k8s.io.''"

text \<open>
  The only group of \<^verbatim>\<open>websocketBearerTokenRegexp\<close>: what follows the leftmost occurrence of the
  literal prefix, up to the next comma.
\<close>

definition websocket_match :: "string \<Rightarrow> string option" where
  "websocket_match s =
     map_option (\<lambda>i. takeWhile (\<lambda>c. c \<noteq> CHR '','') (drop (i + length websocket_prefix) s)) (Index s websocket_prefix)"

definition bearerToken :: "http_request \<Rightarrow> error + string" where
  "bearerToken r =
     (let tradBearer = TrimPrefix (HeaderGet (Header r) ''Authorization'') ''Bearer '';
          wsHeader = HeaderGet (Header r) ''Sec-Websocket-Protocol'' in
      if tradBearer \<noteq> [] then Inr tradBearer
      else if wsHeader \<noteq> [] then
        (case websocket_match wsHeader of
           Some m \<Rightarrow>
             if m \<noteq> [] then
               (case RawStdDecodeString m of
                  None \<Rightarrow> Inl (ErrUnauthorized ''failed to decode websocket auth bearer'')
                | Some t \<Rightarrow> Inr t)
             else Inl (ErrUnauthorized ''Websocket Protocol token is undefined'')
         | None \<Rightarrow> Inl (ErrUnauthorized ''Websocket Protocol token is undefined''))
      else Inl (ErrUnauthorized ''no authentication headers found. Unauthenticated users are not supported''))"

definition processBearerToken :: "auth_env \<Rightarrow> http_request \<Rightarrow> error + (string \<times> string list)" where
  "processBearerToken E r =
     (case bearerToken r of
        Inl e \<Rightarrow> Inl e
      | Inr token \<Rightarrow>
          (case createTokenReview E token of
             Inl e \<Rightarrow> Inl (PlainError ''cannot create TokenReview'')
           | Inr st \<Rightarrow>
               if \<not> tr_Authenticated st then Inl (PlainError ''cannot verify the token due to error'')
               else if tr_Error st \<noteq> [] then Inl (PlainError ''cannot verify the token due to error'')
               else Inr (tr_Username st, tr_Groups st)))"

text \<open>What one authentication type makes of the request: \<^const>\<open>None\<close> lets the loop go on.\<close>

definition try_auth :: "auth_env \<Rightarrow> http_config \<Rightarrow> http_request \<Rightarrow> AuthType \<Rightarrow> (string \<times> string list) option" where
  "try_auth E c r t =
     (case t of
        BearerToken \<Rightarrow> (case processBearerToken E r of Inl e \<Rightarrow> None | Inr ug \<Rightarrow> Some ug)
      | TLSCertificate \<Rightarrow>
          (case TLSPeers r of
             None \<Rightarrow> None
           | Some [] \<Rightarrow> None
           | Some (pc # _) \<Rightarrow> Some (CommonName pc, Organization pc))
      | XForwardedClientCert \<Rightarrow> (case processXFCC (x509 E) (xfcc_header c) r of Inl e \<Rightarrow> None | Inr ug \<Rightarrow> Some ug)
      | Anonymous \<Rightarrow> None)"

fun authenticate_loop :: "auth_env \<Rightarrow> http_config \<Rightarrow> http_request \<Rightarrow> AuthType list \<Rightarrow> error + (string \<times> string list)" where
  "authenticate_loop E c r [] =
     Inl (ErrUnauthorized ''no authentication provider available. unauthenticated users not supported'')"
| "authenticate_loop E c r (t # ts) =
     (case try_auth E c r t of Some ug \<Rightarrow> Inr ug | None \<Rightarrow> authenticate_loop E c r ts)"

definition authenticate :: "auth_env \<Rightarrow> http_config \<Rightarrow> http_request \<Rightarrow> error + (string \<times> string list)" where
  "authenticate E c r = authenticate_loop E c r (authTypes c)"

section \<open>GetUserAndGroups\<close>

definition impersonate_review :: "string \<Rightarrow> string \<Rightarrow> string \<Rightarrow> string list \<Rightarrow> SubjectAccessReview" where
  "impersonate_review resource name user groups =
     \<lparr>sar_Verb = ''impersonate'', sar_Group = [], sar_Version = [], sar_Resource = resource,
      sar_Namespace = [], sar_Name = name, sar_User = user, sar_Groups = groups\<rparr>"

definition review :: "auth_env \<Rightarrow> string \<Rightarrow> string \<Rightarrow> string \<Rightarrow> string list \<Rightarrow> error option" where
  "review E resource name user groups =
     (case createSAR E (impersonate_review resource name user groups) of
        Inl e \<Rightarrow> Some e
      | Inr allowed \<Rightarrow>
          if allowed then None
          else Some (ErrUnauthorized (''the current user '' @ user @ '' cannot impersonate the ''
                 @ (if resource = ''groups'' then ''group '' else ''user '') @ name)))"

fun review_groups :: "auth_env \<Rightarrow> string list \<Rightarrow> string \<Rightarrow> string list \<Rightarrow> error option" where
  "review_groups E [] user groups = None"
| "review_groups E (g # gs) user groups =
     (case review E ''groups'' g user groups of Some e \<Rightarrow> Some e | None \<Rightarrow> review_groups E gs user groups)"

text \<open>
  The deferred assignments to the named results run last-in first-out on every return after their
  registration, the returns with an error included: first the user, then the groups.
\<close>

definition ServiceAccountGroups :: "string \<Rightarrow> string list" where
  "ServiceAccountGroups namespace =
     [''system:serviceaccounts:'' @ namespace, ''system:serviceaccounts'', ''system:authenticated'']"

definition deferred_user :: "auth_env \<Rightarrow> string \<Rightarrow> string list" where
  "deferred_user E impersonateUser =
     (case splitUsername E impersonateUser of None \<Rightarrow> [] | Some (namespace, _) \<Rightarrow> ServiceAccountGroups namespace)"

definition deferred_groups :: "string list \<Rightarrow> string \<times> string list \<times> error option \<Rightarrow> string \<times> string list \<times> error option" where
  "deferred_groups impersonateGroups res =
     (case res of (u, g, e) \<Rightarrow> (u, if impersonateGroups \<noteq> [] then impersonateGroups else g, e))"

definition GetUserAndGroups :: "auth_env \<Rightarrow> http_config \<Rightarrow> http_request \<Rightarrow> (string \<times> string list \<times> error option) outcome" where
  "GetUserAndGroups E c r =
     (case CtxUser r of
        Some (u, g) \<Rightarrow> Ok (u, g, None)
      | None \<Rightarrow>
          (case authenticate E c r of
             Inl e \<Rightarrow> Ok ([], [], Some e)
           | Inr (username, groups) \<Rightarrow>
               bind_outcome (GetImpersonatingGroups E r (ignoredImpersonationGroups c) (impersonationGroupsRegexp c))
                 (\<lambda>impersonateGroups.
                   case (if impersonateGroups \<noteq> [] \<and> \<not> skipImpersonationReview c
                         then review_groups E impersonateGroups username groups else None) of
                     Some e \<Rightarrow> Ok ([], [], Some e)
                   | None \<Rightarrow>
                       let impersonateUser = GetImpersonatingUser r in
                       Ok (deferred_groups impersonateGroups
                         (if impersonateUser \<noteq> [] then
                            (case (if skipImpersonationReview c then None
                                   else review E ''users'' impersonateUser username groups) of
                               Some e \<Rightarrow> ([], [], Some e)
                             | None \<Rightarrow> (impersonateUser, deferred_user E impersonateUser, None))
                          else (username, groups, None))))))"

definition ResolveUserAndGroups :: "auth_env \<Rightarrow> http_config \<Rightarrow> http_request \<Rightarrow> (http_request \<times> string \<times> string list) outcome" where
  "ResolveUserAndGroups E c r =
     (case CtxUser r of
        Some (u, g) \<Rightarrow> Ok (r, u, g)
      | None \<Rightarrow>
          bind_outcome (GetUserAndGroups E c r) (\<lambda>(u, g, eo).
            case eo of
              Some e \<Rightarrow> Err e
            | None \<Rightarrow> Ok (r\<lparr>CtxUser := Some (u, g)\<rparr>, u, g)))"

section \<open>Lemmas\<close>

lemma review_None_iff:
  "review E res n u g = None \<longleftrightarrow> createSAR E (impersonate_review res n u g) = Inr True"
  by (auto simp: review_def split: sum.splits if_splits)

lemma review_groups_None_iff:
  "review_groups E gs u g = None \<longleftrightarrow> (\<forall>x \<in> set gs. createSAR E (impersonate_review ''groups'' x u g) = Inr True)"
proof (induction gs)
  case (Cons x gs)
  then show ?case
    using review_None_iff [of E "''groups''" x u g] by (cases "review E ''groups'' x u g") auto
qed simp

lemma authenticate_loop_Inr_iff:
  "authenticate_loop E c r ts = Inr ug \<longleftrightarrow>
   (\<exists>pre t post. ts = pre @ t # post \<and> (\<forall>s \<in> set pre. try_auth E c r s = None) \<and> try_auth E c r t = Some ug)"
proof (induction ts)
  case Nil
  then show ?case by simp
next
  case (Cons t ts)
  show ?case
  proof (cases "try_auth E c r t")
    case None
    have "(\<exists>pre s post. t # ts = pre @ s # post \<and> (\<forall>x \<in> set pre. try_auth E c r x = None) \<and> try_auth E c r s = Some ug)
        \<longleftrightarrow> (\<exists>pre s post. ts = pre @ s # post \<and> (\<forall>x \<in> set pre. try_auth E c r x = None) \<and> try_auth E c r s = Some ug)"
      (is "?L \<longleftrightarrow> ?R")
    proof
      assume ?L
      then obtain pre s post where eq: "t # ts = pre @ s # post" and pre: "\<forall>x \<in> set pre. try_auth E c r x = None"
        and s: "try_auth E c r s = Some ug" by blast
      with None obtain pre' where "pre = t # pre'" by (cases pre) auto
      with eq pre s show ?R by auto
    next
      assume ?R
      with None show ?L by (metis append_Cons set_ConsD)
    qed
    with None Cons.IH show ?thesis by simp
  next
    case (Some ug')
    have "(\<exists>pre s post. t # ts = pre @ s # post \<and> (\<forall>x \<in> set pre. try_auth E c r x = None) \<and> try_auth E c r s = Some ug)
        \<longleftrightarrow> ug' = ug"
      using Some by (metis append_Nil empty_iff empty_set hd_append list.sel(1) list.set_sel(1)
          option.distinct(1) option.inject)
    with Some show ?thesis by simp
  qed
qed

lemma ResolveUserAndGroups_Ok:
  assumes "ResolveUserAndGroups E c r = Ok (r', u, g)" and "CtxUser r = None"
  obtains u0 g0 igs where "authenticate E c r = Inr (u0, g0)"
    and "GetImpersonatingGroups E r (ignoredImpersonationGroups c) (impersonationGroupsRegexp c) = Ok igs"
    and "r' = r\<lparr>CtxUser := Some (u, g)\<rparr>"
    and "u = (if GetImpersonatingUser r \<noteq> [] then GetImpersonatingUser r else u0)"
    and "g = (if igs \<noteq> [] then igs
              else if GetImpersonatingUser r \<noteq> [] then deferred_user E (GetImpersonatingUser r) else g0)"
    and "\<not> skipImpersonationReview c \<Longrightarrow> \<forall>x \<in> set igs. createSAR E (impersonate_review ''groups'' x u0 g0) = Inr True"
    and "\<not> skipImpersonationReview c \<Longrightarrow> GetImpersonatingUser r \<noteq> [] \<Longrightarrow>
           createSAR E (impersonate_review ''users'' (GetImpersonatingUser r) u0 g0) = Inr True"
  using assms
  by (fastforce simp: ResolveUserAndGroups_def GetUserAndGroups_def deferred_groups_def Let_def
      review_None_iff review_groups_None_iff
      split: sum.splits option.splits if_splits prod.splits)

subsection \<open>Header maps with canonical keys\<close>

text \<open>The keys of the header of a request read from the wire are canonical.\<close>

definition canonical_header :: "header \<Rightarrow> bool" where
  "canonical_header h \<longleftrightarrow> (\<forall>k \<in> fst ` set h. CanonicalMIMEHeaderKey k = k)"

lemma canonical_HeaderSet [simp]: "canonical_header h \<Longrightarrow> canonical_header (HeaderSet h k v)"
  by (auto simp: canonical_header_def HeaderSet_def dom_update)

lemma canonical_HeaderAdd [simp]: "canonical_header h \<Longrightarrow> canonical_header (HeaderAdd h k v)"
  by (auto simp: canonical_header_def HeaderAdd_def dom_update)

lemma canonical_HeaderDel [simp]: "canonical_header h \<Longrightarrow> canonical_header (HeaderDel h k)"
  by (auto simp: canonical_header_def HeaderDel_def AList.delete_eq)

definition impersonation_key :: "string \<Rightarrow> bool" where
  "impersonation_key k \<longleftrightarrow> k = ImpersonateUserHeader \<or> k = ImpersonateGroupHeader
     \<or> HasPrefix k ImpersonateUserExtraHeaderPrefix"

lemma canonical_impersonate_names [simp]:
  "CanonicalMIMEHeaderKey ImpersonateUserHeader = ImpersonateUserHeader"
  "CanonicalMIMEHeaderKey ImpersonateGroupHeader = ImpersonateGroupHeader"
  by code_simp+

lemma fold_if_HeaderDel:
  "fold (\<lambda>k h. if P k then HeaderDel h k else h) ks h = fold (\<lambda>k h. HeaderDel h k) (filter P ks) h"
  by (induction ks arbitrary: h) auto

lemma fold_HeaderDel_canonical:
  "\<forall>k \<in> set ks. CanonicalMIMEHeaderKey k = k \<Longrightarrow> fold (\<lambda>k h. HeaderDel h k) ks h = fold AList.delete ks h"
  by (induction ks arbitrary: h) (auto simp: HeaderDel_def)

lemma map_of_fold_delete: "map_of (fold AList.delete ks m) k = (if k \<in> set ks then None else map_of m k)"
  by (induction ks arbitrary: m) (auto simp: delete_conv')

text \<open>After sanitising, the map holds exactly the entries that are not impersonation headers.\<close>

lemma Sanitize_map_of:
  assumes "canonical_header (Header r)"
  shows "map_of (Header (SanitizeImpersonationHeaders r)) k =
     (if impersonation_key k then None else map_of (Header r) k)"
proof -
  let ?h1 = "HeaderDel (HeaderDel (Header r) ImpersonateUserHeader) ImpersonateGroupHeader"
  let ?ks = "filter (\<lambda>k. HasPrefix k ImpersonateUserExtraHeaderPrefix) (map fst ?h1)"
  have h1: "map_of ?h1 k = (if k = ImpersonateUserHeader \<or> k = ImpersonateGroupHeader then None else map_of (Header r) k)"
    by (simp add: HeaderDel_def delete_conv')
  have "canonical_header ?h1" using assms by simp
  then have ks: "\<forall>k \<in> set ?ks. CanonicalMIMEHeaderKey k = k" by (auto simp: canonical_header_def)
  have "map_of (Header (SanitizeImpersonationHeaders r)) k = (if k \<in> set ?ks then None else map_of ?h1 k)"
    by (simp add: SanitizeImpersonationHeaders_def Let_def fold_if_HeaderDel fold_HeaderDel_canonical [OF ks]
        map_of_fold_delete)
  also have "\<dots> = (if impersonation_key k then None else map_of (Header r) k)"
  proof (cases "HasPrefix k ImpersonateUserExtraHeaderPrefix")
    case True
    then have "k \<notin> set ?ks \<Longrightarrow> map_of ?h1 k = None" by (auto simp: map_of_eq_None_iff)
    with True show ?thesis by (auto simp: impersonation_key_def)
  next
    case False
    then show ?thesis by (auto simp: impersonation_key_def h1)
  qed
  finally show ?thesis .
qed

lemma Index_HasPrefix: "HasPrefix s p \<Longrightarrow> Index s p = Some 0"
  by (cases s) (auto simp: HasPrefix_def)

lemma websocket_match_prefix:
  assumes "CHR '','' \<notin> set t" and "rest = [] \<or> hd rest = CHR '',''"
  shows "websocket_match (websocket_prefix @ t @ rest) = Some t"
proof -
  have "takeWhile (\<lambda>c. c \<noteq> CHR '','') (t @ rest) = t"
    using assms by (cases rest) (auto simp: takeWhile_append)
  then show ?thesis by (simp add: websocket_match_def Index_HasPrefix)
qed

lemma comma_notin_b64: "CHR '','' \<notin> set (RawStdEncodeToString s)"
  using b64_sextets_lt [of "map byte s"] b64_value_char
  by (force simp: RawStdEncodeToString_def)

section \<open>A concrete environment\<close>

text \<open>
  An instance of the parameters for closed examples: a token names its user, the user
  \<^verbatim>\<open>admin\<close> may impersonate anybody, a pattern is a list of literals separated by bars, and a
  certificate is a text of the common name.
\<close>

definition doc_splitUsername :: "string \<Rightarrow> (string \<times> string) option" where
  "doc_splitUsername u =
     (if HasPrefix u ''system:serviceaccount:''
      then (case Split (TrimPrefix u ''system:serviceaccount:'') (CHR '':'') of
              [ns, n] \<Rightarrow> if ns = '''' \<or> n = '''' then None else Some (ns, n)
            | _ \<Rightarrow> None)
      else None)"

definition doc_env :: auth_env where
  "doc_env = \<lparr>createTokenReview = (\<lambda>t. Inr \<lparr>tr_Authenticated = (t \<noteq> ''bad''), tr_Error = '''', tr_Username = t, tr_Groups = [''dev'']\<rparr>),
     createSAR = (\<lambda>s. Inr (sar_User s = ''admin'')), regexpCompiles = (\<lambda>_. True),
     regexpMatch = (\<lambda>p s. s \<in> set (Split p (CHR ''|''))), splitUsername = doc_splitUsername, x509 = doc_x509\<rparr>"

definition doc_config :: http_config where
  "doc_config = \<lparr>authTypes = [TLSCertificate, BearerToken], usernameClaimField = ''preferred_username'',
     ignoredImpersonationGroups = [], impersonationGroupsRegexp = None, skipImpersonationReview = False,
     xfcc_header = ''X-Forwarded-Client-Cert''\<rparr>"

definition doc_request :: "header \<Rightarrow> http_request" where
  "doc_request h = \<lparr>Method = MethodGet, URLPath = ''/api/v1/nodes'', URLQuery = [], Header = h, Vars = [],
     RemoteAddr = ''10.0.0.1:4711'', TLSPeers = None, CtxUser = None\<rparr>"

lemmas doc_request_defs = doc_env_def doc_config_def doc_request_def doc_x509_def doc_splitUsername_def

section \<open>Properties\<close>

text \<open>
  C2: no impersonation without a review under the identity that was authenticated. When an identity is
  resolved, some authentication type produced a user and groups; unless reviews are switched off,
  every group that is taken over from the impersonation header, and the user if one is named there, was
  allowed by an access review that carries the authenticated user and groups, not the requested ones.
\<close>

theorem impersonation_reviewed:
  assumes "ResolveUserAndGroups E c r = Ok (r', u, g)" and "CtxUser r = None" and "\<not> skipImpersonationReview c"
  shows "\<exists>u0 g0. authenticate E c r = Inr (u0, g0)
    \<and> (u = u0 \<or> u = GetImpersonatingUser r \<and> createSAR E (impersonate_review ''users'' u u0 g0) = Inr True)
    \<and> (g = g0 \<or> (\<forall>x \<in> set g. createSAR E (impersonate_review ''groups'' x u0 g0) = Inr True)
        \<or> u = GetImpersonatingUser r \<and> g = deferred_user E u)"
proof -
  show ?thesis
    using assms(1,2)
  proof (rule ResolveUserAndGroups_Ok, goal_cases)
    case (1 u0 g0 igs)
    then show ?case using assms(3) by (intro exI [of _ u0] exI [of _ g0]) (auto split: if_splits)
  qed
qed

definition doc_admin_request :: http_request where
  "doc_admin_request = doc_request [(''Authorization'', [''Bearer admin'']), (''Impersonate-User'', [''bob'']), (''Impersonate-Group'', [''ops''])]"

lemma canonical_names [simp]:
  "CanonicalMIMEHeaderKey ''Authorization'' = ''Authorization''"
  "CanonicalMIMEHeaderKey ''Sec-Websocket-Protocol'' = ''Sec-Websocket-Protocol''"
  by code_simp+

lemmas doc_eval = doc_request_defs doc_admin_request_def HeaderGet_def HeaderValues_def alist_values_def first_value_def

lemma doc_admin_auth: "authenticate doc_env doc_config doc_admin_request = Inr (''admin'', [''dev''])"
  by (simp add: authenticate_def try_auth_def processBearerToken_def bearerToken_def TrimPrefix_def HasPrefix_def doc_eval)

lemma doc_admin_groups: "GetImpersonatingGroups doc_env doc_admin_request [] None = Ok [''ops'']"
  by (simp add: GetImpersonatingGroups_def doc_eval)

lemma doc_admin_user: "GetImpersonatingUser doc_admin_request = ''bob''"
  by (simp add: GetImpersonatingUser_def doc_eval)

lemma doc_admin_resolve:
  "ResolveUserAndGroups doc_env doc_config doc_admin_request = Ok (doc_admin_request\<lparr>CtxUser := Some (''bob'', [''ops''])\<rparr>, ''bob'', [''ops''])"
proof -
  have "CtxUser doc_admin_request = None" and "ignoredImpersonationGroups doc_config = []" and "impersonationGroupsRegexp doc_config = None"
    by (simp_all add: doc_eval)
  moreover have "review doc_env res n ''admin'' [''dev''] = None" for res n
    by (simp add: review_None_iff impersonate_review_def doc_env_def)
  ultimately show ?thesis
    by (simp add: ResolveUserAndGroups_def GetUserAndGroups_def doc_admin_auth doc_admin_groups doc_admin_user deferred_groups_def)
qed

theorem impersonation_reviewed_witness:
  "\<exists>u0 g0. authenticate doc_env doc_config doc_admin_request = Inr (u0, g0)
     \<and> (''bob'' = u0 \<or> createSAR doc_env (impersonate_review ''users'' ''bob'' u0 g0) = Inr True)"
  using impersonation_reviewed [OF doc_admin_resolve] by (auto simp: doc_eval)


text \<open>
  C32: a bearer token sent as a websocket subprotocol is read back: a request without an
  \<^verbatim>\<open>Authorization\<close> header whose subprotocol value carries the encoded token, alone or followed by a
  comma and other protocols, yields that token.
\<close>

theorem websocket_token_roundtrip:
  assumes "HeaderGet (Header r) ''Authorization'' = []" and "t \<noteq> []"
    and "HeaderGet (Header r) ''Sec-Websocket-Protocol'' =
      ''base64url.bearer.authorization.k8s.io.'' @ RawStdEncodeToString t @ rest"
    and "rest = [] \<or> hd rest = CHR '',''"
  shows "bearerToken r = Inr t"
proof -
  have "websocket_match (websocket_prefix @ RawStdEncodeToString t @ rest) = Some (RawStdEncodeToString t)"
    using comma_notin_b64 assms(4) by (rule websocket_match_prefix)
  moreover have "RawStdEncodeToString t \<noteq> []"
  proof
    assume "RawStdEncodeToString t = []"
    then have "RawStdDecodeString (RawStdEncodeToString t) = RawStdDecodeString (RawStdEncodeToString [])"
      by (simp add: RawStdEncodeToString_def)
    then show False using RawStd_roundtrip assms(2) by (metis option.inject)
  qed
  ultimately show ?thesis
    using assms(1,3) RawStd_roundtrip [of t]
    by (simp add: bearerToken_def Let_def TrimPrefix_def HasPrefix_def websocket_prefix_def)
qed

theorem websocket_token_roundtrip_witness:
  "bearerToken (doc_request [(''Sec-Websocket-Protocol'',
      [''base64url.bearer.authorization.k8s.io.'' @ RawStdEncodeToString ''abc'' @ '',v4.channel.k8s.io''])]) = Inr ''abc''"
  by (rule websocket_token_roundtrip [where rest = "'',v4.channel.k8s.io''"]) (simp_all add: doc_eval)

end
