(* ===== verification/Reflector.thy ===== *)
theory Reflector
  imports Request "HOL-Library.Word" "HOL-Library.Multiset"
begin

text \<open>
  internal/controllers/role_bindings.go: the role binding reflector. It reads RoleBindings through
  two subject indexes, Roles, ClusterRoles and Namespaces of the informer cache, resolves them to
  namespaces or tenant names, and keeps the tenant names in a result cache that is invalidated by a
  64-bit generation counter. The informer cache is the argument \<open>rbac_reader\<close>; the concurrent use of
  the reflector is a step relation on the shared state.
\<close>

section \<open>Objects and the informer cache\<close>

record Subject =
  s_Kind :: string
  s_Namespace :: string
  s_Name :: string

record RoleBinding =
  rb_Namespace :: string
  rb_Name :: string
  rb_Labels :: labels
  rb_Subjects :: "Subject list"
  rb_RefAPIGroup :: string
  rb_RefKind :: string
  rb_RefName :: string

record PolicyRule =
  pr_Verbs :: "string list"
  pr_APIGroups :: "string list"
  pr_Resources :: "string list"
  pr_ResourceNames :: "string list"

text \<open>
  \<open>listBindings\<close> lists by index name and key, \<open>getRole\<close> reads by namespace and name. The names of
  the labels are constants of the Capsule module.
\<close>

record rbac_reader =
  listBindings :: "string \<Rightarrow> string \<Rightarrow> error + RoleBinding list"
  getRole :: "string \<Rightarrow> string \<Rightarrow> error + PolicyRule list"
  getClusterRole :: "string \<Rightarrow> error + PolicyRule list"
  getNamespace :: "string \<Rightarrow> error + kobject"

record capsule_meta =
  NewTenantLabel :: string
  TenantLabel :: string
  ManagedByCapsuleLabel :: string

abbreviation subjectIndex :: string where "subjectIndex \<equiv> ''subjectIndex''"
abbreviation reflectionSubjectIndex :: string where "reflectionSubjectIndex \<equiv> ''reflectionSubjectIndex''"
abbreviation RoleBindingReflectionLabel :: string where
  "RoleBindingReflectionLabel \<equiv> ''reflection.proxy.projectcapsule.dev/enabled''"
abbreviation roleKind :: string where "roleKind \<equiv> ''Role''"
abbreviation rbacGroupName :: string where "rbacGroupName \<equiv> ''rbac.authorization.k8s.io''"
abbreviation ServiceAccountUsernamePrefix :: string where
  "ServiceAccountUsernamePrefix \<equiv> ''system:serviceaccount:''"

section \<open>Index functions\<close>

definition subject_index_key :: "Subject \<Rightarrow> string" where
  "subject_index_key s =
     Join ([s_Kind s] @ (if 0 < length (s_Namespace s) then [s_Namespace s] else []) @ [s_Name s]) ''-''"

definition OwnerRoleBindingsIndexFunc :: "RoleBinding \<Rightarrow> string list" where
  "OwnerRoleBindingsIndexFunc rb = map subject_index_key (rb_Subjects rb)"

definition ReflectionRoleBindingsIndexFunc :: "RoleBinding \<Rightarrow> string list" where
  "ReflectionRoleBindingsIndexFunc rb =
     (if (case map_of (rb_Labels rb) RoleBindingReflectionLabel of None \<Rightarrow> '''' | Some v \<Rightarrow> v) \<noteq> ''true'' then []
      else OwnerRoleBindingsIndexFunc rb)"

section \<open>Role bindings of a subject\<close>

definition subject_keys :: "auth_env \<Rightarrow> string \<Rightarrow> string list \<Rightarrow> string list outcome" where
  "subject_keys E username groups =
     bind_outcome
       (if HasPrefix username ServiceAccountUsernamePrefix then
          (case splitUsername E username of
             None \<Rightarrow> Err (PlainError ''Unable to parse serviceAccount name'')
           | Some (namespace, name) \<Rightarrow> Ok [ServiceAccountOwner @ ''-'' @ namespace @ ''-'' @ name])
        else Ok [UserOwner @ ''-'' @ username])
       (\<lambda>ks. Ok (ks @ map (\<lambda>g. GroupOwner @ ''-'' @ g) groups))"

type_synonym binding_map = "(string \<times> RoleBinding) list"

definition add_bindings :: "RoleBinding list \<Rightarrow> binding_map \<Rightarrow> binding_map" where
  "add_bindings items m = fold (\<lambda>b m. AList.update (rb_Namespace b @ ''/'' @ rb_Name b) b m) items m"

fun collect_bindings :: "rbac_reader \<Rightarrow> string \<Rightarrow> string list \<Rightarrow> binding_map \<Rightarrow> binding_map outcome" where
  "collect_bindings R indexName [] m = Ok m"
| "collect_bindings R indexName (k # ks) m =
     (case listBindings R indexName k of
        Inl e \<Rightarrow> Err (wrap ''Unable to find rolebindings in subject index'' e)
      | Inr items \<Rightarrow> collect_bindings R indexName ks (add_bindings items m))"

definition getRoleBindingsForSubject ::
    "auth_env \<Rightarrow> rbac_reader \<Rightarrow> string \<Rightarrow> string list \<Rightarrow> string \<Rightarrow> RoleBinding list outcome" where
  "getRoleBindingsForSubject E R username groups indexName =
     bind_outcome (subject_keys E username groups) (\<lambda>keys.
       bind_outcome (collect_bindings R indexName keys []) (\<lambda>m. Ok (map snd m)))"

definition GetUserNamespacesFromRequest ::
    "auth_env \<Rightarrow> http_config \<Rightarrow> rbac_reader \<Rightarrow> http_request \<Rightarrow> string list outcome" where
  "GetUserNamespacesFromRequest E c R req =
     bind_outcome (GetUserAndGroups E c req) (\<lambda>(username, groups, _).
       bind_outcome (getRoleBindingsForSubject E R username groups subjectIndex) (\<lambda>bindings.
         Ok (sets_List (map rb_Namespace bindings))))"

section \<open>Namespaces where a resource may be listed\<close>

definition matchesRBACValue :: "string list \<Rightarrow> string \<Rightarrow> bool" where
  "matchesRBACValue values requested = list_ex (\<lambda>value. value = ''*'' \<or> value = requested) values"

definition policyRuleAllows :: "PolicyRule \<Rightarrow> string \<Rightarrow> string \<Rightarrow> string \<Rightarrow> bool" where
  "policyRuleAllows rule verb apiGroup resource \<longleftrightarrow>
     length (pr_ResourceNames rule) = 0 \<and> matchesRBACValue (pr_Verbs rule) verb
     \<and> matchesRBACValue (pr_APIGroups rule) apiGroup \<and> matchesRBACValue (pr_Resources rule) resource"

record rbac_query =
  q_User :: string
  q_Groups :: "string list"
  q_Verb :: string
  q_APIGroup :: string
  q_Resource :: string

text \<open>One iteration over the bindings: the namespaces it inserts, none or the one of the binding.\<close>

definition binding_grant :: "rbac_reader \<Rightarrow> rbac_query \<Rightarrow> RoleBinding \<Rightarrow> string list outcome" where
  "binding_grant R q b =
     (if rb_RefAPIGroup b \<noteq> rbacGroupName then Ok []
      else if rb_RefKind b \<noteq> roleKind \<and> rb_RefKind b \<noteq> ''ClusterRole'' then Ok []
      else (case (if rb_RefKind b = roleKind then getRole R (rb_Namespace b) (rb_RefName b)
                  else getClusterRole R (rb_RefName b)) of
              Inl e \<Rightarrow> if is_not_found e then Ok [] else Err (wrap ''Unable to find role in cache'' e)
            | Inr rules \<Rightarrow>
                if list_ex (\<lambda>rule. policyRuleAllows rule (q_Verb q) (q_APIGroup q) (q_Resource q)) rules
                then Ok [rb_Namespace b] else Ok []))"

fun grant_loop :: "rbac_reader \<Rightarrow> rbac_query \<Rightarrow> RoleBinding list \<Rightarrow> string list \<Rightarrow> string list outcome" where
  "grant_loop R q [] namespaces = Ok namespaces"
| "grant_loop R q (b # bs) namespaces =
     bind_outcome (binding_grant R q b) (\<lambda>ns. grant_loop R q bs (namespaces @ ns))"

definition GetUserNamespacesForResource ::
    "auth_env \<Rightarrow> rbac_reader \<Rightarrow> rbac_query \<Rightarrow> string list outcome" where
  "GetUserNamespacesForResource E R q =
     bind_outcome (getRoleBindingsForSubject E R (q_User q) (q_Groups q) reflectionSubjectIndex) (\<lambda>bindings.
       bind_outcome (grant_loop R q bindings []) (\<lambda>namespaces. Ok (sets_List namespaces)))"

section \<open>Tenant names\<close>

definition reflectedTenantName :: "capsule_meta \<Rightarrow> kobject \<Rightarrow> string" where
  "reflectedTenantName M ns =
     (let value = (\<lambda>k. case map_of (o_Labels ns) k of None \<Rightarrow> '''' | Some v \<Rightarrow> v) in
      if value (NewTenantLabel M) \<noteq> '''' then value (NewTenantLabel M)
      else if value (TenantLabel M) \<noteq> '''' then value (TenantLabel M)
      else (case find (\<lambda>w. or_Kind w = ''Tenant'') (o_OwnerReferences ns) of
              Some w \<Rightarrow> or_Name w | None \<Rightarrow> ''''))"

definition namespace_tenant :: "capsule_meta \<Rightarrow> rbac_reader \<Rightarrow> string \<Rightarrow> string list outcome" where
  "namespace_tenant M R namespace =
     (case getNamespace R namespace of
        Inl e \<Rightarrow> if is_not_found e then Ok [] else Err (wrap ''Unable to find namespace in cache'' e)
      | Inr ns \<Rightarrow> let tenantName = reflectedTenantName M ns in Ok (if tenantName \<noteq> '''' then [tenantName] else []))"

fun tenant_loop :: "capsule_meta \<Rightarrow> rbac_reader \<Rightarrow> string list \<Rightarrow> string list \<Rightarrow> string list outcome" where
  "tenant_loop M R [] tenantNames = Ok tenantNames"
| "tenant_loop M R (n # ns) tenantNames =
     bind_outcome (namespace_tenant M R n) (\<lambda>ts. tenant_loop M R ns (tenantNames @ ts))"

text \<open>What \<^verbatim>\<open>GetUserTenantNamesForResource\<close> computes between its two accesses to the cache.\<close>

definition resolve_tenants :: "auth_env \<Rightarrow> capsule_meta \<Rightarrow> rbac_reader \<Rightarrow> rbac_query \<Rightarrow> string list outcome" where
  "resolve_tenants E M R q =
     bind_outcome (GetUserNamespacesForResource E R q) (\<lambda>namespaces.
       bind_outcome (tenant_loop M R namespaces []) (\<lambda>tenantNames. Ok (sets_List tenantNames)))"

section \<open>The result cache\<close>

definition reflectionResultKey :: "rbac_query \<Rightarrow> string" where
  "reflectionResultKey q =
     Join [q_User q, Join (sort (q_Groups q)) [CHR 0x00], q_Verb q, q_APIGroup q, q_Resource q] [CHR 0x01]"

record cachedReflectionResult =
  generation :: "64 word"
  tenants :: "string list"

record reflector =
  resultsGeneration :: "64 word"
  results :: "(string \<times> cachedReflectionResult) list"

definition NewReflector :: reflector where
  "NewReflector = \<lparr>resultsGeneration = 0, results = []\<rparr>"

definition cachedResult :: "reflector \<Rightarrow> string \<Rightarrow> string list option" where
  "cachedResult st key =
     (case map_of (results st) key of
        None \<Rightarrow> None
      | Some result \<Rightarrow> if generation result \<noteq> resultsGeneration st then None else Some (tenants result))"

definition resultGeneration :: "reflector \<Rightarrow> 64 word" where
  "resultGeneration st = resultsGeneration st"

definition storeResult :: "reflector \<Rightarrow> string \<Rightarrow> string list \<Rightarrow> 64 word \<Rightarrow> reflector" where
  "storeResult st key result gen =
     (if gen = resultsGeneration st
      then st\<lparr>results := AList.update key \<lparr>generation = gen, tenants = result\<rparr> (results st)\<rparr> else st)"

definition invalidateResults :: "reflector \<Rightarrow> reflector" where
  "invalidateResults st = \<lparr>resultsGeneration = resultsGeneration st + 1, results = []\<rparr>"

definition GetUserTenantNamesForResource ::
    "auth_env \<Rightarrow> capsule_meta \<Rightarrow> rbac_reader \<Rightarrow> reflector \<Rightarrow> rbac_query \<Rightarrow> string list outcome \<times> reflector" where
  "GetUserTenantNamesForResource E M R st q =
     (let cacheKey = reflectionResultKey q in
      case cachedResult st cacheKey of
        Some result \<Rightarrow> (Ok result, st)
      | None \<Rightarrow>
          let gen = resultGeneration st in
          (case resolve_tenants E M R q of
             Ok result \<Rightarrow> (Ok result, storeResult st cacheKey result gen)
           | e \<Rightarrow> (e, st)))"

section \<open>Registration of the event handlers\<close>

text \<open>
  \<^verbatim>\<open>Start\<close> adds a handler, which calls \<^verbatim>\<open>invalidateResults\<close> for every event, to the informer of each kind of object
  that a result depends on, then waits for the end of the context. The result is the list of kinds whose
  informers have the handler; \<open>ic_GetInformer\<close> and \<open>ic_AddEventHandler\<close> are the errors of the informer cache.
\<close>

record informer_cache =
  ic_GetInformer :: "string \<Rightarrow> error option"
  ic_AddEventHandler :: "string \<Rightarrow> error option"

definition reflected_kinds :: "string list" where
  "reflected_kinds = [''RoleBinding'', ''Role'', ''ClusterRole'', ''Namespace'']"

fun add_handlers :: "informer_cache \<Rightarrow> string list \<Rightarrow> string list \<Rightarrow> string list outcome" where
  "add_handlers C [] added = Ok added"
| "add_handlers C (k # ks) added =
     (case ic_GetInformer C k of
        Some e \<Rightarrow> Err e
      | None \<Rightarrow> (case ic_AddEventHandler C k of Some e \<Rightarrow> Err e | None \<Rightarrow> add_handlers C ks (added @ [k])))"

definition reflector_Start :: "informer_cache \<Rightarrow> string list outcome" where
  "reflector_Start C = add_handlers C reflected_kinds []"

text \<open>Either all four kinds are watched, or the manager gets the error of the first that cannot be.\<close>

lemma add_handlers_Ok_iff:
  "add_handlers C ks added = Ok ks' \<longleftrightarrow> ks' = added @ ks \<and> (\<forall>k \<in> set ks. ic_GetInformer C k = None \<and> ic_AddEventHandler C k = None)"
  by (induction ks arbitrary: added) (auto split: option.splits)

lemma reflector_Start_Ok_iff:
  "reflector_Start C = Ok ks \<longleftrightarrow> ks = reflected_kinds \<and> (\<forall>k \<in> set reflected_kinds. ic_GetInformer C k = None \<and> ic_AddEventHandler C k = None)"
  by (simp add: reflector_Start_def add_handlers_Ok_iff)

section \<open>Documented behaviour of the informer cache\<close>

text \<open>
  A reader answers from a store of role bindings: an index returns the bindings whose index function
  yields the key, objects are identified by namespace and name, and a read fails only because the
  object is absent.
\<close>

definition binding_key :: "RoleBinding \<Rightarrow> string" where
  "binding_key b = rb_Namespace b @ ''/'' @ rb_Name b"

definition indexes :: "RoleBinding list \<Rightarrow> rbac_reader \<Rightarrow> bool" where
  "indexes store R \<longleftrightarrow> inj_on binding_key (set store)
     \<and> (\<forall>k. listBindings R subjectIndex k = Inr (filter (\<lambda>b. k \<in> set (OwnerRoleBindingsIndexFunc b)) store))
     \<and> (\<forall>k. listBindings R reflectionSubjectIndex k = Inr (filter (\<lambda>b. k \<in> set (ReflectionRoleBindingsIndexFunc b)) store))"

definition only_not_found :: "rbac_reader \<Rightarrow> bool" where
  "only_not_found R \<longleftrightarrow>
     (\<forall>a b e. getRole R a b = Inl e \<longrightarrow> is_not_found e) \<and>
     (\<forall>a e. getClusterRole R a = Inl e \<longrightarrow> is_not_found e) \<and>
     (\<forall>a e. getNamespace R a = Inl e \<longrightarrow> is_not_found e)"

section \<open>Lemmas on the bindings of a subject\<close>

text \<open>The map holds exactly the bindings of a set, each under its own key.\<close>

definition holds :: "binding_map \<Rightarrow> RoleBinding set \<Rightarrow> bool" where
  "holds m S \<longleftrightarrow> distinct (map fst m) \<and> (\<forall>k b. map_of m k = Some b \<longleftrightarrow> k = binding_key b \<and> b \<in> S)"

lemma holds_Nil [simp]: "holds [] {}"
  by (simp add: holds_def)

lemma holds_update:
  assumes "holds m S" and "insert b S \<subseteq> U" and "inj_on binding_key U"
  shows "holds (AList.update (binding_key b) b m) (insert b S)"
proof -
  have m: "map_of m k = Some x \<longleftrightarrow> k = binding_key x \<and> x \<in> S" for k x
    using assms(1) unfolding holds_def by blast
  have "map_of (AList.update (binding_key b) b m) k = Some x \<longleftrightarrow> k = binding_key x \<and> x \<in> insert b S" for k x
  proof (cases "k = binding_key b")
    case True
    have "x \<in> S \<Longrightarrow> binding_key b = binding_key x \<Longrightarrow> x = b"
      using assms(2) inj_onD [OF assms(3), of b x] by blast
    with True show ?thesis by (auto simp: update_conv')
  next
    case False
    with m show ?thesis by (auto simp: update_conv')
  qed
  with assms(1) show ?thesis by (simp add: holds_def distinct_update)
qed

lemma holds_add_bindings:
  assumes "inj_on binding_key U"
  shows "holds m S \<Longrightarrow> set items \<union> S \<subseteq> U \<Longrightarrow> holds (add_bindings items m) (set items \<union> S)"
proof (induction items arbitrary: m S)
  case Nil
  then show ?case by (simp add: add_bindings_def)
next
  case (Cons b items)
  have "holds (AList.update (binding_key b) b m) (insert b S)"
    using Cons.prems assms by (intro holds_update) auto
  from Cons.IH [OF this] Cons.prems(2) show ?case
    by (simp add: add_bindings_def binding_key_def)
qed

lemma set_holds: "holds m S \<Longrightarrow> set (map snd m) = S"
proof -
  assume h: "holds m S"
  then have "snd ` set m = ran (map_of m)" by (simp add: holds_def ran_distinct)
  also have "\<dots> = S" using h by (auto simp: holds_def ran_def)
  finally show ?thesis by simp
qed

lemma collect_bindings_holds:
  assumes "inj_on binding_key (set store)"
    and list: "\<And>k. listBindings R idx k = Inr (filter (\<lambda>b. k \<in> set (f b)) store)"
  shows "holds m S \<Longrightarrow> S \<subseteq> set store \<Longrightarrow>
    \<exists>m'. collect_bindings R idx ks m = Ok m' \<and> holds m' ({b \<in> set store. \<exists>k \<in> set ks. k \<in> set (f b)} \<union> S)"
proof (induction ks arbitrary: m S)
  case Nil
  then show ?case by simp
next
  case (Cons k ks)
  let ?new = "filter (\<lambda>b. k \<in> set (f b)) store"
  have "holds (add_bindings ?new m) (set ?new \<union> S)"
    using Cons.prems assms(1) by (intro holds_add_bindings) auto
  from Cons.IH [OF this] Cons.prems(2) obtain m' where
    "collect_bindings R idx ks (add_bindings ?new m) = Ok m'"
    and "holds m' ({b \<in> set store. \<exists>k \<in> set ks. k \<in> set (f b)} \<union> (set ?new \<union> S))" by auto
  moreover have "{b \<in> set store. \<exists>k \<in> set ks. k \<in> set (f b)} \<union> (set ?new \<union> S)
      = {b \<in> set store. \<exists>x \<in> set (k # ks). x \<in> set (f b)} \<union> S" by auto
  ultimately show ?case by (simp add: list)
qed

text \<open>The bindings of a subject are those that the index function files under one of its keys.\<close>

lemma getRoleBindingsForSubject_spec:
  assumes inj: "inj_on binding_key (set store)"
    and list: "\<And>k. listBindings R idx k = Inr (filter (\<lambda>b. k \<in> set (f b)) store)"
    and keys: "subject_keys E u gs = Ok ks"
  shows "\<exists>bs. getRoleBindingsForSubject E R u gs idx = Ok bs
      \<and> set bs = {b \<in> set store. \<exists>k \<in> set ks. k \<in> set (f b)}"
proof -
  obtain m where "collect_bindings R idx ks [] = Ok m"
    and "holds m {b \<in> set store. \<exists>k \<in> set ks. k \<in> set (f b)}"
    using collect_bindings_holds [where f = f, OF inj list holds_Nil, of ks] by auto
  then show ?thesis using keys set_holds by (auto simp: getRoleBindingsForSubject_def)
qed

section \<open>Lemmas on the grants\<close>

definition role_rules :: "rbac_reader \<Rightarrow> RoleBinding \<Rightarrow> PolicyRule list" where
  "role_rules R b =
     (if rb_RefAPIGroup b \<noteq> rbacGroupName then []
      else if rb_RefKind b = roleKind
        then (case getRole R (rb_Namespace b) (rb_RefName b) of Inl e \<Rightarrow> [] | Inr rules \<Rightarrow> rules)
      else if rb_RefKind b = ''ClusterRole''
        then (case getClusterRole R (rb_RefName b) of Inl e \<Rightarrow> [] | Inr rules \<Rightarrow> rules)
      else [])"

definition binding_allows :: "rbac_reader \<Rightarrow> rbac_query \<Rightarrow> RoleBinding \<Rightarrow> bool" where
  "binding_allows R q b \<longleftrightarrow>
     (\<exists>rule \<in> set (role_rules R b). policyRuleAllows rule (q_Verb q) (q_APIGroup q) (q_Resource q))"

lemma binding_grant_spec:
  assumes "only_not_found R"
  shows "binding_grant R q b = Ok (if binding_allows R q b then [rb_Namespace b] else [])"
  using assms
  by (auto simp: binding_grant_def binding_allows_def role_rules_def only_not_found_def list_ex_iff
      split: sum.splits)

lemma grant_loop_spec:
  assumes "only_not_found R"
  shows "grant_loop R q bs acc = Ok (acc @ map rb_Namespace (filter (binding_allows R q) bs))"
  by (induction bs arbitrary: acc) (auto simp: binding_grant_spec [OF assms])

definition tenant_of :: "capsule_meta \<Rightarrow> rbac_reader \<Rightarrow> string \<Rightarrow> string" where
  "tenant_of M R n = (case getNamespace R n of Inl e \<Rightarrow> '''' | Inr ns \<Rightarrow> reflectedTenantName M ns)"

lemma tenant_loop_spec:
  assumes "only_not_found R"
  shows "tenant_loop M R ns acc = Ok (acc @ filter (\<lambda>t. t \<noteq> '''') (map (tenant_of M R) ns))"
  using assms
  by (induction ns arbitrary: acc) (auto simp: namespace_tenant_def tenant_of_def only_not_found_def Let_def split: sum.splits)

definition granted_bindings :: "rbac_reader \<Rightarrow> RoleBinding list \<Rightarrow> string list \<Rightarrow> rbac_query \<Rightarrow> RoleBinding list" where
  "granted_bindings R store ks q =
     filter (\<lambda>b. (\<exists>k \<in> set ks. k \<in> set (ReflectionRoleBindingsIndexFunc b)) \<and> binding_allows R q b) store"

lemma namespaces_for_resource:
  assumes "indexes store R" and nf: "only_not_found R" and keys: "subject_keys E (q_User q) (q_Groups q) = Ok ks"
  shows "GetUserNamespacesForResource E R q = Ok (sets_List (map rb_Namespace (granted_bindings R store ks q)))"
proof -
  have "inj_on binding_key (set store)"
    and "listBindings R reflectionSubjectIndex k = Inr (filter (\<lambda>b. k \<in> set (ReflectionRoleBindingsIndexFunc b)) store)" for k
    using assms(1) by (auto simp: indexes_def)
  from getRoleBindingsForSubject_spec [where f = ReflectionRoleBindingsIndexFunc, OF this keys] obtain bs where
    bs: "getRoleBindingsForSubject E R (q_User q) (q_Groups q) reflectionSubjectIndex = Ok bs"
    and set: "set bs = {b \<in> set store. \<exists>k \<in> set ks. k \<in> set (ReflectionRoleBindingsIndexFunc b)}"
    by blast
  have "sets_List (map rb_Namespace (filter (binding_allows R q) bs))
      = sets_List (map rb_Namespace (granted_bindings R store ks q))"
    using set by (intro sets_List_cong) (auto simp: granted_bindings_def)
  then show ?thesis by (simp add: GetUserNamespacesForResource_def bs grant_loop_spec [OF nf])
qed

lemma resolve_tenants_spec:
  assumes "indexes store R" and "only_not_found R" and "subject_keys E (q_User q) (q_Groups q) = Ok ks"
  shows "resolve_tenants E M R q =
     Ok (sets_List (filter (\<lambda>t. t \<noteq> '''') (map (tenant_of M R \<circ> rb_Namespace) (granted_bindings R store ks q))))"
proof -
  let ?ns = "map rb_Namespace (granted_bindings R store ks q)"
  have "sets_List (filter (\<lambda>t. t \<noteq> '''') (map (tenant_of M R) (sets_List ?ns)))
      = sets_List (filter (\<lambda>t. t \<noteq> '''') (map (tenant_of M R \<circ> rb_Namespace) (granted_bindings R store ks q)))"
    by (intro sets_List_cong) auto
  then show ?thesis
    by (simp add: resolve_tenants_def namespaces_for_resource [OF assms] tenant_loop_spec [OF assms(2)])
qed

section \<open>The key of a query\<close>

text \<open>
  The key joins the parts with the bytes 0 and 1, so it identifies a query whose names hold neither
  and whose groups have a name.
\<close>

definition plain_name :: "string \<Rightarrow> bool" where
  "plain_name s \<longleftrightarrow> CHR 0x00 \<notin> set s \<and> CHR 0x01 \<notin> set s"

definition wf_query :: "rbac_query \<Rightarrow> bool" where
  "wf_query q \<longleftrightarrow> plain_name (q_User q) \<and> list_all (\<lambda>g. g \<noteq> '''' \<and> plain_name g) (q_Groups q)
     \<and> plain_name (q_Verb q) \<and> plain_name (q_APIGroup q) \<and> plain_name (q_Resource q)"

definition same_query :: "rbac_query \<Rightarrow> rbac_query \<Rightarrow> bool" where
  "same_query q q' \<longleftrightarrow> q_User q = q_User q' \<and> mset (q_Groups q) = mset (q_Groups q')
     \<and> q_Verb q = q_Verb q' \<and> q_APIGroup q = q_APIGroup q' \<and> q_Resource q = q_Resource q'"

lemma Join_inj:
  assumes "Join ps [c] = Join qs [c]" and "\<forall>p \<in> set ps \<union> set qs. p \<noteq> [] \<and> c \<notin> set p"
  shows "ps = qs"
proof (cases "ps = [] \<or> qs = []")
  case True
  then show ?thesis using assms Join_ne [of ps "[c]"] Join_ne [of qs "[c]"] by auto
next
  case False
  then show ?thesis using assms Split_Join [of ps c] Split_Join [of qs c] by (metis UnI1 UnI2)
qed

lemma sort_eq_iff_mset: "sort xs = sort ys \<longleftrightarrow> mset xs = mset ys"
  by (metis mset_sort properties_for_sort sorted_sort)

lemma key_parts_plain:
  assumes "wf_query q"
  shows "\<forall>p \<in> set [q_User q, Join (sort (q_Groups q)) [CHR 0x00], q_Verb q, q_APIGroup q, q_Resource q].
    CHR 0x01 \<notin> set p"
proof -
  have "CHR 0x01 \<notin> set (Join (sort (q_Groups q)) [CHR 0x00])"
    using assms set_Join [of "sort (q_Groups q)" "[CHR 0x00]"]
    by (auto simp: wf_query_def plain_name_def list_all_iff)
  with assms show ?thesis by (simp add: wf_query_def plain_name_def)
qed

lemma reflectionResultKey_eq_iff:
  assumes "wf_query q" and "wf_query q'"
  shows "reflectionResultKey q = reflectionResultKey q' \<longleftrightarrow> same_query q q'"
proof
  assume eq: "reflectionResultKey q = reflectionResultKey q'"
  define c0 c1 where "c0 = (CHR 0x00 :: char)" and "c1 = (CHR 0x01 :: char)"
  define parts where "parts q = [q_User q, Join (sort (q_Groups q)) [c0], q_Verb q, q_APIGroup q, q_Resource q]" for q :: rbac_query
  have "parts q = parts q'"
    using eq key_parts_plain [OF assms(1)] key_parts_plain [OF assms(2)]
      Split_Join [of "parts q" c1] Split_Join [of "parts q'" c1]
    by (simp add: reflectionResultKey_def parts_def c0_def c1_def del: Join.simps)
  moreover have "sort (q_Groups q) = sort (q_Groups q')" if "Join (sort (q_Groups q)) [c0] = Join (sort (q_Groups q')) [c0]"
    using assms by (intro Join_inj [OF that]) (auto simp: wf_query_def plain_name_def list_all_iff c0_def)
  ultimately show "same_query q q'" by (simp add: same_query_def parts_def sort_eq_iff_mset)
next
  assume "same_query q q'"
  then show "reflectionResultKey q = reflectionResultKey q'"
    by (simp add: same_query_def reflectionResultKey_def sort_eq_iff_mset [symmetric])
qed

text \<open>The order of the groups does not change the answer.\<close>

lemma subject_keys_groups:
  "mset gs = mset gs' \<Longrightarrow> subject_keys E u gs = Ok ks \<Longrightarrow> \<exists>ks'. subject_keys E u gs' = Ok ks' \<and> set ks' = set ks"
  using mset_eq_setD [of gs gs'] by (auto simp: subject_keys_def simp del: append.simps)

lemma binding_allows_same: "same_query q q' \<Longrightarrow> binding_allows R q b = binding_allows R q' b"
  by (simp add: binding_allows_def same_query_def)

lemma resolve_tenants_same:
  assumes "indexes store R" and "only_not_found R" and same: "same_query q q'"
    and ok: "resolve_tenants E M R q = Ok r"
  shows "resolve_tenants E M R q' = Ok r"
proof -
  from ok obtain ks where ks: "subject_keys E (q_User q) (q_Groups q) = Ok ks"
    by (cases "subject_keys E (q_User q) (q_Groups q)")
       (simp_all add: resolve_tenants_def GetUserNamespacesForResource_def getRoleBindingsForSubject_def)
  from same have "q_User q' = q_User q" and "mset (q_Groups q) = mset (q_Groups q')"
    by (simp_all add: same_query_def)
  with subject_keys_groups [OF _ ks] obtain ks' where ks': "subject_keys E (q_User q') (q_Groups q') = Ok ks'"
    and "set ks' = set ks" by auto
  with same have "granted_bindings R store ks' q' = granted_bindings R store ks q"
    by (simp add: granted_bindings_def binding_allows_same [OF same])
  with ok show ?thesis
    by (simp add: resolve_tenants_spec [OF assms(1,2) ks] resolve_tenants_spec [OF assms(1,2) ks'])
qed

section \<open>The contract of the result cache\<close>

lemma of_nat_nonzero: "0 < n \<Longrightarrow> n < 2 ^ 64 \<Longrightarrow> (of_nat n :: 64 word) \<noteq> 0"
  by (auto simp: word_of_nat_eq_0_iff dest: dvd_imp_le)

text \<open>
  The four methods that lock \<^verbatim>\<open>resultsMu\<close>, as an interface: a result is stored under the generation
  its computation started with, and only while that generation is still current.
\<close>

locale result_cache =
  fixes lookup :: "'c \<Rightarrow> 'k \<Rightarrow> 'v option"
    and gen :: "'c \<Rightarrow> 64 word"
    and store :: "'c \<Rightarrow> 'k \<Rightarrow> 'v \<Rightarrow> 64 word \<Rightarrow> 'c"
    and invalidate :: "'c \<Rightarrow> 'c"
  assumes lookup_store: "lookup (store c k v g) k' = (if g = gen c \<and> k = k' then Some v else lookup c k')"
    and gen_store: "gen (store c k v g) = gen c"
    and lookup_invalidate: "lookup (invalidate c) k = None"
    and gen_invalidate: "gen (invalidate c) = gen c + 1"
begin

lemmas cache_laws = lookup_store gen_store lookup_invalidate gen_invalidate

lemma gen_invalidate_pow: "gen ((invalidate ^^ n) c) = gen c + of_nat n"
  by (induction n) (simp_all add: gen_invalidate algebra_simps)



text \<open>A result computed before \<open>n\<close> invalidations is dropped, unless the counter came full circle.\<close>

lemma stale_store_dropped:
  assumes "0 < n" and "n < 2 ^ 64"
  shows "lookup (store ((invalidate ^^ n) c) k v (gen c)) k' = None"
proof -
  from assms(1) obtain m where n: "n = Suc m" using gr0_implies_Suc by blast
  have "gen c \<noteq> gen ((invalidate ^^ n) c)"
    using of_nat_nonzero [OF assms] by (simp only: gen_invalidate_pow) simp
  then have "lookup (store ((invalidate ^^ n) c) k v (gen c)) k' = lookup ((invalidate ^^ n) c) k'"
    by (simp only: lookup_store) simp
  then show ?thesis by (simp add: n lookup_invalidate)
qed

lemma full_circle_stored: "lookup (store ((invalidate ^^ (2 ^ 64)) c) k v (gen c)) k = Some v"
  by (simp only: lookup_store gen_invalidate_pow) simp

end

interpretation rc: result_cache cachedResult resultGeneration storeResult invalidateResults
  by unfold_locales
     (auto simp: cachedResult_def resultGeneration_def storeResult_def invalidateResults_def
        update_conv' split: option.split)

section \<open>Concurrent requests and informer events\<close>

text \<open>
  Requests run \<^verbatim>\<open>GetUserTenantNamesForResource\<close> in their own goroutines while the informers change
  the cached objects and then call the event handlers, which invalidate the results. A phase says how
  far a request has come: it read nothing (\<open>Missed\<close>), read the generation (\<open>Ready\<close>), lists the index
  keys (\<open>Listing\<close>), reads the roles (\<open>Roles\<close>), reads the namespaces (\<open>Names\<close>), or has its result
  (\<open>Finished\<close>). Every read of the informer cache is a step of its own.
\<close>

datatype phase =
    Idle
  | Missed rbac_query
  | Ready rbac_query "64 word"
  | Listing rbac_query "64 word" "string list" binding_map
  | Roles rbac_query "64 word" "RoleBinding list" "string list"
  | Names rbac_query "64 word" "string list" "string list"
  | Finished rbac_query "64 word" "string list"

fun advance :: "auth_env \<Rightarrow> capsule_meta \<Rightarrow> rbac_reader \<Rightarrow> phase \<Rightarrow> phase outcome" where
  "advance E M R (Ready q g) = bind_outcome (subject_keys E (q_User q) (q_Groups q)) (\<lambda>ks. Ok (Listing q g ks []))"
| "advance E M R (Listing q g [] m) = Ok (Roles q g (map snd m) [])"
| "advance E M R (Listing q g (k # ks) m) =
     (case listBindings R reflectionSubjectIndex k of
        Inl e \<Rightarrow> Err (wrap ''Unable to find rolebindings in subject index'' e)
      | Inr items \<Rightarrow> Ok (Listing q g ks (add_bindings items m)))"
| "advance E M R (Roles q g [] ns) = Ok (Names q g (sets_List ns) [])"
| "advance E M R (Roles q g (b # bs) ns) = bind_outcome (binding_grant R q b) (\<lambda>n. Ok (Roles q g bs (ns @ n)))"
| "advance E M R (Names q g [] ts) = Ok (Finished q g (sets_List ts))"
| "advance E M R (Names q g (n # ns) ts) = bind_outcome (namespace_tenant M R n) (\<lambda>t. Ok (Names q g ns (ts @ t)))"
| "advance E M R p = Ok p"

record world =
  w_reader :: rbac_reader
  w_pending :: nat
  w_notified :: nat
  w_cache :: reflector
  w_threads :: "nat \<Rightarrow> phase"

definition initial_world :: "rbac_reader \<Rightarrow> world" where
  "initial_world R = \<lparr>w_reader = R, w_pending = 0, w_notified = 0, w_cache = NewReflector, w_threads = (\<lambda>_. Idle)\<rparr>"

text \<open>
  \<open>w_pending\<close> counts the changes of the informer cache whose event has not been handled yet,
  \<open>w_notified\<close> the events handled so far.
\<close>

inductive wstep :: "auth_env \<Rightarrow> capsule_meta \<Rightarrow> world \<Rightarrow> world \<Rightarrow> bool" for E M where
  miss: "w_threads w t = Idle \<Longrightarrow> wf_query q \<Longrightarrow> cachedResult (w_cache w) (reflectionResultKey q) = None \<Longrightarrow>
    wstep E M w (w\<lparr>w_threads := (w_threads w)(t := Missed q)\<rparr>)"
| generation: "w_threads w t = Missed q \<Longrightarrow>
    wstep E M w (w\<lparr>w_threads := (w_threads w)(t := Ready q (resultGeneration (w_cache w)))\<rparr>)"
| read: "advance E M (w_reader w) (w_threads w t) = Ok p \<Longrightarrow>
    wstep E M w (w\<lparr>w_threads := (w_threads w)(t := p)\<rparr>)"
| fail: "advance E M (w_reader w) (w_threads w t) = Err e \<Longrightarrow>
    wstep E M w (w\<lparr>w_threads := (w_threads w)(t := Idle)\<rparr>)"
| store: "w_threads w t = Finished q g r \<Longrightarrow>
    wstep E M w (w\<lparr>w_cache := storeResult (w_cache w) (reflectionResultKey q) r g,
                   w_threads := (w_threads w)(t := Idle)\<rparr>)"
| change: "wstep E M w (w\<lparr>w_reader := R, w_pending := Suc (w_pending w)\<rparr>)"
| notify: "w_pending w = Suc n \<Longrightarrow>
    wstep E M w (w\<lparr>w_cache := invalidateResults (w_cache w), w_pending := n, w_notified := Suc (w_notified w)\<rparr>)"

inductive reachable :: "auth_env \<Rightarrow> capsule_meta \<Rightarrow> world \<Rightarrow> bool" for E M where
  start: "reachable E M (initial_world R)"
| more: "reachable E M w \<Longrightarrow> wstep E M w w' \<Longrightarrow> reachable E M w'"



text \<open>What a request would still return if the informer cache did not change any more.\<close>

definition resume_names :: "capsule_meta \<Rightarrow> rbac_reader \<Rightarrow> string list \<Rightarrow> string list \<Rightarrow> string list outcome" where
  "resume_names M R ns ts = bind_outcome (tenant_loop M R ns ts) (\<lambda>ts. Ok (sets_List ts))"

definition resume_roles ::
    "capsule_meta \<Rightarrow> rbac_reader \<Rightarrow> rbac_query \<Rightarrow> RoleBinding list \<Rightarrow> string list \<Rightarrow> string list outcome" where
  "resume_roles M R q bs ns = bind_outcome (grant_loop R q bs ns) (\<lambda>ns. resume_names M R (sets_List ns) [])"

fun resume :: "auth_env \<Rightarrow> capsule_meta \<Rightarrow> rbac_reader \<Rightarrow> phase \<Rightarrow> string list outcome" where
  "resume E M R (Ready q g) = resolve_tenants E M R q"
| "resume E M R (Listing q g ks m) =
     bind_outcome (collect_bindings R reflectionSubjectIndex ks m) (\<lambda>m. resume_roles M R q (map snd m) [])"
| "resume E M R (Roles q g bs ns) = resume_roles M R q bs ns"
| "resume E M R (Names q g ns ts) = resume_names M R ns ts"
| "resume E M R (Finished q g r) = Ok r"
| "resume E M R p = Panic"

fun started :: "phase \<Rightarrow> (rbac_query \<times> 64 word) option" where
  "started (Ready q g) = Some (q, g)"
| "started (Listing q g ks m) = Some (q, g)"
| "started (Roles q g bs ns) = Some (q, g)"
| "started (Names q g ns ts) = Some (q, g)"
| "started (Finished q g r) = Some (q, g)"
| "started p = None"

fun query_of :: "phase \<Rightarrow> rbac_query option" where
  "query_of Idle = None"
| "query_of (Missed q) = Some q"
| "query_of p = map_option fst (started p)"

lemma resolve_tenants_unfold:
  "resolve_tenants E M R q = bind_outcome (subject_keys E (q_User q) (q_Groups q)) (\<lambda>ks. resume E M R (Listing q g ks []))"
  by (simp add: resolve_tenants_def GetUserNamespacesForResource_def getRoleBindingsForSubject_def bind_outcome_assoc
      resume_roles_def resume_names_def)

text \<open>A read does not change what the request returns on the same informer cache.\<close>

lemma advance_resume:
  assumes "advance E M R p = Ok p'"
  shows "resume E M R p' = resume E M R p \<and> started p' = started p \<and> query_of p' = query_of p"
  using assms
proof (cases "(E, M, R, p)" rule: advance.cases)
  case (1 E' M' R' q g)
  with assms show ?thesis by (auto simp: resolve_tenants_unfold [of E' M' R' q g])
next
  case (3 E' M' R' q g k ks m)
  with assms show ?thesis by (auto split: sum.splits)
qed (auto simp: resume_roles_def resume_names_def bind_outcome_assoc)

text \<open>
  The invariant. A request that started under the current generation returns what the informer cache
  now answers, and so does every cached result, once all events have been handled. The generation is
  the number of handled events in 64 bits.
\<close>

definition thread_ok :: "auth_env \<Rightarrow> capsule_meta \<Rightarrow> world \<Rightarrow> phase \<Rightarrow> bool" where
  "thread_ok E M w p \<longleftrightarrow>
     (\<forall>q. query_of p = Some q \<longrightarrow> wf_query q) \<and>
     (\<forall>q g. started p = Some (q, g) \<longrightarrow> (\<exists>n \<le> w_notified w. g = of_nat n \<and>
        (n = w_notified w \<and> w_pending w = 0 \<longrightarrow> resume E M (w_reader w) p = resolve_tenants E M (w_reader w) q)))"

definition entry_ok :: "auth_env \<Rightarrow> capsule_meta \<Rightarrow> rbac_reader \<Rightarrow> string \<Rightarrow> string list \<Rightarrow> bool" where
  "entry_ok E M R k r \<longleftrightarrow> (\<exists>q. wf_query q \<and> k = reflectionResultKey q \<and> resolve_tenants E M R q = Ok r)"

definition world_inv :: "auth_env \<Rightarrow> capsule_meta \<Rightarrow> world \<Rightarrow> bool" where
  "world_inv E M w \<longleftrightarrow>
     resultGeneration (w_cache w) = of_nat (w_notified w)
     \<and> (\<forall>t. thread_ok E M w (w_threads w t))
     \<and> (w_notified w < 2 ^ 64 \<longrightarrow> w_pending w = 0 \<longrightarrow>
          (\<forall>k r. cachedResult (w_cache w) k = Some r \<longrightarrow> entry_ok E M (w_reader w) k r))"

lemma world_invD:
  assumes "world_inv E M w"
  shows "resultGeneration (w_cache w) = of_nat (w_notified w)" and "thread_ok E M w (w_threads w t)"
    and "w_notified w < 2 ^ 64 \<Longrightarrow> w_pending w = 0 \<Longrightarrow> cachedResult (w_cache w) k = Some r \<Longrightarrow>
      entry_ok E M (w_reader w) k r"
  using assms by (auto simp: world_inv_def)

text \<open>Only the counters and the reader of the world matter for a thread.\<close>

lemma thread_ok_cong:
  "w_notified w' = w_notified w \<Longrightarrow> w_pending w' = w_pending w \<Longrightarrow> w_reader w' = w_reader w \<Longrightarrow>
   thread_ok E M w' p = thread_ok E M w p"
  by (simp add: thread_ok_def)

lemma thread_ok_Idle [simp]: "thread_ok E M w Idle"
  by (simp add: thread_ok_def)

lemma thread_ok_advance:
  "thread_ok E M w p \<Longrightarrow> advance E M (w_reader w) p = Ok p' \<Longrightarrow> thread_ok E M w p'"
  by (simp add: thread_ok_def advance_resume)

text \<open>A thread stays fine when the generation moves on or an event is outstanding.\<close>

lemma thread_ok_later:
  assumes "thread_ok E M w p" and "w_notified w \<le> w_notified w'"
    and "w_notified w < w_notified w' \<or> 0 < w_pending w'"
  shows "thread_ok E M w' p"
proof -
  have "\<exists>n \<le> w_notified w'. g = of_nat n \<and> \<not> (n = w_notified w' \<and> w_pending w' = 0)"
    if "started p = Some (q, g)" for q g
  proof -
    from assms(1) that obtain n where "n \<le> w_notified w" and "g = of_nat n" by (auto simp: thread_ok_def)
    with assms(2,3) show ?thesis by (intro exI [of _ n]) auto
  qed
  with assms(1) show ?thesis unfolding thread_ok_def by blast
qed

lemma world_inv_thread:
  assumes "world_inv E M w" and "thread_ok E M w p"
  shows "world_inv E M (w\<lparr>w_threads := (w_threads w)(t := p)\<rparr>)"
  using assms by (simp add: world_inv_def thread_ok_cong [of "w\<lparr>w_threads := (w_threads w)(t := p)\<rparr>" w])

lemma of_nat_64_inject: "m < 2 ^ 64 \<Longrightarrow> n < 2 ^ 64 \<Longrightarrow> (of_nat m :: 64 word) = of_nat n \<longleftrightarrow> m = n"
  by (simp add: word_of_nat_eq_iff take_bit_nat_eq_self)

lemma finished_entry:
  assumes "thread_ok E M w (Finished q g r)" and "g = of_nat (w_notified w)"
    and "w_notified w < 2 ^ 64" and "w_pending w = 0"
  shows "entry_ok E M (w_reader w) (reflectionResultKey q) r"
proof -
  from assms(1) obtain n where n: "n \<le> w_notified w" "g = of_nat n"
    and "n = w_notified w \<longrightarrow> w_pending w = 0 \<longrightarrow> resolve_tenants E M (w_reader w) q = Ok r" and "wf_query q"
    by (auto simp: thread_ok_def)
  moreover from n assms(2,3) have "n = w_notified w" using of_nat_64_inject [of n "w_notified w"] by simp
  ultimately show ?thesis using assms(4) by (auto simp: entry_ok_def)
qed

lemma world_inv_store:
  assumes "world_inv E M w" and t: "w_threads w t = Finished q g r"
  shows "world_inv E M (w\<lparr>w_cache := storeResult (w_cache w) (reflectionResultKey q) r g,
                          w_threads := (w_threads w)(t := Idle)\<rparr>)" (is "world_inv E M ?w")
proof -
  note inv = world_invD [OF assms(1)]
  have ok: "thread_ok E M w (Finished q g r)" using inv(2) [of t] t by simp
  have "entry_ok E M (w_reader w) k r'"
    if "cachedResult (w_cache ?w) k = Some r'" and "w_notified w < 2 ^ 64" and "w_pending w = 0" for k r'
  proof (cases "g = resultGeneration (w_cache w) \<and> reflectionResultKey q = k")
    case True
    with that finished_entry [OF ok] inv(1) show ?thesis by (simp add: rc.cache_laws)
  next
    case False
    with that(1) have "cachedResult (w_cache w) k = Some r'" by (auto simp: rc.cache_laws split: if_splits)
    with inv(3) that(2,3) show ?thesis by blast
  qed
  moreover have "thread_ok E M ?w (w_threads ?w s)" for s
    using inv(2) [of s] by (simp add: thread_ok_cong [of ?w w])
  ultimately show ?thesis using inv(1) by (simp add: world_inv_def rc.cache_laws)
qed

lemma world_inv_notify:
  assumes "world_inv E M w"
  shows "world_inv E M (w\<lparr>w_cache := invalidateResults (w_cache w), w_pending := n, w_notified := Suc (w_notified w)\<rparr>)"
    (is "world_inv E M ?w")
proof -
  have "thread_ok E M ?w (w_threads w t)" for t
    using world_invD(2) [OF assms, of t] by (rule thread_ok_later) simp_all
  with world_invD(1) [OF assms] show ?thesis
    by (simp add: world_inv_def rc.cache_laws)
qed

lemma world_inv_step:
  assumes "world_inv E M w" and "wstep E M w w'"
  shows "world_inv E M w'"
  using assms(2)
proof (cases rule: wstep.cases)
  case (miss t q)
  then show ?thesis using assms(1) by (auto intro!: world_inv_thread simp: thread_ok_def)
next
  case (generation t q)
  have "wf_query q" using world_invD(2) [OF assms(1), of t] generation by (simp add: thread_ok_def)
  then have "thread_ok E M w (Ready q (resultGeneration (w_cache w)))"
    using world_invD(1) [OF assms(1)] by (auto simp: thread_ok_def)
  with generation assms(1) show ?thesis by (simp add: world_inv_thread)
next
  case (read t p)
  with assms(1) show ?thesis
    using thread_ok_advance [OF world_invD(2) [OF assms(1)]] by (simp add: world_inv_thread)
next
  case (fail t e)
  with assms(1) show ?thesis by (simp add: world_inv_thread)
next
  case (store t q g r)
  with world_inv_store [OF assms(1)] show ?thesis by simp
next
  case (change R)
  have "thread_ok E M w' (w_threads w t)" for t
    using world_invD(2) [OF assms(1), of t] by (rule thread_ok_later) (simp_all add: change)
  with change world_invD(1) [OF assms(1)] show ?thesis by (simp add: world_inv_def)
next
  case (notify n)
  with world_inv_notify [OF assms(1)] show ?thesis by simp
qed

lemma reachable_inv: "reachable E M w \<Longrightarrow> world_inv E M w"
proof (induction rule: reachable.induct)
  case (start R)
  show ?case
    by (simp add: world_inv_def initial_world_def NewReflector_def resultGeneration_def cachedResult_def)
next
  case (more w w')
  then show ?case by (blast intro: world_inv_step)
qed

section \<open>An undisturbed call\<close>

definition upd_thread :: "world \<Rightarrow> nat \<Rightarrow> phase \<Rightarrow> world" where
  "upd_thread w t p = w\<lparr>w_threads := (w_threads w)(t := p)\<rparr>"

text \<open>A read in front of a run.\<close>

lemma read_run:
  assumes "advance E M (w_reader w) p = Ok p'" and "(wstep E M)\<^sup>*\<^sup>* (upd_thread w t p') z"
  shows "(wstep E M)\<^sup>*\<^sup>* (upd_thread w t p) z"
proof -
  have "wstep E M (upd_thread w t p) (upd_thread (upd_thread w t p) t p')"
    unfolding upd_thread_def by (rule wstep.read) (simp add: assms(1))
  then have "wstep E M (upd_thread w t p) (upd_thread w t p')" by (simp add: upd_thread_def)
  with assms(2) show ?thesis by (rule converse_rtranclp_into_rtranclp [rotated])
qed

lemma run_names:
  "resume_names M (w_reader w) ns ts = Ok r \<Longrightarrow> (wstep E M)\<^sup>*\<^sup>* (upd_thread w t (Names q g ns ts)) (upd_thread w t (Finished q g r))"
proof (induction ns arbitrary: ts)
  case Nil
  then show ?case by (intro read_run [of E M w _ "Finished q g r", OF _ rtranclp.rtrancl_refl]) (simp add: resume_names_def)
next
  case (Cons n ns)
  then obtain x where "namespace_tenant M (w_reader w) n = Ok x" and "resume_names M (w_reader w) ns (ts @ x) = Ok r"
    by (auto simp: resume_names_def)
  with Cons.IH show ?case by (auto intro: read_run [of E M w _ "Names q g ns (ts @ x)"])
qed

lemma run_roles:
  "resume_roles M (w_reader w) q bs ns = Ok r \<Longrightarrow> (wstep E M)\<^sup>*\<^sup>* (upd_thread w t (Roles q g bs ns)) (upd_thread w t (Finished q g r))"
proof (induction bs arbitrary: ns)
  case Nil
  then show ?case
    by (auto simp: resume_roles_def intro: read_run [of E M w _ "Names q g (sets_List ns) []", OF _ run_names])
next
  case (Cons b bs)
  then obtain x where "binding_grant (w_reader w) q b = Ok x" and "resume_roles M (w_reader w) q bs (ns @ x) = Ok r"
    by (auto simp: resume_roles_def)
  with Cons.IH show ?case by (auto intro: read_run [of E M w _ "Roles q g bs (ns @ x)"])
qed

lemma run_listing:
  "resume E M (w_reader w) (Listing q g ks m) = Ok r \<Longrightarrow>
   (wstep E M)\<^sup>*\<^sup>* (upd_thread w t (Listing q g ks m)) (upd_thread w t (Finished q g r))"
proof (induction ks arbitrary: m)
  case Nil
  then show ?case by (auto intro: read_run [of E M w _ "Roles q g (map snd m) []", OF _ run_roles])
next
  case (Cons k ks)
  then obtain items where "listBindings (w_reader w) reflectionSubjectIndex k = Inr items"
    and "resume E M (w_reader w) (Listing q g ks (add_bindings items m)) = Ok r"
    by (auto split: sum.splits)
  with Cons.IH show ?case by (auto intro: read_run [of E M w _ "Listing q g ks (add_bindings items m)"])
qed

lemma run_resolve:
  assumes "resolve_tenants E M (w_reader w) q = Ok r"
  shows "(wstep E M)\<^sup>*\<^sup>* (upd_thread w t (Ready q g)) (upd_thread w t (Finished q g r))"
proof -
  from assms obtain ks where ks: "subject_keys E (q_User q) (q_Groups q) = Ok ks"
    and r: "resume E M (w_reader w) (Listing q g ks []) = Ok r"
    unfolding resolve_tenants_unfold [of E M "w_reader w" q g]
    by (cases "subject_keys E (q_User q) (q_Groups q)") (simp_all del: resume.simps)
  have "advance E M (w_reader w) (Ready q g) = Ok (Listing q g ks [])" by (simp add: ks)
  then show ?thesis by (rule read_run [OF _ run_listing [OF r]])
qed

text \<open>A call that nothing disturbs is a run of the machine: it leaves the cache the sequential function leaves.\<close>

lemma run_call:
  assumes idle: "w_threads w t = Idle" and wf: "wf_query q"
    and call: "GetUserTenantNamesForResource E M (w_reader w) (w_cache w) q = (Ok r, st)"
  shows "(wstep E M)\<^sup>*\<^sup>* w (w\<lparr>w_cache := st\<rparr>)"
proof (cases "cachedResult (w_cache w) (reflectionResultKey q)")
  case (Some x)
  with call have "st = w_cache w" by (simp add: GetUserTenantNamesForResource_def)
  then show ?thesis by simp
next
  case None
  let ?g = "resultGeneration (w_cache w)"
  from None call have r: "resolve_tenants E M (w_reader w) q = Ok r"
    and st: "st = storeResult (w_cache w) (reflectionResultKey q) r ?g"
    by (auto simp: GetUserTenantNamesForResource_def Let_def split: outcome.splits)
  have "wstep E M w (upd_thread w t (Missed q))"
    unfolding upd_thread_def using idle wf None by (rule wstep.miss)
  moreover have "wstep E M (upd_thread w t (Missed q)) (upd_thread w t (Ready q ?g))"
    using wstep.generation [of "upd_thread w t (Missed q)" t q E M] by (simp add: upd_thread_def)
  moreover have "wstep E M (upd_thread w t (Finished q ?g r)) (w\<lparr>w_cache := st\<rparr>)"
  proof -
    have "(w_threads w)(t := Idle) = w_threads w" using idle by (simp add: fun_upd_idem)
    then show ?thesis
      using wstep.store [of "upd_thread w t (Finished q ?g r)" t q ?g r E M] by (simp add: st upd_thread_def)
  qed
  ultimately show ?thesis
    using run_resolve [OF r, of t ?g] by (meson converse_rtranclp_into_rtranclp rtranclp.rtrancl_into_rtrancl)
qed

section \<open>Termination under interference\<close>

text \<open>
  How much a request still has to read: the phase first, then the length of the list it works on. A read
  of a changed informer cache may lengthen the lists of later phases, never the current one.
\<close>

fun remaining :: "phase \<Rightarrow> nat \<times> nat" where
  "remaining (Ready q g) = (4, 0)"
| "remaining (Listing q g ks m) = (3, length ks)"
| "remaining (Roles q g bs ns) = (2, length bs)"
| "remaining (Names q g ns ts) = (1, length ns)"
| "remaining p = (0, 0)"

lemma advance_remaining:
  "advance E M R p = Ok p' \<Longrightarrow> remaining p \<noteq> (0, 0) \<Longrightarrow> (remaining p', remaining p) \<in> less_than <*lex*> less_than"
  by (cases "(E, M, R, p)" rule: advance.cases) (auto split: sum.splits)

lemma remaining_finished: "remaining p = (0, 0) \<Longrightarrow> started p = Some (q, g) \<Longrightarrow> \<exists>r. p = Finished q g r"
  by (cases p) auto

lemma advance_Ok:
  assumes "indexes store R" and "only_not_found R" and "subject_keys E (q_User q) (q_Groups q) = Ok ks" and "started p = Some (q, g)"
  shows "\<exists>p'. advance E M R p = Ok p'"
  using assms
  by (cases "(E, M, R, p)" rule: advance.cases)
     (auto simp: indexes_def binding_grant_spec namespace_tenant_def only_not_found_def Let_def split: sum.splits)

lemma reads_end:
  assumes ok: "\<And>i. indexes (stores i) (Rs i) \<and> only_not_found (Rs i)" and keys: "subject_keys E (q_User q) (q_Groups q) = Ok ks"
    and step: "\<And>i p. advance E M (Rs i) (ps i) = Ok p \<Longrightarrow> ps (Suc i) = p"
    and start: "started (ps i) = Some (q, g)"
  shows "\<exists>k r. ps k = Finished q g r"
  using start
proof (induction "remaining (ps i)" arbitrary: i rule: wf_induct_rule [OF wf_lex_prod [OF wf_less_than wf_less_than]])
  case 1
  show ?case
  proof (cases "remaining (ps i) = (0, 0)")
    case True
    then show ?thesis using remaining_finished 1(2) by blast
  next
    case False
    from ok keys 1(2) obtain p where p: "advance E M (Rs i) (ps i) = Ok p" using advance_Ok by blast
    then have "(remaining (ps (Suc i)), remaining (ps i)) \<in> less_than <*lex*> less_than" "started (ps (Suc i)) = Some (q, g)"
      using False advance_remaining step [OF p] advance_resume [OF p] 1(2) by auto
    then show ?thesis by (rule 1(1))
  qed
qed

section \<open>A concrete informer cache\<close>

definition doc_reader :: "RoleBinding list \<Rightarrow> rbac_reader" where
  "doc_reader store =
     \<lparr>listBindings = (\<lambda>idx k. Inr (filter (\<lambda>b. k \<in> set (if idx = subjectIndex then OwnerRoleBindingsIndexFunc b
                                                         else ReflectionRoleBindingsIndexFunc b)) store)),
      getRole = (\<lambda>ns n. if n = ''pod-reader''
                  then Inr [\<lparr>pr_Verbs = [''get'', ''list''], pr_APIGroups = [''''], pr_Resources = [''pods''], pr_ResourceNames = []\<rparr>]
                  else Inl (NotFoundAPI n)),
      getClusterRole = (\<lambda>n. Inl (NotFoundAPI n)),
      getNamespace = (\<lambda>n. Inr \<lparr>o_Name = n, o_Labels = [], o_OwnerReferences = [\<lparr>or_Kind = ''Tenant'', or_Name = ''oil''\<rparr>]\<rparr>)\<rparr>"

definition doc_binding :: "string \<Rightarrow> Subject \<Rightarrow> RoleBinding" where
  "doc_binding ns s = \<lparr>rb_Namespace = ns, rb_Name = ''readers'', rb_Labels = [(RoleBindingReflectionLabel, ''true'')],
     rb_Subjects = [s], rb_RefAPIGroup = rbacGroupName, rb_RefKind = roleKind, rb_RefName = ''pod-reader''\<rparr>"

definition doc_alice :: Subject where
  "doc_alice = \<lparr>s_Kind = ''User'', s_Namespace = '''', s_Name = ''alice''\<rparr>"

definition doc_store :: "RoleBinding list" where
  "doc_store = [doc_binding ''oil-dev'' doc_alice]"

definition doc_meta :: capsule_meta where
  "doc_meta = \<lparr>NewTenantLabel = ''new'', TenantLabel = ''old'', ManagedByCapsuleLabel = ''managed''\<rparr>"

definition doc_query :: "string \<Rightarrow> rbac_query" where
  "doc_query u = \<lparr>q_User = u, q_Groups = [''dev''], q_Verb = ''list'', q_APIGroup = '''', q_Resource = ''pods''\<rparr>"

lemmas doc_reader_defs = doc_reader_def doc_binding_def doc_store_def doc_alice_def doc_meta_def doc_query_def

lemma doc_indexes: "indexes doc_store (doc_reader doc_store)"
  by (simp add: indexes_def doc_store_def doc_reader_def)

lemma doc_only_not_found: "only_not_found (doc_reader store)"
  by (simp add: only_not_found_def doc_reader_def)

lemma doc_keys: "subject_keys doc_env ''alice'' [''dev''] = Ok [''User-alice'', ''Group-dev'']"
  by (simp add: subject_keys_def HasPrefix_def)

lemma reachable_run: "(wstep E M)\<^sup>*\<^sup>* w w' \<Longrightarrow> reachable E M w \<Longrightarrow> reachable E M w'"
  by (induction rule: rtranclp_induct) (auto intro: reachable.more)

lemma doc_resolve: "resolve_tenants doc_env doc_meta (doc_reader doc_store) (doc_query ''alice'') = Ok [''oil'']"
  using doc_keys
  by (subst resolve_tenants_spec [OF doc_indexes doc_only_not_found, of doc_env _ "[''User-alice'', ''Group-dev'']"])
     (simp_all add: granted_bindings_def binding_allows_def role_rules_def policyRuleAllows_def matchesRBACValue_def
        tenant_of_def reflectedTenantName_def ReflectionRoleBindingsIndexFunc_def OwnerRoleBindingsIndexFunc_def
        subject_index_key_def doc_reader_defs sets_List_def)

text \<open>The cache after one call for the example query, which found it empty.\<close>

definition doc_cache :: reflector where
  "doc_cache = storeResult NewReflector (reflectionResultKey (doc_query ''alice'')) [''oil''] 0"

lemma doc_wf_query: "wf_query (doc_query ''alice'')"
  by (simp add: wf_query_def doc_query_def plain_name_def)

lemma doc_call:
  "GetUserTenantNamesForResource doc_env doc_meta (doc_reader doc_store) NewReflector (doc_query ''alice'') = (Ok [''oil''], doc_cache)"
  by (simp add: GetUserTenantNamesForResource_def doc_resolve doc_cache_def NewReflector_def cachedResult_def resultGeneration_def)

section \<open>Properties\<close>

text \<open>
  C4: after the handlers have run for every change of the informer cache, a call of
  \<^verbatim>\<open>GetUserTenantNamesForResource\<close> returns what the informer cache answers now, whether the result
  comes from the result cache or is computed: no interleaving of requests, changes and events leaves
  a stale result behind. It holds for fewer than \<open>2 ^ 64\<close> events, since the generation wraps around.
\<close>

theorem reflector_fresh:
  assumes "reachable E M w" and "w_pending w = 0" and "w_notified w < 2 ^ 64"
    and "indexes store (w_reader w)" and "only_not_found (w_reader w)" and "wf_query q"
  shows "fst (GetUserTenantNamesForResource E M (w_reader w) (w_cache w) q) = resolve_tenants E M (w_reader w) q"
proof (cases "cachedResult (w_cache w) (reflectionResultKey q)")
  case None
  then show ?thesis by (simp add: GetUserTenantNamesForResource_def Let_def split: outcome.split)
next
  case (Some r)
  from world_invD(3) [OF reachable_inv [OF assms(1)] assms(3,2) Some]
  obtain q' where "wf_query q'" and "reflectionResultKey q = reflectionResultKey q'"
    and r: "resolve_tenants E M (w_reader w) q' = Ok r" by (auto simp: entry_ok_def)
  with assms(6) have "same_query q' q" by (metis reflectionResultKey_eq_iff)
  from resolve_tenants_same [OF assms(4,5) this r] Some show ?thesis
    by (simp add: GetUserTenantNamesForResource_def)
qed

theorem reflector_fresh_witness:
  "cachedResult doc_cache (reflectionResultKey (doc_query ''alice'')) = Some [''oil'']
   \<and> fst (GetUserTenantNamesForResource doc_env doc_meta (doc_reader doc_store) doc_cache (doc_query ''alice''))
     = resolve_tenants doc_env doc_meta (doc_reader doc_store) (doc_query ''alice'')"
proof -
  let ?w = "(initial_world (doc_reader doc_store))\<lparr>w_cache := doc_cache\<rparr>"
  have "reachable doc_env doc_meta ?w"
    using run_call [of "initial_world (doc_reader doc_store)" 0 "doc_query ''alice''" doc_env doc_meta "[''oil'']" doc_cache]
    by (intro reachable_run [OF _ reachable.start]) (simp add: initial_world_def doc_wf_query doc_call)
  then have "fst (GetUserTenantNamesForResource doc_env doc_meta (w_reader ?w) (w_cache ?w) (doc_query ''alice''))
     = resolve_tenants doc_env doc_meta (w_reader ?w) (doc_query ''alice'')"
    by (rule reflector_fresh [where store = doc_store]) (simp_all add: initial_world_def doc_indexes doc_only_not_found doc_wf_query)
  then show ?thesis by (simp add: initial_world_def doc_cache_def cachedResult_def storeResult_def NewReflector_def)
qed

text \<open>
  C21: a request that computes while \<open>n\<close> events invalidate the results cannot store what it computed
  from the old objects, for any \<open>n\<close> short of a full turn of the 64-bit generation counter.
\<close>

theorem stale_result_dropped:
  assumes "0 < n" and "n < 2 ^ 64"
  shows "cachedResult (storeResult ((invalidateResults ^^ n) st) k r (resultGeneration st)) k' = None"
  using assms by (rule rc.stale_store_dropped)

theorem stale_result_dropped_witness:
  "cachedResult (storeResult (invalidateResults doc_cache) ''k'' [''oil''] (resultGeneration doc_cache)) ''k'' = None"
  using stale_result_dropped [of 1 doc_cache "''k''" "[''oil'']" "''k''"] by simp



text \<open>
  C23: a request that resolves tenants ends with a result, whatever the informers do meanwhile. The informer
  cache may have any contents at each read of the request: some read finds it finished, for the query and
  the generation it started with. The lists it works through may grow between the reads, but only before
  it starts on them.
\<close>

theorem resolution_terminates:
  assumes "ps 0 = Ready q g" and "\<forall>i p. advance E M (Rs i) (ps i) = Ok p \<longrightarrow> ps (Suc i) = p"
    and "\<forall>i. indexes (stores i) (Rs i) \<and> only_not_found (Rs i)" and "subject_keys E (q_User q) (q_Groups q) = Ok ks"
  shows "\<exists>k r. ps k = Finished q g r"
  using reads_end [of stores Rs E q ks M ps 0 g] assms by auto

theorem resolution_terminates_witness:
  "\<exists>k r. ((\<lambda>p. case advance doc_env doc_meta (doc_reader doc_store) p of Ok p' \<Rightarrow> p' | _ \<Rightarrow> p) ^^ k) (Ready (doc_query ''alice'') 0)
     = Finished (doc_query ''alice'') 0 r"
  by (rule resolution_terminates [where E = doc_env and M = doc_meta and Rs = "\<lambda>_. doc_reader doc_store" and stores = "\<lambda>_. doc_store"
      and ks = "[''User-alice'', ''Group-dev'']"])
     (simp_all add: doc_indexes doc_only_not_found doc_keys, simp add: doc_query_def doc_keys)



text \<open>
  An example: the index key of a service account joins namespace and name with a hyphen, which both may
  contain: a binding for the account \<open>c\<close> of the namespace \<open>a-b\<close> makes its namespace appear in the list
  of the account \<open>b-c\<close> of the namespace \<open>a\<close>, which is not a subject of any binding.
\<close>

lemma service_account_collision:
  "GetUserNamespacesForResource doc_env
     (doc_reader [doc_binding ''oil-dev'' \<lparr>s_Kind = ''ServiceAccount'', s_Namespace = ''a-b'', s_Name = ''c''\<rparr>])
     \<lparr>q_User = ''system:serviceaccount:a:b-c'', q_Groups = [], q_Verb = ''list'', q_APIGroup = '''', q_Resource = ''pods''\<rparr>
   = Ok [''oil-dev'']"
  by (simp add: GetUserNamespacesForResource_def getRoleBindingsForSubject_def subject_keys_def HasPrefix_def
      doc_env_def doc_splitUsername_def TrimPrefix_def add_bindings_def binding_grant_def policyRuleAllows_def
      matchesRBACValue_def ReflectionRoleBindingsIndexFunc_def OwnerRoleBindingsIndexFunc_def subject_index_key_def
      doc_reader_defs sets_List_def)

end
