(* ===== verification/Modules.thy ===== *)
theory Modules
  imports ClusterScoped Reflector
begin

text \<open>
  internal/modules: the handlers for namespaces, tenants, the generic namespaced resources, nodes and
  node metrics, runtime classes and persistent volumes. A handler answers with a label selector the
  proxy adds to the request, with no selector, or with an error. The handlers that filter by class
  names are in the theory Classes.
\<close>

record module_env =
  m_labels :: labels_api
  m_auth :: auth_env
  m_config :: http_config
  m_reader :: api_reader
  m_meta :: capsule_meta
  m_tenantTypeLabel :: string

abbreviation LabelMetadataName :: string where "LabelMetadataName \<equiv> ''kubernetes.io/metadata.name''"
abbreviation LabelHostname :: string where "LabelHostname \<equiv> ''kubernetes.io/hostname''"
abbreviation CapsuleGroup :: string where "CapsuleGroup \<equiv> ''capsule.clastix.io''"

text \<open>An error of a helper that the handler reports as a bad request.\<close>

fun bad_request :: "string \<times> string \<Rightarrow> 'a outcome \<Rightarrow> 'a outcome" where
  "bad_request gk (Ok x) = Ok x"
| "bad_request gk (Err e) = Err (NewBadRequest e gk)"
| "bad_request gk Panic = Panic"

fun lift_sum :: "error + 'a \<Rightarrow> 'a outcome" where
  "lift_sum (Inl e) = Err e"
| "lift_sum (Inr x) = Ok x"

text \<open>The requirement for a list of names, or the one that nothing satisfies.\<close>

definition names_requirement :: "labels_api \<Rightarrow> string \<Rightarrow> string list \<Rightarrow> error + requirement" where
  "names_requirement L key names =
     (if 0 < length names then newRequirement L key op_In names
      else newRequirement L ''dontexistsignoreme'' op_Exists [])"

section \<open>Names selected by cluster-scoped rules\<close>

definition namespacesGVK :: GroupVersionKind where
  "namespacesGVK = \<lparr>Group = '''', Version = ''v1'', Kind = ''namespaces''\<rparr>"

definition tenantsGVK :: GroupVersionKind where
  "tenantsGVK = \<lparr>Group = CapsuleGroup, Version = ''v1beta2'', Kind = ''tenants''\<rparr>"

definition clusterScopedNames ::
    "module_env \<Rightarrow> GroupVersionKind \<Rightarrow> string \<Rightarrow> ProxyTenant list \<Rightarrow> string list outcome" where
  "clusterScopedNames V gvk resource proxyTenants =
     (let requirements = GetClusterScopeRequirements (m_labels V) (Some gvk) OperationList proxyTenants in
      if length requirements = 0 then Ok []
      else bind_outcome (HandleListSelector (m_labels V) requirements) (\<lambda>selector.
        bind_outcome (lift_sum (ListObjects (m_reader V) resource
            (case selector of None \<Rightarrow> ListAll | Some s \<Rightarrow> MatchingSelector s))) (\<lambda>items.
          Ok (map o_Name items))))"

definition clusterScopedNamespaceNames :: "module_env \<Rightarrow> ProxyTenant list \<Rightarrow> string list outcome" where
  "clusterScopedNamespaceNames V proxyTenants = clusterScopedNames V namespacesGVK ''namespaces'' proxyTenants"

definition clusterScopedTenantNames :: "module_env \<Rightarrow> ProxyTenant list \<Rightarrow> string list outcome" where
  "clusterScopedTenantNames V proxyTenants = clusterScopedNames V tenantsGVK ''tenants'' proxyTenants"

definition matchesClusterScoped :: "module_env \<Rightarrow> GroupVersionKind \<Rightarrow> ProxyTenant list \<Rightarrow> kobject \<Rightarrow> bool" where
  "matchesClusterScoped V gvk proxyTenants obj =
     list_ex (\<lambda>r. reqMatches (m_labels V) r (o_Labels obj))
       (GetClusterScopeRequirements (m_labels V) (Some gvk) OperationGet proxyTenants)"

definition matchesClusterScopedNamespace :: "module_env \<Rightarrow> ProxyTenant list \<Rightarrow> kobject \<Rightarrow> bool" where
  "matchesClusterScopedNamespace V proxyTenants ns = matchesClusterScoped V namespacesGVK proxyTenants ns"

definition matchesClusterScopedTenant :: "module_env \<Rightarrow> ProxyTenant list \<Rightarrow> kobject \<Rightarrow> bool" where
  "matchesClusterScopedTenant V proxyTenants obj = matchesClusterScoped V tenantsGVK proxyTenants obj"

section \<open>Namespaces\<close>

abbreviation namespaces_gk :: "string \<times> string" where "namespaces_gk \<equiv> ('''', ''namespaces'')"

text \<open>\<open>rbr\<close> is the role binding reflector, \<^const>\<open>None\<close> when it is not enabled.\<close>

definition reflected_namespaces :: "module_env \<Rightarrow> rbac_reader option \<Rightarrow> http_request \<Rightarrow> string list outcome" where
  "reflected_namespaces V rbr r =
     (case rbr of
        None \<Rightarrow> Ok []
      | Some R \<Rightarrow> bad_request namespaces_gk (GetUserNamespacesFromRequest (m_auth V) (m_config V) R r))"

definition namespace_list_Handle :: "module_env \<Rightarrow> rbac_reader option \<Rightarrow> ProxyTenant list \<Rightarrow> http_request \<Rightarrow> answer" where
  "namespace_list_Handle V rbr proxyTenants r =
     bind_outcome (reflected_namespaces V rbr r) (\<lambda>reflectedNamespaces.
       bind_outcome (bad_request namespaces_gk (clusterScopedNamespaceNames V proxyTenants)) (\<lambda>clusterScoped.
         let userNamespaces = concat (map (\<lambda>t. t_StatusNamespaces (pt_Tenant t)) proxyTenants)
                                @ reflectedNamespaces @ clusterScoped in
         bind_outcome (bad_request namespaces_gk (lift_sum
             (names_requirement (m_labels V) LabelMetadataName (sets_List userNamespaces)))) (\<lambda>req.
           Ok (Some [req]))))"

text \<open>
  An error of the read other than not-found leaves the zero namespace behind, which has no owner
  reference. The empty selector lets the request through unfiltered.
\<close>

definition namespace_get_Handle :: "module_env \<Rightarrow> rbac_reader option \<Rightarrow> ProxyTenant list \<Rightarrow> http_request \<Rightarrow> answer" where
  "namespace_get_Handle V rbr proxyTenants r =
     (let name = Var r ''name'' in
      case GetObject (m_reader V) ''namespaces'' name of
        Inl e \<Rightarrow> if is_not_found e then Ok (Some []) else Err (NewNotFoundError name namespaces_gk)
      | Inr ns \<Rightarrow>
          (case o_OwnerReferences ns of
             [] \<Rightarrow> Err (NewNotFoundError name namespaces_gk)
           | w # _ \<Rightarrow>
               if or_Kind w \<noteq> ''Tenant'' then Err (NewNotFoundError name namespaces_gk)
               else bind_outcome (reflected_namespaces V rbr r) (\<lambda>userNamespaces.
                 if or_Name w \<notin> set (map (\<lambda>t. t_Name (pt_Tenant t)) proxyTenants)
                    \<and> name \<notin> set userNamespaces \<and> \<not> matchesClusterScopedNamespace V proxyTenants ns
                 then Err (NewNotFoundError name namespaces_gk)
                 else Ok (Some []))))"

section \<open>Tenants\<close>

abbreviation tenants_gk :: "string \<times> string" where "tenants_gk \<equiv> (CapsuleGroup, ''tenants'')"

definition tenants_list_Handle :: "module_env \<Rightarrow> ProxyTenant list \<Rightarrow> http_request \<Rightarrow> answer" where
  "tenants_list_Handle V proxyTenants r =
     bind_outcome (bad_request tenants_gk (clusterScopedTenantNames V proxyTenants)) (\<lambda>clusterScoped.
       let userTenants = sets_List (map (\<lambda>t. t_Name (pt_Tenant t)) proxyTenants @ clusterScoped) in
       bind_outcome (bad_request tenants_gk (lift_sum
           (names_requirement (m_labels V) LabelMetadataName userTenants))) (\<lambda>req.
         Ok (Some [req])))"

definition tenants_get_Handle :: "module_env \<Rightarrow> ProxyTenant list \<Rightarrow> http_request \<Rightarrow> answer" where
  "tenants_get_Handle V proxyTenants r =
     (let name = Var r ''name'' in
      if name \<in> set (map (\<lambda>t. t_Name (pt_Tenant t)) proxyTenants) then Ok (Some [])
      else (case GetObject (m_reader V) ''tenants'' name of
              Inl e \<Rightarrow> Err (if is_not_found e then NewNotFoundError name tenants_gk else e)
            | Inr obj \<Rightarrow>
                if matchesClusterScopedTenant V proxyTenants obj then Ok (Some [])
                else Err (NewNotFoundError name tenants_gk)))"

section \<open>Generic namespaced resources\<close>

record catchall =
  ca_group :: string
  ca_version :: string
  ca_resource :: string

definition list_review :: "catchall \<Rightarrow> string \<Rightarrow> string list \<Rightarrow> string \<Rightarrow> SubjectAccessReview" where
  "list_review l user groups ns =
     \<lparr>sar_Verb = ''list'', sar_Group = ca_group l, sar_Version = ca_version l, sar_Resource = ca_resource l,
      sar_Namespace = ns, sar_Name = '''', sar_User = user, sar_Groups = groups\<rparr>"

text \<open>The loop over the tenants: the inner loop leaves after the first namespace.\<close>

fun source_tenants :: "auth_env \<Rightarrow> catchall \<Rightarrow> string \<Rightarrow> string list \<Rightarrow> ProxyTenant list \<Rightarrow> string list outcome" where
  "source_tenants E l user groups [] = Ok []"
| "source_tenants E l user groups (t # ts) =
     bind_outcome
       (case t_StatusNamespaces (pt_Tenant t) of
          [] \<Rightarrow> Ok False
        | ns # _ \<Rightarrow>
            (case createSAR E (list_review l user groups ns) of
               Inl e \<Rightarrow> Err (wrap (''unable to check if user can list '' @ ca_group l @ ''/'' @ ca_resource l) e)
             | Inr allowed \<Rightarrow> Ok allowed))
       (\<lambda>allowed. bind_outcome (source_tenants E l user groups ts) (\<lambda>rest.
          Ok (if allowed then t_Name (pt_Tenant t) # rest else rest)))"

definition catchall_reflected ::
    "module_env \<Rightarrow> catchall \<Rightarrow> (rbac_reader \<times> reflector) option \<Rightarrow> string \<Rightarrow> string list
      \<Rightarrow> string list outcome \<times> (rbac_reader \<times> reflector) option" where
  "catchall_reflected V l rbr user groups =
     (case rbr of
        None \<Rightarrow> (Ok [], None)
      | Some (R, st) \<Rightarrow>
          (case GetUserTenantNamesForResource (m_auth V) (m_meta V) R st
                  \<lparr>q_User = user, q_Groups = groups, q_Verb = ''list'', q_APIGroup = ca_group l, q_Resource = ca_resource l\<rparr> of
             (res, st') \<Rightarrow> (res, Some (R, st'))))"

definition catchall_Handle ::
    "module_env \<Rightarrow> catchall \<Rightarrow> (rbac_reader \<times> reflector) option \<Rightarrow> ProxyTenant list \<Rightarrow> http_request
      \<Rightarrow> answer \<times> (rbac_reader \<times> reflector) option" where
  "catchall_Handle V l rbr proxyTenants r =
     (case GetUserAndGroups (m_auth V) (m_config V) r of
        Ok (user, groups, _) \<Rightarrow>
          (case source_tenants (m_auth V) l user groups proxyTenants of
             Ok sourceTenants \<Rightarrow>
               (case catchall_reflected V l rbr user groups of
                  (res, rbr') \<Rightarrow>
                    (bind_outcome res (\<lambda>tenantNames.
                       case names_requirement (m_labels V) (ManagedByCapsuleLabel (m_meta V)) (sourceTenants @ tenantNames) of
                         Inl e \<Rightarrow> Panic
                       | Inr req \<Rightarrow> Ok (Some [req])), rbr'))
           | Err e \<Rightarrow> (Err e, rbr)
           | Panic \<Rightarrow> (Panic, rbr))
      | Err e \<Rightarrow> (Err e, rbr)
      | Panic \<Rightarrow> (Panic, rbr))"

section \<open>Nodes and node metrics\<close>

abbreviation nodes_gk :: "string \<times> string" where "nodes_gk \<equiv> ('''', ''nodes'')"
abbreviation metrics_gk :: "string \<times> string" where "metrics_gk \<equiv> (''metrics.k8s.io'', ''nodes'')"

text \<open>The two modules have the same handlers and differ in the group they report errors for.\<close>

definition nodes_list :: "string \<times> string \<Rightarrow> module_env \<Rightarrow> ProxyTenant list \<Rightarrow> answer" where
  "nodes_list gk V proxyTenants =
     bind_outcome (bad_request gk (lift_sum (ListObjects (m_reader V) ''nodes'' ListAll))) (\<lambda>nl.
       case GetNodeSelector (m_labels V) nl (GetNodeSelectors proxyTenants) of
         Inl e \<Rightarrow> nothing_selector (m_labels V)
       | Inr r \<Rightarrow> Ok (Some [r]))"

definition nodes_get :: "string \<times> string \<Rightarrow> module_env \<Rightarrow> ProxyTenant list \<Rightarrow> http_request \<Rightarrow> answer" where
  "nodes_get gk V proxyTenants httpRequest =
     (let name = Var httpRequest ''name'' in
      bind_outcome (bad_request gk (lift_sum (ListObjects (m_reader V) ''nodes'' (MatchingLabels [(LabelHostname, name)])))) (\<lambda>nl.
        case GetNodeSelector (m_labels V) nl (GetNodeSelectors proxyTenants) of
          Inr r \<Rightarrow> Ok (Some [r])
        | Inl e \<Rightarrow> if Method httpRequest = MethodGet then Err (NewNotFoundError name gk) else Ok None))"

definition node_list_Handle :: "module_env \<Rightarrow> ProxyTenant list \<Rightarrow> http_request \<Rightarrow> answer" where
  "node_list_Handle V proxyTenants r = nodes_list nodes_gk V proxyTenants"

definition node_get_Handle :: "module_env \<Rightarrow> ProxyTenant list \<Rightarrow> http_request \<Rightarrow> answer" where
  "node_get_Handle V proxyTenants r = nodes_get nodes_gk V proxyTenants r"

definition metric_list_Handle :: "module_env \<Rightarrow> ProxyTenant list \<Rightarrow> http_request \<Rightarrow> answer" where
  "metric_list_Handle V proxyTenants r = nodes_list metrics_gk V proxyTenants"

definition metric_get_Handle :: "module_env \<Rightarrow> ProxyTenant list \<Rightarrow> http_request \<Rightarrow> answer" where
  "metric_get_Handle V proxyTenants r = nodes_get metrics_gk V proxyTenants r"

section \<open>Runtime classes\<close>

abbreviation runtimeclass_gk :: "string \<times> string" where "runtimeclass_gk \<equiv> (''node.k8s.io'', ''runtimeclasses'')"

definition selector_requirements :: "labels_api \<Rightarrow> AllowedList option \<Rightarrow> requirement list" where
  "selector_requirements L al =
     (case al of
        None \<Rightarrow> []
      | Some a \<Rightarrow>
          (case asRequirements L (Some (al_LabelSelector a)) of
             Inl e \<Rightarrow> []
           | Inr (reqs, selectable) \<Rightarrow> if selectable then reqs else []))"

fun getRuntimeClass :: "labels_api \<Rightarrow> http_request \<Rightarrow> ProxyTenant list \<Rightarrow> (bool \<times> requirement list) outcome" where
  "getRuntimeClass L r [] = Ok (False, [])"
| "getRuntimeClass L r (pt # pts) =
     bind_outcome (RequestAllowed pt r RuntimeClassesProxy) (\<lambda>ok.
       bind_outcome (getRuntimeClass L r pts) (\<lambda>(allowed, reqs).
         Ok (if ok then (True, selector_requirements L (t_RuntimeClasses (pt_Tenant pt)) @ reqs) else (allowed, reqs))))"

definition runtimeclass_list_Handle :: "module_env \<Rightarrow> ProxyTenant list \<Rightarrow> http_request \<Rightarrow> answer" where
  "runtimeclass_list_Handle V proxyTenants r =
     bind_outcome (getRuntimeClass (m_labels V) r proxyTenants) (\<lambda>(allowed, selectorsMatch).
       if \<not> allowed then Err (NewNotAllowed runtimeclass_gk)
       else if length selectorsMatch = 0 then nothing_selector (m_labels V)
       else HandleListSelector (m_labels V) selectorsMatch)"

definition runtimeclass_get_Handle :: "module_env \<Rightarrow> ProxyTenant list \<Rightarrow> http_request \<Rightarrow> answer" where
  "runtimeclass_get_Handle V proxyTenants r =
     (let name = Var r ''name'' in
      bind_outcome (getRuntimeClass (m_labels V) r proxyTenants) (\<lambda>(_, requirements).
        if length requirements = 0 then Err (NewNotFoundError name runtimeclass_gk)
        else HandleGetSelector (m_labels V) (GetObject (m_reader V) ''runtimeclasses'') requirements name runtimeclass_gk))"

section \<open>Persistent volumes\<close>

abbreviation persistentvolume_gk :: "string \<times> string" where "persistentvolume_gk \<equiv> ('''', ''persistentvolumes'')"

fun allowed_tenants :: "http_request \<Rightarrow> ProxyTenant list \<Rightarrow> string list outcome" where
  "allowed_tenants r [] = Ok []"
| "allowed_tenants r (pt # pts) =
     bind_outcome (RequestAllowed pt r PersistentVolumesProxy) (\<lambda>ok.
       bind_outcome (allowed_tenants r pts) (\<lambda>names. Ok (if ok then t_Name (pt_Tenant pt) # names else names)))"

text \<open>The requirement is dereferenced whether or not it could be built.\<close>

definition getPersistentVolume :: "labels_api \<Rightarrow> http_request \<Rightarrow> ProxyTenant list \<Rightarrow> string \<Rightarrow> (bool \<times> requirement) outcome" where
  "getPersistentVolume L r proxyTenants label =
     bind_outcome (allowed_tenants r proxyTenants) (\<lambda>tenantNames.
       case newRequirement L label op_In tenantNames of
         Inl e \<Rightarrow> Panic
       | Inr requirement \<Rightarrow> Ok (tenantNames \<noteq> [], requirement))"

definition persistentvolume_list_Handle :: "module_env \<Rightarrow> ProxyTenant list \<Rightarrow> http_request \<Rightarrow> answer" where
  "persistentvolume_list_Handle V proxyTenants r =
     bind_outcome (getPersistentVolume (m_labels V) r proxyTenants (m_tenantTypeLabel V)) (\<lambda>(allowed, requirement).
       if \<not> allowed then Err (NewNotAllowed persistentvolume_gk)
       else HandleListSelector (m_labels V) [requirement])"

definition persistentvolume_get_Handle :: "module_env \<Rightarrow> ProxyTenant list \<Rightarrow> http_request \<Rightarrow> answer" where
  "persistentvolume_get_Handle V proxyTenants r =
     bind_outcome (getPersistentVolume (m_labels V) r proxyTenants (m_tenantTypeLabel V)) (\<lambda>(_, requirement).
       HandleGetSelector (m_labels V) (GetObject (m_reader V) ''persistentvolumes'') [requirement] (Var r ''name'') persistentvolume_gk)"

section \<open>Lemmas\<close>

text \<open>The requirement for a list of names selects, by the label that holds the name, exactly these names.\<close>

lemma names_requirement_selects:
  assumes "new_requirement_ok L" and "matches_ok L" and "names_requirement L key names = Inr req"
    and "map_of ls key = Some nm" and "map_of ls ''dontexistsignoreme'' = None"
  shows "selects L [req] ls \<longleftrightarrow> nm \<in> set names"
proof (cases "names = []")
  case True
  then have "newRequirement L ''dontexistsignoreme'' op_Exists [] = Inr req" using assms(3) by (simp add: names_requirement_def)
  note new = newRequirement_Inr [OF assms(1) this]
  show ?thesis using assms(5) True new matches_Exists [OF assms(2) new(2), of ls] by simp
next
  case False
  then have "newRequirement L key op_In names = Inr req" using assms(3) by (simp add: names_requirement_def)
  note new = newRequirement_Inr [OF assms(1) this]
  show ?thesis using assms(4) new matches_In [OF assms(2) new(2), of ls] by simp
qed

lemma bad_request_Ok [simp]: "bad_request gk x = Ok y \<longleftrightarrow> x = Ok y"
  by (cases x) auto

lemma lift_sum_Ok [simp]: "lift_sum x = Ok y \<longleftrightarrow> x = Inr y"
  by (cases x) auto



lemma source_tenants_Ok:
  "source_tenants E l u g pts = Ok names \<Longrightarrow>
   names = map (\<lambda>t. t_Name (pt_Tenant t)) (filter (\<lambda>t. case t_StatusNamespaces (pt_Tenant t) of
      [] \<Rightarrow> False | ns # _ \<Rightarrow> createSAR E (list_review l u g ns) = Inr True) pts)"
proof (induction pts arbitrary: names)
  case (Cons t pts)
  then show ?case
    by (cases "t_StatusNamespaces (pt_Tenant t)"; cases "createSAR E (list_review l u g (hd (t_StatusNamespaces (pt_Tenant t))))")
       auto
qed simp

lemma first_namespace_iff:
  "(case nss of [] \<Rightarrow> False | ns # _ \<Rightarrow> P ns) \<longleftrightarrow> (\<exists>ns rest. nss = ns # rest \<and> P ns)"
  by (cases nss) auto

lemma set_source_tenants:
  assumes "source_tenants E l u g pts = Ok names"
  shows "tn \<in> set names \<longleftrightarrow> (\<exists>t \<in> set pts. t_Name (pt_Tenant t) = tn
    \<and> (\<exists>ns rest. t_StatusNamespaces (pt_Tenant t) = ns # rest \<and> createSAR E (list_review l u g ns) = Inr True))"
  unfolding source_tenants_Ok [OF assms] first_namespace_iff by auto

lemma node_matches_iff:
  assumes "distinct (map fst sel)"
  shows "node_matches sel ls \<longleftrightarrow> (\<forall>(k, v) \<in> set sel. label_value ls k = v)"
proof -
  have "label_value sel k = v" if "(k, v) \<in> set sel" for k v
    using that assms by (simp add: label_value_def)
  moreover have "length (filter P sel) = length sel \<longleftrightarrow> (\<forall>x \<in> set sel. P x)" for P
    by (metis filter_id_conv length_filter_less less_irrefl)
  ultimately show ?thesis by (fastforce simp: node_matches_def)
qed

lemma GetNodeSelector_selects:
  assumes "new_requirement_ok L" and "matches_ok L" and "GetNodeSelector L nl sels = Inr req" and "map_of ls LabelHostname = Some h"
  shows "selects L [req] ls \<longleftrightarrow> h \<in> set (node_names nl sels)"
proof -
  from assms(3) have req: "newRequirement L LabelHostname op_In (node_names nl sels) = Inr req"
    by (simp add: GetNodeSelector_def Let_def split: if_splits)
  note new = newRequirement_Inr [OF assms(1) req]
  show ?thesis using assms(4) new matches_In [OF assms(2) new(2), of ls] by auto
qed

text \<open>A node is in the pool of a tenant when it carries every entry of the node selector of the tenant.\<close>

definition in_pool :: "ProxyTenant list \<Rightarrow> kobject \<Rightarrow> bool" where
  "in_pool pts n \<longleftrightarrow> (\<exists>pt \<in> set pts. \<forall>(k, v) \<in> set (t_NodeSelector (pt_Tenant pt)). label_value (o_Labels n) k = v)"

lemma mem_node_names:
  assumes "\<forall>pt \<in> set pts. distinct (map fst (t_NodeSelector (pt_Tenant pt)))"
  shows "h \<in> set (node_names nl (GetNodeSelectors pts)) \<longleftrightarrow> (\<exists>n \<in> set nl. o_Name n = h \<and> in_pool pts n)"
proof -
  have "h \<in> set (node_names nl (GetNodeSelectors pts)) \<longleftrightarrow>
      (\<exists>n \<in> set nl. o_Name n = h \<and> (\<exists>pt \<in> set pts. node_matches (t_NodeSelector (pt_Tenant pt)) (o_Labels n)))"
    unfolding node_names_def GetNodeSelectors_def mem_concat_map [of h _ nl] mem_concat_if by simp
  moreover have "(\<exists>pt \<in> set pts. node_matches (t_NodeSelector (pt_Tenant pt)) (o_Labels n)) \<longleftrightarrow> in_pool pts n" for n
    unfolding in_pool_def by (rule bex_cong [OF refl]) (simp add: assms node_matches_iff)
  ultimately show ?thesis by simp
qed

section \<open>Properties\<close>


text \<open>
  C9: a list of a namespaced resource across namespaces shows exactly the objects of the tenants in whose
  first namespace the caller may list the resource, by an access review, and of the tenants the reflector
  reports for the caller. The other namespaces of a tenant are not reviewed.
\<close>

theorem catchall_exact:
  assumes "new_requirement_ok (m_labels V)" and "matches_ok (m_labels V)"
    and "GetUserAndGroups (m_auth V) (m_config V) r = Ok (u, g, e)"
    and "catchall_Handle V l rbr pts r = (Ok (Some sel), rbr')"
    and "map_of ls (ManagedByCapsuleLabel (m_meta V)) = Some tn" and "map_of ls ''dontexistsignoreme'' = None"
  shows "selects (m_labels V) sel ls \<longleftrightarrow>
     (\<exists>t \<in> set pts. t_Name (pt_Tenant t) = tn \<and> (\<exists>ns rest. t_StatusNamespaces (pt_Tenant t) = ns # rest
        \<and> createSAR (m_auth V) (list_review l u g ns) = Inr True))
   \<or> (\<exists>R st names. rbr = Some (R, st) \<and> tn \<in> set names
        \<and> fst (GetUserTenantNamesForResource (m_auth V) (m_meta V) R st
             \<lparr>q_User = u, q_Groups = g, q_Verb = ''list'', q_APIGroup = ca_group l, q_Resource = ca_resource l\<rparr>) = Ok names)"
proof -
  obtain src names where src: "source_tenants (m_auth V) l u g pts = Ok src"
    and names: "fst (catchall_reflected V l rbr u g) = Ok names"
    and "(case names_requirement (m_labels V) (ManagedByCapsuleLabel (m_meta V)) (src @ names) of
            Inl e \<Rightarrow> Panic | Inr req \<Rightarrow> Ok (Some [req])) = Ok (Some sel)"
    using assms(3,4) by (auto simp: catchall_Handle_def split: outcome.splits prod.splits)
  moreover from this(3) obtain req where "sel = [req]"
    and req: "names_requirement (m_labels V) (ManagedByCapsuleLabel (m_meta V)) (src @ names) = Inr req"
    by (auto split: sum.splits)
  moreover have "tn \<in> set names \<longleftrightarrow> (\<exists>R st ns. rbr = Some (R, st) \<and> tn \<in> set ns
        \<and> fst (GetUserTenantNamesForResource (m_auth V) (m_meta V) R st
             \<lparr>q_User = u, q_Groups = g, q_Verb = ''list'', q_APIGroup = ca_group l, q_Resource = ca_resource l\<rparr>) = Ok ns)"
    using names by (auto simp: catchall_reflected_def split: option.splits prod.splits)
  ultimately show ?thesis
    using names_requirement_selects [OF assms(1,2) req assms(5,6)] set_source_tenants [OF src] by auto
qed

text \<open>
  the view of a global proxy setting carries a made-up tenant named \<^verbatim>\<open>global\<close>, which the tenant
  module takes for a tenant of the caller: every subject of such a setting may get a tenant of that
  name, whatever the rules of the setting say and whoever owns the tenant.
\<close>

lemma global_tenant_visible:
  assumes "NewClusterProxy name kind rules \<in> set pts" and "Var r ''name'' = ''global''"
  shows "tenants_get_Handle V pts r = Ok (Some [])"
proof -
  have "t_Name (pt_Tenant (NewClusterProxy name kind rules)) = ''global''" by (simp add: NewClusterProxy_def globalTenant_def)
  then have "''global'' \<in> set (map (\<lambda>t. t_Name (pt_Tenant t)) pts)" using assms(1) by force
  then show ?thesis using assms(2) by (simp add: tenants_get_Handle_def)
qed

lemma allowed_tenants_names:
  "\<forall>pt \<in> set pts. RequestAllowed pt r PersistentVolumesProxy = Ok (ok pt) \<Longrightarrow>
   allowed_tenants r pts = Ok (map (\<lambda>pt. t_Name (pt_Tenant pt)) (filter ok pts))"
  by (induction pts) auto

text \<open>
  C39: persistent volumes are shown by the tenant they are labelled with. When some of the caller's tenants
  allow the operation, a list selects exactly the volumes of these tenants, and a volume that is given by name
  carries the label of one of them. When none does, both modules panic: the requirement for no tenant cannot
  be built and is dereferenced before the check that would answer that the request is not allowed.
\<close>

theorem persistent_volumes_exact:
  assumes "new_requirement_ok (m_labels V)" and "matches_ok (m_labels V)"
    and colon: "CHR '':'' \<notin> set (m_tenantTypeLabel V)" and ok: "\<forall>pt \<in> set pts. RequestAllowed pt r PersistentVolumesProxy = Ok (ok pt)"
  shows "if \<exists>pt \<in> set pts. ok pt
    then (\<forall>sel ls. persistentvolume_list_Handle V pts r = Ok (Some sel) \<longrightarrow>
           (selects (m_labels V) sel ls \<longleftrightarrow> (\<exists>pt \<in> set pts. ok pt \<and> map_of ls (m_tenantTypeLabel V) = Some (t_Name (pt_Tenant pt)))))
       \<and> (\<forall>sel. persistentvolume_get_Handle V pts r = Ok (Some sel) \<longrightarrow>
           (\<exists>obj. GetObject (m_reader V) ''persistentvolumes'' (Var r ''name'') = Inr obj
              \<and> (\<exists>pt \<in> set pts. ok pt \<and> map_of (o_Labels obj) (m_tenantTypeLabel V) = Some (t_Name (pt_Tenant pt)))))
    else persistentvolume_list_Handle V pts r = Panic \<and> persistentvolume_get_Handle V pts r = Panic"
proof (cases "newRequirement (m_labels V) (m_tenantTypeLabel V) op_In (map (\<lambda>pt. t_Name (pt_Tenant pt)) (filter ok pts))")
  case (Inl e)
  then have "getPersistentVolume (m_labels V) r pts (m_tenantTypeLabel V) = Panic"
    by (simp add: getPersistentVolume_def allowed_tenants_names [OF ok])
  then show ?thesis by (simp add: persistentvolume_list_Handle_def persistentvolume_get_Handle_def)
next
  case (Inr req)
  have some: "\<exists>pt \<in> set pts. ok pt"
  proof (rule ccontr)
    assume "\<not> ?thesis"
    then have "filter ok pts = []" by (simp add: filter_empty_conv)
    moreover have "isl (newRequirement (m_labels V) (m_tenantTypeLabel V) op_In [])" using assms(1) unfolding new_requirement_ok_def by blast
    ultimately show False using Inr by simp
  qed
  then have names: "filter ok pts \<noteq> []" by (auto simp: filter_empty_conv)
  note new = newRequirement_Inr [OF assms(1) Inr]
  have matches: "reqMatches (m_labels V) req ls \<longleftrightarrow> (\<exists>pt \<in> set pts. ok pt \<and> map_of ls (m_tenantTypeLabel V) = Some (t_Name (pt_Tenant pt)))" for ls
    using matches_In [OF assms(2) new(2), of ls] new by auto
  have "getPersistentVolume (m_labels V) r pts (m_tenantTypeLabel V) = Ok (True, req)"
    using names by (simp add: getPersistentVolume_def allowed_tenants_names [OF ok] Inr)
  then have list: "persistentvolume_list_Handle V pts r = HandleListSelector (m_labels V) [req]"
    and get: "persistentvolume_get_Handle V pts r =
      HandleGetSelector (m_labels V) (GetObject (m_reader V) ''persistentvolumes'') [req] (Var r ''name'') persistentvolume_gk"
    by (simp_all add: persistentvolume_list_Handle_def persistentvolume_get_Handle_def)
  have "in_like req" using new(1,2) colon by (simp add: in_like_def)
  then have "selects (m_labels V) sel ls \<longleftrightarrow> reqMatches (m_labels V) req ls" if "HandleListSelector (m_labels V) [req] = Ok (Some sel)" for sel ls
    using list_selector_in_like [OF assms(1,2) _ that] by simp
  then show ?thesis using some matches by (auto simp: list get HandleGetSelector_def split: sum.splits if_splits)
qed


section \<open>A concrete cluster\<close>

text \<open>One node, and objects that nobody can read; two tenants of which the second is named \<^verbatim>\<open>gas\<close>.\<close>

definition doc_node :: kobject where
  "doc_node = \<lparr>o_Name = ''n1'', o_Labels = [(''pool'', ''oil'')], o_OwnerReferences = []\<rparr>"

definition doc_modules :: module_env where
  "doc_modules = \<lparr>m_labels = doc_labels, m_auth = doc_env, m_config = doc_config,
     m_reader = \<lparr>GetObject = (\<lambda>_ _. Inl (PlainError ''forbidden'')), ListObjects = (\<lambda>res _. Inr (if res = ''nodes'' then [doc_node] else []))\<rparr>,
     m_meta = doc_meta, m_tenantTypeLabel = ''capsule.clastix.io/tenant''\<rparr>"

definition doc_view :: "string \<Rightarrow> ProxyTenant" where
  "doc_view name = \<lparr>pt_Tenant = globalTenant\<lparr>t_Name := name, t_NodeSelector := [(''pool'', name)], t_StatusNamespaces := [name @ ''-dev'']\<rparr>,
     pt_ProxySetting = [], pt_ClusterResources = []\<rparr>"

lemma doc_labels_ok: "new_requirement_ok (m_labels doc_modules)" "matches_ok (m_labels doc_modules)"
  by (simp_all add: doc_modules_def doc_new_requirement_ok doc_matches_ok)


lemma doc_admin_identity: "GetUserAndGroups doc_env doc_config doc_admin_request = Ok (''bob'', [''ops''], None)"
proof -
  have "CtxUser doc_admin_request = None" by (simp add: doc_eval)
  then show ?thesis
    using doc_admin_resolve by (auto simp: ResolveUserAndGroups_def split: outcome.splits prod.splits option.splits)
qed

theorem catchall_exact_witness:
  "\<exists>sel. catchall_Handle doc_modules \<lparr>ca_group = '''', ca_version = ''v1'', ca_resource = ''pods''\<rparr> None [doc_view ''oil''] doc_admin_request
       = (Ok (Some sel), None) \<and> \<not> selects doc_labels sel [(''managed'', ''oil'')]"
proof -
  have env: "m_auth doc_modules = doc_env" "m_config doc_modules = doc_config" "m_labels doc_modules = doc_labels" "m_meta doc_modules = doc_meta"
    by (simp_all add: doc_modules_def)
  have sar: "createSAR doc_env (list_review l ''bob'' gs ns) = Inr False" for l gs ns by (simp add: doc_env_def list_review_def)
  obtain sel where sel: "catchall_Handle doc_modules \<lparr>ca_group = '''', ca_version = ''v1'', ca_resource = ''pods''\<rparr> None [doc_view ''oil''] doc_admin_request
       = (Ok (Some sel), None)"
    using sar by (simp add: catchall_Handle_def env doc_admin_identity catchall_reflected_def doc_view_def names_requirement_def
        doc_labels_defs)
  have "ManagedByCapsuleLabel (m_meta doc_modules) = ''managed''" by (simp add: env doc_meta_def)
  with catchall_exact [OF doc_labels_ok _ sel, of "''bob''" "[''ops'']" None "[(''managed'', ''oil'')]" "''oil''"] sel sar show ?thesis
    by (simp add: env doc_admin_identity)
qed

theorem persistent_volumes_exact_witness: "persistentvolume_list_Handle doc_modules [] doc_admin_request = Panic"
  using persistent_volumes_exact [OF doc_labels_ok, of "[]" doc_admin_request "\<lambda>_. True"] by (simp add: doc_modules_def)

lemma doc_node_get:
  "node_get_Handle doc_modules [doc_view ''oil''] (doc_admin_request\<lparr>Vars := [(''name'', ''n1'')]\<rparr>)
   = Ok (Some [\<lparr>Key = ''kubernetes.io/hostname'', Operator = op_In, Values = [''n1'']\<rparr>])"
  by (simp add: node_get_Handle_def nodes_get_def Let_def doc_modules_def GetNodeSelector_def GetNodeSelectors_def
      node_names_def node_matches_def label_value_def doc_node_def doc_view_def doc_labels_defs)


end
