(* ===== verification/SortSearch.thy ===== *)
theory SortSearch
  imports Prelude "HOL-Library.Multiset"
begin

text \<open>
  Package sort, as the class modules call it: \<^verbatim>\<open>sort.SliceStable\<close> with the comparison
  \<^verbatim>\<open>exact[i] < exact[0]\<close>, which looks at the slice while it is being permuted, and
  \<^verbatim>\<open>sort.SearchStrings\<close>. The comparison is not a strict weak order on the elements, so the
  algorithm is modelled step by step: insertion sort on blocks of twenty elements, then
  \<^verbatim>\<open>symMerge\<close> on blocks of doubling size.
\<close>

section \<open>The comparison and the moves\<close>

definition less_first :: "('a :: linorder) list \<Rightarrow> nat \<Rightarrow> bool" where
  "less_first xs i \<longleftrightarrow> xs ! i < xs ! 0"

definition swap_at :: "'a list \<Rightarrow> nat \<Rightarrow> nat \<Rightarrow> 'a list" where
  "swap_at xs i j = xs[i := xs ! j, j := xs ! i]"

text \<open>\<^verbatim>\<open>rotate\<close> exchanges the neighbouring blocks from \<open>a\<close> to \<open>m\<close> and from \<open>m\<close> to \<open>b\<close>.\<close>

definition rotate_at :: "'a list \<Rightarrow> nat \<Rightarrow> nat \<Rightarrow> nat \<Rightarrow> 'a list" where
  "rotate_at xs a m b = take a xs @ drop m (take b xs) @ drop a (take m xs) @ drop b xs"

section \<open>Insertion sort\<close>

text \<open>The inner loop moves the element at \<open>j\<close> down to \<open>a\<close> as long as it compares less.\<close>

function insert_down :: "('a :: linorder) list \<Rightarrow> nat \<Rightarrow> nat \<Rightarrow> 'a list" where
  "insert_down xs a j = (if a < j \<and> less_first xs j then insert_down (swap_at xs j (j - 1)) a (j - 1) else xs)"
  by pat_completeness auto
termination by (relation "measure (\<lambda>(xs, a, j). j)") auto

definition insertionSort :: "('a :: linorder) list \<Rightarrow> nat \<Rightarrow> nat \<Rightarrow> 'a list" where
  "insertionSort xs a b = fold (\<lambda>i xs. insert_down xs a i) [a + 1..<b] xs"

section \<open>Merge\<close>

text \<open>The three binary searches of \<^verbatim>\<open>symMerge\<close>, each with its test as an argument.\<close>

function bisect :: "(nat \<Rightarrow> bool) \<Rightarrow> nat \<Rightarrow> nat \<Rightarrow> nat" where
  "bisect right i j = (if i < j then let h = (i + j) div 2 in if right h then bisect right (h + 1) j else bisect right i h else i)"
  by pat_completeness auto
termination by (relation "measure (\<lambda>(r, i, j). j - i)") auto

declare insert_down.simps [simp del] bisect.simps [simp del]

definition move_up :: "'a list \<Rightarrow> nat \<Rightarrow> nat \<Rightarrow> 'a list" where
  "move_up xs a i = fold (\<lambda>k xs. swap_at xs k (k + 1)) [a..<i - 1] xs"

definition move_down :: "'a list \<Rightarrow> nat \<Rightarrow> nat \<Rightarrow> 'a list" where
  "move_down xs m i = fold (\<lambda>k xs. swap_at xs k (k - 1)) (rev [i + 1..<m + 1]) xs"

definition sym_start :: "('a :: linorder) list \<Rightarrow> nat \<Rightarrow> nat \<Rightarrow> nat \<Rightarrow> nat" where
  "sym_start xs a m b =
     (let mid = (a + b) div 2; n = mid + m in
      if m > mid then bisect (\<lambda>c. \<not> less_first xs (n - 1 - c)) (n - b) mid
      else bisect (\<lambda>c. \<not> less_first xs (n - 1 - c)) a m)"

definition sym_rotate :: "'a list \<Rightarrow> nat \<Rightarrow> nat \<Rightarrow> nat \<Rightarrow> 'a list" where
  "sym_rotate xs start m en = (if start < m \<and> m < en then rotate_at xs start m en else xs)"

lemma mid_gt: "(a + b) div 2 < e \<Longrightarrow> e < b \<Longrightarrow> a < (a + b) div (2 :: nat)"
  by arith

function symMerge :: "('a :: linorder) list \<Rightarrow> nat \<Rightarrow> nat \<Rightarrow> nat \<Rightarrow> 'a list" where
  "symMerge xs a m b =
     (if m - a = 1 then move_up xs a (bisect (\<lambda>h. less_first xs h) m b)
      else if b - m = 1 then move_down xs m (bisect (\<lambda>h. \<not> less_first xs m) a m)
      else let mid = (a + b) div 2; start = sym_start xs a m b; en = mid + m - start;
               xs1 = sym_rotate xs start m en;
               xs2 = (if a < start \<and> start < mid then symMerge xs1 a start mid else xs1)
           in if mid < en \<and> en < b then symMerge xs2 mid en b else xs2)"
  by pat_completeness blast
termination
proof (relation "measure (\<lambda>(xs, a, m, b). b - a)", goal_cases)
  case (3 xs a m b mid start en xs1 xs2)
  then show ?case using mid_gt [of a b en] by simp
qed auto

declare symMerge.simps [simp del]

section \<open>Stable sort\<close>

text \<open>
  \<open>sort_blocks\<close> is the loop that sorts the full blocks and then the rest; \<open>merge_blocks\<close> one pass of
  merges for a block size; \<open>merge_passes\<close> doubles the block size.
\<close>

function sort_blocks :: "('a :: linorder) list \<Rightarrow> nat \<Rightarrow> nat \<Rightarrow> nat \<Rightarrow> 'a list" where
  "sort_blocks xs n a bs =
     (if 0 < bs \<and> a + bs \<le> n then sort_blocks (insertionSort xs a (a + bs)) n (a + bs) bs else insertionSort xs a n)"
  by pat_completeness auto
termination by (relation "measure (\<lambda>(xs, n, a, bs). n - a)") auto

function merge_blocks :: "('a :: linorder) list \<Rightarrow> nat \<Rightarrow> nat \<Rightarrow> nat \<Rightarrow> 'a list" where
  "merge_blocks xs n a bs =
     (if 0 < bs \<and> a + 2 * bs \<le> n then merge_blocks (symMerge xs a (a + bs) (a + 2 * bs)) n (a + 2 * bs) bs
      else if a + bs < n then symMerge xs a (a + bs) n else xs)"
  by pat_completeness auto
termination by (relation "measure (\<lambda>(xs, n, a, bs). n - a)") auto

function merge_passes :: "('a :: linorder) list \<Rightarrow> nat \<Rightarrow> nat \<Rightarrow> 'a list" where
  "merge_passes xs n bs = (if 0 < bs \<and> bs < n then merge_passes (merge_blocks xs n 0 bs) n (2 * bs) else xs)"
  by pat_completeness auto
termination by (relation "measure (\<lambda>(xs, n, bs). n - bs)") auto

declare sort_blocks.simps [simp del] merge_blocks.simps [simp del] merge_passes.simps [simp del]

definition SliceStable :: "('a :: linorder) list \<Rightarrow> 'a list" where
  "SliceStable xs = merge_passes (sort_blocks xs (length xs) 0 20) (length xs) 20"

section \<open>Search\<close>

definition SearchStrings :: "('a :: linorder) list \<Rightarrow> 'a \<Rightarrow> nat" where
  "SearchStrings a x = bisect (\<lambda>h. \<not> (x \<le> a ! h)) 0 (length a)"

definition found :: "('a :: linorder) list \<Rightarrow> 'a \<Rightarrow> bool" where
  "found xs x \<longleftrightarrow> (let f = SearchStrings xs x in f < length xs \<and> xs ! f = x)"

section \<open>The slice stays a permutation\<close>

lemma mset_swap_at [simp]: "i < length xs \<Longrightarrow> j < length xs \<Longrightarrow> mset (swap_at xs i j) = mset xs"
  by (simp add: swap_at_def mset_swap)

lemma length_swap_at [simp]: "length (swap_at xs i j) = length xs"
  by (simp add: swap_at_def)

lemma mset_rotate_at:
  assumes "a \<le> m" and "m \<le> b"
  shows "mset (rotate_at xs a m b) = mset xs"
proof -
  have ta: "take a xs = take a (take m xs)" and tm: "take m xs = take m (take b xs)"
    using assms by (simp_all add: min_absorb1)
  have "mset xs = mset (take b xs) + mset (drop b xs)" by (metis append_take_drop_id mset_append)
  also have "mset (take b xs) = mset (take m xs) + mset (drop m (take b xs))"
    by (metis append_take_drop_id mset_append tm)
  also have "mset (take m xs) = mset (take a xs) + mset (drop a (take m xs))"
    by (metis append_take_drop_id mset_append ta)
  finally show ?thesis by (simp add: rotate_at_def)
qed

text \<open>Every move keeps the multiset of elements and with it the length.\<close>

definition rearranged :: "'a list \<Rightarrow> 'a list \<Rightarrow> bool" where
  "rearranged ys xs \<longleftrightarrow> mset ys = mset xs"

lemma rearranged_refl [simp]: "rearranged xs xs"
  by (simp add: rearranged_def)

lemma rearranged_trans: "rearranged zs ys \<Longrightarrow> rearranged ys xs \<Longrightarrow> rearranged zs xs"
  by (simp add: rearranged_def)

lemma rearranged_length: "rearranged ys xs \<Longrightarrow> length ys = length xs"
  by (metis rearranged_def mset_eq_length)

lemma rearranged_fold:
  assumes "\<And>k ys. k \<in> set ks \<Longrightarrow> length ys = length xs \<Longrightarrow> rearranged (f k ys) ys"
  shows "rearranged (fold f ks xs) xs"
  using assms
proof (induction ks arbitrary: xs)
  case Nil
  then show ?case by simp
next
  case (Cons k ks)
  have k: "rearranged (f k xs) xs" using Cons.prems by simp
  have "rearranged (fold f ks (f k xs)) (f k xs)"
    using Cons.prems rearranged_length [OF k] by (intro Cons.IH) simp
  with k show ?case by (auto intro: rearranged_trans)
qed

lemma rearranged_swap: "i < length xs \<Longrightarrow> j < length xs \<Longrightarrow> rearranged (swap_at xs i j) xs"
  by (simp add: rearranged_def)

lemma insert_down_rearranged: "j < length xs \<Longrightarrow> rearranged (insert_down xs a j) xs"
proof (induction xs a j rule: insert_down.induct)
  case (1 xs a j)
  show ?case
  proof (cases "a < j \<and> less_first xs j")
    case True
    then have "rearranged (insert_down (swap_at xs j (j - 1)) a (j - 1)) (swap_at xs j (j - 1))"
      using 1 by simp
    moreover have "rearranged (swap_at xs j (j - 1)) xs" using 1(2) by (simp add: rearranged_swap)
    ultimately show ?thesis using True by (subst insert_down.simps) (auto intro: rearranged_trans)
  next
    case False
    then show ?thesis by (subst insert_down.simps) auto
  qed
qed

lemma insertionSort_rearranged: "b \<le> length xs \<Longrightarrow> rearranged (insertionSort xs a b) xs"
  unfolding insertionSort_def by (rule rearranged_fold) (simp add: insert_down_rearranged)

lemma bisect_bounds: "i \<le> j \<Longrightarrow> i \<le> bisect r i j \<and> bisect r i j \<le> j"
proof (induction r i j rule: bisect.induct)
  case (1 r i j)
  show ?case
  proof (cases "i < j")
    case True
    let ?h = "(i + j) div 2"
    have h: "i \<le> ?h" "?h < j" using True by auto
    show ?thesis
      using 1(1) [OF True refl] 1(2) [OF True refl] h True
      by (subst (1 2) bisect.simps) (auto simp: Let_def)
  next
    case False
    with 1(3) show ?thesis by (subst (1 2) bisect.simps) simp
  qed
qed

lemma move_up_rearranged: "i \<le> length xs \<Longrightarrow> rearranged (move_up xs a i) xs"
  unfolding move_up_def by (rule rearranged_fold) (auto intro: rearranged_swap)

lemma move_down_rearranged: "m < length xs \<Longrightarrow> rearranged (move_down xs m i) xs"
  unfolding move_down_def by (rule rearranged_fold) (auto intro: rearranged_swap)

lemma sym_start_arith:
  fixes mid :: nat
  assumes "mid + m - b \<le> s" and "s \<le> mid" and "mid < m" and "m \<le> b" and "a + b \<le> 2 * mid + 1"
  shows "a \<le> s \<and> s \<le> m \<and> mid + m - s \<le> b"
  using assms by arith

lemma sym_start_bounds:
  assumes "a \<le> m" and "m \<le> b"
  shows "a \<le> sym_start xs a m b" and "sym_start xs a m b \<le> m" and "(a + b) div 2 + m - sym_start xs a m b \<le> b"
proof -
  let ?mid = "(a + b) div 2" and ?n = "(a + b) div 2 + m"
  let ?r = "\<lambda>c. \<not> less_first xs (?n - 1 - c)"
  have "a \<le> sym_start xs a m b \<and> sym_start xs a m b \<le> m \<and> ?n - sym_start xs a m b \<le> b"
  proof (cases "?mid < m")
    case True
    then have s: "sym_start xs a m b = bisect ?r (?n - b) ?mid" by (simp add: sym_start_def Let_def)
    have "?n - b \<le> ?mid" using assms by arith
    from bisect_bounds [OF this, of ?r] show ?thesis unfolding s using True assms(2) by (intro sym_start_arith) simp_all
  next
    case False
    then have s: "sym_start xs a m b = bisect ?r a m" by (simp add: sym_start_def Let_def)
    from bisect_bounds [OF assms(1), of ?r] show ?thesis unfolding s using False assms by arith
  qed
  then show "a \<le> sym_start xs a m b" and "sym_start xs a m b \<le> m" and "?n - sym_start xs a m b \<le> b" by auto
qed

lemma sym_rotate_rearranged: "rearranged (sym_rotate xs s m e) xs"
  by (simp add: sym_rotate_def rearranged_def mset_rotate_at)

lemma symMerge_rearranged: "a \<le> m \<Longrightarrow> m \<le> b \<Longrightarrow> b \<le> length xs \<Longrightarrow> rearranged (symMerge xs a m b) xs"
proof (induction xs a m b rule: symMerge.induct)
  case (1 xs a m b)
  define mid s where "mid = (a + b) div 2" and "s = sym_start xs a m b"
  define e where "e = mid + m - s"
  define xs1 where "xs1 = sym_rotate xs s m e"
  define xs2 where "xs2 = (if a < s \<and> s < mid then symMerge xs1 a s mid else xs1)"
  note defs = mid_def s_def e_def xs1_def xs2_def
  show ?case
  proof (cases "m - a = 1 \<or> b - m = 1")
    case True
    then show ?thesis
      using 1(3-5) bisect_bounds [of m b "less_first xs"]
      by (subst symMerge.simps) (auto intro!: move_up_rearranged move_down_rearranged)
  next
    case False
    then have neg: "m - a \<noteq> 1" "b - m \<noteq> 1" by auto
    have bounds: "a \<le> s" "s \<le> m" "e \<le> b"
      using sym_start_bounds [OF 1(3,4)] by (simp_all add: defs)
    have r1: "rearranged xs1 xs" by (simp add: xs1_def sym_rotate_rearranged)
    have "rearranged xs2 xs1"
      using 1(1) [OF neg mid_def s_def e_def xs1_def] 1(3-5) bounds rearranged_length [OF r1]
      by (auto simp: xs2_def mid_def)
    with r1 have r2: "rearranged xs2 xs" by (rule rearranged_trans [rotated])
    have "symMerge xs a m b = (if mid < e \<and> e < b then symMerge xs2 mid e b else xs2)"
      using neg by (subst symMerge.simps) (simp add: Let_def defs)
    moreover have "rearranged (symMerge xs2 mid e b) xs2" if "mid < e \<and> e < b"
      using 1(2) [OF neg mid_def s_def e_def xs1_def xs2_def that] 1(5) that bounds rearranged_length [OF r2] by simp
    ultimately show ?thesis using r2 by (auto intro: rearranged_trans)
  qed
qed

lemma sort_blocks_rearranged: "n = length xs \<Longrightarrow> rearranged (sort_blocks xs n a bs) xs"
proof (induction xs n a bs rule: sort_blocks.induct)
  case (1 xs n a bs)
  have "rearranged (insertionSort xs a n) xs" using 1(2) by (simp add: insertionSort_rearranged)
  moreover have "rearranged (sort_blocks (insertionSort xs a (a + bs)) n (a + bs) bs) xs"
    if c: "0 < bs \<and> a + bs \<le> n"
  proof -
    have s: "rearranged (insertionSort xs a (a + bs)) xs" using c 1(2) by (simp add: insertionSort_rearranged)
    show ?thesis using 1(1) [OF c] 1(2) s rearranged_length [OF s] by (metis rearranged_trans)
  qed
  ultimately show ?case by (subst sort_blocks.simps) simp
qed

lemma merge_blocks_rearranged: "n = length xs \<Longrightarrow> rearranged (merge_blocks xs n a bs) xs"
proof (induction xs n a bs rule: merge_blocks.induct)
  case (1 xs n a bs)
  have "rearranged (merge_blocks (symMerge xs a (a + bs) (a + 2 * bs)) n (a + 2 * bs) bs) xs"
    if c: "0 < bs \<and> a + 2 * bs \<le> n"
  proof -
    have s: "rearranged (symMerge xs a (a + bs) (a + 2 * bs)) xs" using c 1(2) by (simp add: symMerge_rearranged)
    show ?thesis using 1(1) [OF c] 1(2) s rearranged_length [OF s] by (metis rearranged_trans)
  qed
  moreover have "rearranged (symMerge xs a (a + bs) n) xs" if "a + bs < n"
    using that 1(2) by (simp add: symMerge_rearranged)
  ultimately show ?case by (subst merge_blocks.simps) auto
qed

lemma merge_passes_rearranged: "n = length xs \<Longrightarrow> rearranged (merge_passes xs n bs) xs"
proof (induction xs n bs rule: merge_passes.induct)
  case (1 xs n bs)
  have s: "rearranged (merge_blocks xs n 0 bs) xs" using 1(2) by (rule merge_blocks_rearranged)
  have "rearranged (merge_passes (merge_blocks xs n 0 bs) n (2 * bs)) xs" if "0 < bs \<and> bs < n"
    using 1(1) [OF that] 1(2) s rearranged_length [OF s] by (metis rearranged_trans)
  then show ?case by (subst merge_passes.simps) simp
qed

lemma SliceStable_rearranged: "rearranged (SliceStable xs) xs"
proof -
  have "rearranged (sort_blocks xs (length xs) 0 20) xs" by (simp add: sort_blocks_rearranged)
  moreover have "rearranged (SliceStable xs) (sort_blocks xs (length xs) 0 20)"
    unfolding SliceStable_def using rearranged_length [OF calculation] by (intro merge_passes_rearranged) simp
  ultimately show ?thesis by (rule rearranged_trans [rotated])
qed

lemma set_SliceStable [simp]: "set (SliceStable xs) = set xs"
  using SliceStable_rearranged by (metis rearranged_def mset_eq_setD)

section \<open>A slice whose first element is least is left alone\<close>

definition least_first :: "('a :: linorder) list \<Rightarrow> bool" where
  "least_first xs \<longleftrightarrow> (\<forall>i < length xs. \<not> less_first xs i)"

lemma bisect_right: "i \<le> j \<Longrightarrow> \<forall>h. i \<le> h \<and> h < j \<longrightarrow> r h \<Longrightarrow> bisect r i j = j"
proof (induction r i j rule: bisect.induct)
  case (1 r i j)
  show ?case
  proof (cases "i < j")
    case True
    let ?h = "(i + j) div 2"
    from True have h: "i \<le> ?h" "?h < j" by auto
    with 1 True have "bisect r (?h + 1) j = j" by simp
    with True h 1(4) show ?thesis by (subst bisect.simps) (simp add: Let_def)
  next
    case False
    with 1(3) show ?thesis by (subst bisect.simps) simp
  qed
qed

lemma bisect_left: "\<forall>h. i \<le> h \<and> h < j \<longrightarrow> \<not> r h \<Longrightarrow> bisect r i j = i"
proof (induction r i j rule: bisect.induct)
  case (1 r i j)
  show ?case
  proof (cases "i < j")
    case True
    let ?h = "(i + j) div 2"
    from True have h: "i \<le> ?h" "?h < j" by auto
    with 1 True have "bisect r i ?h = i" by simp
    with True h 1(3) show ?thesis by (subst bisect.simps) (simp add: Let_def)
  next
    case False
    then show ?thesis by (subst bisect.simps) simp
  qed
qed

lemma insertionSort_least_first:
  assumes "least_first xs" and "b \<le> length xs"
  shows "insertionSort xs a b = xs"
proof -
  have "fold (\<lambda>i xs. insert_down xs a i) is xs = xs" if "\<forall>i \<in> set is. i < length xs" for "is"
    using that assms(1) by (induction "is") (auto simp: insert_down.simps least_first_def)
  with assms(2) show ?thesis by (simp add: insertionSort_def)
qed

lemma sym_start_least_first:
  assumes "least_first xs" and "a \<le> m" and "m \<le> b" and "b \<le> length xs"
  shows "sym_start xs a m b = min m ((a + b) div 2)"
proof (cases "(a + b) div 2 < m")
  case True
  let ?n = "(a + b) div 2 + m"
  have "bisect (\<lambda>c. \<not> less_first xs (?n - 1 - c)) (?n - b) ((a + b) div 2) = (a + b) div 2"
    using assms True by (intro bisect_right) (auto simp: least_first_def)
  with True show ?thesis by (simp add: sym_start_def Let_def)
next
  case False
  let ?n = "(a + b) div 2 + m"
  have "bisect (\<lambda>c. \<not> less_first xs (?n - 1 - c)) a m = m"
    using assms False by (intro bisect_right) (auto simp: least_first_def)
  with False show ?thesis by (simp add: sym_start_def Let_def)
qed

lemma symMerge_least_first:
  "least_first xs \<Longrightarrow> a \<le> m \<Longrightarrow> m \<le> b \<Longrightarrow> b \<le> length xs \<Longrightarrow> symMerge xs a m b = xs"
proof (induction "b - a" arbitrary: a m b rule: less_induct)
  case less
  note h = less.prems
  consider "m - a = 1" | "m - a \<noteq> 1" "b - m = 1" | (rec) "m - a \<noteq> 1" "b - m \<noteq> 1" by blast
  then show ?case
  proof cases
    case 1
    have "bisect (less_first xs) m b = m" using h by (intro bisect_left) (auto simp: least_first_def)
    with 1 show ?thesis by (subst symMerge.simps) (simp add: move_up_def)
  next
    case 2
    then have "m < length xs" using h by simp
    then have "bisect (\<lambda>h. \<not> less_first xs m) a m = m" using h by (intro bisect_right) (auto simp: least_first_def)
    with 2 show ?thesis by (subst symMerge.simps) (simp add: move_down_def)
  next
    case rec
    let ?mid = "(a + b) div 2"
    have rec_left: "symMerge xs a m ?mid = xs" if "a < m" "m < ?mid"
      using that h by (intro less.hyps) auto
    have rec_right: "symMerge xs ?mid m b = xs" if "?mid < m" "m < b"
      using that h mid_gt [OF that] by (intro less.hyps) auto
    show ?thesis
      using rec rec_left rec_right h
      by (subst symMerge.simps) (auto simp: Let_def sym_start_least_first sym_rotate_def min_def)
  qed
qed

lemma sort_blocks_least_first: "least_first xs \<Longrightarrow> n = length xs \<Longrightarrow> sort_blocks xs n a bs = xs"
proof (induction "n - a" arbitrary: a rule: less_induct)
  case less
  then show ?case by (subst sort_blocks.simps) (auto simp: insertionSort_least_first)
qed

lemma merge_blocks_least_first: "least_first xs \<Longrightarrow> n = length xs \<Longrightarrow> merge_blocks xs n a bs = xs"
proof (induction "n - a" arbitrary: a rule: less_induct)
  case less
  then show ?case by (subst merge_blocks.simps) (auto simp: symMerge_least_first)
qed

lemma merge_passes_least_first: "least_first xs \<Longrightarrow> n = length xs \<Longrightarrow> merge_passes xs n bs = xs"
proof (induction "n - bs" arbitrary: bs rule: less_induct)
  case less
  then show ?case by (subst merge_passes.simps) (auto simp: merge_blocks_least_first)
qed

lemma SliceStable_least_first: "least_first xs \<Longrightarrow> SliceStable xs = xs"
  by (simp add: SliceStable_def sort_blocks_least_first merge_passes_least_first)

lemma sorted_least_first: "sorted xs \<Longrightarrow> least_first xs"
  by (auto simp: least_first_def less_first_def not_less intro: sorted_nth_mono)

section \<open>Binary search\<close>

lemma bisect_spec:
  assumes "\<forall>h h'. h \<le> h' \<and> h' < j \<and> r h' \<longrightarrow> r h" and "i \<le> j"
  shows "(\<forall>h. i \<le> h \<and> h < bisect r i j \<longrightarrow> r h) \<and> (\<forall>h. bisect r i j \<le> h \<and> h < j \<longrightarrow> \<not> r h)"
  using assms
proof (induction r i j rule: bisect.induct)
  case (1 r i j)
  show ?case
  proof (cases "i < j")
    case True
    let ?h = "(i + j) div 2"
    have h: "i \<le> ?h" "?h < j" using True by auto
    show ?thesis
    proof (cases "r ?h")
      case r: True
      then have b: "bisect r i j = bisect r (?h + 1) j" using True by (subst bisect.simps) (simp add: Let_def)
      have "(\<forall>x. ?h + 1 \<le> x \<and> x < bisect r (?h + 1) j \<longrightarrow> r x) \<and> (\<forall>x. bisect r (?h + 1) j \<le> x \<and> x < j \<longrightarrow> \<not> r x)"
        using 1(1) [OF True refl r] 1(3) h by simp
      moreover have "r x" if "x \<le> ?h" for x using 1(3) r h that by blast
      ultimately show ?thesis unfolding b by (metis Suc_eq_plus1 not_less_eq_eq)
    next
      case r: False
      then have b: "bisect r i j = bisect r i ?h" using True by (subst bisect.simps) (simp add: Let_def)
      have "(\<forall>x. i \<le> x \<and> x < bisect r i ?h \<longrightarrow> r x) \<and> (\<forall>x. bisect r i ?h \<le> x \<and> x < ?h \<longrightarrow> \<not> r x)"
        using 1(2) [OF True refl r] 1(3) h by (meson less_trans)
      moreover have "\<not> r x" if "?h \<le> x" "x < j" for x using 1(3) r that by blast
      ultimately show ?thesis unfolding b by (metis not_le)
    qed
  next
    case False
    with 1(4) show ?thesis by (subst (1 2) bisect.simps) auto
  qed
qed

lemma found_mem: "found xs x \<Longrightarrow> x \<in> set xs"
  by (auto simp: found_def Let_def in_set_conv_nth)

lemma sorted_found_iff:
  assumes "sorted xs"
  shows "found xs x \<longleftrightarrow> x \<in> set xs"
proof
  assume "x \<in> set xs"
  then obtain k where k: "k < length xs" "xs ! k = x" by (auto simp: in_set_conv_nth)
  let ?f = "SearchStrings xs x"
  have mono: "\<forall>h h'. h \<le> h' \<and> h' < length xs \<and> \<not> x \<le> xs ! h' \<longrightarrow> \<not> x \<le> xs ! h"
    using assms by (meson order_trans sorted_nth_mono)
  note spec = bisect_spec [OF mono, of 0, folded SearchStrings_def]
  from spec k have f: "?f \<le> k" by (metis le0 linorder_not_le order_refl)
  then have "x \<le> xs ! ?f" using spec k by (meson le_refl le_trans less_le_trans not_le le0)
  moreover have "xs ! ?f \<le> x" using assms f k by (metis sorted_nth_mono)
  ultimately show "found xs x" using f k by (simp add: found_def Let_def)
qed (rule found_mem)

end
