(* ===== verification/Classes.thy ===== *)
theory Classes
  imports Modules SortSearch
begin

text \<open>
  internal/modules/ingressclass, storageclass and priorityclass: the legacy modules that let a tenant
  see the classes it allows by exact name, by default, by regular expression or by label selector.
  The three packages repeat the same code for different kinds; the shared steps are defined once and
  instantiated per package.
\<close>

section \<open>What the tenants allow\<close>

record class_rules =
  c_allowed :: bool
  c_exact :: "string list"
  c_regex :: "string list"
  c_requirements :: "requirement list"

definition no_rules :: class_rules where
  "no_rules = \<lparr>c_allowed = False, c_exact = [], c_regex = [], c_requirements = []\<rparr>"

text \<open>
  One tenant's allowed list. \<^verbatim>\<open>regexp.MustCompile\<close> panics on an invalid expression. The deferred
  fields are appended in the order of the code.
\<close>

definition add_allowed :: "labels_api \<Rightarrow> auth_env \<Rightarrow> AllowedList option \<Rightarrow> class_rules \<Rightarrow> class_rules outcome" where
  "add_allowed L E al c =
     (case al of
        None \<Rightarrow> Ok (c\<lparr>c_allowed := True\<rparr>)
      | Some a \<Rightarrow>
          if 0 < length (al_Regex a) \<and> \<not> regexpCompiles E (al_Regex a) then Panic
          else Ok \<lparr>c_allowed = True,
                   c_exact = c_exact c @ al_Exact a @ (if 0 < length (al_Default a) then [al_Default a] else []),
                   c_regex = c_regex c @ (if 0 < length (al_Regex a) then [al_Regex a] else []),
                   c_requirements = c_requirements c @ selector_requirements L al\<rparr>)"

fun collect_classes :: "labels_api \<Rightarrow> auth_env \<Rightarrow> string \<Rightarrow> (Tenant \<Rightarrow> AllowedList option) \<Rightarrow> http_request
    \<Rightarrow> ProxyTenant list \<Rightarrow> class_rules \<Rightarrow> class_rules outcome" where
  "collect_classes L E kind classes r [] c = Ok c"
| "collect_classes L E kind classes r (pt # pts) c =
     bind_outcome (RequestAllowed pt r kind) (\<lambda>ok.
       if \<not> ok then collect_classes L E kind classes r pts c
       else bind_outcome (add_allowed L E (classes (pt_Tenant pt)) c) (collect_classes L E kind classes r pts))"

definition get_classes :: "labels_api \<Rightarrow> auth_env \<Rightarrow> string \<Rightarrow> (Tenant \<Rightarrow> AllowedList option) \<Rightarrow> http_request
    \<Rightarrow> ProxyTenant list \<Rightarrow> class_rules outcome" where
  "get_classes L E kind classes r proxyTenants =
     bind_outcome (collect_classes L E kind classes r proxyTenants no_rules)
       (\<lambda>c. Ok (c\<lparr>c_exact := SliceStable (c_exact c)\<rparr>))"

definition getIngressClasses :: "labels_api \<Rightarrow> auth_env \<Rightarrow> http_request \<Rightarrow> ProxyTenant list \<Rightarrow> class_rules outcome" where
  "getIngressClasses L E r proxyTenants = get_classes L E IngressClassesProxy t_IngressClasses r proxyTenants"

definition getStorageClasses :: "labels_api \<Rightarrow> auth_env \<Rightarrow> http_request \<Rightarrow> ProxyTenant list \<Rightarrow> class_rules outcome" where
  "getStorageClasses L E r proxyTenants = get_classes L E StorageClassesProxy t_StorageClasses r proxyTenants"

definition getPriorityClass :: "labels_api \<Rightarrow> auth_env \<Rightarrow> http_request \<Rightarrow> ProxyTenant list \<Rightarrow> class_rules outcome" where
  "getPriorityClass L E r proxyTenants = get_classes L E PriorityClassesProxy t_PriorityClasses r proxyTenants"

section \<open>Selectors by name\<close>

definition regexed :: "auth_env \<Rightarrow> string list \<Rightarrow> string \<Rightarrow> bool" where
  "regexed E regex name = list_ex (\<lambda>p. regexpMatch E p name) regex"

definition class_names :: "auth_env \<Rightarrow> kobject list \<Rightarrow> string list \<Rightarrow> string list \<Rightarrow> string list" where
  "class_names E items exact regex =
     map o_Name (filter (\<lambda>i. regexed E regex (o_Name i) \<or> found exact (o_Name i)) items)"

definition class_selector ::
    "labels_api \<Rightarrow> auth_env \<Rightarrow> kobject list \<Rightarrow> string list \<Rightarrow> string list \<Rightarrow> string \<Rightarrow> error + requirement" where
  "class_selector L E items exact regex what =
     (let names = class_names E items exact regex in
      if 0 < length names then newRequirement L LabelMetadataName op_In names
      else Inl (PlainError (''cannot create LabelSelector for the requested '' @ what @ '' requirement'')))"

definition getIngressClassSelector :: "labels_api \<Rightarrow> auth_env \<Rightarrow> kobject list \<Rightarrow> string list \<Rightarrow> string list \<Rightarrow> error + requirement" where
  "getIngressClassSelector L E items exact regex = class_selector L E items exact regex ''IngressClass''"

definition getStorageClassSelector :: "labels_api \<Rightarrow> auth_env \<Rightarrow> kobject list \<Rightarrow> string list \<Rightarrow> string list \<Rightarrow> error + requirement" where
  "getStorageClassSelector L E items exact regex = class_selector L E items exact regex ''StorageClass''"

definition getPriorityClassSelector :: "labels_api \<Rightarrow> auth_env \<Rightarrow> kobject list \<Rightarrow> string list \<Rightarrow> string list \<Rightarrow> error + requirement" where
  "getPriorityClassSelector L E items exact regex = class_selector L E items exact regex ''PriorityClass''"

section \<open>The steps of the handlers\<close>

text \<open>\<open>items\<close> is the list read from the API server, \<open>sel\<close> the selector function of the package.\<close>

definition answer_list ::
    "labels_api \<Rightarrow> string \<times> string \<Rightarrow> class_rules \<Rightarrow> kobject list outcome
      \<Rightarrow> (kobject list \<Rightarrow> string list \<Rightarrow> string list \<Rightarrow> error + requirement) \<Rightarrow> answer" where
  "answer_list L gk c items sel =
     (if 0 < length (c_requirements c) then HandleListSelector L (c_requirements c)
      else bind_outcome (bad_request gk items) (\<lambda>objs.
        case sel objs (c_exact c) (c_regex c) of
          Inr r \<Rightarrow> Ok (Some [r])
        | Inl e \<Rightarrow> if \<not> c_allowed c then Err (NewNotAllowed gk) else nothing_selector L))"

definition answer_get ::
    "labels_api \<Rightarrow> string \<times> string \<Rightarrow> string \<Rightarrow> string \<Rightarrow> class_rules \<Rightarrow> answer \<Rightarrow> kobject list outcome
      \<Rightarrow> (kobject list \<Rightarrow> string list \<Rightarrow> string list \<Rightarrow> error + requirement) \<Rightarrow> answer" where
  "answer_get L gk name meth c by_selector items sel =
     (if 0 < length (c_requirements c) then by_selector
      else bind_outcome (bad_request gk items) (\<lambda>objs.
        case sel objs (c_exact c) (c_regex c) of
          Inr r \<Rightarrow> Ok (Some [r])
        | Inl e \<Rightarrow> if meth = MethodGet then Err (NewNotFoundError name gk) else Ok None))"

section \<open>Ingress classes\<close>

abbreviation ingressclass_gk :: "string \<times> string" where "ingressclass_gk \<equiv> (''networking.k8s.io'', ''ingressclasses'')"

text \<open>
  Both \<^verbatim>\<open>getIngressClassListFromRequest\<close> and \<^verbatim>\<open>getIngressClassFromRequest\<close> accept the two published
  versions; the version picks the API the objects are read from.
\<close>

definition getIngressClassListFromRequest :: "http_request \<Rightarrow> string outcome" where
  "getIngressClassListFromRequest r =
     (let v = Var r ''version'' in
      if v = ''v1'' then Ok ''ingressclasses.v1''
      else if v = ''v1beta1'' then Ok ''ingressclasses.v1beta1''
      else Err (PlainError (''ingressClass '' @ v @ '' is not supported'')))"

definition getIngressClassFromRequest :: "http_request \<Rightarrow> string outcome" where
  "getIngressClassFromRequest r =
     (let v = Var r ''version'' in
      if v = ''v1'' then Ok ''ingressclasses.v1''
      else if v = ''v1beta1'' then Ok ''ingressclasses.v1beta1''
      else Err (PlainError (''ingressClass '' @ v @ '' is not supported'')))"

definition ingressclass_list_Handle :: "module_env \<Rightarrow> ProxyTenant list \<Rightarrow> http_request \<Rightarrow> answer" where
  "ingressclass_list_Handle V proxyTenants r =
     bind_outcome (getIngressClasses (m_labels V) (m_auth V) r proxyTenants) (\<lambda>c.
       answer_list (m_labels V) ingressclass_gk c
         (bind_outcome (getIngressClassListFromRequest r) (\<lambda>res. lift_sum (ListObjects (m_reader V) res ListAll)))
         (getIngressClassSelector (m_labels V) (m_auth V)))"

definition ingressclass_get_Handle :: "module_env \<Rightarrow> ProxyTenant list \<Rightarrow> http_request \<Rightarrow> answer" where
  "ingressclass_get_Handle V proxyTenants r =
     (let name = Var r ''name'' in
      bind_outcome (getIngressClasses (m_labels V) (m_auth V) r proxyTenants) (\<lambda>c.
        answer_get (m_labels V) ingressclass_gk name (Method r) c
          (bind_outcome (bad_request ingressclass_gk (getIngressClassFromRequest r)) (\<lambda>res.
             HandleGetSelector (m_labels V) (GetObject (m_reader V) res) (c_requirements c) name ingressclass_gk))
          (bind_outcome (getIngressClassListFromRequest r) (\<lambda>res.
             lift_sum (ListObjects (m_reader V) res (MatchingLabels [(LabelMetadataName, name)]))))
          (getIngressClassSelector (m_labels V) (m_auth V))))"

section \<open>Storage classes\<close>

abbreviation storageclass_gk :: "string \<times> string" where "storageclass_gk \<equiv> (''storage.k8s.io'', ''storageclasses'')"

definition storageclass_list_Handle :: "module_env \<Rightarrow> ProxyTenant list \<Rightarrow> http_request \<Rightarrow> answer" where
  "storageclass_list_Handle V proxyTenants r =
     bind_outcome (getStorageClasses (m_labels V) (m_auth V) r proxyTenants) (\<lambda>c.
       answer_list (m_labels V) storageclass_gk c (lift_sum (ListObjects (m_reader V) ''storageclasses'' ListAll))
         (getStorageClassSelector (m_labels V) (m_auth V)))"

definition storageclass_get_Handle :: "module_env \<Rightarrow> ProxyTenant list \<Rightarrow> http_request \<Rightarrow> answer" where
  "storageclass_get_Handle V proxyTenants r =
     (let name = Var r ''name'' in
      bind_outcome (getStorageClasses (m_labels V) (m_auth V) r proxyTenants) (\<lambda>c.
        answer_get (m_labels V) storageclass_gk name (Method r) c
          (HandleGetSelector (m_labels V) (GetObject (m_reader V) ''storageclasses'') (c_requirements c) name storageclass_gk)
          (lift_sum (ListObjects (m_reader V) ''storageclasses'' (MatchingLabels [(LabelMetadataName, name)])))
          (getStorageClassSelector (m_labels V) (m_auth V))))"

section \<open>Priority classes\<close>

abbreviation priorityclass_gk :: "string \<times> string" where "priorityclass_gk \<equiv> (''scheduling.k8s.io'', ''priorityclasses'')"

definition priorityclass_list_Handle :: "module_env \<Rightarrow> ProxyTenant list \<Rightarrow> http_request \<Rightarrow> answer" where
  "priorityclass_list_Handle V proxyTenants r =
     bind_outcome (getPriorityClass (m_labels V) (m_auth V) r proxyTenants) (\<lambda>c.
       answer_list (m_labels V) priorityclass_gk c (lift_sum (ListObjects (m_reader V) ''priorityclasses'' ListAll))
         (getPriorityClassSelector (m_labels V) (m_auth V)))"

definition priorityclass_get_Handle :: "module_env \<Rightarrow> ProxyTenant list \<Rightarrow> http_request \<Rightarrow> answer" where
  "priorityclass_get_Handle V proxyTenants r =
     (let name = Var r ''name'' in
      bind_outcome (getPriorityClass (m_labels V) (m_auth V) r proxyTenants) (\<lambda>c.
        answer_get (m_labels V) priorityclass_gk name (Method r) c
          (HandleGetSelector (m_labels V) (GetObject (m_reader V) ''priorityclasses'') (c_requirements c) name priorityclass_gk)
          (lift_sum (ListObjects (m_reader V) ''priorityclasses'' (MatchingLabels [(LabelMetadataName, name)])))
          (getPriorityClassSelector (m_labels V) (m_auth V))))"

section \<open>Lemmas\<close>

text \<open>A name that an allowed list admits, by exact name or default, or by its regular expression.\<close>

definition names_class :: "AllowedList \<Rightarrow> string \<Rightarrow> bool" where
  "names_class a nm \<longleftrightarrow> nm \<in> set (al_Exact a) \<or> nm = al_Default a \<and> nm \<noteq> []"

definition admits :: "auth_env \<Rightarrow> AllowedList \<Rightarrow> string \<Rightarrow> bool" where
  "admits E a nm \<longleftrightarrow> names_class a nm \<or> al_Regex a \<noteq> [] \<and> regexpMatch E (al_Regex a) nm"

definition granting :: "(Tenant \<Rightarrow> AllowedList option) \<Rightarrow> string \<Rightarrow> http_request \<Rightarrow> ProxyTenant list \<Rightarrow> AllowedList set" where
  "granting classes kind r pts = {a. \<exists>pt \<in> set pts. RequestAllowed pt r kind = Ok True \<and> classes (pt_Tenant pt) = Some a}"

lemma granting_Cons:
  "granting classes kind r (pt # pts) =
     (if RequestAllowed pt r kind = Ok True then set_option (classes (pt_Tenant pt)) else {}) \<union> granting classes kind r pts"
  by (auto simp: granting_def)

lemma add_allowed_sets:
  assumes "add_allowed L E al c = Ok c'"
  shows "set (c_exact c') = set (c_exact c) \<union> {nm. \<exists>a \<in> set_option al. names_class a nm}"
    and "set (c_regex c') = set (c_regex c) \<union> {p. \<exists>a \<in> set_option al. p = al_Regex a \<and> p \<noteq> []}"
  using assms by (auto simp: add_allowed_def names_class_def split: option.splits if_splits)

lemma collect_classes_sets:
  "collect_classes L E kind classes r pts c = Ok c' \<Longrightarrow>
     set (c_exact c') = set (c_exact c) \<union> {nm. \<exists>a \<in> granting classes kind r pts. names_class a nm}
   \<and> set (c_regex c') = set (c_regex c) \<union> {p. \<exists>a \<in> granting classes kind r pts. p = al_Regex a \<and> p \<noteq> []}"
proof (induction pts arbitrary: c)
  case Nil
  then show ?case by (simp add: granting_def)
next
  case (Cons pt pts)
  from Cons.prems obtain ok where ok: "RequestAllowed pt r kind = Ok ok" by auto
  show ?case
  proof (cases ok)
    case True
    with Cons.prems ok obtain c1 where c1: "add_allowed L E (classes (pt_Tenant pt)) c = Ok c1"
      and "collect_classes L E kind classes r pts c1 = Ok c'" by auto
    from Cons.IH [OF this(2)] add_allowed_sets [OF c1] ok True show ?thesis by (auto simp: granting_Cons)
  next
    case False
    with Cons ok show ?thesis by (simp add: granting_Cons)
  qed
qed

lemma get_classes_sets:
  assumes "get_classes L E kind classes r pts = Ok c"
  shows "set (c_exact c) = {nm. \<exists>a \<in> granting classes kind r pts. names_class a nm}"
    and "set (c_regex c) = {p. \<exists>a \<in> granting classes kind r pts. p = al_Regex a \<and> p \<noteq> []}"
  using assms collect_classes_sets [of L E kind classes r pts no_rules]
  by (auto simp: get_classes_def no_rules_def set_SliceStable)

lemma class_names_sound:
  assumes "get_classes L E kind classes r pts = Ok c" and "nm \<in> set (class_names E items (c_exact c) (c_regex c))"
  shows "\<exists>a \<in> granting classes kind r pts. admits E a nm"
  using assms(2) found_mem [of "c_exact c" nm] get_classes_sets [OF assms(1)]
  by (auto simp: class_names_def regexed_def list_ex_iff admits_def)

lemma class_names_complete:
  assumes "get_classes L E kind classes r pts = Ok c" and "sorted (c_exact c)"
    and "a \<in> granting classes kind r pts" and "admits E a nm" and "nm \<in> o_Name ` set items"
  shows "nm \<in> set (class_names E items (c_exact c) (c_regex c))"
  using assms(3-5) sorted_found_iff [OF assms(2), of nm] get_classes_sets [OF assms(1)]
  by (auto simp: class_names_def regexed_def list_ex_iff admits_def)

lemma class_selector_selects:
  assumes "new_requirement_ok L" and "matches_ok L" and "class_selector L E items exact regex what = Inr req"
    and "map_of ls LabelMetadataName = Some nm"
  shows "selects L [req] ls \<longleftrightarrow> nm \<in> set (class_names E items exact regex)"
proof -
  from assms(3) have "newRequirement L LabelMetadataName op_In (class_names E items exact regex) = Inr req"
    by (auto simp: class_selector_def Let_def split: if_splits)
  note new = newRequirement_Inr [OF assms(1) this]
  show ?thesis using assms(4) new matches_In [OF assms(2) new(2), of ls] by simp
qed

text \<open>The list handlers without label requirements: the answer selects exactly the collected names.\<close>

lemma answer_list_selects:
  assumes "new_requirement_ok L" and "matches_ok L" and "c_requirements c = []"
    and "answer_list L gk c (lift_sum (Inr items)) (\<lambda>i e x. class_selector L E i e x what) = Ok (Some sel)"
    and "map_of ls LabelMetadataName = Some nm" and "map_of ls ''dontexistsignoreme'' = None"
  shows "selects L sel ls \<longleftrightarrow> nm \<in> set (class_names E items (c_exact c) (c_regex c))
    \<and> \<not> isl (class_selector L E items (c_exact c) (c_regex c) what)"
proof (cases "class_selector L E items (c_exact c) (c_regex c) what")
  case (Inr req)
  with assms(3,4) have "sel = [req]" by (simp add: answer_list_def)
  with class_selector_selects [OF assms(1,2) Inr assms(5)] Inr show ?thesis by simp
next
  case (Inl e)
  with assms(3,4) have "nothing_selector L = Ok (Some sel)" by (auto simp: answer_list_def split: if_splits)
  from nothing_selector_selects [OF assms(1,2) this assms(6)] Inl show ?thesis by simp
qed

section \<open>Properties\<close>


section \<open>Concrete classes\<close>

text \<open>A tenant that allows listing and names the classes in the order given; the cluster has the classes a, b and c.\<close>

definition doc_class_view :: "string list \<Rightarrow> ProxyTenant" where
  "doc_class_view names = \<lparr>pt_Tenant = globalTenant\<lparr>t_Name := ''oil'', t_StorageClasses := Some \<lparr>al_Exact = names, al_Default = '''',
     al_Regex = '''', al_LabelSelector = \<lparr>matchLabels = [], matchExpressions = []\<rparr>\<rparr>\<rparr>,
     pt_ProxySetting = [(StorageClassesProxy, defaultOperations\<lparr>op_List := True\<rparr>)], pt_ClusterResources = []\<rparr>"

definition doc_class :: "string \<Rightarrow> kobject" where
  "doc_class name = \<lparr>o_Name = name, o_Labels = [(LabelMetadataName, name)], o_OwnerReferences = []\<rparr>"

definition doc_classes :: module_env where
  "doc_classes = doc_modules\<lparr>m_reader := \<lparr>GetObject = (\<lambda>_ _. Inl (PlainError ''forbidden'')),
     ListObjects = (\<lambda>_ _. Inr [doc_class ''a'', doc_class ''b'', doc_class ''c''])\<rparr>\<rparr>"

lemma doc_slices [simp]: "SliceStable [''a'', ''b''] = [''a'', ''b'']" "SliceStable [''a'', ''c'', ''b''] = [''a'', ''c'', ''b'']"
  by code_simp+

lemma doc_found:
  "found [''a'', ''c'', ''b''] ''a''" "\<not> found [''a'', ''c'', ''b''] ''b''" "found [''a'', ''c'', ''b''] ''c''"
  by code_simp+

lemma doc_collect:
  "getStorageClasses doc_labels doc_env doc_admin_request [doc_class_view names]
   = Ok \<lparr>c_allowed = True, c_exact = SliceStable names, c_regex = [], c_requirements = []\<rparr>"
  by (simp add: getStorageClasses_def get_classes_def RequestAllowed_def IsAllowed_def doc_class_view_def add_allowed_def
      no_rules_def selector_requirements_def doc_labels_defs doc_admin_request_def doc_request_def)

lemma doc_classes_env: "m_labels doc_classes = doc_labels" "m_auth doc_classes = doc_env"
    "ListObjects (m_reader doc_classes) ''storageclasses'' ListAll = Inr [doc_class ''a'', doc_class ''b'', doc_class ''c'']"
  by (simp_all add: doc_classes_def doc_modules_def)

text \<open>
  An example: the exact names are not sorted by the comparison the code passes to \<^verbatim>\<open>sort.SliceStable\<close>, which
  compares with the first element only, so that the binary search over them misses names: with the
  classes a, c and b allowed in this order, all three existing, the list shows a and c and hides b.
\<close>

lemma allowed_class_hidden:
  "storageclass_list_Handle doc_classes [doc_class_view [''a'', ''c'', ''b'']] doc_admin_request
   = Ok (Some [\<lparr>Key = LabelMetadataName, Operator = op_In, Values = [''a'', ''c'']\<rparr>])"
  by (simp add: storageclass_list_Handle_def doc_classes_env doc_collect answer_list_def getStorageClassSelector_def
      class_selector_def class_names_def regexed_def doc_class_def doc_found)
     (simp add: doc_labels_defs)

lemma doc_class_list:
  "storageclass_list_Handle doc_classes [doc_class_view [''a'', ''b'']] doc_admin_request
   = Ok (Some [\<lparr>Key = LabelMetadataName, Operator = op_In, Values = [''a'', ''b'']\<rparr>])"
  by (simp add: storageclass_list_Handle_def doc_classes_env doc_collect answer_list_def getStorageClassSelector_def
      class_selector_def class_names_def regexed_def doc_class_def sorted_found_iff)
     (simp add: doc_labels_defs)


end
