(* ===== verification/Ownership.thy ===== *)
theory Ownership
  imports Tenants
begin

text \<open>
  internal/indexer and the part of internal/webserver/webserver.go that finds the tenants of a user
  and of its groups: the index functions, the conversion of Capsule owners, and
  \<^verbatim>\<open>getTenantsForOwner\<close>. The indexed lists of the manager's client are the argument \<open>owner_reader\<close>.
\<close>

section \<open>Index functions\<close>

definition owner_key :: "string \<Rightarrow> string \<Rightarrow> string" where
  "owner_key kind name = kind @ '':'' @ name"

definition TenantOwnerReference_Func :: "Tenant \<Rightarrow> string list" where
  "TenantOwnerReference_Func tnt = map (\<lambda>w. owner_key (co_Kind w) (co_Name w)) (t_StatusOwners tnt)"

definition ProxySetting_Func :: "ProxySetting \<Rightarrow> string list" where
  "ProxySetting_Func p = map (\<lambda>w. owner_key (os_Kind w) (os_Name w)) (pset_Subjects p)"

definition GlobalProxySetting_Func :: "GlobalProxySettings \<Rightarrow> string list" where
  "GlobalProxySetting_Func p =
     concat (map (\<lambda>rule. concat (map (\<lambda>s.
       if gs_Kind s = '''' \<or> gs_Name s = '''' then [] else [owner_key (gs_Kind s) (gs_Name s)]) (gr_Subjects rule)))
       (gps_Rules p))"

section \<open>Tenants of an owner\<close>

record owner_reader =
  tenantsByOwner :: "string \<Rightarrow> error + Tenant list"
  settingsBySubject :: "string \<Rightarrow> error + ProxySetting list"
  tenantsByNamespace :: "string \<Rightarrow> error + Tenant list"
  globalsBySubject :: "string \<Rightarrow> error + GlobalProxySettings list"

definition ownerFromCapsuleToProxySetting :: "CapsuleOwner list \<Rightarrow> OwnerSpec list" where
  "ownerFromCapsuleToProxySetting owners =
     map (\<lambda>w. \<lparr>os_Kind = co_Kind w, os_Name = co_Name w, os_ClusterResources = [], os_ProxyOperations = co_ProxyOperations w\<rparr>) owners"

text \<open>An error of a list that the code only logs leaves an empty list behind.\<close>

definition items_or_nil :: "error + 'a list \<Rightarrow> 'a list" where
  "items_or_nil r = (case r of Inl e \<Rightarrow> [] | Inr xs \<Rightarrow> xs)"

fun setting_tenants :: "owner_reader \<Rightarrow> bool \<Rightarrow> string \<Rightarrow> string \<Rightarrow> ProxySetting list \<Rightarrow> ProxyTenant list outcome" where
  "setting_tenants R clusterScoped kind name [] = Ok []"
| "setting_tenants R clusterScoped kind name (p # ps) =
     (case tenantsByNamespace R (pset_Namespace p) of
        Inr (t # _) \<Rightarrow>
          bind_outcome (NewProxyTenant t name kind (pset_Subjects p) clusterScoped) (\<lambda>pt.
            bind_outcome (setting_tenants R clusterScoped kind name ps) (\<lambda>pts. Ok (pt # pts)))
      | _ \<Rightarrow> setting_tenants R clusterScoped kind name ps)"

fun owned_tenants :: "bool \<Rightarrow> string \<Rightarrow> string \<Rightarrow> Tenant list \<Rightarrow> ProxyTenant list outcome" where
  "owned_tenants clusterScoped kind name [] = Ok []"
| "owned_tenants clusterScoped kind name (t # ts) =
     bind_outcome (NewProxyTenant t name kind (ownerFromCapsuleToProxySetting (t_Owners t)) clusterScoped) (\<lambda>pt.
       bind_outcome (owned_tenants clusterScoped kind name ts) (\<lambda>pts. Ok (pt # pts)))"

definition getProxyTenantsForOwnerKind :: "owner_reader \<Rightarrow> bool \<Rightarrow> string \<Rightarrow> string \<Rightarrow> ProxyTenant list outcome" where
  "getProxyTenantsForOwnerKind R clusterScoped ownerKind ownerName =
     (let ownerIndexValue = owner_key ownerKind ownerName in
      case tenantsByOwner R ownerIndexValue of
        Inl e \<Rightarrow> Err (wrap ''cannot retrieve Tenants list'' e)
      | Inr tnts \<Rightarrow>
          bind_outcome (setting_tenants R clusterScoped ownerKind ownerName (items_or_nil (settingsBySubject R ownerIndexValue))) (\<lambda>a.
            let b = (if clusterScoped
                     then map (\<lambda>g. NewClusterProxy ownerName ownerKind (gps_Rules g)) (items_or_nil (globalsBySubject R ownerIndexValue))
                     else []) in
            bind_outcome (owned_tenants clusterScoped ownerKind ownerName tnts) (\<lambda>c. Ok (a @ b @ c))))"

definition wrap_outcome :: "string \<Rightarrow> 'a outcome \<Rightarrow> 'a outcome" where
  "wrap_outcome msg r = (case r of Err e \<Rightarrow> Err (wrap msg e) | x \<Rightarrow> x)"

fun group_tenants :: "owner_reader \<Rightarrow> bool \<Rightarrow> string list \<Rightarrow> ProxyTenant list \<Rightarrow> ProxyTenant list outcome" where
  "group_tenants R clusterScoped [] acc = Ok acc"
| "group_tenants R clusterScoped (g # gs) acc =
     bind_outcome (wrap_outcome ''cannot get Tenants slice owned by Tenant Owner''
         (getProxyTenantsForOwnerKind R clusterScoped GroupOwner g)) (\<lambda>pt.
       group_tenants R clusterScoped gs (acc @ pt))"

definition user_kind :: "string \<Rightarrow> string" where
  "user_kind username = (if HasPrefix username ''system:serviceaccount:'' then ServiceAccountOwner else UserOwner)"

definition getTenantsForOwner :: "owner_reader \<Rightarrow> bool \<Rightarrow> string \<Rightarrow> string list \<Rightarrow> ProxyTenant list outcome" where
  "getTenantsForOwner R clusterScoped username groups =
     bind_outcome (wrap_outcome ''cannot get Tenants slice owned by Tenant Owner''
         (getProxyTenantsForOwnerKind R clusterScoped (user_kind username) username)) (\<lambda>pts.
       group_tenants R clusterScoped groups pts)"

section \<open>Lemmas\<close>

text \<open>A view built in legacy mode has an entry for each of the six service kinds.\<close>

definition legacy_view :: "ProxyTenant \<Rightarrow> bool" where
  "legacy_view pt \<longleftrightarrow> (\<forall>k \<in> set service_kinds. map_of (pt_ProxySetting pt) k \<noteq> None)"

lemma NewProxyTenant_legacy:
  assumes "NewProxyTenant t n k ws False = Ok pt"
  shows "legacy_view pt"
proof -
  obtain crs ops where ow: "owner_settings n k False ws ([], []) = (crs, ops)" by fastforce
  with assms obtain m where m: "allow_settings defaultProxySettings ops = Ok m" and pt: "pt_ProxySetting pt = m"
    by (auto simp: NewProxyTenant_def)
  from allow_settings_spec [of ops defaultProxySettings] m
  have "map_of m = (\<lambda>k. map_option (\<lambda>x. merge_operations x (granted ops k)) (map_of defaultProxySettings k))"
    by (auto split: if_splits)
  then show ?thesis by (simp add: legacy_view_def pt)
qed

lemma setting_tenants_legacy: "setting_tenants R False k n ps = Ok pts \<Longrightarrow> \<forall>pt \<in> set pts. legacy_view pt"
  by (induction ps arbitrary: pts) (fastforce split: sum.splits list.splits dest: NewProxyTenant_legacy)+

lemma owned_tenants_legacy: "owned_tenants False k n ts = Ok pts \<Longrightarrow> \<forall>pt \<in> set pts. legacy_view pt"
  by (induction ts arbitrary: pts) (fastforce dest: NewProxyTenant_legacy)+

lemma owner_kind_legacy:
  "getProxyTenantsForOwnerKind R False k n = Ok pts \<Longrightarrow> \<forall>pt \<in> set pts. legacy_view pt"
  unfolding getProxyTenantsForOwnerKind_def Let_def
  by (auto split: sum.splits dest!: setting_tenants_legacy owned_tenants_legacy)

lemma wrap_outcome_Ok [simp]: "wrap_outcome msg r = Ok x \<longleftrightarrow> r = Ok x"
  by (cases r) (simp_all add: wrap_outcome_def)

lemma group_tenants_legacy:
  "group_tenants R False gs acc = Ok pts \<Longrightarrow> \<forall>pt \<in> set acc. legacy_view pt \<Longrightarrow> \<forall>pt \<in> set pts. legacy_view pt"
proof (induction gs arbitrary: acc)
  case Nil
  then show ?case by simp
next
  case (Cons g gs)
  then obtain x where "getProxyTenantsForOwnerKind R False GroupOwner g = Ok x"
    and "group_tenants R False gs (acc @ x) = Ok pts" by auto
  with Cons owner_kind_legacy show ?case by (metis (no_types, lifting) Un_iff set_append)
qed

lemma tenants_for_owner_legacy: "getTenantsForOwner R False u gs = Ok pts \<Longrightarrow> \<forall>pt \<in> set pts. legacy_view pt"
  unfolding getTenantsForOwner_def using owner_kind_legacy group_tenants_legacy by fastforce

lemma legacy_RequestAllowed: "legacy_view pt \<Longrightarrow> k \<in> set service_kinds \<Longrightarrow> \<exists>b. RequestAllowed pt r k = Ok b"
  by (auto simp: legacy_view_def RequestAllowed_def IsAllowed_def split: option.split)

text \<open>
  In legacy mode no request can run into the nil dereference of a missing service kind: every view
  that \<^verbatim>\<open>getTenantsForOwner\<close> returns, for the user and for each of its groups, answers
  \<^verbatim>\<open>RequestAllowed\<close> for all six service kinds.
\<close>

lemma legacy_request_allowed_total:
  assumes "getTenantsForOwner R False u gs = Ok pts" and "pt \<in> set pts" and "k \<in> set service_kinds"
  shows "RequestAllowed pt r k \<noteq> Panic"
  using tenants_for_owner_legacy [OF assms(1)] assms(2,3) legacy_RequestAllowed [of pt k r] by auto

definition doc_tenant :: Tenant where
  "doc_tenant = globalTenant\<lparr>t_Name := ''oil'', t_Owners := [\<lparr>co_Kind = UserOwner, co_Name = ''alice'',
     co_ProxyOperations = [\<lparr>ps_Kind = NodesProxy, ps_Operations = [''List'']\<rparr>]\<rparr>], t_StatusNamespaces := [''oil-dev'']\<rparr>"

definition doc_owner_reader :: owner_reader where
  "doc_owner_reader = \<lparr>tenantsByOwner = (\<lambda>k. Inr (if k = ''User:alice'' then [doc_tenant] else [])),
     settingsBySubject = (\<lambda>_. Inr []), tenantsByNamespace = (\<lambda>_. Inr []), globalsBySubject = (\<lambda>_. Inr [])\<rparr>"

end
