(* ===== verification/Authorization.thy ===== *)
theory Authorization
  imports ClusterScoped Encoding
begin

text \<open>
  internal/authorization/middleware.go: the answers of the API server to self reviews are augmented
  with what the proxy adds to RBAC, so that clients see the permissions that work through the proxy.
\<close>

definition authorization_Paths :: "string list" where
  "authorization_Paths = [''/apis/authorization.k8s.io/v1/selfsubjectaccessreviews'',
     ''/apis/authorization.k8s.io/v1/selfsubjectrulesreviews'']"

abbreviation listVerb :: string where "listVerb \<equiv> ''list''"
abbreviation watchVerb :: string where "watchVerb \<equiv> ''watch''"

record ResourceAttributes =
  ra_Namespace :: string
  ra_Verb :: string
  ra_Group :: string
  ra_Version :: string
  ra_Resource :: string

record SelfSubjectAccessReview =
  ssar_ResourceAttributes :: "ResourceAttributes option"
  ssar_Allowed :: bool
  ssar_Denied :: bool
  ssar_Reason :: string

record ResourceRule =
  rr_APIGroups :: "string list"
  rr_Resources :: "string list"
  rr_Verbs :: "string list"

record SelfSubjectRulesReview =
  ssrr_ResourceRules :: "ResourceRule list"

text \<open>The objects the middleware decodes; any other object is opaque.\<close>

datatype review_object =
    AccessReview SelfSubjectAccessReview
  | RulesReview SelfSubjectRulesReview
  | OtherObject

definition NamespacedResourceKey :: "string \<Rightarrow> string \<Rightarrow> string" where
  "NamespacedResourceKey grp resource = grp @ ''/'' @ resource"

definition isCrossNamespaceListVerb :: "string \<Rightarrow> bool" where
  "isCrossNamespaceListVerb verb \<longleftrightarrow> EqualFoldASCII verb listVerb \<or> EqualFoldASCII verb watchVerb"

definition grantAccess :: "SelfSubjectAccessReview \<Rightarrow> SelfSubjectAccessReview" where
  "grantAccess a = a\<lparr>ssar_Allowed := True, ssar_Denied := False, ssar_Reason := ''granted by capsule-proxy''\<rparr>"

definition clusterResourceOperation :: "string \<Rightarrow> string option" where
  "clusterResourceOperation verb =
     (if EqualFoldASCII verb listVerb then Some OperationList
      else if EqualFoldASCII verb ''get'' then Some OperationGet else None)"

text \<open>\<^verbatim>\<open>strings.ToLower\<close> on an ASCII string.\<close>

definition ToLowerASCII :: "string \<Rightarrow> string" where
  "ToLowerASCII s = map to_lower_char s"

definition resource_rule :: "ClusterResource \<Rightarrow> ResourceRule" where
  "resource_rule cr = \<lparr>rr_APIGroups = cr_APIGroups cr, rr_Resources = cr_Resources cr,
     rr_Verbs = map ToLowerASCII (EffectiveOperations cr)\<rparr>"

definition getAllResourceRules :: "ProxyTenant list \<Rightarrow> ResourceRule list" where
  "getAllResourceRules proxyTenants = concat (map (\<lambda>pt. map resource_rule (pt_ClusterResources pt)) proxyTenants)"

text \<open>The branch for access reviews.\<close>

definition mutate_access ::
    "labels_api \<Rightarrow> bool \<Rightarrow> ProxyTenant list \<Rightarrow> string list \<Rightarrow> SelfSubjectAccessReview \<Rightarrow> SelfSubjectAccessReview" where
  "mutate_access L proxyClusterScoped proxyTenants namespacedResources a =
     (case ssar_ResourceAttributes a of
        None \<Rightarrow> a
      | Some attr \<Rightarrow>
          if ra_Resource attr = ''namespaces'' \<and> EqualFoldASCII (ra_Verb attr) listVerb then grantAccess a
          else if 0 < length proxyTenants \<and> ra_Namespace attr = '''' \<and> isCrossNamespaceListVerb (ra_Verb attr)
               \<and> NamespacedResourceKey (ra_Group attr) (ra_Resource attr) \<in> set namespacedResources then grantAccess a
          else if \<not> proxyClusterScoped then a
          else (case clusterResourceOperation (ra_Verb attr) of
                  None \<Rightarrow> a
                | Some operation \<Rightarrow>
                    if 0 < length (GetClusterScopeRequirements L
                         (Some \<lparr>Group = ra_Group attr, Version = ra_Version attr, Kind = ra_Resource attr\<rparr>) operation proxyTenants)
                    then grantAccess a else a))"

definition injected_rules :: "bool \<Rightarrow> ProxyTenant list \<Rightarrow> ResourceRule list" where
  "injected_rules proxyClusterScoped proxyTenants =
     \<lparr>rr_APIGroups = [''''], rr_Resources = [''namespaces''], rr_Verbs = [listVerb]\<rparr>
       # (if proxyClusterScoped then getAllResourceRules proxyTenants else [])"

text \<open>A kind that does not fit the object is a failed type assertion, which panics.\<close>

definition MutateAuthorization ::
    "labels_api \<Rightarrow> bool \<Rightarrow> ProxyTenant list \<Rightarrow> string list \<Rightarrow> review_object \<Rightarrow> string \<Rightarrow> review_object outcome" where
  "MutateAuthorization L proxyClusterScoped proxyTenants namespacedResources obj kind =
     (if kind = ''SelfSubjectAccessReview'' then
        (case obj of
           AccessReview a \<Rightarrow> Ok (AccessReview (mutate_access L proxyClusterScoped proxyTenants namespacedResources a))
         | _ \<Rightarrow> Panic)
      else if kind = ''SelfSubjectRulesReview'' then
        (case obj of
           RulesReview rules \<Rightarrow>
             Ok (RulesReview (rules\<lparr>ssrr_ResourceRules := ssrr_ResourceRules rules @ injected_rules proxyClusterScoped proxyTenants\<rparr>))
         | _ \<Rightarrow> Panic)
      else Err (PlainError (''unsupported kind: '' @ kind)))"

section \<open>Properties\<close>

lemma grantAccess_allowed [simp]: "ssar_Allowed (grantAccess a)"
  by (simp add: grantAccess_def)

lemma mutate_access_cases: "mutate_access L b pts nr a = a \<or> mutate_access L b pts nr a = grantAccess a"
  by (simp add: mutate_access_def split: option.split)

lemma resource_rule_verbs: "set (rr_Verbs (resource_rule cr)) \<subseteq> {''list'', ''get''}"
proof -
  have "ToLowerASCII ''List'' = ''list''" "ToLowerASCII ''Get'' = ''get''" by code_simp+
  then show ?thesis by (auto simp: resource_rule_def EffectiveOperations_def split: prod.splits if_splits)
qed

lemma length_getAllResourceRules: "length (getAllResourceRules pts) = length (concat (map pt_ClusterResources pts))"
  by (induction pts) (simp_all add: getAllResourceRules_def)


definition doc_access :: SelfSubjectAccessReview where
  "doc_access = \<lparr>ssar_ResourceAttributes = Some \<lparr>ra_Namespace = '''', ra_Verb = ''list'', ra_Group = '''',
     ra_Version = ''v1'', ra_Resource = ''namespaces''\<rparr>, ssar_Allowed = False, ssar_Denied = True, ssar_Reason = ''''\<rparr>"

lemma doc_list_verb: "EqualFoldASCII ''list'' ''list''"
  by code_simp




end
