(* ===== verification/Middleware.thy ===== *)
theory Middleware
  imports Classes Ownership Authorization
begin

text \<open>
  internal/webserver/middleware and the request-changing helpers of internal/webserver/webserver.go:
  the trusted-source check, the middlewares of the module routes, the bearer token of the proxy, the
  hop-by-hop headers, and the two ways a request is prepared for the API server: filtered by a
  selector under the identity of the proxy (\<^verbatim>\<open>handleRequest\<close>), or impersonating its user
  (\<^verbatim>\<open>impersonateHandler\<close>). The header map and the URL of a request are shared by its copies, so a
  handler returns the request with the changes the caller sees.
\<close>

section \<open>The filter\<close>

datatype exp_claim = ExpFloat int | ExpNumber int | ExpMissing

text \<open>
  Configuration of \<^verbatim>\<open>kubeFilter\<close>, the sets of internal/controllers/capsule_configuration.go, and the
  parameters: the tenants reader, package net, the token file, the JWT parser (\<^const>\<open>None\<close> where it
  returns no token) and \<^verbatim>\<open>httpguts.HeaderValuesContainsToken\<close>.
\<close>

record ('ip, 'net) kubeFilter =
  k_auth :: auth_env
  k_config :: http_config
  k_labels :: labels_api
  k_owners :: owner_reader
  k_clusterScoped :: bool
  k_allowedPaths :: "string list"
  k_ignoredUserGroups :: "string list"
  k_ignoredUsernames :: "string list"
  k_CapsuleUserGroups :: "string list"
  k_CapsuleUsers :: "string list"
  k_trustedProxyCIDRs :: "'net list"
  k_splitHostPort :: "string \<Rightarrow> string option"
  k_parseIP :: "string \<Rightarrow> 'ip option"
  k_cidrContains :: "'net \<Rightarrow> 'ip \<Rightarrow> bool"
  k_tokenFile :: string
  k_parseUnverified :: "string \<Rightarrow> exp_claim option"
  k_containsToken :: "string list \<Rightarrow> string \<Rightarrow> bool"
  k_now :: int

record filter_state =
  f_bearerToken :: string
  f_bearerTokenExpirationTime :: int
  f_reflector :: "(rbac_reader \<times> reflector) option"

text \<open>What a handler leaves: the request, the state, and the status of an error it has written.\<close>

record served =
  sv_request :: http_request
  sv_state :: filter_state
  sv_status :: "nat option"

type_synonym handler = "filter_state \<Rightarrow> http_request \<Rightarrow> served outcome"

section \<open>Trusted source\<close>

definition isFromTrustedSource :: "('ip, 'net) kubeFilter \<Rightarrow> string \<Rightarrow> bool" where
  "isFromTrustedSource n remoteAddr =
     (if length (k_trustedProxyCIDRs n) = 0 then True
      else let host = (case k_splitHostPort n remoteAddr of Some h \<Rightarrow> h | None \<Rightarrow> remoteAddr) in
        (case k_parseIP n host of
           None \<Rightarrow> False
         | Some ip \<Rightarrow> list_ex (\<lambda>cidr. k_cidrContains n cidr ip) (k_trustedProxyCIDRs n)))"

section \<open>Bearer token of the proxy\<close>

definition bearerExpirationTime :: "('ip, 'net) kubeFilter \<Rightarrow> string \<Rightarrow> int outcome" where
  "bearerExpirationTime n token =
     (case k_parseUnverified n token of
        None \<Rightarrow> Panic
      | Some (ExpFloat t) \<Rightarrow> Ok t
      | Some (ExpNumber t) \<Rightarrow> Ok t
      | Some ExpMissing \<Rightarrow> Ok 0)"

text \<open>A token that cannot be parsed panics after the field was overwritten; the next call reads again.\<close>

definition getBearerToken :: "('ip, 'net) kubeFilter \<Rightarrow> filter_state \<Rightarrow> (string \<times> filter_state) outcome" where
  "getBearerToken n st =
     (if k_now n > f_bearerTokenExpirationTime st then
        bind_outcome (bearerExpirationTime n (k_tokenFile n)) (\<lambda>t.
          Ok (k_tokenFile n, st\<lparr>f_bearerToken := k_tokenFile n, f_bearerTokenExpirationTime := t\<rparr>))
      else Ok (f_bearerToken st, st))"

definition set_token :: "string \<Rightarrow> http_request \<Rightarrow> http_request" where
  "set_token token r = (if 0 < length token then r\<lparr>Header := HeaderSet (Header r) ''Authorization'' (''Bearer '' @ token)\<rparr> else r)"

section \<open>Hop-by-hop headers\<close>

text \<open>\<^verbatim>\<open>textproto.TrimString\<close>: ASCII space, tab, line feed and carriage return.\<close>

definition TrimString :: "string \<Rightarrow> string" where
  "TrimString s = trim_by (\<lambda>c. byte c \<in> {32, 9, 10, 13}) s"

definition hop_names :: "string list \<Rightarrow> string list" where
  "hop_names values = filter (\<lambda>sf. sf \<noteq> '''') (concat (map (\<lambda>f. map TrimString (Split f (CHR '',''))) values))"

definition removingHopByHopHeaders :: "('ip, 'net) kubeFilter \<Rightarrow> http_request \<Rightarrow> http_request" where
  "removingHopByHopHeaders n r =
     (let values = HeaderValues (Header r) ''connection'';
          requestUpgradeType = (if k_containsToken n values ''upgrade'' then HeaderGet (Header r) ''upgrade'' else '''');
          h = fold (\<lambda>sf h. HeaderDel h sf) (hop_names values) (Header r) in
      if requestUpgradeType \<noteq> ''''
      then r\<lparr>Header := HeaderSet (HeaderSet h ''connection'' ''upgrade'') ''upgrade'' requestUpgradeType\<rparr>
      else r\<lparr>Header := HeaderDel h ''connection''\<rparr>)"

section \<open>Filtered and impersonated requests\<close>

definition handleRequest ::
    "('ip, 'net) kubeFilter \<Rightarrow> filter_state \<Rightarrow> http_request \<Rightarrow> selector \<Rightarrow> (http_request \<times> filter_state) outcome" where
  "handleRequest n st r selector =
     (let r1 = SanitizeImpersonationHeaders r;
          selectorValue = selectorString (k_labels n) selector;
          e = ValuesGet (URLQuery r1) ''labelSelector'';
          v = (if 0 < length e then Join [e, selectorValue] '','' else selectorValue);
          r2 = r1\<lparr>URLQuery := ValuesSet (URLQuery r1) ''labelSelector'' v\<rparr> in
      bind_outcome (getBearerToken n st) (\<lambda>(token, st'). Ok (set_token token r2, st')))"

text \<open>internal/webserver/errors: the status that is written for an error, with its code as the HTTP status.\<close>

definition HandleUnauthorized :: "error \<Rightarrow> string \<Rightarrow> api_status" where
  "HandleUnauthorized e message =
     \<lparr>st_Reason = ''Forbidden'', st_Message = message @ '': '' @ error_text e, st_Code = 403, st_Details = None\<rparr>"

definition HandleError :: "error \<Rightarrow> string \<Rightarrow> api_status" where
  "HandleError e message =
     \<lparr>st_Reason = ''InternalError'', st_Message = message @ '': '' @ error_text e, st_Code = 500, st_Details = None\<rparr>"

definition handleResolveUserAndGroupsError :: "error \<Rightarrow> api_status" where
  "handleResolveUserAndGroupsError e =
     (if is_unauthorized e then HandleUnauthorized e ''cannot retrieve user and group from the request''
      else HandleError e ''cannot retrieve user and group from the request'')"

abbreviation resolve_status :: "error \<Rightarrow> nat" where
  "resolve_status e \<equiv> st_Code (handleResolveUserAndGroupsError e)"

definition add_groups :: "string list \<Rightarrow> header \<Rightarrow> header" where
  "add_groups groups h = fold (\<lambda>g h. HeaderAdd h ImpersonateGroupHeader g) groups h"

definition impersonateHandler :: "('ip, 'net) kubeFilter \<Rightarrow> handler" where
  "impersonateHandler n st r =
     (case ResolveUserAndGroups (k_auth n) (k_config n) r of
        Panic \<Rightarrow> Panic
      | Err e \<Rightarrow> Ok \<lparr>sv_request = r, sv_state = st, sv_status = Some (resolve_status e)\<rparr>
      | Ok (r1, username, groups) \<Rightarrow>
          bind_outcome (getBearerToken n st) (\<lambda>(token, st').
            let r2 = removingHopByHopHeaders n (set_token token r1) in
            Ok \<lparr>sv_request = r2\<lparr>Header := add_groups groups (HeaderAdd (Header r2) ImpersonateUserHeader username)\<rparr>,
                sv_state = st', sv_status = None\<rparr>))"

section \<open>Middlewares of the routes\<close>

definition CheckPaths :: "('ip, 'net) kubeFilter \<Rightarrow> handler \<Rightarrow> handler \<Rightarrow> handler" where
  "CheckPaths n skipTo nxt st r = (if URLPath r \<in> set (k_allowedPaths n) then skipTo st r else nxt st r)"

text \<open>\<^verbatim>\<open>strings.ReplaceAll\<close> with the empty string, for a pattern that is not empty.\<close>

function remove_all :: "'a list \<Rightarrow> 'a list \<Rightarrow> 'a list" where
  "remove_all p s = (if p = [] \<or> s = [] then s
     else if HasPrefix s p then remove_all p (drop (length p) s) else hd s # remove_all p (tl s))"
  by pat_completeness auto
termination by (relation "measure (\<lambda>(p, s). length s)") (auto simp: length_greater_0_conv)

declare remove_all.simps [simp del]

text \<open>The set of invalidated tokens is never written, so its cases cannot arise.\<close>

definition CheckJWTMiddleware :: "('ip, 'net) kubeFilter \<Rightarrow> handler \<Rightarrow> handler" where
  "CheckJWTMiddleware n nxt st r =
     (let token = remove_all ''Bearer '' (HeaderGet (Header r) ''Authorization'') in
      if 0 < length token then
        (case createTokenReview (k_auth n) token of
           Inl e \<Rightarrow> Ok \<lparr>sv_request = r, sv_state = st, sv_status = Some 500\<rparr>
         | Inr s \<Rightarrow> if 0 < length (tr_Error s) then Ok \<lparr>sv_request = r, sv_state = st, sv_status = Some 403\<rparr> else nxt st r)
      else nxt st r)"

definition identityIsIgnored :: "string \<Rightarrow> string list \<Rightarrow> string list \<Rightarrow> string list \<Rightarrow> bool" where
  "identityIsIgnored username groups ignoredUsernames ignoredUserGroups \<longleftrightarrow>
     username \<in> set ignoredUsernames \<or> list_ex (\<lambda>g. g \<in> set ignoredUserGroups) groups"

definition CheckUserInIgnoredIdentityMiddleware :: "('ip, 'net) kubeFilter \<Rightarrow> handler \<Rightarrow> handler \<Rightarrow> handler" where
  "CheckUserInIgnoredIdentityMiddleware n fn nxt st r =
     (if k_ignoredUsernames n = [] \<and> k_ignoredUserGroups n = [] then nxt st r
      else (case ResolveUserAndGroups (k_auth n) (k_config n) r of
              Panic \<Rightarrow> Panic
            | Err e \<Rightarrow> Ok \<lparr>sv_request = r, sv_state = st, sv_status = Some (resolve_status e)\<rparr>
            | Ok (r1, user, groups) \<Rightarrow>
                if identityIsIgnored user groups (k_ignoredUsernames n) (k_ignoredUserGroups n) then fn st r1 else nxt st r1))"

definition CheckUserInCapsuleGroupMiddleware :: "('ip, 'net) kubeFilter \<Rightarrow> handler \<Rightarrow> handler \<Rightarrow> handler" where
  "CheckUserInCapsuleGroupMiddleware n impersonate nxt st r =
     (case ResolveUserAndGroups (k_auth n) (k_config n) r of
        Panic \<Rightarrow> Panic
      | Err e \<Rightarrow> Ok \<lparr>sv_request = r, sv_state = st, sv_status = Some (resolve_status e)\<rparr>
      | Ok (r1, user, groups) \<Rightarrow>
          if list_ex (\<lambda>g. g \<in> set (k_CapsuleUserGroups n)) groups then nxt st r1
          else if user \<in> set (k_CapsuleUsers n) then nxt st r1
          else impersonate st r1)"

section \<open>Lemmas\<close>

lemma canonical_connection [simp]:
  "CanonicalMIMEHeaderKey ''connection'' = ''Connection''" "CanonicalMIMEHeaderKey ''Connection'' = ''Connection''"
  "CanonicalMIMEHeaderKey ''upgrade'' = ''Upgrade''"
  by code_simp+

lemma set_token_fields [simp]:
  "URLQuery (set_token t r) = URLQuery r" "URLPath (set_token t r) = URLPath r" "Method (set_token t r) = Method r"
  "CtxUser (set_token t r) = CtxUser r"
  by (simp_all add: set_token_def)

lemma set_token_values:
  "HeaderValues (Header (set_token t r)) k =
     (if t \<noteq> [] \<and> CanonicalMIMEHeaderKey k = ''Authorization'' then [''Bearer '' @ t] else HeaderValues (Header r) k)"
  by (simp add: set_token_def hdr.vals_laws)

lemma set_token_map_of: "k \<noteq> ''Authorization'' \<Longrightarrow> map_of (Header (set_token t r)) k = map_of (Header r) k"
  by (simp add: set_token_def HeaderSet_def update_conv')

lemma Sanitize_fields [simp]:
  "URLQuery (SanitizeImpersonationHeaders r) = URLQuery r" "URLPath (SanitizeImpersonationHeaders r) = URLPath r"
  "Method (SanitizeImpersonationHeaders r) = Method r"
  by (simp_all add: SanitizeImpersonationHeaders_def Let_def)

lemma removingHop_fields [simp]:
  "URLQuery (removingHopByHopHeaders n r) = URLQuery r" "URLPath (removingHopByHopHeaders n r) = URLPath r"
  "Method (removingHopByHopHeaders n r) = Method r" "CtxUser (removingHopByHopHeaders n r) = CtxUser r"
  by (simp_all add: removingHopByHopHeaders_def Let_def)

lemma removingHop_values:
  assumes "CanonicalMIMEHeaderKey k \<noteq> ''Connection''" and "CanonicalMIMEHeaderKey k \<noteq> ''Upgrade''"
  shows "HeaderValues (Header (removingHopByHopHeaders n r)) k =
    (if CanonicalMIMEHeaderKey k \<in> CanonicalMIMEHeaderKey ` set (hop_names (HeaderValues (Header r) ''connection''))
     then [] else HeaderValues (Header r) k)"
  using assms by (auto simp: removingHopByHopHeaders_def Let_def hdr.vals_laws hdr.vals_fold_del)

lemma removingHop_connection:
  "HeaderValues (Header (removingHopByHopHeaders n r)) ''Connection'' \<in> {[], [''upgrade'']}"
  by (simp add: removingHopByHopHeaders_def Let_def hdr.vals_laws)

lemma add_groups_values:
  "HeaderValues (add_groups g h) k =
     (if CanonicalMIMEHeaderKey k = ImpersonateGroupHeader then HeaderValues h k @ g else HeaderValues h k)"
  by (auto simp: add_groups_def hdr.vals_fold_add)

lemma getBearerToken_not_Err: "getBearerToken n st \<noteq> Err e"
  by (auto simp: getBearerToken_def bearerExpirationTime_def split: option.splits exp_claim.splits)

lemma resolve_request:
  "ResolveUserAndGroups E c r = Ok (r1, u, g) \<Longrightarrow> r1 = r\<lparr>CtxUser := Some (u, g)\<rparr>"
  by (cases "CtxUser r") (auto simp: ResolveUserAndGroups_def split: option.splits prod.splits)

lemma resolve_again:
  "ResolveUserAndGroups E c r = Ok (r1, u, g) \<Longrightarrow> ResolveUserAndGroups E' c' r1 = Ok (r1, u, g)"
  by (drule resolve_request) (simp add: ResolveUserAndGroups_def)

lemma impersonateHandler_Ok:
  assumes "impersonateHandler n st r = Ok s"
  obtains e where "ResolveUserAndGroups (k_auth n) (k_config n) r = Err e" and "s = \<lparr>sv_request = r, sv_state = st, sv_status = Some (resolve_status e)\<rparr>"
  | r1 u g t r2 where "ResolveUserAndGroups (k_auth n) (k_config n) r = Ok (r1, u, g)" and "getBearerToken n st = Ok (t, sv_state s)"
    and "r2 = removingHopByHopHeaders n (set_token t r1)" and "sv_status s = None"
    and "sv_request s = r2\<lparr>Header := add_groups g (HeaderAdd (Header r2) ImpersonateUserHeader u)\<rparr>"
  using assms by (auto simp: impersonateHandler_def Let_def split: outcome.splits prod.splits)

lemma Sanitize_values:
  "HeaderValues (Header (SanitizeImpersonationHeaders r)) ImpersonateUserHeader = []"
  "HeaderValues (Header (SanitizeImpersonationHeaders r)) ImpersonateGroupHeader = []"
  by (simp_all add: SanitizeImpersonationHeaders_def Let_def fold_if_HeaderDel hdr.vals_fold_del hdr.vals_laws)

lemma handleRequest_Ok:
  assumes "handleRequest n st r sel = Ok (r', st')"
  obtains t where "getBearerToken n st = Ok (t, st')"
    and "r' = set_token t ((SanitizeImpersonationHeaders r)\<lparr>URLQuery := ValuesSet (URLQuery r) ''labelSelector''
        (if ValuesGet (URLQuery r) ''labelSelector'' = [] then selectorString (k_labels n) sel
         else ValuesGet (URLQuery r) ''labelSelector'' @ '','' @ selectorString (k_labels n) sel)\<rparr>)"
  using assms by (cases "ValuesGet (URLQuery r) ''labelSelector''") (auto simp: handleRequest_def Let_def)

text \<open>The values of a header of the client that removing the hop-by-hop headers leaves.\<close>

definition kept_values :: "http_request \<Rightarrow> string \<Rightarrow> string list" where
  "kept_values r k =
     (if k \<in> CanonicalMIMEHeaderKey ` set (hop_names (HeaderValues (Header r) ''connection'')) then [] else HeaderValues (Header r) k)"

section \<open>Properties\<close>


text \<open>
  C20: a request that is passed on for its user carries the resolved identity: the impersonation headers
  end with the resolved user and groups. In front of them stay the values that the client sent, those
  included that the options exclude from impersonation and that no review has seen, unless the
  \<^verbatim>\<open>Connection\<close> header named them. The \<^verbatim>\<open>Connection\<close> header that is left names no header but \<^verbatim>\<open>upgrade\<close>, so
  that a later hop cannot be told to drop the impersonation headers. Method, path and query are the client's.
\<close>

theorem impersonation_carried:
  assumes "impersonateHandler n st r = Ok s" and "sv_status s = None"
  shows "\<exists>r1 u g. ResolveUserAndGroups (k_auth n) (k_config n) r = Ok (r1, u, g)
    \<and> HeaderValues (Header (sv_request s)) ''Impersonate-User'' = kept_values r ''Impersonate-User'' @ [u]
    \<and> HeaderValues (Header (sv_request s)) ''Impersonate-Group'' = kept_values r ''Impersonate-Group'' @ g
    \<and> HeaderValues (Header (sv_request s)) ''Connection'' \<in> {[], [''upgrade'']}
    \<and> URLQuery (sv_request s) = URLQuery r \<and> URLPath (sv_request s) = URLPath r \<and> Method (sv_request s) = Method r"
  using assms(1)
proof (rule impersonateHandler_Ok)
  fix e assume "s = \<lparr>sv_request = r, sv_state = st, sv_status = Some (resolve_status e)\<rparr>"
  with assms(2) show ?thesis by simp
next
  fix r1 u g t r2
  assume res: "ResolveUserAndGroups (k_auth n) (k_config n) r = Ok (r1, u, g)"
    and r2: "r2 = removingHopByHopHeaders n (set_token t r1)"
    and req: "sv_request s = r2\<lparr>Header := add_groups g (HeaderAdd (Header r2) ImpersonateUserHeader u)\<rparr>"
  have r1: "r1 = r\<lparr>CtxUser := Some (u, g)\<rparr>" by (rule resolve_request [OF res])
  have kept: "HeaderValues (Header r2) k = kept_values r k" if "k \<in> {''Impersonate-User'', ''Impersonate-Group''}" for k
  proof -
    from that have "CanonicalMIMEHeaderKey k = k" "k \<noteq> ''Connection''" "k \<noteq> ''Upgrade''" "k \<noteq> ''Authorization''" by auto
    then show ?thesis by (simp add: r2 r1 removingHop_values set_token_values kept_values_def)
  qed
  show ?thesis
    using kept removingHop_connection [of n "set_token t r1"] res
    by (auto simp: req add_groups_values hdr.vals_laws r2 r1)
qed

section \<open>A concrete filter\<close>

text \<open>The token file holds a token that is valid until the time 100; addresses and networks are host names.\<close>

definition doc_filter :: "(string, string) kubeFilter" where
  "doc_filter = \<lparr>k_auth = doc_env, k_config = doc_config, k_labels = doc_labels, k_owners = doc_owner_reader,
     k_clusterScoped = False, k_allowedPaths = [], k_ignoredUserGroups = [], k_ignoredUsernames = [],
     k_CapsuleUserGroups = [''dev''], k_CapsuleUsers = [], k_trustedProxyCIDRs = [''10.0.0.1''],
     k_splitHostPort = (\<lambda>s. Some (takeWhile (\<lambda>c. c \<noteq> CHR '':'') s)), k_parseIP = Some, k_cidrContains = (=),
     k_tokenFile = ''proxy'', k_parseUnverified = (\<lambda>_. Some (ExpNumber 100)), k_containsToken = (\<lambda>vs t. t \<in> set vs), k_now = 10\<rparr>"

definition doc_state :: filter_state where
  "doc_state = \<lparr>f_bearerToken = '''', f_bearerTokenExpirationTime = 0, f_reflector = None\<rparr>"

definition doc_token_state :: filter_state where
  "doc_token_state = \<lparr>f_bearerToken = ''proxy'', f_bearerTokenExpirationTime = 100, f_reflector = None\<rparr>"

lemma doc_token:
  "getBearerToken doc_filter doc_state = Ok (''proxy'', doc_token_state)"
  "getBearerToken (doc_filter\<lparr>k_config := c\<rparr>) doc_state = Ok (''proxy'', doc_token_state)"
  by (simp_all add: getBearerToken_def bearerExpirationTime_def doc_filter_def doc_state_def doc_token_state_def)

lemma doc_filter_auth [simp]: "k_auth doc_filter = doc_env" "k_config doc_filter = doc_config"
  by (simp_all add: doc_filter_def)

lemma doc_handle:
  "\<exists>r'. handleRequest doc_filter doc_state (doc_admin_request\<lparr>URLQuery := [(''labelSelector'', [''x=y'']), (''limit'', [''5''])]\<rparr>)
     [\<lparr>Key = ''a'', Operator = op_In, Values = [''b'']\<rparr>] = Ok (r', doc_token_state)"
  by (simp add: handleRequest_def Let_def doc_token)


lemma doc_impersonate:
  "\<exists>s. impersonateHandler doc_filter doc_state doc_admin_request = Ok s \<and> sv_status s = None"
  by (simp add: impersonateHandler_def doc_admin_resolve doc_token Let_def)

theorem impersonation_carried_witness:
  "\<exists>s us. impersonateHandler doc_filter doc_state doc_admin_request = Ok s
     \<and> HeaderValues (Header (sv_request s)) ''Impersonate-User'' = us @ [''bob'']"
proof -
  obtain s where s: "impersonateHandler doc_filter doc_state doc_admin_request = Ok s" "sv_status s = None"
    using doc_impersonate by blast
  have "ResolveUserAndGroups (k_auth doc_filter) (k_config doc_filter) doc_admin_request
      = Ok (doc_admin_request\<lparr>CtxUser := Some (''bob'', [''ops''])\<rparr>, ''bob'', [''ops''])"
    by (simp add: doc_admin_resolve)
  with impersonation_carried [OF s] s show ?thesis by auto
qed

text \<open>
  An example: \<^verbatim>\<open>impersonateHandler\<close> adds the resolved groups to the headers of the client without removing
  those it did not consider: a group that the options exclude from impersonation is not reviewed, and
  reaches the API server in an \<^verbatim>\<open>Impersonate-Group\<close> header next to the token of the proxy. Here alice,
  who may not impersonate anybody, sends the excluded group \<^verbatim>\<open>system:masters\<close>.
\<close>

lemma excluded_group_forwarded:
  "\<exists>s. impersonateHandler (doc_filter\<lparr>k_config := doc_config\<lparr>ignoredImpersonationGroups := [''system:masters'']\<rparr>\<rparr>) doc_state
        (doc_request [(''Authorization'', [''Bearer alice'']), (''Impersonate-Group'', [''system:masters''])]) = Ok s
     \<and> createSAR doc_env (impersonate_review ''groups'' ''system:masters'' ''alice'' [''dev'']) = Inr False
     \<and> sv_status s = None
     \<and> HeaderValues (Header (sv_request s)) ''Authorization'' = [''Bearer proxy'']
     \<and> HeaderValues (Header (sv_request s)) ''Impersonate-Group'' = [''system:masters'', ''dev'']"
proof -
  let ?c = "doc_config\<lparr>ignoredImpersonationGroups := [''system:masters'']\<rparr>"
  let ?r = "doc_request [(''Authorization'', [''Bearer alice'']), (''Impersonate-Group'', [''system:masters''])]"
  have "authenticate doc_env ?c ?r = Inr (''alice'', [''dev''])"
    by (simp add: authenticate_def try_auth_def processBearerToken_def bearerToken_def TrimPrefix_def HasPrefix_def doc_eval)
  moreover have "GetImpersonatingGroups doc_env ?r [''system:masters''] None = Ok []"
    by (simp add: GetImpersonatingGroups_def ignoreGroups_def doc_eval)
  moreover have "GetImpersonatingUser ?r = []" by (simp add: GetImpersonatingUser_def doc_eval)
  ultimately have res: "ResolveUserAndGroups doc_env ?c ?r = Ok (?r\<lparr>CtxUser := Some (''alice'', [''dev''])\<rparr>, ''alice'', [''dev''])"
    by (simp add: ResolveUserAndGroups_def GetUserAndGroups_def deferred_groups_def doc_config_def doc_request_def)
  have hop: "HeaderValues (Header (set_token ''proxy'' (?r\<lparr>CtxUser := x\<rparr>))) ''connection'' = []" for x
    by (simp add: set_token_values) (simp add: HeaderValues_def alist_values_def doc_request_def)
  have grp: "HeaderValues (Header ?r) ''Impersonate-Group'' = [''system:masters'']"
    by (simp add: HeaderValues_def alist_values_def doc_request_def)
  have sar: "createSAR doc_env (impersonate_review ''groups'' ''system:masters'' ''alice'' [''dev'']) = Inr False"
    by (simp add: doc_env_def impersonate_review_def)
  show ?thesis
    using res sar hop grp
    by (simp add: impersonateHandler_def Let_def add_groups_values hdr.vals_laws removingHop_values set_token_values
        hop_names_def doc_token)
qed

end
