(* ===== verification/Webserver.thy ===== *)
theory Webserver
  imports Middleware
begin

text \<open>
  internal/webserver/webserver.go and utils.go: the modules that are registered and the routes they
  serve, the handler of a module route, the self-review middleware, and the chain of middlewares from
  the accepted connection to the reverse proxy. gorilla/mux is a parameter: the route of a request is
  the module it matched, if any.
\<close>

section \<open>Discovery\<close>

record api_resource =
  ar_Name :: string
  ar_Kind :: string
  ar_Namespaced :: bool
  ar_Verbs :: "string list"

record api_resource_list =
  arl_GroupVersion :: string
  arl_Resources :: "api_resource list"

definition split_group_version :: "string \<Rightarrow> string \<times> string" where
  "split_group_version gv =
     (let parts = Split gv (CHR ''/'') in if length parts = 1 then ('''', gv) else (parts ! 0, parts ! 1))"

definition discovered_api :: "api_resource_list \<Rightarrow> api_resource \<Rightarrow> ProxyGroupVersionKind" where
  "discovered_api ar i =
     (let gv = split_group_version (arl_GroupVersion ar) in
      \<lparr>Group = fst gv, Version = snd gv, Kind = ar_Kind i, URLName = ar_Name i\<rparr>)"

definition discovered :: "(api_resource \<Rightarrow> bool) \<Rightarrow> api_resource_list list \<Rightarrow> ProxyGroupVersionKind list" where
  "discovered keep arls =
     concat (map (\<lambda>ar. map (discovered_api ar) (filter keep (arl_Resources ar))) arls)"

definition discoverAPI :: "error + api_resource_list list \<Rightarrow> ProxyGroupVersionKind list outcome" where
  "discoverAPI res =
     (case res of
        Inl e \<Rightarrow> Err (wrap ''cannot retrieve server's preferred namespaced resources'' e)
      | Inr arls \<Rightarrow> Ok (discovered (\<lambda>i. {''get'', ''list'', ''watch''} \<subseteq> set (ar_Verbs i)) arls))"

definition serverPreferredResources :: "error + api_resource_list list \<Rightarrow> ProxyGroupVersionKind list outcome" where
  "serverPreferredResources res =
     (case res of
        Inl e \<Rightarrow> Err (wrap ''cannot retrieve server's preferred resources'' e)
      | Inr arls \<Rightarrow> Ok (discovered (\<lambda>i. \<not> ar_Namespaced i \<and> ''get'' \<in> set (ar_Verbs i)) arls))"

section \<open>Modules\<close>

text \<open>The interface \<^verbatim>\<open>Module\<close>; only the catch-all modules change the state. No method means any method.\<close>

record module =
  md_GroupVersionKind :: GroupVersionKind
  md_Path :: string
  md_Methods :: "string list"
  md_Handle :: "filter_state \<Rightarrow> ProxyTenant list \<Rightarrow> http_request \<Rightarrow> answer \<times> filter_state"

definition md_GroupKind :: "module \<Rightarrow> string \<times> string" where
  "md_GroupKind m = (Group (md_GroupVersionKind m), Kind (md_GroupVersionKind m))"

definition any_version :: "string \<times> string \<Rightarrow> GroupVersionKind" where
  "any_version gk = \<lparr>Group = fst gk, Version = ''*'', Kind = snd gk\<rparr>"

definition no_gvk :: GroupVersionKind where
  "no_gvk = \<lparr>Group = '''', Version = '''', Kind = ''''\<rparr>"

definition stateless :: "GroupVersionKind \<Rightarrow> string \<Rightarrow> string list \<Rightarrow> (ProxyTenant list \<Rightarrow> http_request \<Rightarrow> answer) \<Rightarrow> module" where
  "stateless gvk path methods h =
     \<lparr>md_GroupVersionKind = gvk, md_Path = path, md_Methods = methods, md_Handle = (\<lambda>st pts r. (h pts r, st))\<rparr>"

definition namespace_List :: "module_env \<Rightarrow> module" where
  "namespace_List V =
     \<lparr>md_GroupVersionKind = any_version namespaces_gk, md_Path = ''/api/v1/{endpoint:namespaces/?}'', md_Methods = [MethodGet],
      md_Handle = (\<lambda>st pts r. (namespace_list_Handle V (map_option fst (f_reflector st)) pts r, st))\<rparr>"

definition namespace_Get :: "module_env \<Rightarrow> module" where
  "namespace_Get V =
     \<lparr>md_GroupVersionKind = any_version namespaces_gk, md_Path = ''/api/v1/namespaces/{name}'', md_Methods = [MethodGet],
      md_Handle = (\<lambda>st pts r. (namespace_get_Handle V (map_option fst (f_reflector st)) pts r, st))\<rparr>"

definition tenants_List :: "module_env \<Rightarrow> module" where
  "tenants_List V = stateless (any_version tenants_gk) ''/apis/capsule.clastix.io/v1beta2/{endpoint:tenants/?}'' [MethodGet]
     (tenants_list_Handle V)"

definition tenants_Get :: "module_env \<Rightarrow> module" where
  "tenants_Get V = stateless (any_version tenants_gk) ''/apis/capsule.clastix.io/v1beta2/tenants/{name}'' [MethodGet]
     (tenants_get_Handle V)"

definition node_List :: "module_env \<Rightarrow> module" where
  "node_List V = stateless (any_version nodes_gk) ''/api/v1/{endpoint:nodes/?}'' [] (node_list_Handle V)"

definition node_Get :: "module_env \<Rightarrow> module" where
  "node_Get V = stateless (any_version nodes_gk) ''/api/v1/nodes/{name}'' [] (node_get_Handle V)"

definition ingressclass_List :: "module_env \<Rightarrow> module" where
  "ingressclass_List V = stateless (any_version ingressclass_gk) ''/apis/networking.k8s.io/{version}/{endpoint:ingressclasses/?}'' [] (ingressclass_list_Handle V)"

definition ingressclass_Get :: "module_env \<Rightarrow> module" where
  "ingressclass_Get V = stateless (any_version ingressclass_gk) ''/apis/networking.k8s.io/{version}/{endpoint:ingressclasses}/{name}'' [] (ingressclass_get_Handle V)"

definition storageclass_Get :: "module_env \<Rightarrow> module" where
  "storageclass_Get V = stateless (any_version storageclass_gk) ''/apis/storage.k8s.io/v1/{endpoint:storageclasses}/{name}'' [] (storageclass_get_Handle V)"

definition storageclass_List :: "module_env \<Rightarrow> module" where
  "storageclass_List V = stateless (any_version storageclass_gk) ''/apis/storage.k8s.io/v1/{endpoint:storageclasses/?}'' [] (storageclass_list_Handle V)"

definition priorityclass_List :: "module_env \<Rightarrow> module" where
  "priorityclass_List V = stateless (any_version priorityclass_gk) ''/apis/scheduling.k8s.io/v1/{endpoint:priorityclasses/?}'' [] (priorityclass_list_Handle V)"

definition priorityclass_Get :: "module_env \<Rightarrow> module" where
  "priorityclass_Get V = stateless (any_version priorityclass_gk) ''/apis/scheduling.k8s.io/v1/{endpoint:priorityclasses}/{name}'' [] (priorityclass_get_Handle V)"

definition runtimeclass_Get :: "module_env \<Rightarrow> module" where
  "runtimeclass_Get V = stateless (any_version runtimeclass_gk) ''/apis/node.k8s.io/v1/{endpoint:runtimeclasses}/{name}'' [] (runtimeclass_get_Handle V)"

definition runtimeclass_List :: "module_env \<Rightarrow> module" where
  "runtimeclass_List V = stateless (any_version runtimeclass_gk) ''/apis/node.k8s.io/v1/{endpoint:runtimeclasses/?}'' [] (runtimeclass_list_Handle V)"

definition persistentvolume_Get :: "module_env \<Rightarrow> module" where
  "persistentvolume_Get V = stateless (any_version persistentvolume_gk) ''/api/v1/{endpoint:persistentvolumes}/{name}'' [] (persistentvolume_get_Handle V)"

definition persistentvolume_List :: "module_env \<Rightarrow> module" where
  "persistentvolume_List V = stateless (any_version persistentvolume_gk) ''/api/v1/{endpoint:persistentvolumes/?}'' [] (persistentvolume_list_Handle V)"

definition metric_Get :: "module_env \<Rightarrow> module" where
  "metric_Get V = stateless (any_version metrics_gk) ''/apis/metrics.k8s.io/{version}/nodes/{name}'' [] (metric_get_Handle V)"

definition metric_List :: "module_env \<Rightarrow> module" where
  "metric_List V = stateless (any_version metrics_gk) ''/apis/metrics.k8s.io/{version}/{endpoint:nodes/?}'' [] (metric_list_Handle V)"

definition CatchAll :: "module_env \<Rightarrow> ProxyGroupVersionKind \<Rightarrow> module" where
  "CatchAll V api =
     \<lparr>md_GroupVersionKind = no_gvk, md_Path = Path api, md_Methods = [''get''],
      md_Handle = (\<lambda>st pts r.
        case catchall_Handle V \<lparr>ca_group = Group api, ca_version = Version api, ca_resource = URLName api\<rparr> (f_reflector st) pts r of
          (a, rbr) \<Rightarrow> (a, st\<lparr>f_reflector := rbr\<rparr>))\<rparr>"

definition moduleGroupKindPresent :: "module list \<Rightarrow> ProxyGroupVersionKind \<Rightarrow> bool" where
  "moduleGroupKindPresent mods api =
     list_ex (\<lambda>m. fst (md_GroupKind m) = Group api \<and> snd (md_GroupKind m) = URLName api) mods"

definition default_modules :: "module_env \<Rightarrow> module list" where
  "default_modules V = [namespace_List V, namespace_Get V, tenants_List V, tenants_Get V]"

definition legacy_modules :: "module_env \<Rightarrow> module list" where
  "legacy_modules V =
     [node_List V, node_Get V, ingressclass_List V, ingressclass_Get V,
      storageclass_Get V, storageclass_List V, priorityclass_List V, priorityclass_Get V, runtimeclass_Get V,
      runtimeclass_List V, persistentvolume_Get V, persistentvolume_List V, metric_Get V, metric_List V]"

text \<open>The discovery of kinds and the reads of unstructured objects by the generic get module.\<close>

record discovery_env =
  de_preferred :: "error + api_resource_list list"
  de_preferredNamespaced :: "error + api_resource_list list"
  de_resources :: "string \<Rightarrow> error + (string \<times> string) list"
  de_getObject :: "GroupVersionKind \<Rightarrow> string \<Rightarrow> error + kobject"

definition clusterscoped_List :: "module_env \<Rightarrow> string \<Rightarrow> module" where
  "clusterscoped_List V path = stateless no_gvk path [] (clusterscoped_list_Handle (m_labels V))"

definition clusterscoped_Get :: "module_env \<Rightarrow> discovery_env \<Rightarrow> string \<Rightarrow> module" where
  "clusterscoped_Get V D path = stateless no_gvk path [] (clusterscoped_get_Handle (m_labels V) (de_resources D) (de_getObject D))"

fun add_clusterscoped :: "module_env \<Rightarrow> discovery_env \<Rightarrow> ProxyGroupVersionKind list \<Rightarrow> module list \<Rightarrow> module list" where
  "add_clusterscoped V D [] mods = mods"
| "add_clusterscoped V D (api # apis) mods =
     add_clusterscoped V D apis
       (if moduleGroupKindPresent mods api then mods
        else mods @ [clusterscoped_List V (Path api), clusterscoped_Get V D (ResourcePath api)])"

text \<open>The registered modules and the keys of the namespaced resources; a failed discovery panics.\<close>

definition registerModules :: "bool \<Rightarrow> module_env \<Rightarrow> discovery_env \<Rightarrow> (module list \<times> string list) outcome" where
  "registerModules clusterScoped V D =
     bind_outcome
       (if clusterScoped then
          (case serverPreferredResources (de_preferred D) of
             Ok apis \<Rightarrow> Ok (add_clusterscoped V D apis (default_modules V))
           | _ \<Rightarrow> Panic)
        else Ok (default_modules V @ legacy_modules V))
       (\<lambda>mods.
          case discoverAPI (de_preferredNamespaced D) of
            Ok apis \<Rightarrow> Ok (mods @ map (CatchAll V) apis, map (\<lambda>api. NamespacedResourceKey (Group api) (URLName api)) apis)
          | _ \<Rightarrow> Panic)"

section \<open>The handler of a module route\<close>

definition error_status :: "error \<Rightarrow> nat" where
  "error_status e =
     (case Status e of
        Some s \<Rightarrow> if 0 < st_Code s then st_Code s else 500
      | None \<Rightarrow> st_Code (HandleError e (error_text e)))"

definition module_handler :: "('ip, 'net) kubeFilter \<Rightarrow> module \<Rightarrow> handler" where
  "module_handler n md st r =
     (case ResolveUserAndGroups (k_auth n) (k_config n) r of
        Panic \<Rightarrow> Panic
      | Err e \<Rightarrow> Ok \<lparr>sv_request = r, sv_state = st, sv_status = Some (resolve_status e)\<rparr>
      | Ok (r1, username, groups) \<Rightarrow>
          (case getTenantsForOwner (k_owners n) (k_clusterScoped n) username groups of
             Panic \<Rightarrow> Panic
           | Err e \<Rightarrow> Ok \<lparr>sv_request = r1, sv_state = st, sv_status = Some 500\<rparr>
           | Ok proxyTenants \<Rightarrow>
               (case md_Handle md st proxyTenants r1 of
                  (Panic, st') \<Rightarrow> Panic
                | (Err e, st') \<Rightarrow> Ok \<lparr>sv_request = r1, sv_state = st', sv_status = Some (error_status e)\<rparr>
                | (Ok None, st') \<Rightarrow> impersonateHandler n st' r1
                | (Ok (Some selector), st') \<Rightarrow>
                    bind_outcome (handleRequest n st' r1 selector) (\<lambda>(r2, st'').
                      Ok \<lparr>sv_request = r2, sv_state = st'', sv_status = None\<rparr>))))"

definition module_route :: "('ip, 'net) kubeFilter \<Rightarrow> module \<Rightarrow> handler" where
  "module_route n md =
     CheckPaths n (impersonateHandler n)
       (CheckJWTMiddleware n
         (CheckUserInIgnoredIdentityMiddleware n (impersonateHandler n)
           (CheckUserInCapsuleGroupMiddleware n (impersonateHandler n) (module_handler n md))))"

text \<open>The routes below the root: a module, or the fallback that impersonates.\<close>

definition route :: "('ip, 'net) kubeFilter \<Rightarrow> module option \<Rightarrow> handler" where
  "route n mo =
     CheckPaths n (impersonateHandler n)
       (CheckJWTMiddleware n (case mo of Some md \<Rightarrow> module_route n md | None \<Rightarrow> impersonateHandler n))"

section \<open>Reverse proxy, recovery and trusted source\<close>

text \<open>
  The answer to a request: refused before anything is forwarded, or forwarded upstream as
  \<open>fw_request\<close>. \<open>fw_status\<close> is the status of an error already written to the client when the request is
  forwarded nevertheless: \<^verbatim>\<open>reverseProxyMiddleware\<close> calls the reverse proxy after every inner handler.
\<close>

datatype reply =
    Refused nat
  | Forwarded http_request "nat option"

definition reverseProxyMiddleware :: "handler \<Rightarrow> filter_state \<Rightarrow> http_request \<Rightarrow> (reply \<times> filter_state) outcome" where
  "reverseProxyMiddleware nxt st r =
     bind_outcome (nxt st r) (\<lambda>s. Ok (Forwarded ((sv_request s)\<lparr>CtxUser := CtxUser r\<rparr>) (sv_status s), sv_state s))"

text \<open>
  A panic anywhere below answers 500. The state is the one before the request: an entry that the request
  had put into the result cache of the reflector before it panicked is forgotten. Such an entry only
  memorises what the informer cache answers, so later replies do not depend on it.
\<close>

definition recoveryMiddleware :: "filter_state \<Rightarrow> (reply \<times> filter_state) outcome \<Rightarrow> reply \<times> filter_state" where
  "recoveryMiddleware st res = (case res of Ok x \<Rightarrow> x | Err e \<Rightarrow> (Refused 500, st) | Panic \<Rightarrow> (Refused 500, st))"

definition RequireTrustedSourceMiddleware ::
    "('ip, 'net) kubeFilter \<Rightarrow> (filter_state \<Rightarrow> http_request \<Rightarrow> (reply \<times> filter_state) outcome)
      \<Rightarrow> filter_state \<Rightarrow> http_request \<Rightarrow> (reply \<times> filter_state) outcome" where
  "RequireTrustedSourceMiddleware n nxt st r =
     (if isFromTrustedSource n (RemoteAddr r) then nxt st r else Ok (Refused 403, st))"

text \<open>A request outside the self-review paths, from the accepted connection to the reverse proxy.\<close>

definition serve :: "('ip, 'net) kubeFilter \<Rightarrow> module option \<Rightarrow> filter_state \<Rightarrow> http_request \<Rightarrow> reply \<times> filter_state" where
  "serve n mo st r =
     recoveryMiddleware st (RequireTrustedSourceMiddleware n (reverseProxyMiddleware (route n mo)) st r)"

section \<open>Self reviews\<close>

text \<open>\<^verbatim>\<open>strings.Fields\<close>: the maximal runs without white space.\<close>

fun split_space :: "rune list \<Rightarrow> rune list \<Rightarrow> rune list list" where
  "split_space [] cur = [cur]"
| "split_space (r # rs) cur = (if is_space r then cur # split_space rs [] else split_space rs (cur @ [r]))"

definition Fields :: "string \<Rightarrow> rune list list" where
  "Fields s = filter (\<lambda>w. w \<noteq> []) (split_space (runes s) [])"

definition hasBearerToken :: "http_request \<Rightarrow> bool" where
  "hasBearerToken r =
     (let parts = Fields (HeaderGet (Header r) ''Authorization'') in
      2 \<le> length parts \<and> map fold_rune (parts ! 0) = map fold_rune (map byte ''Bearer''))"

text \<open>
  What happens to a self review after the upstream answer was recorded. \<open>upstream\<close> gives, for the
  request as it was forwarded and the error written before, the status and what the decoder makes of
  the recorded body: no kind at all is a nil dereference. \<open>mediaType\<close> is \<^verbatim>\<open>mime.ParseMediaType\<close>. The
  result is the status and the object that is encoded, or \<^const>\<open>None\<close> where the recorded body is
  written unchanged.
\<close>

datatype review_reply =
    ReviewRefused nat
  | Reviewed nat "review_object option"

definition mutated :: "review_object \<Rightarrow> review_object outcome \<Rightarrow> review_object outcome" where
  "mutated obj res = (case res of Ok x \<Rightarrow> Ok x | Err e \<Rightarrow> Ok obj | Panic \<Rightarrow> Panic)"

definition authorizationMiddleware ::
    "('ip, 'net) kubeFilter \<Rightarrow> string list \<Rightarrow> (http_request \<Rightarrow> nat option \<Rightarrow> nat \<times> (review_object \<times> string) option)
      \<Rightarrow> (string \<Rightarrow> string) \<Rightarrow> (filter_state \<Rightarrow> http_request \<Rightarrow> (reply \<times> filter_state) outcome)
      \<Rightarrow> filter_state \<Rightarrow> http_request \<Rightarrow> (review_reply \<times> filter_state) outcome" where
  "authorizationMiddleware n namespacedResources upstream mediaType nxt st r =
     bind_outcome (if hasBearerToken r then Ok (Forwarded r None, st) else nxt st r) (\<lambda>(rep, st').
       case rep of
         Refused c \<Rightarrow> Ok (ReviewRefused c, st')
       | Forwarded r1 written \<Rightarrow>
           (case ResolveUserAndGroups (k_auth n) (k_config n) r1 of
              Panic \<Rightarrow> Panic
            | Err e \<Rightarrow> Ok (ReviewRefused (resolve_status e), st')
            | Ok (r2, username, groups) \<Rightarrow>
                (case getTenantsForOwner (k_owners n) (k_clusterScoped n) username groups of
                   Panic \<Rightarrow> Panic
                 | Err e \<Rightarrow> Ok (ReviewRefused 500, st')
                 | Ok proxyTenants \<Rightarrow>
                     (case upstream r1 written of
                        (code, None) \<Rightarrow> Panic
                      | (code, Some (obj, kind)) \<Rightarrow>
                          bind_outcome (mutated obj (MutateAuthorization (k_labels n) (k_clusterScoped n) proxyTenants namespacedResources obj kind))
                            (\<lambda>obj'. let mt = mediaType (HeaderGet (Header r2) ''Content-Type'') in
                               Ok (Reviewed code (if mt = ''application/json'' \<or> mt = ''application/vnd.kubernetes.protobuf''
                                                  then Some obj' else None), st'))))))"

section \<open>Lemmas\<close>

text \<open>
  What every handler below the reverse proxy leaves of a request: an error with the request as it was,
  or a request prepared for the resolved identity, by impersonation or by the selector of the module.
\<close>

definition impersonated :: "('ip, 'net) kubeFilter \<Rightarrow> http_request \<Rightarrow> string \<Rightarrow> string list \<Rightarrow> http_request \<Rightarrow> bool" where
  "impersonated n r u g r' \<longleftrightarrow> (\<exists>st s. impersonateHandler n st r = Ok s \<and> sv_status s = None
     \<and> ResolveUserAndGroups (k_auth n) (k_config n) r = Ok (r\<lparr>CtxUser := Some (u, g)\<rparr>, u, g) \<and> r' = sv_request s)"

definition filtered :: "('ip, 'net) kubeFilter \<Rightarrow> module \<Rightarrow> http_request \<Rightarrow> string \<Rightarrow> string list \<Rightarrow> http_request \<Rightarrow> bool" where
  "filtered n md r u g r' \<longleftrightarrow> (\<exists>pts st sel st' st''. getTenantsForOwner (k_owners n) (k_clusterScoped n) u g = Ok pts
     \<and> md_Handle md st pts (r\<lparr>CtxUser := Some (u, g)\<rparr>) = (Ok (Some sel), st')
     \<and> handleRequest n st' (r\<lparr>CtxUser := Some (u, g)\<rparr>) sel = Ok (r', st''))"

definition served_ok :: "('ip, 'net) kubeFilter \<Rightarrow> module option \<Rightarrow> http_request \<Rightarrow> served outcome \<Rightarrow> bool" where
  "served_ok n mo r res \<longleftrightarrow> (case res of
       Panic \<Rightarrow> True
     | Err e \<Rightarrow> False
     | Ok s \<Rightarrow> (case sv_status s of
         Some c \<Rightarrow> \<exists>cu. sv_request s = r\<lparr>CtxUser := cu\<rparr>
       | None \<Rightarrow> \<exists>u g. ResolveUserAndGroups (k_auth n) (k_config n) r = Ok (r\<lparr>CtxUser := Some (u, g)\<rparr>, u, g)
           \<and> (impersonated n (r\<lparr>CtxUser := Some (u, g)\<rparr>) u g (sv_request s)
              \<or> (\<exists>md. mo = Some md \<and> filtered n md r u g (sv_request s)))))"

text \<open>The contract of a handler, which the middlewares keep when they delegate to handlers that have it.\<close>

locale serving =
  fixes n :: "('ip, 'net) kubeFilter" and mo :: "module option" and h :: handler
  assumes serves: "served_ok n mo r (h st r)"
begin

lemma served_error: "h st r = Ok s \<Longrightarrow> sv_status s = Some c \<Longrightarrow> \<exists>cu. sv_request s = r\<lparr>CtxUser := cu\<rparr>"
  using serves [of r st] by (simp add: served_ok_def)

lemma served_not_Err: "h st r \<noteq> Err e"
  using serves [of r st] by (auto simp: served_ok_def)

text \<open>Resolving the identity before the handler runs makes no difference to what it may leave.\<close>

lemma serves_resolved:
  assumes "ResolveUserAndGroups (k_auth n) (k_config n) r = Ok (r1, u, g)"
  shows "served_ok n mo r (h st r1)"
proof -
  have r1: "r1 = r\<lparr>CtxUser := Some (u, g)\<rparr>" using assms by (rule resolve_request)
  have again: "ResolveUserAndGroups (k_auth n) (k_config n) r1 = Ok (r1, u, g)" using assms by (rule resolve_again)
  show ?thesis
    using serves [of r1 st] again assms by (auto simp: served_ok_def filtered_def r1 split: outcome.splits option.splits)
qed

end

lemma impersonateHandler_resolved:
  assumes "ResolveUserAndGroups (k_auth n) (k_config n) r = Ok (r1, u, g)"
  shows "impersonateHandler n st r1 = impersonateHandler n st r"
  using assms resolve_again [OF assms, of "k_auth n" "k_config n"] by (simp add: impersonateHandler_def)

interpretation imp: serving n mo "impersonateHandler n" for n mo
proof
  fix r st
  show "served_ok n mo r (impersonateHandler n st r)"
  proof (cases "impersonateHandler n st r")
    case (Ok s)
    then show ?thesis
    proof (rule impersonateHandler_Ok)
      fix e assume "s = \<lparr>sv_request = r, sv_state = st, sv_status = Some (resolve_status e)\<rparr>"
      then show ?thesis by (auto simp: served_ok_def Ok intro: exI [of _ "CtxUser r"])
    next
      fix r1 u g assume res: "ResolveUserAndGroups (k_auth n) (k_config n) r = Ok (r1, u, g)" and s: "sv_status s = None"
      have r1: "r1 = r\<lparr>CtxUser := Some (u, g)\<rparr>" by (rule resolve_request [OF res])
      have "impersonated n r1 u g (sv_request s)"
        using resolve_again [OF res] impersonateHandler_resolved [OF res] Ok s by (auto simp: impersonated_def r1)
      then show ?thesis using res s by (auto simp: served_ok_def Ok r1)
    qed
  qed (simp_all add: served_ok_def impersonateHandler_def getBearerToken_not_Err bind_outcome_Err_conv Let_def split: outcome.splits prod.splits)
qed

lemma served_status: "served_ok n mo r (Ok \<lparr>sv_request = r, sv_state = st, sv_status = Some c\<rparr>)"
  by (auto simp: served_ok_def intro: exI [of _ "CtxUser r"])

lemma serving_CheckPaths:
  "serving n mo f \<Longrightarrow> serving n mo h \<Longrightarrow> serving n mo (CheckPaths n f h)"
  by (simp add: serving_def CheckPaths_def)

lemma serving_CheckJWT: "serving n mo h \<Longrightarrow> serving n mo (CheckJWTMiddleware n h)"
  by (simp add: serving_def CheckJWTMiddleware_def Let_def served_status split: sum.split)

lemma serving_CheckUserInIgnored:
  assumes "serving n mo f" and "serving n mo h"
  shows "serving n mo (CheckUserInIgnoredIdentityMiddleware n f h)"
  using serving.serves_resolved [OF assms(1)] serving.serves_resolved [OF assms(2)] serving.serves [OF assms(2)]
  by (auto simp: serving_def CheckUserInIgnoredIdentityMiddleware_def served_status served_ok_def [of _ _ _ Panic] split: outcome.split)

lemma serving_CheckUserInCapsuleGroup:
  assumes "serving n mo f" and "serving n mo h"
  shows "serving n mo (CheckUserInCapsuleGroupMiddleware n f h)"
  using serving.serves_resolved [OF assms(1)] serving.serves_resolved [OF assms(2)]
  by (auto simp: serving_def CheckUserInCapsuleGroupMiddleware_def served_status served_ok_def [of _ _ _ Panic] split: outcome.split)

lemma handleRequest_not_Err: "handleRequest n st r sel \<noteq> Err e"
  using getBearerToken_not_Err [of n st] by (auto simp: handleRequest_def Let_def bind_outcome_Err_conv)

lemma served_tenants_error:
  assumes "ResolveUserAndGroups (k_auth n) (k_config n) r = Ok (r1, u, g)"
  shows "served_ok n mo r (Ok \<lparr>sv_request = r1, sv_state = st, sv_status = Some c\<rparr>)"
  using resolve_request [OF assms] by (auto simp: served_ok_def)

interpretation mod: serving n "Some md" "module_handler n md" for n md
proof
  fix r st
  show "served_ok n (Some md) r (module_handler n md st r)"
  proof (cases "ResolveUserAndGroups (k_auth n) (k_config n) r")
    case (Ok x)
    then obtain r1 u g where res: "ResolveUserAndGroups (k_auth n) (k_config n) r = Ok (r1, u, g)" by (cases x) auto
    have r1: "r1 = r\<lparr>CtxUser := Some (u, g)\<rparr>" by (rule resolve_request [OF res])
    have sel: "served_ok n (Some md) r (bind_outcome (handleRequest n st' r1 sel) (\<lambda>(r2, st''). Ok \<lparr>sv_request = r2, sv_state = st'', sv_status = None\<rparr>))"
      if "getTenantsForOwner (k_owners n) (k_clusterScoped n) u g = Ok pts" "md_Handle md st pts r1 = (Ok (Some sel), st')" for pts sel st'
      using that res handleRequest_not_Err [of n st' r1 sel]
      by (cases "handleRequest n st' r1 sel") (auto simp: served_ok_def filtered_def r1)
    show ?thesis
      using imp.serves_resolved [OF res] served_tenants_error [OF res] sel
      by (auto simp: module_handler_def res served_ok_def [of _ _ _ Panic] split: outcome.split option.split prod.split)
  qed (auto simp: module_handler_def served_status served_ok_def [of _ _ _ Panic])
qed

lemmas serving_intros = serving_CheckPaths serving_CheckJWT serving_CheckUserInIgnored serving_CheckUserInCapsuleGroup
  imp.serving_axioms mod.serving_axioms

interpretation rt: serving n mo "route n mo" for n mo
  by (cases mo) (simp_all add: route_def module_route_def serving_intros)

lemma serve_Forwarded:
  assumes "fst (serve n mo st r) = Forwarded r' status"
  obtains s where "isFromTrustedSource n (RemoteAddr r)" and "route n mo st r = Ok s"
    and "r' = (sv_request s)\<lparr>CtxUser := CtxUser r\<rparr>" and "status = sv_status s"
  using assms
  by (auto simp: serve_def recoveryMiddleware_def RequireTrustedSourceMiddleware_def reverseProxyMiddleware_def
      split: outcome.splits if_splits)

lemma filtered_values:
  assumes "filtered n md r u g r'"
  shows "HeaderValues (Header r') ''Impersonate-User'' = [] \<and> HeaderValues (Header r') ''Impersonate-Group'' = []
    \<and> (\<exists>pts st sel st'. getTenantsForOwner (k_owners n) (k_clusterScoped n) u g = Ok pts
        \<and> md_Handle md st pts (r\<lparr>CtxUser := Some (u, g)\<rparr>) = (Ok (Some sel), st')
        \<and> alist_values (URLQuery r') ''labelSelector'' =
            [if ValuesGet (URLQuery r) ''labelSelector'' = [] then selectorString (k_labels n) sel
             else ValuesGet (URLQuery r) ''labelSelector'' @ '','' @ selectorString (k_labels n) sel])"
  using assms unfolding filtered_def
  by (elim exE conjE, elim handleRequest_Ok) (auto simp: set_token_values Sanitize_values qry.vals_laws)

lemma impersonated_values:
  assumes "impersonated n r u g r'"
  shows "\<exists>us gs. HeaderValues (Header r') ''Impersonate-User'' = us @ [u]
    \<and> HeaderValues (Header r') ''Impersonate-Group'' = gs @ g \<and> URLQuery r' = URLQuery r"
  using assms unfolding impersonated_def
  by (elim exE conjE, elim impersonateHandler_Ok) (auto simp: add_groups_values hdr.vals_laws dest: resolve_request)

lemma mem_discovered:
  "api \<in> set (discovered keep arls) \<longleftrightarrow> (\<exists>ar \<in> set arls. \<exists>i \<in> set (arl_Resources ar). keep i \<and> api = discovered_api ar i)"
  by (auto simp: discovered_def)

lemma discovered_api_fields [simp]:
  "Group (discovered_api ar i) = fst (split_group_version (arl_GroupVersion ar))" "URLName (discovered_api ar i) = ar_Name i"
  by (simp_all add: discovered_api_def Let_def)

lemma image_discovered:
  "key \<in> f ` set (discovered keep arls) \<longleftrightarrow> (\<exists>ar \<in> set arls. \<exists>i \<in> set (arl_Resources ar). keep i \<and> key = f (discovered_api ar i))"
  by (auto simp: discovered_def)

lemma moduleGroupKindPresent_default:
  "moduleGroupKindPresent (default_modules V) api \<longleftrightarrow> (Group api, URLName api) \<in> {namespaces_gk, tenants_gk}"
  by (auto simp: moduleGroupKindPresent_def default_modules_def namespace_List_def namespace_Get_def tenants_List_def tenants_Get_def
      stateless_def any_version_def md_GroupKind_def)

lemma generic_not_present:
  "URLName api \<noteq> '''' \<Longrightarrow> moduleGroupKindPresent (mods @ [clusterscoped_List V p, clusterscoped_Get V D p']) api = moduleGroupKindPresent mods api"
  by (simp add: moduleGroupKindPresent_def clusterscoped_List_def clusterscoped_Get_def stateless_def md_GroupKind_def no_gvk_def)

lemma add_clusterscoped_keeps: "set mods \<subseteq> set (add_clusterscoped V D apis mods)"
proof (induction apis arbitrary: mods)
  case (Cons a apis)
  have "set mods \<subseteq> set (if moduleGroupKindPresent mods a then mods else mods @ [clusterscoped_List V (Path a), clusterscoped_Get V D (ResourcePath a)])"
    by auto
  with Cons.IH show ?case by (metis add_clusterscoped.simps(2) subset_trans)
qed simp

lemma add_clusterscoped_complete:
  "api \<in> set apis \<Longrightarrow> URLName api \<noteq> '''' \<Longrightarrow> moduleGroupKindPresent mods api
     \<or> {clusterscoped_List V (Path api), clusterscoped_Get V D (ResourcePath api)} \<subseteq> set (add_clusterscoped V D apis mods)"
proof (induction apis arbitrary: mods)
  case (Cons a apis)
  let ?mods = "if moduleGroupKindPresent mods a then mods else mods @ [clusterscoped_List V (Path a), clusterscoped_Get V D (ResourcePath a)]"
  have present: "moduleGroupKindPresent ?mods api = moduleGroupKindPresent mods api" using Cons.prems(2) by (simp add: generic_not_present)
  show ?case
  proof (cases "api = a")
    case True
    then show ?thesis using add_clusterscoped_keeps [of ?mods V D apis] by (auto split: if_splits)
  next
    case False
    with Cons.prems Cons.IH [of ?mods] present show ?thesis by simp
  qed
qed simp

text \<open>
  What the server builds and the reverse proxy expects: the keys of the headers are canonical, and headers
  and query are maps.
\<close>

definition wf_request :: "http_request \<Rightarrow> bool" where
  "wf_request r \<longleftrightarrow> canonical_header (Header r) \<and> distinct (map fst (Header r)) \<and> distinct (map fst (URLQuery r))"

definition wf_header :: "header \<Rightarrow> bool" where
  "wf_header h \<longleftrightarrow> canonical_header h \<and> distinct (map fst h)"

lemma wf_request_header: "wf_request r \<longleftrightarrow> wf_header (Header r) \<and> distinct (map fst (URLQuery r))"
  by (auto simp: wf_request_def wf_header_def)

lemma wf_header_ops [simp]:
  assumes "wf_header h"
  shows "wf_header (HeaderSet h k v)" "wf_header (HeaderAdd h k v)" "wf_header (HeaderDel h k)"
  using assms by (simp_all add: wf_header_def) (simp_all add: HeaderSet_def HeaderAdd_def HeaderDel_def distinct_update distinct_delete)

lemma wf_header_fold:
  assumes "\<And>x h. wf_header h \<Longrightarrow> wf_header (f x h)"
  shows "wf_header h \<Longrightarrow> wf_header (fold f xs h)"
  using assms by (induction xs arbitrary: h) auto

lemma wf_set_token: "wf_request r \<Longrightarrow> wf_request (set_token t r)"
  by (simp add: wf_request_header set_token_def)

lemma wf_removingHop: "wf_request r \<Longrightarrow> wf_request (removingHopByHopHeaders n r)"
  by (simp add: wf_request_header removingHopByHopHeaders_def Let_def wf_header_fold)

lemma wf_Sanitize: "wf_request r \<Longrightarrow> wf_request (SanitizeImpersonationHeaders r)"
  by (simp add: wf_request_header SanitizeImpersonationHeaders_def Let_def wf_header_fold)

lemma wf_impersonated:
  assumes "wf_request r" and "impersonated n r u g r'"
  shows "wf_request r'"
  using assms(2) unfolding impersonated_def
proof (elim exE conjE, elim impersonateHandler_Ok)
  fix s r1 u' g' t r2
  assume "ResolveUserAndGroups (k_auth n) (k_config n) r = Ok (r1, u', g')" and r2: "r2 = removingHopByHopHeaders n (set_token t r1)"
    and s: "sv_request s = r2\<lparr>Header := add_groups g' (HeaderAdd (Header r2) ImpersonateUserHeader u')\<rparr>" and r': "r' = sv_request s"
  then have "wf_request r1" using assms(1) resolve_request by (fastforce simp: wf_request_def)
  then have "wf_request r2" unfolding r2 by (intro wf_removingHop wf_set_token)
  then show ?thesis by (simp add: r' s wf_request_header add_groups_def wf_header_fold)
qed simp

lemma wf_handleRequest:
  assumes "wf_request r" and "handleRequest n st r sel = Ok (r', st')"
  shows "wf_request r'"
  using assms(2)
proof (rule handleRequest_Ok)
  fix t
  let ?v = "if ValuesGet (URLQuery r) ''labelSelector'' = [] then selectorString (k_labels n) sel
     else ValuesGet (URLQuery r) ''labelSelector'' @ '','' @ selectorString (k_labels n) sel"
  assume r': "r' = set_token t ((SanitizeImpersonationHeaders r)\<lparr>URLQuery := ValuesSet (URLQuery r) ''labelSelector'' ?v\<rparr>)"
  have "wf_request (SanitizeImpersonationHeaders r)" using assms(1) by (rule wf_Sanitize)
  moreover have "distinct (map fst (ValuesSet (URLQuery r) ''labelSelector'' ?v))"
    using assms(1) by (simp add: wf_request_def ValuesSet_def distinct_update)
  ultimately show ?thesis unfolding r' by (intro wf_set_token) (simp add: wf_request_def)
qed

section \<open>Properties\<close>


text \<open>
  A request is withheld from the API server in two cases only: its source is not trusted, which is
  answered with 403 before anything else runs, or a handler panics, which is answered with 500. A source
  is trusted when no network is configured or its address parses and lies in a configured one.
\<close>

lemma refused_iff:
  "fst (serve n mo st r) = Refused c \<longleftrightarrow>
     (if isFromTrustedSource n (RemoteAddr r) then route n mo st r = Panic \<and> c = 500 else c = 403)"
  using rt.served_not_Err [of n mo st r]
  by (cases "route n mo st r")
     (auto simp: serve_def recoveryMiddleware_def RequireTrustedSourceMiddleware_def reverseProxyMiddleware_def)

lemma trusted_source_iff:
  "isFromTrustedSource n a \<longleftrightarrow> k_trustedProxyCIDRs n = [] \<or>
     (\<exists>ip. k_parseIP n (case k_splitHostPort n a of Some h \<Rightarrow> h | None \<Rightarrow> a) = Some ip
        \<and> (\<exists>net \<in> set (k_trustedProxyCIDRs n). k_cidrContains n net ip))"
  by (auto simp: isFromTrustedSource_def list_ex_iff Let_def split: option.splits)


text \<open>
  C27: the modules that are registered cover what the API server announces. The namespaced resources that
  the self reviews advertise are exactly those that can be read, listed and watched, and each has its
  catch-all module; with the feature \<^verbatim>\<open>ProxyClusterScoped\<close> every other resource that can be read has a
  generic list and a generic get module under its own paths, unless it is one of the two that have modules
  of their own, namespaces and tenants.
\<close>

theorem registered_modules:
  assumes "registerModules clusterScoped V D = Ok (mods, keys)" and "de_preferredNamespaced D = Inr nss"
  shows "(key \<in> set keys \<longleftrightarrow> (\<exists>ar \<in> set nss. \<exists>i \<in> set (arl_Resources ar). {''get'', ''list'', ''watch''} \<subseteq> set (ar_Verbs i)
        \<and> key = NamespacedResourceKey (fst (split_group_version (arl_GroupVersion ar))) (ar_Name i)))
    \<and> (\<forall>ar \<in> set nss. \<forall>i \<in> set (arl_Resources ar). {''get'', ''list'', ''watch''} \<subseteq> set (ar_Verbs i)
        \<longrightarrow> CatchAll V (discovered_api ar i) \<in> set mods)
    \<and> (\<forall>all ar i. clusterScoped \<and> de_preferred D = Inr all \<and> ar \<in> set all \<and> i \<in> set (arl_Resources ar)
        \<and> \<not> ar_Namespaced i \<and> ''get'' \<in> set (ar_Verbs i) \<and> ar_Name i \<noteq> ''''
        \<longrightarrow> (fst (split_group_version (arl_GroupVersion ar)), ar_Name i) \<in> {namespaces_gk, tenants_gk}
          \<or> {clusterscoped_List V (Path (discovered_api ar i)), clusterscoped_Get V D (ResourcePath (discovered_api ar i))} \<subseteq> set mods)"
proof (intro conjI)
  let ?keep = "\<lambda>i. {''get'', ''list'', ''watch''} \<subseteq> set (ar_Verbs i)"
  have "discoverAPI (de_preferredNamespaced D) = Ok (discovered ?keep nss)" by (simp add: discoverAPI_def assms(2))
  with assms(1) obtain base where base: "(if clusterScoped then
          (case serverPreferredResources (de_preferred D) of Ok apis \<Rightarrow> Ok (add_clusterscoped V D apis (default_modules V)) | _ \<Rightarrow> Panic)
        else Ok (default_modules V @ legacy_modules V)) = Ok base"
    and mods: "mods = base @ map (CatchAll V) (discovered ?keep nss)"
    and keys: "keys = map (\<lambda>api. NamespacedResourceKey (Group api) (URLName api)) (discovered ?keep nss)"
    by (auto simp: registerModules_def)
  show "key \<in> set keys \<longleftrightarrow> (\<exists>ar \<in> set nss. \<exists>i \<in> set (arl_Resources ar). ?keep i
        \<and> key = NamespacedResourceKey (fst (split_group_version (arl_GroupVersion ar))) (ar_Name i))"
    unfolding keys set_map image_discovered by simp
  show "\<forall>ar \<in> set nss. \<forall>i \<in> set (arl_Resources ar). ?keep i \<longrightarrow> CatchAll V (discovered_api ar i) \<in> set mods"
    unfolding mods set_append set_map Un_iff image_discovered by blast
  show "\<forall>all ar i. clusterScoped \<and> de_preferred D = Inr all \<and> ar \<in> set all \<and> i \<in> set (arl_Resources ar)
        \<and> \<not> ar_Namespaced i \<and> ''get'' \<in> set (ar_Verbs i) \<and> ar_Name i \<noteq> ''''
        \<longrightarrow> (fst (split_group_version (arl_GroupVersion ar)), ar_Name i) \<in> {namespaces_gk, tenants_gk}
          \<or> {clusterscoped_List V (Path (discovered_api ar i)), clusterscoped_Get V D (ResourcePath (discovered_api ar i))} \<subseteq> set mods"
  proof (intro allI impI)
    fix all ar i
    assume pre: "clusterScoped \<and> de_preferred D = Inr all \<and> ar \<in> set all \<and> i \<in> set (arl_Resources ar)
        \<and> \<not> ar_Namespaced i \<and> ''get'' \<in> set (ar_Verbs i) \<and> ar_Name i \<noteq> ''''"
    let ?api = "discovered_api ar i"
    let ?apis = "discovered (\<lambda>i. \<not> ar_Namespaced i \<and> ''get'' \<in> set (ar_Verbs i)) all"
    have "?api \<in> set ?apis" using pre by (auto simp: mem_discovered)
    moreover have "base = add_clusterscoped V D ?apis (default_modules V)" using pre base by (simp add: serverPreferredResources_def)
    ultimately show "(fst (split_group_version (arl_GroupVersion ar)), ar_Name i) \<in> {namespaces_gk, tenants_gk}
          \<or> {clusterscoped_List V (Path ?api), clusterscoped_Get V D (ResourcePath ?api)} \<subseteq> set mods"
      using add_clusterscoped_complete [of ?api ?apis "default_modules V" V D] pre mods
      unfolding moduleGroupKindPresent_default by auto
  qed
qed


text \<open>
  C19: with the feature \<^verbatim>\<open>ProxyClusterScoped\<close>, a request of any method for a resource that no rule of the
  caller's tenants covers is forwarded by the generic list module without the identity of the caller: with
  the token of the proxy, no impersonation headers, and a label selector that no object satisfies. The
  selector makes a list empty, but it does not restrict a \<^verbatim>\<open>POST\<close>, which creates an object under the
  permissions of the proxy.
\<close>

theorem uncovered_request_as_proxy:
  assumes "new_requirement_ok (m_labels V)" and "ResolveUserAndGroups (k_auth n) (k_config n) r = Ok (r1, u, g)"
    and "getTenantsForOwner (k_owners n) (k_clusterScoped n) u g = Ok pts"
    and "GetClusterScopeRequirements (m_labels V) (GetGVKFromURL (URLPath r)) OperationList pts = []"
    and "getBearerToken n st = Ok (t, st')" and "t \<noteq> []"
  shows "\<exists>s req. module_handler n (clusterscoped_List V path) st r = Ok s \<and> sv_status s = None \<and> Method (sv_request s) = Method r
    \<and> URLPath (sv_request s) = URLPath r \<and> HeaderValues (Header (sv_request s)) ''Authorization'' = [''Bearer '' @ t]
    \<and> HeaderValues (Header (sv_request s)) ''Impersonate-User'' = [] \<and> HeaderValues (Header (sv_request s)) ''Impersonate-Group'' = []
    \<and> newRequirement (m_labels V) ''dontexistsignoreme'' op_Exists [] = Inr req
    \<and> handleRequest n st r1 [req] = Ok (sv_request s, sv_state s)"
proof -
  have r1: "r1 = r\<lparr>CtxUser := Some (u, g)\<rparr>" by (rule resolve_request [OF assms(2)])
  obtain req where req: "newRequirement (m_labels V) ''dontexistsignoreme'' op_Exists [] = Inr req"
    by (cases "newRequirement (m_labels V) ''dontexistsignoreme'' op_Exists []") (use assms(1) in \<open>simp_all add: new_requirement_ok_def\<close>)
  have "md_Handle (clusterscoped_List V path) st pts r1 = (Ok (Some [req]), st)"
    using assms(4) by (simp add: clusterscoped_List_def stateless_def clusterscoped_list_Handle_def nothing_selector_def req r1)
  moreover obtain r2 where r2: "handleRequest n st r1 [req] = Ok (r2, st')" using assms(5) by (auto simp: handleRequest_def Let_def)
  moreover have "HeaderValues (Header r2) ''Authorization'' = [''Bearer '' @ t]" "Method r2 = Method r" "URLPath r2 = URLPath r"
    "HeaderValues (Header r2) ''Impersonate-User'' = []" "HeaderValues (Header r2) ''Impersonate-Group'' = []"
    using r2 assms(5,6) by (auto elim!: handleRequest_Ok simp: set_token_values Sanitize_values r1)
  ultimately show ?thesis using req by (simp add: module_handler_def assms(2,3))
qed

section \<open>Concrete requests\<close>

lemma doc_admin_header:
  "remove_all ''Bearer '' (HeaderGet (Header doc_admin_request) ''Authorization'') = ''admin''"
proof -
  have "HeaderGet (Header doc_admin_request) ''Authorization'' = ''Bearer admin''" by (simp add: doc_eval)
  moreover have "remove_all ''Bearer '' ''Bearer admin'' = ''admin''" by code_simp
  ultimately show ?thesis by simp
qed

lemma doc_trusted: "isFromTrustedSource doc_filter (RemoteAddr doc_admin_request)"
  by (simp add: isFromTrustedSource_def doc_filter_def doc_admin_request_def doc_request_def)

lemma doc_serve:
  "\<exists>r'. fst (serve doc_filter None doc_state doc_admin_request) = Forwarded r' None"
proof -
  obtain s where "impersonateHandler doc_filter doc_state doc_admin_request = Ok s" "sv_status s = None"
    using doc_impersonate by blast
  moreover have "k_allowedPaths doc_filter = []" by (simp add: doc_filter_def)
  moreover have "createTokenReview doc_env ''admin'' = Inr \<lparr>tr_Authenticated = True, tr_Error = '''', tr_Username = ''admin'', tr_Groups = [''dev'']\<rparr>"
    by (simp add: doc_env_def)
  ultimately show ?thesis
    by (simp add: serve_def RequireTrustedSourceMiddleware_def doc_trusted reverseProxyMiddleware_def recoveryMiddleware_def
        route_def CheckPaths_def CheckJWTMiddleware_def doc_admin_header)
qed


lemma doc_bob_tenants: "getTenantsForOwner doc_owner_reader False ''bob'' [''ops''] = Ok []"
  by (simp add: getTenantsForOwner_def getProxyTenantsForOwnerKind_def doc_owner_reader_def user_kind_def owner_key_def
      HasPrefix_def items_or_nil_def wrap_outcome_def)

lemma doc_has_token: "hasBearerToken doc_admin_request"
proof -
  have "HeaderGet (Header doc_admin_request) ''Authorization'' = ''Bearer admin''" by (simp add: doc_eval)
  moreover have "runes ''Bearer admin'' = map byte ''Bearer admin''" by (rule runes_ascii) (simp add: ascii_def byte_def)
  then have "Fields ''Bearer admin'' = [map byte ''Bearer'', map byte ''admin'']"
    by (simp add: Fields_def is_space_def byte_def)
  ultimately show ?thesis by (simp add: hasBearerToken_def)
qed

lemma doc_review:
  "authorizationMiddleware doc_filter [] (\<lambda>_ _. (201, Some (AccessReview doc_access, ''SelfSubjectAccessReview''))) (\<lambda>_. ''application/json'')
     (\<lambda>_ _. Panic) doc_state doc_admin_request
   = Ok (Reviewed 201 (Some (AccessReview (mutate_access doc_labels False [] [] doc_access))), doc_state)"
  by (simp add: authorizationMiddleware_def doc_has_token doc_admin_resolve Let_def)
     (simp add: doc_filter_def doc_bob_tenants mutated_def MutateAuthorization_def)


definition doc_discovery :: discovery_env where
  "doc_discovery =
     \<lparr>de_preferred = Inr [\<lparr>arl_GroupVersion = ''v1'', arl_Resources =
        [\<lparr>ar_Name = ''nodes'', ar_Kind = ''Node'', ar_Namespaced = False, ar_Verbs = [''get'', ''list'', ''watch'']\<rparr>]\<rparr>],
      de_preferredNamespaced = Inr [\<lparr>arl_GroupVersion = ''v1'', arl_Resources =
        [\<lparr>ar_Name = ''pods'', ar_Kind = ''Pod'', ar_Namespaced = True, ar_Verbs = [''get'', ''list'', ''watch'']\<rparr>]\<rparr>],
      de_resources = (\<lambda>_. Inr [(''nodes'', ''Node'')]), de_getObject = (\<lambda>_ _. Inr doc_node)\<rparr>"

theorem registered_modules_witness:
  "\<exists>mods keys. registerModules True doc_modules doc_discovery = Ok (mods, keys) \<and> ''/pods'' \<in> set keys
     \<and> clusterscoped_List doc_modules ''/api/v1/nodes'' \<in> set mods"
proof -
  let ?gv = "split_group_version ''v1''"
  have gv: "?gv = ('''', ''v1'')" by code_simp
  have ok: "\<exists>mods keys. registerModules True doc_modules doc_discovery = Ok (mods, keys)"
    by (simp add: registerModules_def doc_discovery_def discoverAPI_def serverPreferredResources_def)
  then obtain mods keys where reg: "registerModules True doc_modules doc_discovery = Ok (mods, keys)" by blast
  let ?nodes = "\<lparr>Group = '''', Version = ''v1'', Kind = ''Node'', URLName = ''nodes''\<rparr> :: ProxyGroupVersionKind"
  have "Path ?nodes = ''/api/v1/nodes''" by code_simp
  then show ?thesis
    using registered_modules [OF reg, of _ "''/pods''"] reg
    by (simp add: doc_discovery_def gv discovered_api_def Let_def NamespacedResourceKey_def)
qed


text \<open>The same request with another method and path.\<close>

definition doc_admin_as :: "string \<Rightarrow> string \<Rightarrow> http_request" where
  "doc_admin_as meth path = doc_admin_request\<lparr>Method := meth, URLPath := path\<rparr>"

lemma doc_as_resolve:
  "ResolveUserAndGroups doc_env doc_config (doc_admin_as meth path)
     = Ok ((doc_admin_as meth path)\<lparr>CtxUser := Some (''bob'', [''ops''])\<rparr>, ''bob'', [''ops''])"
proof -
  let ?r = "doc_admin_as meth path"
  have "authenticate doc_env doc_config ?r = Inr (''admin'', [''dev''])"
    by (simp add: doc_admin_as_def authenticate_def try_auth_def processBearerToken_def bearerToken_def TrimPrefix_def HasPrefix_def doc_eval)
  moreover have "GetImpersonatingGroups doc_env ?r [] None = Ok [''ops'']" "GetImpersonatingUser ?r = ''bob''"
    by (simp_all add: doc_admin_as_def GetImpersonatingGroups_def GetImpersonatingUser_def doc_eval)
  moreover have "CtxUser ?r = None" "ignoredImpersonationGroups doc_config = []" "impersonationGroupsRegexp doc_config = None"
    by (simp_all add: doc_admin_as_def doc_eval)
  moreover have "review doc_env res n ''admin'' [''dev''] = None" for res n
    by (simp add: review_None_iff impersonate_review_def doc_env_def)
  ultimately show ?thesis by (simp add: ResolveUserAndGroups_def GetUserAndGroups_def deferred_groups_def)
qed

lemma doc_cluster_tenants: "getTenantsForOwner doc_owner_reader True ''bob'' [''ops''] = Ok []"
  by (simp add: getTenantsForOwner_def getProxyTenantsForOwnerKind_def doc_owner_reader_def user_kind_def owner_key_def
      HasPrefix_def items_or_nil_def wrap_outcome_def)

theorem uncovered_request_as_proxy_witness:
  "\<exists>s. module_handler (doc_filter\<lparr>k_clusterScoped := True\<rparr>) (clusterscoped_List doc_modules ''/api/v1/nodes'') doc_state
         (doc_admin_as ''POST'' ''/api/v1/nodes'') = Ok s
     \<and> Method (sv_request s) = ''POST'' \<and> HeaderValues (Header (sv_request s)) ''Authorization'' = [''Bearer proxy'']
     \<and> HeaderValues (Header (sv_request s)) ''Impersonate-User'' = []"
proof -
  let ?n = "doc_filter\<lparr>k_clusterScoped := True\<rparr>" and ?r = "doc_admin_as ''POST'' ''/api/v1/nodes''"
  have "new_requirement_ok (m_labels doc_modules)" using doc_labels_ok by simp
  moreover have "ResolveUserAndGroups (k_auth ?n) (k_config ?n) ?r = Ok (?r\<lparr>CtxUser := Some (''bob'', [''ops''])\<rparr>, ''bob'', [''ops''])"
    by (simp add: doc_as_resolve)
  moreover have "getTenantsForOwner (k_owners ?n) (k_clusterScoped ?n) ''bob'' [''ops''] = Ok []"
    using doc_cluster_tenants by (simp add: doc_filter_def)
  moreover have "GetClusterScopeRequirements L gvk OperationList [] = []" for L gvk by (simp add: GetClusterScopeRequirements_def)
  moreover have "getBearerToken ?n doc_state = Ok (''proxy'', doc_token_state)"
    by (simp add: getBearerToken_def bearerExpirationTime_def doc_filter_def doc_state_def doc_token_state_def)
  moreover have "Method ?r = ''POST''" by (simp add: doc_admin_as_def)
  ultimately show ?thesis
    using uncovered_request_as_proxy [of doc_modules ?n ?r "?r\<lparr>CtxUser := Some (''bob'', [''ops''])\<rparr>" "''bob''" "[''ops'']" "[]" doc_state "''proxy''"
        doc_token_state "''/api/v1/nodes''"]
    by auto
qed

end
