(* ===== verification/Validation.thy ===== *)
theory Validation
  imports Webserver
begin

text \<open>
  internal/runtime/validation/cluster_resource.go: the index of the cluster-scoped resources the API
  server offers, and the validation of a \<^verbatim>\<open>ClusterResource\<close> block against it. The index is a map of
  maps; \<^verbatim>\<open>schema.ParseGroupVersion\<close> is an argument.
\<close>

section \<open>Discovery index\<close>

record DiscoveredClusterResource =
  d_APIGroup :: string
  d_Resource :: string
  d_Kinds :: "string list"
  d_Verbs :: "string list"

type_synonym group_index = "(string \<times> DiscoveredClusterResource) list"
type_synonym discovery_index = "(string \<times> group_index) list"

definition appendUnique :: "'a list \<Rightarrow> 'a list \<Rightarrow> 'a list" where
  "appendUnique values candidates = fold (\<lambda>c vs. if c \<in> set vs then vs else vs @ [c]) candidates values"

definition index_groups :: "discovery_index \<Rightarrow> string list" where
  "index_groups idx = sort (map fst idx)"

definition index_resource :: "string \<Rightarrow> api_resource \<Rightarrow> group_index \<Rightarrow> group_index" where
  "index_resource grp res m =
     (if ar_Namespaced res then m
      else if Contains (ar_Name res) ''/'' then m
      else let current = (case map_of m (ar_Name res) of Some d \<Rightarrow> d
             | None \<Rightarrow> \<lparr>d_APIGroup = '''', d_Resource = '''', d_Kinds = [], d_Verbs = []\<rparr>) in
        AList.update (ar_Name res)
          \<lparr>d_APIGroup = grp, d_Resource = ar_Name res, d_Kinds = appendUnique (d_Kinds current) [ar_Kind res],
           d_Verbs = appendUnique (d_Verbs current) (ar_Verbs res)\<rparr> m)"

fun index_lists :: "(string \<Rightarrow> error + string) \<Rightarrow> api_resource_list list \<Rightarrow> discovery_index \<Rightarrow> discovery_index outcome" where
  "index_lists parse [] idx = Ok idx"
| "index_lists parse (l # ls) idx =
     (case parse (arl_GroupVersion l) of
        Inl e \<Rightarrow> Err (wrap (''cannot parse discovered groupVersion '' @ arl_GroupVersion l) e)
      | Inr grp \<Rightarrow>
          index_lists parse ls
            (AList.update grp (fold (index_resource grp) (arl_Resources l)
               (case map_of idx grp of Some m \<Rightarrow> m | None \<Rightarrow> [])) idx))"

text \<open>
  \<open>preferred\<close> is the answer of \<^verbatim>\<open>ServerPreferredResources\<close>: the lists and the error, if any, with
  whether it is an \<^verbatim>\<open>ErrGroupDiscoveryFailed\<close>, which leaves a partial list behind.
\<close>

definition DiscoverClusterResources ::
    "(string \<Rightarrow> error + string) \<Rightarrow> api_resource_list list \<times> (error \<times> bool) option \<Rightarrow> discovery_index outcome" where
  "DiscoverClusterResources parse preferred =
     (case preferred of (resourceLists, erro) \<Rightarrow>
        (case erro of
           Some (e, groupDiscoveryFailed) \<Rightarrow> if groupDiscoveryFailed then index_lists parse resourceLists [] else Err e
         | None \<Rightarrow> index_lists parse resourceLists []))"

section \<open>Validation\<close>

datatype validation_error =
    EmptyAPIGroups
  | EmptyResources
  | UnsupportedOperation nat string
  | WildcardAPIGroups
  | WildcardResources
  | GroupNotDiscovered string
  | ResourceNotDiscovered string string
  | NoDiscoveredKind string string
  | OperationNotSupported string string string

definition hasWildcard :: "string list \<Rightarrow> bool" where
  "hasWildcard values \<longleftrightarrow> ''*'' \<in> set values"

definition validateClusterResourceOperations :: "ClusterResource \<Rightarrow> validation_error list" where
  "validateClusterResourceOperations cr =
     map (\<lambda>(i, opn). UnsupportedOperation i opn)
       (filter (\<lambda>(i, opn). \<not> (opn = OperationList \<or> opn = OperationGet)) (enumerate 0 (cr_Operations cr)))"

definition validateDiscoveredClusterResource ::
    "string \<Rightarrow> string \<Rightarrow> DiscoveredClusterResource \<Rightarrow> string list \<Rightarrow> validation_error list" where
  "validateDiscoveredClusterResource apiGroup resourceName resource operations =
     (if length (d_Kinds resource) = 0 then [NoDiscoveredKind apiGroup resourceName] else [])
     @ map (\<lambda>opn. OperationNotSupported apiGroup resourceName opn)
         (filter (\<lambda>opn. ToLowerASCII opn \<notin> set (d_Verbs resource)) operations)"

definition validate_group :: "ClusterResource \<Rightarrow> discovery_index \<Rightarrow> string \<Rightarrow> validation_error list" where
  "validate_group cr idx apiGroup =
     (case map_of idx apiGroup of
        None \<Rightarrow> [GroupNotDiscovered apiGroup]
      | Some resources \<Rightarrow>
          if hasWildcard (cr_Resources cr)
          then concat (map (\<lambda>(name, res). validateDiscoveredClusterResource apiGroup name res (EffectiveOperations cr)) resources)
          else concat (map (\<lambda>name.
                 case map_of resources name of
                   None \<Rightarrow> [ResourceNotDiscovered apiGroup name]
                 | Some res \<Rightarrow> validateDiscoveredClusterResource apiGroup name res (EffectiveOperations cr)) (cr_Resources cr)))"

definition ValidateClusterResourceBlock :: "ClusterResource \<Rightarrow> discovery_index \<Rightarrow> validation_error list" where
  "ValidateClusterResourceBlock cr idx =
     (let errs = (if length (cr_APIGroups cr) = 0 then [EmptyAPIGroups] else [])
            @ (if length (cr_Resources cr) = 0 then [EmptyResources] else [])
            @ validateClusterResourceOperations cr
            @ (if hasWildcard (cr_APIGroups cr) \<and> 1 < length (cr_APIGroups cr) then [WildcardAPIGroups] else [])
            @ (if hasWildcard (cr_Resources cr) \<and> 1 < length (cr_Resources cr) then [WildcardResources] else []) in
      if 0 < length errs then errs
      else concat (map (validate_group cr idx)
             (if hasWildcard (cr_APIGroups cr) then index_groups idx else cr_APIGroups cr)))"

section \<open>Lemmas\<close>

lemma set_appendUnique [simp]: "set (appendUnique vs cs) = set vs \<union> set cs"
  unfolding appendUnique_def by (induction cs arbitrary: vs) auto

text \<open>What the index says of a group and a resource, as sets.\<close>

definition indexed :: "discovery_index \<Rightarrow> string \<Rightarrow> string \<Rightarrow> DiscoveredClusterResource option" where
  "indexed idx grp res = (case map_of idx grp of None \<Rightarrow> None | Some m \<Rightarrow> map_of m res)"

definition verbs_of :: "DiscoveredClusterResource option \<Rightarrow> string set" where
  "verbs_of d = (case d of None \<Rightarrow> {} | Some x \<Rightarrow> set (d_Verbs x))"

definition kinds_of :: "DiscoveredClusterResource option \<Rightarrow> string set" where
  "kinds_of d = (case d of None \<Rightarrow> {} | Some x \<Rightarrow> set (d_Kinds x))"

definition offered :: "api_resource \<Rightarrow> string \<Rightarrow> bool" where
  "offered res name \<longleftrightarrow> \<not> ar_Namespaced res \<and> CHR ''/'' \<notin> set (ar_Name res) \<and> ar_Name res = name"

lemma index_resource_step:
  "(map_of (index_resource g res m) name = None \<longleftrightarrow> map_of m name = None \<and> \<not> offered res name)
   \<and> verbs_of (map_of (index_resource g res m) name) = verbs_of (map_of m name) \<union> (if offered res name then set (ar_Verbs res) else {})
   \<and> kinds_of (map_of (index_resource g res m) name) = kinds_of (map_of m name) \<union> (if offered res name then {ar_Kind res} else {})"
  by (auto simp: index_resource_def offered_def Let_def update_conv' verbs_of_def kinds_of_def split: option.split)

lemma index_resources_fold:
  "(map_of (fold (index_resource g) rs m) name = None \<longleftrightarrow> map_of m name = None \<and> (\<forall>r \<in> set rs. \<not> offered r name))
   \<and> verbs_of (map_of (fold (index_resource g) rs m) name) = verbs_of (map_of m name) \<union> (\<Union>r \<in> {r \<in> set rs. offered r name}. set (ar_Verbs r))
   \<and> kinds_of (map_of (fold (index_resource g) rs m) name) = kinds_of (map_of m name) \<union> (\<Union>r \<in> {r \<in> set rs. offered r name}. {ar_Kind r})"
proof (induction rs arbitrary: m)
  case Nil
  then show ?case by simp
next
  case (Cons r rs)
  have eq: "(\<Union>x \<in> {x \<in> set (r # rs). offered x name}. f x) = (if offered r name then f r else {}) \<union> (\<Union>x \<in> {x \<in> set rs. offered x name}. f x)"
    for f :: "api_resource \<Rightarrow> string set" by auto
  show ?case
    using Cons.IH [of "index_resource g r m"] index_resource_step [of g r m name] unfolding eq by auto
qed

text \<open>The resources of a group among the lists, by the parsed group.\<close>

definition resources_of :: "(string \<Rightarrow> error + string) \<Rightarrow> api_resource_list list \<Rightarrow> string \<Rightarrow> string \<Rightarrow> api_resource set" where
  "resources_of parse ls grp name =
     {r. \<exists>l \<in> set ls. parse (arl_GroupVersion l) = Inr grp \<and> r \<in> set (arl_Resources l) \<and> offered r name}"

lemma resources_of_Cons:
  "parse (arl_GroupVersion l) = Inr g \<Longrightarrow>
   resources_of parse (l # ls) grp name = (if g = grp then {r \<in> set (arl_Resources l). offered r name} else {}) \<union> resources_of parse ls grp name"
  by (auto simp: resources_of_def)

lemma index_lists_spec:
  "index_lists parse ls idx = Ok idx' \<Longrightarrow>
   (indexed idx' grp name = None \<longleftrightarrow> indexed idx grp name = None \<and> resources_of parse ls grp name = {})
   \<and> verbs_of (indexed idx' grp name) = verbs_of (indexed idx grp name) \<union> (\<Union>r \<in> resources_of parse ls grp name. set (ar_Verbs r))
   \<and> kinds_of (indexed idx' grp name) = kinds_of (indexed idx grp name) \<union> (\<Union>r \<in> resources_of parse ls grp name. {ar_Kind r})"
proof (induction ls arbitrary: idx)
  case Nil
  then show ?case by (simp add: resources_of_def)
next
  case (Cons l ls)
  from Cons.prems obtain g where g: "parse (arl_GroupVersion l) = Inr g" by (auto split: sum.splits)
  let ?old = "case map_of idx g of Some m \<Rightarrow> m | None \<Rightarrow> []"
  let ?idx = "AList.update g (fold (index_resource g) (arl_Resources l) ?old) idx"
  from Cons.prems g have "index_lists parse ls ?idx = Ok idx'" by simp
  note IH = Cons.IH [OF this]
  have old: "map_of ?old name = indexed idx g name" by (simp add: indexed_def split: option.split)
  have new: "indexed ?idx grp name = (if grp = g then map_of (fold (index_resource g) (arl_Resources l) ?old) name else indexed idx grp name)"
    by (simp add: indexed_def update_conv')
  show ?case
  proof (cases "grp = g")
    case True
    then show ?thesis
      using IH index_resources_fold [of g "arl_Resources l" ?old name]
      unfolding new old resources_of_Cons [of parse, OF g] by auto
  next
    case False
    then show ?thesis using IH unfolding new resources_of_Cons [of parse, OF g] by auto
  qed
qed

lemma validate_discovered_Nil_iff:
  "validateDiscoveredClusterResource g n d ops = [] \<longleftrightarrow> d_Kinds d \<noteq> [] \<and> (\<forall>opn \<in> set ops. ToLowerASCII opn \<in> set (d_Verbs d))"
  by (auto simp: validateDiscoveredClusterResource_def filter_empty_conv)

lemma validate_operations_Nil_iff:
  "validateClusterResourceOperations cr = [] \<longleftrightarrow> set (cr_Operations cr) \<subseteq> {OperationList, OperationGet}"
proof -
  have "validateClusterResourceOperations cr = [] \<longleftrightarrow> (\<forall>x \<in> snd ` set (enumerate 0 (cr_Operations cr)). x = OperationList \<or> x = OperationGet)"
    unfolding validateClusterResourceOperations_def map_is_Nil_conv filter_empty_conv by (simp add: split_beta)
  also have "snd ` set (enumerate 0 (cr_Operations cr)) = set (cr_Operations cr)"
    by (metis list.set_map map_snd_enumerate)
  finally show ?thesis by auto
qed

section \<open>Properties\<close>

text \<open>
  C33: a block is accepted exactly when it names groups and resources, asks for no operation but List
  and Get, uses the wildcard only alone, and every group it selects is discovered with every selected
  resource having a kind and supporting the verbs of the effective operations.
\<close>

theorem block_accepted_iff:
  "ValidateClusterResourceBlock cr idx = [] \<longleftrightarrow>
     cr_APIGroups cr \<noteq> [] \<and> cr_Resources cr \<noteq> [] \<and> set (cr_Operations cr) \<subseteq> {''List'', ''Get''}
     \<and> (''*'' \<in> set (cr_APIGroups cr) \<longrightarrow> cr_APIGroups cr = [''*''])
     \<and> (''*'' \<in> set (cr_Resources cr) \<longrightarrow> cr_Resources cr = [''*''])
     \<and> (\<forall>g \<in> (if ''*'' \<in> set (cr_APIGroups cr) then fst ` set idx else set (cr_APIGroups cr)).
          \<exists>m. map_of idx g = Some m \<and>
            (if ''*'' \<in> set (cr_Resources cr)
             then \<forall>(name, d) \<in> set m. d_Kinds d \<noteq> [] \<and> (\<forall>opn \<in> set (EffectiveOperations cr). ToLowerASCII opn \<in> set (d_Verbs d))
             else \<forall>name \<in> set (cr_Resources cr). \<exists>d. map_of m name = Some d \<and> d_Kinds d \<noteq> []
                    \<and> (\<forall>opn \<in> set (EffectiveOperations cr). ToLowerASCII opn \<in> set (d_Verbs d))))"
proof -
  have single: "(''*'' \<in> set xs \<and> 1 < length xs) = False \<longleftrightarrow> (''*'' \<in> set xs \<longrightarrow> xs = [''*''])" for xs :: "string list"
  proof (cases xs)
    case (Cons x ys)
    then show ?thesis by (cases ys) auto
  qed simp
  have grp: "validate_group cr idx g = [] \<longleftrightarrow> (\<exists>m. map_of idx g = Some m \<and>
      (if ''*'' \<in> set (cr_Resources cr)
       then \<forall>(name, d) \<in> set m. d_Kinds d \<noteq> [] \<and> (\<forall>opn \<in> set (EffectiveOperations cr). ToLowerASCII opn \<in> set (d_Verbs d))
       else \<forall>name \<in> set (cr_Resources cr). \<exists>d. map_of m name = Some d \<and> d_Kinds d \<noteq> []
              \<and> (\<forall>opn \<in> set (EffectiveOperations cr). ToLowerASCII opn \<in> set (d_Verbs d))))" for g
    by (auto simp: validate_group_def hasWildcard_def concat_eq_Nil_conv validate_discovered_Nil_iff split: option.splits)
  show ?thesis
    unfolding ValidateClusterResourceBlock_def Let_def
    using single [of "cr_APIGroups cr"] single [of "cr_Resources cr"] grp
    by (simp add: hasWildcard_def index_groups_def validate_operations_Nil_iff concat_eq_Nil_conv image_iff) blast
qed


definition doc_lists :: "api_resource_list list" where
  "doc_lists = [\<lparr>arl_GroupVersion = ''v1'', arl_Resources =
     [\<lparr>ar_Name = ''nodes'', ar_Kind = ''Node'', ar_Namespaced = False, ar_Verbs = [''get'', ''list'']\<rparr>,
      \<lparr>ar_Name = ''nodes/status'', ar_Kind = ''Node'', ar_Namespaced = False, ar_Verbs = [''get'']\<rparr>]\<rparr>]"


definition doc_block :: ClusterResource where
  "doc_block = \<lparr>cr_APIGroups = [''''], cr_Resources = [''nodes''], cr_Operations = [''List''], cr_Selector = None\<rparr>"

theorem block_accepted_iff_witness:
  "ValidateClusterResourceBlock doc_block
     [('''', [(''nodes'', \<lparr>d_APIGroup = '''', d_Resource = ''nodes'', d_Kinds = [''Node''], d_Verbs = [''get'', ''list'']\<rparr>)])] = []"
proof -
  have low: "ToLowerASCII ''List'' = ''list''" "ToLowerASCII ''Get'' = ''get''" by code_simp+
  show ?thesis by (subst block_accepted_iff) (simp add: doc_block_def EffectiveOperations_def low)
qed

end
