(* ===== verification/NamespaceGate.thy ===== *)
theory NamespaceGate
  imports Request
begin

text \<open>
  internal/webserver/namespacegate: a forbidden answer to a GET of a named object in a namespace that
  does not exist becomes a not-found answer, so that create-if-missing clients can tell the two apart.
\<close>

record http_response =
  StatusCode :: nat
  StatusLine :: string
  RespHeader :: header
  Body :: string
  ContentLength :: nat
  TransferEncoding :: "string list"
  Uncompressed :: bool
  RespRequest :: "http_request option"

record resourceRequest =
  rq_group :: string
  rq_namespace :: string
  rq_resource :: string
  rq_name :: string

definition namespacedResourceRequest :: "string \<Rightarrow> resourceRequest option" where
  "namespacedResourceRequest path =
     (let parts = Split (TrimPrefix path ''/'') (CHR ''/'') in
      if '''' \<in> set parts then None
      else if length parts = 6 \<and> parts ! 0 = ''api'' \<and> parts ! 1 = ''v1'' \<and> parts ! 2 = ''namespaces''
        then Some \<lparr>rq_group = '''', rq_namespace = parts ! 3, rq_resource = parts ! 4, rq_name = parts ! 5\<rparr>
      else if length parts = 7 \<and> parts ! 0 = ''apis'' \<and> parts ! 3 = ''namespaces''
        then Some \<lparr>rq_group = parts ! 1, rq_namespace = parts ! 4, rq_resource = parts ! 5, rq_name = parts ! 6\<rparr>
      else None)"

text \<open>\<^verbatim>\<open>strconv.ParseBool\<close>; \<^const>\<open>None\<close> is a syntax error.\<close>

definition ParseBool :: "string \<Rightarrow> bool option" where
  "ParseBool s =
     (if s \<in> {''1'', ''t'', ''T'', ''true'', ''TRUE'', ''True''} then Some True
      else if s \<in> {''0'', ''f'', ''F'', ''false'', ''FALSE'', ''False''} then Some False
      else None)"

definition replaceResponse :: "http_response \<Rightarrow> nat \<Rightarrow> string \<Rightarrow> string \<Rightarrow> string \<Rightarrow> http_response" where
  "replaceResponse resp code codeText contentType body =
     resp\<lparr>Body := body, StatusCode := code, StatusLine := format_nat code @ '' '' @ codeText,
       ContentLength := length body, TransferEncoding := [], Uncompressed := False,
       RespHeader := HeaderDel (HeaderDel
          (HeaderSet (HeaderSet (RespHeader resp) ''Content-Length'' (format_nat (length body))) ''Content-Type'' contentType)
          ''Content-Encoding'') ''Transfer-Encoding''\<rparr>"

text \<open>
  \<open>getNamespace'\<close> reads from the API server without cache. \<open>marshal\<close> renders the status of
  \<^verbatim>\<open>apierrors.NewNotFound\<close> for a group, resource and name; \<^const>\<open>None\<close> is a marshalling error.
\<close>

definition maskForbiddenForMissingNamespace ::
    "(string \<Rightarrow> error + kobject) \<Rightarrow> (string \<Rightarrow> string \<Rightarrow> string \<Rightarrow> string option) \<Rightarrow> http_request \<Rightarrow> http_response \<Rightarrow> http_response" where
  "maskForbiddenForMissingNamespace getNs marshal request resp =
     (if Method request \<noteq> MethodGet then resp
      else if ParseBool (ValuesGet (URLQuery request) ''watch'') = Some True then resp
      else (case namespacedResourceRequest (URLPath request) of
              None \<Rightarrow> resp
            | Some res \<Rightarrow>
                (case getNs (rq_namespace res) of
                   Inr _ \<Rightarrow> resp
                 | Inl e \<Rightarrow>
                     if \<not> is_not_found e then resp
                     else (case marshal (rq_group res) (rq_resource res) (rq_name res) of
                             None \<Rightarrow> resp
                           | Some body \<Rightarrow> replaceResponse resp 404 ''Not Found'' ''application/json'' body))))"

definition ModifyResponse ::
    "(string \<Rightarrow> error + kobject) \<Rightarrow> (string \<Rightarrow> string \<Rightarrow> string \<Rightarrow> string option) \<Rightarrow> http_response option \<Rightarrow> http_response option" where
  "ModifyResponse getNs marshal respo =
     (case respo of
        None \<Rightarrow> None
      | Some resp \<Rightarrow>
          (case RespRequest resp of
             None \<Rightarrow> Some resp
           | Some request \<Rightarrow>
               if StatusCode resp = 403 then Some (maskForbiddenForMissingNamespace getNs marshal request resp) else Some resp))"

section \<open>Properties\<close>

lemma replace_differs: "StatusCode resp = 403 \<Longrightarrow> replaceResponse resp 404 t ct body \<noteq> resp"
  by (auto simp: replaceResponse_def dest: arg_cong [of _ _ StatusCode])


definition doc_forbidden :: http_response where
  "doc_forbidden = \<lparr>StatusCode = 403, StatusLine = ''403 Forbidden'', RespHeader = [], Body = ''no'', ContentLength = 2,
     TransferEncoding = [], Uncompressed = False,
     RespRequest = Some (doc_request []\<lparr>URLPath := ''/api/v1/namespaces/gone/pods/web''\<rparr>)\<rparr>"

lemma doc_gate:
  "ModifyResponse (\<lambda>n. Inl (NotFoundAPI n)) (\<lambda>g r n. Some n) (Some doc_forbidden)
   = Some (replaceResponse doc_forbidden 404 ''Not Found'' ''application/json'' ''web'')"
  by (simp add: ModifyResponse_def maskForbiddenForMissingNamespace_def doc_forbidden_def doc_request_def
      ParseBool_def ValuesGet_def alist_values_def namespacedResourceRequest_def TrimPrefix_def HasPrefix_def Let_def)


end
