(* ===== verification/Controllers.thy ===== *)
theory Controllers
  imports Middleware
begin

text \<open>
  internal/controllers (the configuration and status controllers), internal/options and the flag
  bindings of main.go. The API server behind the status controllers is a pair of functions on a state
  of its own; \<^verbatim>\<open>retry.RetryOnConflict\<close> is a bounded loop.
\<close>

section \<open>Capsule users\<close>

record capsule_users =
  CapsuleUsers :: "string list"
  CapsuleUserGroups :: "string list"

text \<open>
  \<open>readError\<close> is the outcome of the read of the configuration; the result says whether the controller is started.
\<close>

definition CapsuleConfiguration_Setup ::
    "string list \<Rightarrow> string \<Rightarrow> error option \<Rightarrow> capsule_users \<Rightarrow> (bool \<times> capsule_users) outcome" where
  "CapsuleConfiguration_Setup deprecatedGroups name readError u =
     (if 0 < length deprecatedGroups then Ok (False, u\<lparr>CapsuleUserGroups := deprecatedGroups\<rparr>)
      else (case readError of
              Some e \<Rightarrow> if is_not_found e then Err (PlainError (''CapsuleConfiguration '' @ name @ '' does not exist''))
                        else Err (wrap ''unable to retrieve CapsuleConfiguration'' e)
            | None \<Rightarrow> Ok (True, u)))"

text \<open>\<open>getByKinds\<close> is the method of Capsule's user list.\<close>

definition CapsuleConfiguration_Reconcile ::
    "(string \<Rightarrow> error + 'users) \<Rightarrow> ('users \<Rightarrow> string list \<Rightarrow> string list) \<Rightarrow> string \<Rightarrow> capsule_users outcome" where
  "CapsuleConfiguration_Reconcile getConfig getByKinds name =
     (case getConfig name of
        Inl e \<Rightarrow> Panic
      | Inr users \<Rightarrow> Ok \<lparr>CapsuleUsers = getByKinds users [UserOwner, ServiceAccountOwner],
                         CapsuleUserGroups = getByKinds users [GroupOwner]\<rparr>)"

section \<open>Status of the settings\<close>

record settings_object =
  so_Generation :: int
  so_ObservedGeneration :: int
  so_ReadyGeneration :: "int option"

datatype update_result = Updated | UpdateNotFound error | UpdateConflict error | UpdateFailed error

record 's settings_api =
  sa_cachedGet :: "'s \<Rightarrow> error + settings_object"
  sa_get :: "'s \<Rightarrow> error + settings_object"
  sa_update :: "'s \<Rightarrow> settings_object \<Rightarrow> update_result \<times> 's"

text \<open>One attempt sets the observed generation and the generation of the ready condition.\<close>

definition observed :: "settings_object \<Rightarrow> settings_object" where
  "observed latest = latest\<lparr>so_ObservedGeneration := so_Generation latest, so_ReadyGeneration := Some (so_Generation latest)\<rparr>"

text \<open>\<open>steps\<close> is the number of attempts of the backoff; the last conflict is returned.\<close>

fun updateStatus :: "'s settings_api \<Rightarrow> nat \<Rightarrow> error option \<Rightarrow> 's \<Rightarrow> error option \<times> 's" where
  "updateStatus A 0 lastErr st = (lastErr, st)"
| "updateStatus A (Suc steps) lastErr st =
     (case sa_get A st of
        Inl e \<Rightarrow> (if is_not_found e then None else Some e, st)
      | Inr latest \<Rightarrow>
          (case sa_update A st (observed latest) of
             (Updated, st') \<Rightarrow> (None, st')
           | (UpdateNotFound e, st') \<Rightarrow> (None, st')
           | (UpdateConflict e, st') \<Rightarrow> updateStatus A steps (Some e) st'
           | (UpdateFailed e, st') \<Rightarrow> (Some e, st')))"

definition settings_Reconcile :: "string \<Rightarrow> 's settings_api \<Rightarrow> nat \<Rightarrow> 's \<Rightarrow> error option \<times> 's" where
  "settings_Reconcile what A steps st =
     (case sa_cachedGet A st of
        Inl e \<Rightarrow> (if is_not_found e then None else Some e, st)
      | Inr inst \<Rightarrow>
          (case updateStatus A steps None st of
             (Some e, st') \<Rightarrow> (Some (wrap (''cannot update '' @ what @ '' status'') e), st')
           | (None, st') \<Rightarrow> (None, st')))"

definition GlobalProxySettingsReconciler_Reconcile :: "'s settings_api \<Rightarrow> nat \<Rightarrow> 's \<Rightarrow> error option \<times> 's" where
  "GlobalProxySettingsReconciler_Reconcile A steps st = settings_Reconcile ''GlobalProxySettings'' A steps st"

definition ProxySettingReconciler_Reconcile :: "'s settings_api \<Rightarrow> nat \<Rightarrow> 's \<Rightarrow> error option \<times> 's" where
  "ProxySettingReconciler_Reconcile A steps st = settings_Reconcile ''ProxySetting'' A steps st"

section \<open>Options\<close>

fun parseCIDRs :: "(string \<Rightarrow> 'net option) \<Rightarrow> string list \<Rightarrow> 'net list outcome" where
  "parseCIDRs parseCIDR [] = Ok []"
| "parseCIDRs parseCIDR (c # cs) =
     (let cidr = string_of_runes (TrimSpace (runes c)) in
      if cidr = '''' then parseCIDRs parseCIDR cs
      else (case parseCIDR cidr of
              None \<Rightarrow> Err (PlainError (''invalid trusted proxy CIDR '' @ cidr))
            | Some network \<Rightarrow> bind_outcome (parseCIDRs parseCIDR cs) (\<lambda>ns. Ok (network # ns))))"

text \<open>The fields of the client configuration that the options read.\<close>

record rest_config =
  rc_Host :: string
  rc_BearerToken :: string
  rc_BearerTokenFile :: string
  rc_CAFile :: string
  rc_CAData :: string

record 'net kubeOpts =
  ko_authTypes :: "AuthType list"
  ko_allowedPaths :: "string list"
  ko_ignoredGroups :: "string list"
  ko_ignoredUsernames :: "string list"
  ko_ignoredImpersonationGroups :: "string list"
  ko_skipImpersonationReview :: bool
  ko_claimName :: string
  ko_impersonationGroupsRegexp :: "string option"
  ko_trustedProxyCIDRs :: "'net list"
  ko_xfcc_header :: string
  ko_config :: rest_config

definition NewKube :: "(string \<Rightarrow> bool) \<Rightarrow> (string \<Rightarrow> 'net option) \<Rightarrow> auth_env \<Rightarrow> AuthType list \<Rightarrow> string list \<Rightarrow> string list
    \<Rightarrow> string \<Rightarrow> rest_config \<Rightarrow> string list \<Rightarrow> string \<Rightarrow> bool \<Rightarrow> string list \<Rightarrow> string \<Rightarrow> string list \<Rightarrow> 'net kubeOpts outcome" where
  "NewKube urlOk parseCIDR E types ignoredGroups ignoredUsernames claimName config ignoredImpersonation groupsRegexp
      skipReview cidrs header allowedPaths =
     (if \<not> urlOk (rc_Host config) then Err (PlainError ''cannot create Kubernetes Options due to failed URL parsing'')
      else (case parseCIDRs parseCIDR cidrs of
              Panic \<Rightarrow> Panic
            | Err e \<Rightarrow> Err (wrap ''failed to parse trusted proxy CIDRs'' e)
            | Ok nets \<Rightarrow>
                if groupsRegexp \<noteq> '''' \<and> \<not> regexpCompiles E groupsRegexp
                then Err (PlainError ''cannot create Kubernetes Options due to failed regexp compilation'')
                else Ok \<lparr>ko_authTypes = types, ko_allowedPaths = allowedPaths, ko_ignoredGroups = ignoredGroups,
                         ko_ignoredUsernames = ignoredUsernames, ko_ignoredImpersonationGroups = ignoredImpersonation,
                         ko_skipImpersonationReview = skipReview, ko_claimName = claimName,
                         ko_impersonationGroupsRegexp = (if groupsRegexp \<noteq> '''' then Some groupsRegexp else None),
                         ko_trustedProxyCIDRs = nets, ko_xfcc_header = header, ko_config = config\<rparr>))"

text \<open>The methods of \<^verbatim>\<open>ListenerOpts\<close>, through which the filter reads its options.\<close>

definition AuthTypes :: "'net kubeOpts \<Rightarrow> AuthType list" where
  "AuthTypes k = ko_authTypes k"

definition AllowedPaths :: "'net kubeOpts \<Rightarrow> string list" where
  "AllowedPaths k = ko_allowedPaths k"

definition TrustedProxyCIDRs :: "'net kubeOpts \<Rightarrow> 'net list" where
  "TrustedProxyCIDRs k = ko_trustedProxyCIDRs k"

definition XFCCHeader :: "'net kubeOpts \<Rightarrow> string" where
  "XFCCHeader k = ko_xfcc_header k"

definition opts_BearerToken :: "'net kubeOpts \<Rightarrow> string" where
  "opts_BearerToken k = rc_BearerToken (ko_config k)"

definition BearerTokenFile :: "'net kubeOpts \<Rightarrow> string" where
  "BearerTokenFile k = rc_BearerTokenFile (ko_config k)"

definition IgnoredGroupNames :: "'net kubeOpts \<Rightarrow> string list" where
  "IgnoredGroupNames k = ko_ignoredGroups k"

definition IgnoredUsernames :: "'net kubeOpts \<Rightarrow> string list" where
  "IgnoredUsernames k = ko_ignoredUsernames k"

definition IgnoredImpersonationsGroups :: "'net kubeOpts \<Rightarrow> string list" where
  "IgnoredImpersonationsGroups k = ko_ignoredImpersonationGroups k"

definition ImpersonationGroupsRegexp :: "'net kubeOpts \<Rightarrow> string option" where
  "ImpersonationGroupsRegexp k = ko_impersonationGroupsRegexp k"

definition PreferredUsernameClaim :: "'net kubeOpts \<Rightarrow> string" where
  "PreferredUsernameClaim k = ko_claimName k"

definition SkipImpersonationReview :: "'net kubeOpts \<Rightarrow> bool" where
  "SkipImpersonationReview k = ko_skipImpersonationReview k"

lemmas ListenerOpts_defs [simp] = AuthTypes_def AllowedPaths_def TrustedProxyCIDRs_def XFCCHeader_def opts_BearerToken_def BearerTokenFile_def
  IgnoredGroupNames_def IgnoredUsernames_def IgnoredImpersonationsGroups_def ImpersonationGroupsRegexp_def PreferredUsernameClaim_def SkipImpersonationReview_def

section \<open>Flags\<close>

text \<open>
  The string-slice variables of \<^verbatim>\<open>main\<close> with the flag that writes them and its default; a variable
  without a flag keeps its zero value.
\<close>

record slice_flag =
  sf_variable :: string
  sf_name :: string
  sf_default :: "string list"

definition slice_flags :: "slice_flag list" where
  "slice_flags =
     [\<lparr>sf_variable = ''capsuleUserGroups'', sf_name = ''allowed-paths'', sf_default = [''/api'', ''/apis'', ''/version'']\<rparr>,
      \<lparr>sf_variable = ''trustedProxyCIDRStrings'', sf_name = ''trusted-proxy-cidrs'', sf_default = []\<rparr>,
      \<lparr>sf_variable = ''ignoredUserGroups'', sf_name = ''ignored-user-group'', sf_default = []\<rparr>,
      \<lparr>sf_variable = ''ignoredUsernames'', sf_name = ''ignored-username'', sf_default = []\<rparr>,
      \<lparr>sf_variable = ''ignoreImpersonationGroups'', sf_name = ''ignored-impersonation-group'', sf_default = []\<rparr>]"

text \<open>\<open>given\<close> is the command line: the values of the flags that were given.\<close>

definition variable_value :: "(string \<Rightarrow> string list option) \<Rightarrow> string \<Rightarrow> string list" where
  "variable_value given var =
     (case find (\<lambda>f. sf_variable f = var) slice_flags of
        None \<Rightarrow> []
      | Some f \<Rightarrow> (case given (sf_name f) of Some vs \<Rightarrow> vs | None \<Rightarrow> sf_default f))"

definition authTypesMap :: "(AuthType \<times> string list) list" where
  "authTypesMap = [(BearerToken, [AuthType_String BearerToken]), (TLSCertificate, [AuthType_String TLSCertificate]),
     (XForwardedClientCert, [AuthType_String XForwardedClientCert])]"

text \<open>The options of the listener as \<^verbatim>\<open>main\<close> builds them from the slice flags.\<close>

definition main_NewKube :: "(string \<Rightarrow> bool) \<Rightarrow> (string \<Rightarrow> 'net option) \<Rightarrow> auth_env \<Rightarrow> AuthType list \<Rightarrow> string \<Rightarrow> rest_config
    \<Rightarrow> string \<Rightarrow> bool \<Rightarrow> string \<Rightarrow> (string \<Rightarrow> string list option) \<Rightarrow> 'net kubeOpts outcome" where
  "main_NewKube urlOk parseCIDR E types claim config groupsRegexp skipReview header given =
     NewKube urlOk parseCIDR E types (variable_value given ''ignoredUserGroups'') (variable_value given ''ignoredUsernames'')
       claim config (variable_value given ''ignoreImpersonationGroups'') groupsRegexp skipReview
       (variable_value given ''trustedProxyCIDRStrings'') header (variable_value given ''allowedPaths'')"

section \<open>Properties\<close>

text \<open>
  What the status controllers rely on: a successful update stores the object that was sent, since the
  API server refuses one that is out of date.
\<close>

definition stores_updates :: "'s settings_api \<Rightarrow> bool" where
  "stores_updates A \<longleftrightarrow> (\<forall>st x st'. sa_update A st x = (Updated, st') \<longrightarrow> sa_get A st' = Inr x)
     \<and> (\<forall>st x st' e. sa_update A st x = (UpdateNotFound e, st') \<longrightarrow> (\<exists>e'. sa_get A st' = Inl e'))"

lemma updateStatus_observed:
  assumes "stores_updates A"
  shows "updateStatus A steps (Some e0) st = (None, st') \<Longrightarrow> sa_get A st' = Inr x \<Longrightarrow>
    so_ObservedGeneration x = so_Generation x \<and> so_ReadyGeneration x = Some (so_Generation x)"
proof (induction steps arbitrary: e0 st)
  case 0
  then show ?case by simp
next
  case (Suc steps)
  show ?case
  proof (cases "sa_get A st")
    case (Inl e)
    with Suc.prems show ?thesis by (auto split: if_splits)
  next
    case (Inr latest)
    obtain res s1 where upd: "sa_update A st (observed latest) = (res, s1)" by fastforce
    with Suc Inr assms show ?thesis
      by (cases res) (fastforce simp: stores_updates_def observed_def)+
  qed
qed


definition doc_api :: "settings_object settings_api" where
  "doc_api = \<lparr>sa_cachedGet = Inr, sa_get = Inr, sa_update = (\<lambda>st x. (Updated, x))\<rparr>"


text \<open>
  The generated names of the authentication types stop before the third type, whose spelling on the
  command line therefore is not the name that the help text of \<^verbatim>\<open>--auth-preferred-types\<close> gives.
\<close>

lemma auth_type_names:
  "authTypesMap = [(BearerToken, [''BearerToken'']), (TLSCertificate, [''TLSCertificate'']), (XForwardedClientCert, [''AuthType(3)''])]"
proof -
  have "AuthType_String BearerToken = ''BearerToken''" "AuthType_String TLSCertificate = ''TLSCertificate''"
    "AuthType_String XForwardedClientCert = ''AuthType(3)''" by code_simp+
  then show ?thesis by (simp add: authTypesMap_def)
qed

end
