(* ===== verification/Server.thy ===== *)
theory Server
  imports Validation NamespaceGate Controllers
begin

text \<open>
  How the parts are put together: internal/options/http.go, the construction of the filter
  (\<^verbatim>\<open>NewKubeFilter\<close>), the dispatch of the listener (\<^verbatim>\<open>Start\<close>), the probes, and \<^verbatim>\<open>main\<close>. The manager of
  controller-runtime is the outcome of the calls that are made on it, in the order of the code.
\<close>

section \<open>Options of the HTTP server\<close>

record 'pool httpOptions =
  ho_isTLS :: bool
  ho_port :: nat
  ho_crtPath :: string
  ho_keyPath :: string
  ho_caPool :: 'pool

text \<open>\<open>stat\<close> is \<^verbatim>\<open>os.Stat\<close>; \<open>poolFile\<close> and \<open>poolBytes\<close> are the two constructors of package cert.\<close>

definition NewServer ::
    "(string \<Rightarrow> error option) \<Rightarrow> (string \<Rightarrow> error + 'pool) \<Rightarrow> (string \<Rightarrow> error + 'pool) \<Rightarrow> bool \<Rightarrow> nat \<Rightarrow> string \<Rightarrow> string
      \<Rightarrow> rest_config \<Rightarrow> 'pool httpOptions outcome" where
  "NewServer stat poolFile poolBytes isTLS port crtPath keyPath config =
     (case (if isTLS then stat crtPath else None, if isTLS then stat keyPath else None) of
        (Some e, _) \<Rightarrow> Err (wrap ''cannot lookup TLS certificate file'' e)
      | (None, Some e) \<Rightarrow> Err (wrap ''cannot lookup TLS certificate key file'' e)
      | (None, None) \<Rightarrow>
          (case (case poolFile (rc_CAFile config) of Inr p \<Rightarrow> Inr p | Inl _ \<Rightarrow> poolBytes (rc_CAData config)) of
             Inl e \<Rightarrow> Err (wrap ''cannot find any CA data, nor from file nor from kubeconfig'' e)
           | Inr p \<Rightarrow> Ok \<lparr>ho_isTLS = isTLS, ho_port = port, ho_crtPath = crtPath, ho_keyPath = keyPath, ho_caPool = p\<rparr>))"

text \<open>The methods of \<^verbatim>\<open>ServerOptions\<close>.\<close>

definition GetCertificateAuthorityPool :: "'pool httpOptions \<Rightarrow> 'pool" where
  "GetCertificateAuthorityPool h = ho_caPool h"

definition IsListeningTLS :: "'pool httpOptions \<Rightarrow> bool" where
  "IsListeningTLS h = ho_isTLS h"

definition ListeningPort :: "'pool httpOptions \<Rightarrow> nat" where
  "ListeningPort h = ho_port h"

definition TLSCertificatePath :: "'pool httpOptions \<Rightarrow> string" where
  "TLSCertificatePath h = ho_crtPath h"

definition TLSCertificateKeyPath :: "'pool httpOptions \<Rightarrow> string" where
  "TLSCertificateKeyPath h = ho_keyPath h"

lemmas ServerOptions_defs [simp] = GetCertificateAuthorityPool_def IsListeningTLS_def ListeningPort_def TLSCertificatePath_def TLSCertificateKeyPath_def

section \<open>Construction of the filter\<close>

text \<open>
  What the filter calls outside the repository. \<open>fe_transport\<close> and \<open>fe_tls\<close> are the errors of the two
  calls of \<^verbatim>\<open>ReverseProxyTransport\<close>, \<open>fe_core\<close> and \<open>fe_authorization\<close> those of the two schemes,
  \<open>fe_readFile\<close> the content of the token file, empty when it cannot be read.
\<close>

record ('ip, 'net) filter_env =
  fe_auth :: auth_env
  fe_labels :: labels_api
  fe_owners :: owner_reader
  fe_users :: capsule_users
  fe_splitHostPort :: "string \<Rightarrow> string option"
  fe_parseIP :: "string \<Rightarrow> 'ip option"
  fe_cidrContains :: "'net \<Rightarrow> 'ip \<Rightarrow> bool"
  fe_parseUnverified :: "string \<Rightarrow> exp_claim option"
  fe_containsToken :: "string list \<Rightarrow> string \<Rightarrow> bool"
  fe_readFile :: "string \<Rightarrow> string"
  fe_now :: int
  fe_transport :: "error option"
  fe_tls :: "error option"
  fe_core :: "error option"
  fe_authorization :: "error option"

definition ReverseProxyTransport :: "('ip, 'net) filter_env \<Rightarrow> error option" where
  "ReverseProxyTransport F =
     (case fe_transport F of
        Some e \<Rightarrow> Some (wrap ''cannot get transport configuration'' e)
      | None \<Rightarrow> map_option (wrap ''cannot create tls configuration'') (fe_tls F))"

definition NewKubeFilter ::
    "('ip, 'net) filter_env \<Rightarrow> 'net kubeOpts \<Rightarrow> bool \<Rightarrow> (rbac_reader \<times> reflector) option
      \<Rightarrow> (('ip, 'net) kubeFilter \<times> filter_state) outcome" where
  "NewKubeFilter F opts clusterScoped rbReflector =
     (case (ReverseProxyTransport F, fe_core F, fe_authorization F) of
        (Some e, _, _) \<Rightarrow> Err (wrap ''cannot create transport for reverse proxy'' e)
      | (None, Some e, _) \<Rightarrow> Err (wrap ''cannot add corev1 to scheme'' e)
      | (None, None, Some e) \<Rightarrow> Err (wrap ''cannot add authorizationv1 to scheme'' e)
      | (None, None, None) \<Rightarrow>
          let n = \<lparr>k_auth = fe_auth F,
                   k_config = \<lparr>authTypes = AuthTypes opts, usernameClaimField = PreferredUsernameClaim opts,
                     ignoredImpersonationGroups = IgnoredImpersonationsGroups opts,
                     impersonationGroupsRegexp = ImpersonationGroupsRegexp opts,
                     skipImpersonationReview = SkipImpersonationReview opts, xfcc_header = XFCCHeader opts\<rparr>,
                   k_labels = fe_labels F, k_owners = fe_owners F, k_clusterScoped = clusterScoped,
                   k_allowedPaths = AllowedPaths opts, k_ignoredUserGroups = IgnoredGroupNames opts,
                   k_ignoredUsernames = IgnoredUsernames opts, k_CapsuleUserGroups = CapsuleUserGroups (fe_users F),
                   k_CapsuleUsers = CapsuleUsers (fe_users F), k_trustedProxyCIDRs = TrustedProxyCIDRs opts,
                   k_splitHostPort = fe_splitHostPort F, k_parseIP = fe_parseIP F, k_cidrContains = fe_cidrContains F,
                   k_tokenFile = fe_readFile F (BearerTokenFile opts),
                   k_parseUnverified = fe_parseUnverified F, k_containsToken = fe_containsToken F, k_now = fe_now F\<rparr>;
              token = opts_BearerToken opts in
          bind_outcome (bearerExpirationTime n token) (\<lambda>t.
            Ok (n, \<lparr>f_bearerToken = token, f_bearerTokenExpirationTime = t, f_reflector = rbReflector\<rparr>)))"

section \<open>The listener\<close>

text \<open>
  The answers of the listener: the health endpoint, a self review, and everything else. The router
  redirects a path that is not clean before it looks at its routes; the requests here are the others.
\<close>

datatype server_answer =
    Healthy
  | SelfReview review_reply
  | Proxied reply

definition root_chain ::
    "('ip, 'net) kubeFilter \<Rightarrow> string list \<Rightarrow> (http_request \<Rightarrow> nat option \<Rightarrow> nat \<times> (review_object \<times> string) option)
      \<Rightarrow> (string \<Rightarrow> string) \<Rightarrow> module option \<Rightarrow> filter_state \<Rightarrow> http_request \<Rightarrow> (server_answer \<times> filter_state) outcome" where
  "root_chain n namespacedResources upstream mediaType mo st r =
     (if \<not> isFromTrustedSource n (RemoteAddr r) then Ok (Proxied (Refused 403), st)
      else if URLPath r \<in> set authorization_Paths then
        bind_outcome (authorizationMiddleware n namespacedResources upstream mediaType (reverseProxyMiddleware (route n mo)) st r)
          (\<lambda>(a, st'). Ok (SelfReview a, st'))
      else bind_outcome (reverseProxyMiddleware (route n mo) st r) (\<lambda>(a, st'). Ok (Proxied a, st')))"

definition ServeHTTP ::
    "('ip, 'net) kubeFilter \<Rightarrow> string list \<Rightarrow> (http_request \<Rightarrow> nat option \<Rightarrow> nat \<times> (review_object \<times> string) option)
      \<Rightarrow> (string \<Rightarrow> string) \<Rightarrow> module option \<Rightarrow> filter_state \<Rightarrow> http_request \<Rightarrow> server_answer \<times> filter_state" where
  "ServeHTTP n namespacedResources upstream mediaType mo st r =
     (if URLPath r = ''/_healthz'' then (Healthy, st)
      else (case root_chain n namespacedResources upstream mediaType mo st r of
              Ok x \<Rightarrow> x
            | Err e \<Rightarrow> (Proxied (Refused 500), st)
            | Panic \<Rightarrow> (Proxied (Refused 500), st)))"

text \<open>
  The server that \<^verbatim>\<open>Start\<close> creates, its timeout in seconds. A client certificate is asked for, and verified against
  the pool when one is given, where TLS is served and certificates are an authentication type.
\<close>

record 'pool tls_config =
  tc_ClientCAs :: 'pool
  tc_MinVersion :: string
  tc_VerifyClientCertIfGiven :: bool

record 'pool http_server =
  hs_Addr :: string
  hs_TLSConfig :: "'pool tls_config option"
  hs_ReadHeaderTimeout :: nat

definition new_http_server :: "'pool httpOptions \<Rightarrow> AuthType list \<Rightarrow> 'pool http_server" where
  "new_http_server srv types =
     \<lparr>hs_Addr = ''0.0.0.0:'' @ format_nat (ListeningPort srv),
      hs_TLSConfig = (if IsListeningTLS srv
        then Some \<lparr>tc_ClientCAs = GetCertificateAuthorityPool srv, tc_MinVersion = ''TLS12'', tc_VerifyClientCertIfGiven = (TLSCertificate \<in> set types)\<rparr>
        else None),
      hs_ReadHeaderTimeout = 5\<rparr>"

text \<open>\<open>newRequest\<close> builds the local request, \<open>get\<close> performs it: an error, or the status code.\<close>

definition ReadinessProbe :: "'pool httpOptions \<Rightarrow> (string \<Rightarrow> error option) \<Rightarrow> (string \<Rightarrow> error + nat) \<Rightarrow> error option" where
  "ReadinessProbe srv newRequest get =
     (let scheme = (if IsListeningTLS srv then ''https'' else ''http'');
          url = scheme @ ''://localhost:'' @ format_nat (ListeningPort srv) @ ''/_healthz'' in
      case newRequest url of
        Some e \<Rightarrow> Some (wrap ''cannot create request'' e)
      | None \<Rightarrow>
          (case get url of
             Inl e \<Rightarrow> Some (wrap ''cannot make local _healthz request'' e)
           | Inr sc \<Rightarrow> if sc \<noteq> 200
               then Some (PlainError (''returned status code from _healthz is '' @ format_nat sc @ '', expected 200'')) else None))"

definition LivenessProbe :: "error option" where
  "LivenessProbe = None"

section \<open>Flags\<close>

text \<open>
  The variables of \<^verbatim>\<open>main\<close> that flags write, apart from the rate limits of the client, with the
  defaults of the flags; a duration is in nanoseconds. \<open>fl_slices\<close> is what the command line gives for the string-slice flags
  (\<^const>\<open>variable_value\<close>); the last three are the feature gates.
\<close>

record main_flags =
  fl_webhookPort :: int
  fl_enableLeaderElection :: bool
  fl_metricsAddr :: string
  fl_xfccHeaderName :: string
  fl_capsuleConfigurationName :: string
  fl_impersonationGroupsRegexp :: string
  fl_listeningPort :: nat
  fl_usernameClaimField :: string
  fl_roleBindingReflector :: bool
  fl_enablePprof :: bool
  fl_bindSsl :: bool
  fl_certPath :: string
  fl_keyPath :: string
  fl_rolebindingsResyncPeriod :: int
  fl_authTypes :: "AuthType list"
  fl_disableCaching :: bool
  fl_slices :: "string \<Rightarrow> string list option"
  fl_ProxyAllNamespaced :: bool
  fl_SkipImpersonationReview :: bool
  fl_ProxyClusterScoped :: bool

text \<open>The names of the feature gates and the defaults with which they are registered.\<close>

definition features_ProxyAllNamespaced :: string where
  "features_ProxyAllNamespaced = ''ProxyAllNamespaced''"

definition features_SkipImpersonationReview :: string where
  "features_SkipImpersonationReview = ''SkipImpersonationReview''"

definition features_ProxyClusterScoped :: string where
  "features_ProxyClusterScoped = ''ProxyClusterScoped''"

definition feature_gates :: "(string \<times> bool) list" where
  "feature_gates = [(features_ProxyAllNamespaced, False), (features_SkipImpersonationReview, False), (features_ProxyClusterScoped, False)]"

definition gate_default :: "string \<Rightarrow> bool" where
  "gate_default feature = (map_of feature_gates feature = Some True)"

lemma gate_defaults [simp]:
  "\<not> gate_default features_ProxyAllNamespaced" "\<not> gate_default features_SkipImpersonationReview" "\<not> gate_default features_ProxyClusterScoped"
  by (simp_all add: gate_default_def feature_gates_def)

definition default_flags :: main_flags where
  "default_flags = \<lparr>fl_webhookPort = 9443, fl_enableLeaderElection = False, fl_metricsAddr = '':8080'',
     fl_xfccHeaderName = ''X-Forwarded-Client-Cert'', fl_capsuleConfigurationName = ''default'',
     fl_impersonationGroupsRegexp = '''', fl_listeningPort = 9001, fl_usernameClaimField = ''preferred_username'',
     fl_roleBindingReflector = False, fl_enablePprof = False, fl_bindSsl = True, fl_certPath = '''', fl_keyPath = '''',
     fl_rolebindingsResyncPeriod = 36000000000000, fl_authTypes = [TLSCertificate, BearerToken], fl_disableCaching = False,
     fl_slices = (\<lambda>_. None), fl_ProxyAllNamespaced = gate_default features_ProxyAllNamespaced,
     fl_SkipImpersonationReview = gate_default features_SkipImpersonationReview,
     fl_ProxyClusterScoped = gate_default features_ProxyClusterScoped\<rparr>"

text \<open>The options of the manager; no flag fills the list of webhooks, so no webhook server is set.\<close>

record manager_options =
  mo_MetricsBindAddress :: string
  mo_HealthProbeBindAddress :: string
  mo_LeaderElection :: bool
  mo_LeaderElectionNamespace :: string
  mo_LeaderElectionID :: string
  mo_PprofBindAddress :: string
  mo_SyncPeriod :: "int option"

definition manager_config :: "main_flags \<Rightarrow> string \<Rightarrow> manager_options" where
  "manager_config fl namespace =
     \<lparr>mo_MetricsBindAddress = fl_metricsAddr fl, mo_HealthProbeBindAddress = '':8081'', mo_LeaderElection = False,
      mo_LeaderElectionNamespace = namespace, mo_LeaderElectionID = ''42dadw1.proxy.projectcapsule.dev'',
      mo_PprofBindAddress = (if fl_enablePprof fl then '':8082'' else ''''),
      mo_SyncPeriod = (if \<not> fl_disableCaching fl \<and> fl_roleBindingReflector fl
                            then Some (fl_rolebindingsResyncPeriod fl) else None)\<rparr>"

section \<open>main\<close>

text \<open>
  The environment of the process: the variable NAMESPACE, the client configuration, and the outcome of
  each call on the manager and its parts, by the name of what is added, indexed or checked.
  \<open>me_filter\<close> has the flag \<^verbatim>\<open>disable-caching\<close> as its argument, which decides whether the filter reads
  from the API server or from the cache of the manager.
\<close>

record ('ip, 'net, 'pool) main_env =
  me_NAMESPACE :: string
  me_config :: rest_config
  me_filter :: "bool \<Rightarrow> ('ip, 'net) filter_env"
  me_urlOk :: "string \<Rightarrow> bool"
  me_parseCIDR :: "string \<Rightarrow> 'net option"
  me_stat :: "string \<Rightarrow> error option"
  me_poolFile :: "string \<Rightarrow> error + 'pool"
  me_poolBytes :: "string \<Rightarrow> error + 'pool"
  me_cache :: rbac_reader
  me_newManager :: "manager_options \<Rightarrow> error option"
  me_indexField :: "string \<Rightarrow> error option"
  me_add :: "string \<Rightarrow> error option"
  me_readConfiguration :: "string \<Rightarrow> error option"
  me_complete :: "string \<Rightarrow> error option"
  me_probe :: "string \<Rightarrow> error option"
  me_start :: "error option"

text \<open>A failed call logs its message and exits with status 1.\<close>

definition exits_on :: "string \<Rightarrow> error option \<Rightarrow> unit outcome" where
  "exits_on msg eo = (case eo of None \<Rightarrow> Ok () | Some e \<Rightarrow> Err (wrap msg e))"

fun exits_with :: "string \<Rightarrow> 'a outcome \<Rightarrow> 'a outcome" where
  "exits_with msg (Ok x) = Ok x"
| "exits_with msg (Err e) = Err (wrap msg e)"
| "exits_with msg Panic = Panic"

definition NewRoleBindingReflector :: "(string \<Rightarrow> error option) \<Rightarrow> rbac_reader \<Rightarrow> (rbac_reader \<times> reflector) outcome" where
  "NewRoleBindingReflector indexField cache =
     bind_outcome (exits_on ''cannot index RoleBindings by subject'' (indexField subjectIndex)) (\<lambda>_.
       bind_outcome (exits_on ''cannot index reflected RoleBindings by subject'' (indexField reflectionSubjectIndex)) (\<lambda>_.
         Ok (cache, NewReflector)))"

definition main_reflector :: "main_flags \<Rightarrow> ('ip, 'net, 'pool) main_env \<Rightarrow> (rbac_reader \<times> reflector) option outcome" where
  "main_reflector fl M =
     (if \<not> fl_disableCaching fl \<and> fl_roleBindingReflector fl then
        bind_outcome (exits_with ''cannot create Rolebindings reflector'' (NewRoleBindingReflector (me_indexField M) (me_cache M))) (\<lambda>rb.
          bind_outcome (exits_on ''cannot add Rolebindings reflector as Runnable'' (me_add M ''RoleBindingReflector'')) (\<lambda>_.
            Ok (Some rb)))
      else Ok None)"

definition main_indexers :: "string list" where
  "main_indexers = [''NamespacesReference'', ''TenantOwnerReference'', ''ProxySetting'', ''GlobalProxySetting'']"

fun all_ok :: "string \<Rightarrow> (string \<Rightarrow> error option) \<Rightarrow> string list \<Rightarrow> unit outcome" where
  "all_ok msg call [] = Ok ()"
| "all_ok msg call (x # xs) = bind_outcome (exits_on msg (call x)) (\<lambda>_. all_ok msg call xs)"

definition setupObservedGenerationControllers :: "(string \<Rightarrow> error option) \<Rightarrow> unit outcome" where
  "setupObservedGenerationControllers complete =
     bind_outcome (exits_on ''cannot start GlobalProxySettings controller'' (complete ''GlobalProxySettings'')) (\<lambda>_.
       exits_on ''cannot start ProxySetting controller'' (complete ''ProxySetting''))"

definition setupHealthProbes :: "(string \<Rightarrow> error option) \<Rightarrow> unit outcome" where
  "setupHealthProbes probe =
     bind_outcome (exits_on ''cannot create healthcheck probe'' (probe ''healthz'')) (\<lambda>_.
       exits_on ''cannot create readiness probe'' (probe ''ready''))"

text \<open>The environment and the certificate flags, checked before anything is created.\<close>

definition main_checks :: "main_flags \<Rightarrow> string \<Rightarrow> unit outcome" where
  "main_checks fl namespace =
     (if length namespace = 0 then Err (PlainError ''unable to determinate the Namespace Proxy is running on'')
      else if \<not> fl_bindSsl fl \<and> 0 < length (fl_certPath fl) then Err (PlainError ''cannot use a Certificate when TLS/SSL mode is disabled'')
      else if \<not> fl_bindSsl fl \<and> 0 < length (fl_keyPath fl) then Err (PlainError ''cannot use a Certificate key when TLS/SSL mode is disabled'')
      else Ok ())"

text \<open>What is added to the manager after the filter was created, and the start of the manager.\<close>

definition main_wiring :: "main_flags \<Rightarrow> ('ip, 'net, 'pool) main_env \<Rightarrow> unit outcome" where
  "main_wiring fl M =
     bind_outcome (exits_on ''cannot add NameSpaceFilter as Runnable'' (me_add M ''kubeFilter'')) (\<lambda>_.
     bind_outcome (exits_with ''cannot start CapsuleConfiguration controller for User Group list retrieval''
         (bind_outcome (CapsuleConfiguration_Setup [] (fl_capsuleConfigurationName fl)
              (me_readConfiguration M (fl_capsuleConfigurationName fl)) (fe_users (me_filter M (fl_disableCaching fl))))
            (\<lambda>_. case me_complete M ''CapsuleConfiguration'' of None \<Rightarrow> Ok () | Some e \<Rightarrow> Err e))) (\<lambda>_.
     bind_outcome (exits_with ''unable to set up observed generation controllers'' (setupObservedGenerationControllers (me_complete M))) (\<lambda>_.
     bind_outcome (exits_with ''cannot set up health probes'' (setupHealthProbes (me_probe M))) (\<lambda>_.
       exits_on ''cannot start the Manager'' (me_start M)))))"

text \<open>The result is what runs: the filter with its state, the server options and the manager options.\<close>

definition main_run :: "main_flags \<Rightarrow> ('ip, 'net, 'pool) main_env
    \<Rightarrow> (('ip, 'net) kubeFilter \<times> filter_state \<times> 'pool httpOptions \<times> manager_options) outcome" where
  "main_run fl M =
     bind_outcome (main_checks fl (me_NAMESPACE M)) (\<lambda>_.
     bind_outcome (exits_on ''cannot create new Manager'' (me_newManager M (manager_config fl (me_NAMESPACE M)))) (\<lambda>_.
     bind_outcome (main_reflector fl M) (\<lambda>rb.
     bind_outcome (all_ok ''cannot create new Field Indexer'' (me_indexField M) main_indexers) (\<lambda>_.
     bind_outcome (exits_with ''cannot create Kubernetes options''
         (main_NewKube (me_urlOk M) (me_parseCIDR M) (fe_auth (me_filter M (fl_disableCaching fl))) (fl_authTypes fl) (fl_usernameClaimField fl) (me_config M)
            (fl_impersonationGroupsRegexp fl) (fl_SkipImpersonationReview fl) (fl_xfccHeaderName fl) (fl_slices fl))) (\<lambda>listenerOpts.
     bind_outcome (exits_with ''cannot create Kubernetes options''
         (NewServer (me_stat M) (me_poolFile M) (me_poolBytes M) (fl_bindSsl fl) (fl_listeningPort fl) (fl_certPath fl) (fl_keyPath fl)
            (me_config M))) (\<lambda>serverOpts.
     bind_outcome (exits_with ''cannot create NamespaceFilter runner''
         (NewKubeFilter (me_filter M (fl_disableCaching fl)) listenerOpts (fl_ProxyClusterScoped fl) rb)) (\<lambda>(n, st).
     bind_outcome (main_wiring fl M) (\<lambda>_.
       Ok (n, st, serverOpts, manager_config fl (me_NAMESPACE M))))))))))"

section \<open>Lemmas\<close>

abbreviation trimmed :: "string \<Rightarrow> string" where "trimmed c \<equiv> string_of_runes (TrimSpace (runes c))"

lemma exits_on_Ok [simp]: "exits_on msg eo = Ok u \<longleftrightarrow> eo = None"
  by (auto simp: exits_on_def split: option.splits)

lemma exits_with_Ok [simp]: "exits_with msg x = Ok y \<longleftrightarrow> x = Ok y"
  by (cases x) auto

lemma set_parseCIDRs:
  "parseCIDRs p cs = Ok ns \<Longrightarrow> set ns = {net. \<exists>c \<in> set cs. trimmed c \<noteq> '''' \<and> p (trimmed c) = Some net}
     \<and> (\<forall>c \<in> set cs. trimmed c \<noteq> '''' \<longrightarrow> p (trimmed c) \<noteq> None)"
proof (induction cs arbitrary: ns)
  case (Cons c cs)
  then show ?case by (auto simp: Let_def split: if_splits option.splits)
qed simp

lemma NewKube_Ok:
  assumes "NewKube urlOk p E types ig iu claim config ii re skip cidrs header paths = Ok opts"
  shows "parseCIDRs p cidrs = Ok (ko_trustedProxyCIDRs opts)" and "ko_allowedPaths opts = paths"
  using assms by (auto simp: NewKube_def split: if_splits outcome.splits)

lemma NewKubeFilter_Ok:
  assumes "NewKubeFilter F opts cs rb = Ok (n, st)"
  shows "k_trustedProxyCIDRs n = ko_trustedProxyCIDRs opts" and "k_allowedPaths n = ko_allowedPaths opts"
    and "k_splitHostPort n = fe_splitHostPort F" and "k_parseIP n = fe_parseIP F" and "k_cidrContains n = fe_cidrContains F"
    and "f_reflector st = rb"
  using assms by (auto simp: NewKubeFilter_def Let_def split: option.splits)

lemma variable_value_eval:
  "variable_value given ''trustedProxyCIDRStrings'' = (case given ''trusted-proxy-cidrs'' of Some vs \<Rightarrow> vs | None \<Rightarrow> [])"
  "variable_value given ''allowedPaths'' = []"
  "variable_value given ''ignoredUserGroups'' = (case given ''ignored-user-group'' of Some vs \<Rightarrow> vs | None \<Rightarrow> [])"
  "variable_value given ''ignoredUsernames'' = (case given ''ignored-username'' of Some vs \<Rightarrow> vs | None \<Rightarrow> [])"
  "variable_value given ''ignoreImpersonationGroups'' = (case given ''ignored-impersonation-group'' of Some vs \<Rightarrow> vs | None \<Rightarrow> [])"
  by (simp_all add: variable_value_def slice_flags_def split: option.split)

lemma main_run_Ok:
  assumes "main_run fl M = Ok (n, st, srv, mo)"
  obtains opts rb where "main_NewKube (me_urlOk M) (me_parseCIDR M) (fe_auth (me_filter M (fl_disableCaching fl))) (fl_authTypes fl) (fl_usernameClaimField fl)
      (me_config M) (fl_impersonationGroupsRegexp fl) (fl_SkipImpersonationReview fl) (fl_xfccHeaderName fl) (fl_slices fl) = Ok opts"
    and "NewKubeFilter (me_filter M (fl_disableCaching fl)) opts (fl_ProxyClusterScoped fl) rb = Ok (n, st)" and "main_reflector fl M = Ok rb"
    and "mo = manager_config fl (me_NAMESPACE M)"
  using assms by (auto simp: main_run_def)

lemma main_run_filter:
  fixes M :: "('ip, 'net, 'pool) main_env"
  assumes "main_run fl M = Ok (n, st, srv, mo)"
  defines "F \<equiv> me_filter M (fl_disableCaching fl)"
  shows "parseCIDRs (me_parseCIDR M) (variable_value (fl_slices fl) ''trustedProxyCIDRStrings'') = Ok (k_trustedProxyCIDRs n)"
    and "k_allowedPaths n = []" and "k_splitHostPort n = fe_splitHostPort F" and "k_parseIP n = fe_parseIP F"
    and "k_cidrContains n = fe_cidrContains F" and "mo = manager_config fl (me_NAMESPACE M)"
proof -
  obtain opts rb where kube: "main_NewKube (me_urlOk M) (me_parseCIDR M) (fe_auth F) (fl_authTypes fl) (fl_usernameClaimField fl)
      (me_config M) (fl_impersonationGroupsRegexp fl) (fl_SkipImpersonationReview fl) (fl_xfccHeaderName fl) (fl_slices fl) = Ok opts"
    and filt: "NewKubeFilter F opts (fl_ProxyClusterScoped fl) rb = Ok (n, st)" and mo: "mo = manager_config fl (me_NAMESPACE M)"
    using assms(1) unfolding F_def by (rule main_run_Ok)
  note opts = NewKube_Ok [OF kube [unfolded main_NewKube_def]]
  note kept = NewKubeFilter_Ok [OF filt]
  show "parseCIDRs (me_parseCIDR M) (variable_value (fl_slices fl) ''trustedProxyCIDRStrings'') = Ok (k_trustedProxyCIDRs n)"
    using opts(1) by (simp add: kept)
  show "k_allowedPaths n = []" using opts(2) by (simp add: kept variable_value_eval)
  show "k_splitHostPort n = fe_splitHostPort F" "k_parseIP n = fe_parseIP F" "k_cidrContains n = fe_cidrContains F"
    "mo = manager_config fl (me_NAMESPACE M)"
    using mo by (simp_all add: kept)
qed

lemma manager_config_election [simp]: "\<not> mo_LeaderElection (manager_config fl namespace)"
  by (simp add: manager_config_def)

lemmas main_parts = main_run_def main_checks_def manager_config_def main_reflector_def main_wiring_def

text \<open>Outside the health endpoint and the self reviews the listener is the chain \<^const>\<open>serve\<close>.\<close>

lemma ServeHTTP_serve:
  assumes "URLPath r \<noteq> ''/_healthz''" and "URLPath r \<notin> set authorization_Paths"
  shows "ServeHTTP n nr upstream mt mo st r = (case serve n mo st r of (a, st') \<Rightarrow> (Proxied a, st'))"
  using assms
  by (cases "reverseProxyMiddleware (route n mo) st r")
     (auto simp: ServeHTTP_def root_chain_def serve_def recoveryMiddleware_def RequireTrustedSourceMiddleware_def)

lemma ServeHTTP_untrusted:
  "URLPath r \<noteq> ''/_healthz'' \<Longrightarrow> \<not> isFromTrustedSource n (RemoteAddr r) \<Longrightarrow>
   ServeHTTP n nr upstream mt mo st r = (Proxied (Refused 403), st)"
  by (simp add: ServeHTTP_def root_chain_def)

section \<open>A concrete process\<close>

definition doc_filter_env :: "(string, string) filter_env" where
  "doc_filter_env = \<lparr>fe_auth = doc_env, fe_labels = doc_labels, fe_owners = doc_owner_reader,
     fe_users = \<lparr>CapsuleUsers = [], CapsuleUserGroups = [''dev'']\<rparr>, fe_splitHostPort = (\<lambda>s. Some (takeWhile (\<lambda>c. c \<noteq> CHR '':'') s)),
     fe_parseIP = Some, fe_cidrContains = (=), fe_parseUnverified = (\<lambda>_. Some (ExpNumber 100)), fe_containsToken = (\<lambda>vs t. t \<in> set vs),
     fe_readFile = (\<lambda>_. ''proxy''), fe_now = 10, fe_transport = None, fe_tls = None, fe_core = None, fe_authorization = None\<rparr>"

definition doc_main :: "(string, string, unit) main_env" where
  "doc_main = \<lparr>me_NAMESPACE = ''capsule-system'', me_config = \<lparr>rc_Host = ''https://k'', rc_BearerToken = ''t'', rc_BearerTokenFile = ''f'',
       rc_CAFile = '''', rc_CAData = ''''\<rparr>, me_filter = (\<lambda>_. doc_filter_env), me_urlOk = (\<lambda>_. True), me_parseCIDR = Some, me_stat = (\<lambda>_. None),
     me_poolFile = (\<lambda>_. Inr ()), me_poolBytes = (\<lambda>_. Inr ()), me_cache = doc_reader doc_store, me_newManager = (\<lambda>_. None),
     me_indexField = (\<lambda>_. None), me_add = (\<lambda>_. None), me_readConfiguration = (\<lambda>_. None), me_complete = (\<lambda>_. None), me_probe = (\<lambda>_. None),
     me_start = None\<rparr>"

definition doc_flags :: main_flags where
  "doc_flags = default_flags\<lparr>fl_slices := (\<lambda>f. if f = ''trusted-proxy-cidrs'' then Some [''10.0.0.1'']
     else if f = ''allowed-paths'' then Some [''/healthz''] else None)\<rparr>"

lemma doc_cidr: "trimmed ''10.0.0.1'' = ''10.0.0.1''"
proof -
  have "runes ''10.0.0.1'' = map byte ''10.0.0.1''" by (rule runes_ascii) (simp add: ascii_def byte_def)
  moreover have "TrimSpace (map byte ''10.0.0.1'') = map byte ''10.0.0.1''"
    by (simp add: TrimSpace_def trim_by_def is_space_def byte_def)
  moreover have "string_of_runes (map byte ''10.0.0.1'') = ''10.0.0.1''"
    by (rule string_of_runes_ascii) (simp add: ascii_def byte_def)
  ultimately show ?thesis by simp
qed

lemma doc_main_run: "\<exists>n st srv mo. main_run doc_flags doc_main = Ok (n, st, srv, mo)"
proof -
  have "parseCIDRs Some [''10.0.0.1''] = Ok [''10.0.0.1'']" by (simp del: runes.simps add: doc_cidr Let_def)
  moreover have "fl_slices doc_flags ''trusted-proxy-cidrs'' = Some [''10.0.0.1'']" by (simp add: doc_flags_def)
  ultimately show ?thesis
    by (simp add: main_run_def main_checks_def main_reflector_def main_indexers_def main_NewKube_def NewKube_def
        variable_value_eval NewServer_def NewKubeFilter_def ReverseProxyTransport_def main_wiring_def CapsuleConfiguration_Setup_def
        setupObservedGenerationControllers_def setupHealthProbes_def exits_on_def bearerExpirationTime_def Let_def
        doc_main_def doc_filter_env_def default_flags_def doc_flags_def)
qed

end
