(* ===== verification/Routing.thy ===== *)
theory Routing
  imports Server
begin

text \<open>
  From the registered modules to the handler of a request: the last loop of \<^verbatim>\<open>registerModules\<close> adds a route
  per module below the root, in the order of the list, and \<^verbatim>\<open>Start\<close> adds the impersonating handler for all
  other paths after them. gorilla/mux is a parameter, \<open>path_vars\<close>: the variables of a path under a template,
  if the path matches. Its routes are tested in the order they were added and the first match wins.
\<close>

section \<open>Routes\<close>

text \<open>A route without methods takes every method; the names of methods are compared in upper case.\<close>

definition takes_method :: "module \<Rightarrow> string \<Rightarrow> bool" where
  "takes_method md meth \<longleftrightarrow> length (md_Methods md) = 0 \<or> meth \<in> set (map (map to_upper_char) (md_Methods md))"

fun match_route :: "(string \<Rightarrow> string \<Rightarrow> (string \<times> string) list option) \<Rightarrow> module list \<Rightarrow> http_request
    \<Rightarrow> (module \<times> (string \<times> string) list) option" where
  "match_route path_vars [] r = None"
| "match_route path_vars (md # mods) r =
     (case path_vars (md_Path md) (URLPath r) of
        Some vars \<Rightarrow> if takes_method md (Method r) then Some (md, vars) else match_route path_vars mods r
      | None \<Rightarrow> match_route path_vars mods r)"

text \<open>The listener with its routes: the module and the variables of the path, or the handler for the rest.\<close>

definition serve_routes ::
    "(string \<Rightarrow> string \<Rightarrow> (string \<times> string) list option) \<Rightarrow> module list \<Rightarrow> ('ip, 'net) kubeFilter \<Rightarrow> string list
      \<Rightarrow> (http_request \<Rightarrow> nat option \<Rightarrow> nat \<times> (review_object \<times> string) option) \<Rightarrow> (string \<Rightarrow> string)
      \<Rightarrow> filter_state \<Rightarrow> http_request \<Rightarrow> server_answer \<times> filter_state" where
  "serve_routes path_vars mods n namespacedResources upstream mediaType st r =
     (case match_route path_vars mods r of
        None \<Rightarrow> ServeHTTP n namespacedResources upstream mediaType None st r
      | Some (md, vars) \<Rightarrow> ServeHTTP n namespacedResources upstream mediaType (Some md) st (r\<lparr>Vars := vars\<rparr>))"

section \<open>Lemmas\<close>

lemmas legacy_defs = node_List_def node_Get_def ingressclass_List_def ingressclass_Get_def storageclass_Get_def storageclass_List_def
  priorityclass_List_def priorityclass_Get_def runtimeclass_Get_def runtimeclass_List_def persistentvolume_Get_def
  persistentvolume_List_def metric_Get_def metric_List_def

lemma match_route_Some:
  "match_route path_vars mods r = Some (md, vars) \<Longrightarrow>
   md \<in> set mods \<and> takes_method md (Method r) \<and> path_vars (md_Path md) (URLPath r) = Some vars"
  by (induction mods) (auto split: option.splits if_splits)

lemma match_route_None:
  "match_route path_vars mods r = None \<longleftrightarrow> (\<forall>md \<in> set mods. takes_method md (Method r) \<longrightarrow> path_vars (md_Path md) (URLPath r) = None)"
  by (induction mods) (auto split: option.splits)

text \<open>The modules for namespaces and tenants and the catch-all modules take no method but GET.\<close>

lemma read_only_modules:
  assumes "md \<in> set (default_modules V) \<or> (\<exists>api. md = CatchAll V api)"
  shows "takes_method md meth \<longleftrightarrow> meth = MethodGet"
proof -
  have "map to_upper_char ''get'' = ''GET''" "map to_upper_char ''GET'' = ''GET''" by code_simp+
  with assms show ?thesis
    by (auto simp: takes_method_def default_modules_def namespace_List_def namespace_Get_def tenants_List_def tenants_Get_def
        CatchAll_def stateless_def)
qed

lemma legacy_registered:
  assumes "registerModules False V D = Ok (mods, keys)" and "md \<in> set mods"
  shows "md \<in> set (default_modules V) \<or> md \<in> set (legacy_modules V) \<or> (\<exists>api. md = CatchAll V api)"
  using assms by (auto simp: registerModules_def split: outcome.splits)

text \<open>What the handler for the remaining paths forwards without an error carries the resolved identity.\<close>

lemma fallback_impersonates:
  assumes "serve n None st r = (Forwarded r' None, st')"
  shows "\<exists>u g us gs. ResolveUserAndGroups (k_auth n) (k_config n) r = Ok (r\<lparr>CtxUser := Some (u, g)\<rparr>, u, g)
    \<and> HeaderValues (Header r') ''Impersonate-User'' = us @ [u] \<and> HeaderValues (Header r') ''Impersonate-Group'' = gs @ g
    \<and> URLQuery r' = URLQuery r"
proof -
  have "fst (serve n None st r) = Forwarded r' None" by (simp add: assms)
  then obtain s where s: "route n None st r = Ok s" and r': "r' = (sv_request s)\<lparr>CtxUser := CtxUser r\<rparr>" and "sv_status s = None"
    by (rule serve_Forwarded) simp
  then obtain u g where res: "ResolveUserAndGroups (k_auth n) (k_config n) r = Ok (r\<lparr>CtxUser := Some (u, g)\<rparr>, u, g)"
    and imp: "impersonated n (r\<lparr>CtxUser := Some (u, g)\<rparr>) u g (sv_request s)"
    using rt.serves [of n None r st] by (auto simp: served_ok_def)
  from impersonated_values [OF imp] res show ?thesis by (auto simp: r')
qed

section \<open>Properties\<close>

text \<open>
  C5: a request that may change something is forwarded as its user. With the legacy modules registered, a
  request of another method than GET whose path is none of theirs, and that is forwarded without an error,
  carries the resolved user and groups in its impersonation headers and its query unchanged: neither the
  modules for namespaces and tenants nor a catch-all module ever sends it with the token of the proxy alone.
\<close>

theorem writes_impersonated:
  assumes "registerModules False V D = Ok (mods, keys)" and "Method r \<noteq> MethodGet"
    and "\<forall>md \<in> set (legacy_modules V). path_vars (md_Path md) (URLPath r) = None"
    and "URLPath r \<noteq> ''/_healthz''" and "URLPath r \<notin> set authorization_Paths"
    and "serve_routes path_vars mods n namespacedResources upstream mediaType st r = (Proxied (Forwarded r' None), st')"
  shows "\<exists>u g us gs. ResolveUserAndGroups (k_auth n) (k_config n) r = Ok (r\<lparr>CtxUser := Some (u, g)\<rparr>, u, g)
    \<and> HeaderValues (Header r') ''Impersonate-User'' = us @ [u] \<and> HeaderValues (Header r') ''Impersonate-Group'' = gs @ g
    \<and> URLQuery r' = URLQuery r"
proof (rule fallback_impersonates)
  have "match_route path_vars mods r = None"
    unfolding match_route_None using legacy_registered [OF assms(1)] read_only_modules assms(2,3) by blast
  then have "(case serve n None st r of (a, st1) \<Rightarrow> (Proxied a, st1)) = (Proxied (Forwarded r' None), st')"
    using assms(6) by (simp add: serve_routes_def ServeHTTP_serve [OF assms(4,5)])
  then show "serve n None st r = (Forwarded r' None, st')" by (auto split: prod.splits)
qed

section \<open>A concrete request\<close>

definition doc_paths :: "string \<Rightarrow> string \<Rightarrow> (string \<times> string) list option" where
  "doc_paths template path = (if template = path then Some [] else None)"

abbreviation doc_delete :: http_request where
  "doc_delete \<equiv> doc_admin_as MethodDelete ''/api/v1/namespaces/oil-dev''"

lemma doc_delete_served: "\<exists>r' st'. serve doc_filter None doc_state doc_delete = (Forwarded r' None, st')"
proof -
  have "Header doc_delete = Header doc_admin_request" "RemoteAddr doc_delete = RemoteAddr doc_admin_request" by (simp_all add: doc_admin_as_def)
  then have "remove_all ''Bearer '' (HeaderGet (Header doc_delete) ''Authorization'') = ''admin''" "isFromTrustedSource doc_filter (RemoteAddr doc_delete)"
    using doc_admin_header doc_trusted by simp_all
  moreover have "createTokenReview doc_env ''admin'' = Inr \<lparr>tr_Authenticated = True, tr_Error = [], tr_Username = ''admin'', tr_Groups = [''dev'']\<rparr>"
    by (simp add: doc_env_def)
  moreover have "k_allowedPaths doc_filter = []" by (simp add: doc_filter_def)
  ultimately show ?thesis
    by (simp add: serve_def RequireTrustedSourceMiddleware_def reverseProxyMiddleware_def recoveryMiddleware_def route_def CheckPaths_def
        CheckJWTMiddleware_def impersonateHandler_def doc_as_resolve doc_token Let_def)
qed

theorem writes_impersonated_witness:
  "\<exists>mods keys r' st' us. registerModules False doc_modules doc_discovery = Ok (mods, keys)
     \<and> serve_routes doc_paths mods doc_filter keys (\<lambda>_ _. (200, None)) id doc_state doc_delete = (Proxied (Forwarded r' None), st')
     \<and> HeaderValues (Header r') ''Impersonate-User'' = us @ [''bob'']"
proof -
  have "\<exists>mods keys. registerModules False doc_modules doc_discovery = Ok (mods, keys)"
    by (simp add: registerModules_def doc_discovery_def discoverAPI_def)
  then obtain mods keys where reg: "registerModules False doc_modules doc_discovery = Ok (mods, keys)" by blast
  have meth: "Method doc_delete \<noteq> MethodGet" and healthz: "URLPath doc_delete \<noteq> ''/_healthz''"
    and review: "URLPath doc_delete \<notin> set authorization_Paths"
    by (simp_all add: doc_admin_as_def authorization_Paths_def)
  have legacy: "\<forall>md \<in> set (legacy_modules doc_modules). doc_paths (md_Path md) (URLPath doc_delete) = None"
    by (simp add: legacy_modules_def legacy_defs stateless_def doc_paths_def doc_admin_as_def)
  have "match_route doc_paths mods doc_delete = None"
    unfolding match_route_None using legacy_registered [OF reg] read_only_modules legacy meth by blast
  moreover obtain r' st' where "serve doc_filter None doc_state doc_delete = (Forwarded r' None, st')" using doc_delete_served by blast
  ultimately have served: "serve_routes doc_paths mods doc_filter keys (\<lambda>_ _. (200, None)) id doc_state doc_delete = (Proxied (Forwarded r' None), st')"
    by (simp add: serve_routes_def ServeHTTP_serve [OF healthz review])
  from writes_impersonated [OF reg meth legacy healthz review served] reg served show ?thesis by (auto simp: doc_as_resolve)
qed

end
