(* ===== verification/Lifecycle.thy ===== *)
theory Lifecycle
  imports Server
begin

text \<open>
  The life of the listener: what \<^verbatim>\<open>Start\<close> of internal/webserver/webserver.go does after it has built the
  router. Its three goroutines (the caller, which waits for the context, the one that serves, and the one
  of the certificate watcher) share the variable \<^verbatim>\<open>srv\<close> and run interleaved with the cancellation of the
  context and with the connections of clients. A step relation describes them; the state of an
  \<^verbatim>\<open>http.Server\<close> is the part of it that \<^verbatim>\<open>Serve\<close> and \<^verbatim>\<open>Shutdown\<close> read.
\<close>

section \<open>State\<close>

text \<open>
  The caller: it creates the watcher when TLS is served, waits, and returns the error of \<^verbatim>\<open>Shutdown\<close>.
\<close>

datatype main_phase =
    Creating
  | Waiting
  | Returned "error option"

text \<open>The serving goroutine: not started, started, past the assignment of \<^verbatim>\<open>srv\<close>, in \<^verbatim>\<open>Serve\<close>, or after it.\<close>

datatype serve_phase =
    NotStarted
  | Started
  | Assigned
  | Serving
  | ServeReturned error

datatype watch_phase =
    NoWatcher
  | Watching
  | WatchEnded

text \<open>How the process ended: by a panic in a goroutine, or because the caller returned.\<close>

datatype process =
    Running
  | Crashed
  | Exited

text \<open>\<open>lc_srv\<close> is \<^verbatim>\<open>srv != nil\<close>, \<open>lc_inShutdown\<close> and \<open>lc_connections\<close> belong to the server it points to.\<close>

record lifecycle =
  lc_process :: process
  lc_done :: bool
  lc_main :: main_phase
  lc_serve :: serve_phase
  lc_watch :: watch_phase
  lc_srv :: bool
  lc_inShutdown :: bool
  lc_connections :: nat

definition not_started :: lifecycle where
  "not_started = \<lparr>lc_process = Running, lc_done = False, lc_main = Creating, lc_serve = NotStarted, lc_watch = NoWatcher,
     lc_srv = False, lc_inShutdown = False, lc_connections = 0\<rparr>"

definition ErrServerClosed :: error where
  "ErrServerClosed = PlainError ''http: Server closed''"

definition Canceled :: error where
  "Canceled = PlainError ''context canceled''"

section \<open>Steps\<close>

text \<open>
  \<^verbatim>\<open>srv.Shutdown(ctx)\<close> of the caller, with a context that is done: a nil server is dereferenced; otherwise
  the listeners are closed, and with connections that are still active the error of the context is
  returned at once.
\<close>

definition Shutdown :: "lifecycle \<Rightarrow> lifecycle" where
  "Shutdown s =
     (if \<not> lc_srv s then s\<lparr>lc_process := Crashed\<rparr>
      else s\<lparr>lc_inShutdown := True, lc_main := Returned (if lc_connections s = 0 then None else Some Canceled)\<rparr>)"

text \<open>
  The steps of \<^verbatim>\<open>Start\<close> and of the manager that called it; \<open>tls\<close> is \<^verbatim>\<open>IsListeningTLS\<close>. \<^verbatim>\<open>Serve\<close> and
  \<^verbatim>\<open>ListenAndServe\<close> always return an error, \<^verbatim>\<open>ErrServerClosed\<close> once the server is shut down, and the goroutine
  panics with every error, that of \<^verbatim>\<open>tls.Listen\<close> included. The certificate watcher ends without an error when the context is done.
\<close>

inductive sstep :: "bool \<Rightarrow> lifecycle \<Rightarrow> lifecycle \<Rightarrow> bool" for tls where
  no_watcher: "lc_process s = Running \<Longrightarrow> lc_main s = Creating \<Longrightarrow> tls \<Longrightarrow>
    sstep tls s (s\<lparr>lc_main := Returned (Some (wrap ''cannot create certificate watcher'' e))\<rparr>)"
| spawn: "lc_process s = Running \<Longrightarrow> lc_main s = Creating \<Longrightarrow>
    sstep tls s (s\<lparr>lc_main := Waiting, lc_serve := Started, lc_watch := (if tls then Watching else NoWatcher)\<rparr>)"
| assign: "lc_process s = Running \<Longrightarrow> lc_serve s = Started \<Longrightarrow> sstep tls s (s\<lparr>lc_srv := True, lc_serve := Assigned\<rparr>)"
| listen: "lc_process s = Running \<Longrightarrow> lc_serve s = Assigned \<Longrightarrow> \<not> lc_inShutdown s \<Longrightarrow> sstep tls s (s\<lparr>lc_serve := Serving\<rparr>)"
| listen_error: "lc_process s = Running \<Longrightarrow> lc_serve s = Assigned \<Longrightarrow> sstep tls s (s\<lparr>lc_serve := ServeReturned e\<rparr>)"
| accept_error: "lc_process s = Running \<Longrightarrow> lc_serve s = Serving \<Longrightarrow> \<not> lc_inShutdown s \<Longrightarrow> sstep tls s (s\<lparr>lc_serve := ServeReturned e\<rparr>)"
| closed: "lc_process s = Running \<Longrightarrow> lc_serve s \<in> {Assigned, Serving} \<Longrightarrow> lc_inShutdown s \<Longrightarrow>
    sstep tls s (s\<lparr>lc_serve := ServeReturned ErrServerClosed\<rparr>)"
| serve_panic: "lc_process s = Running \<Longrightarrow> lc_serve s = ServeReturned e \<Longrightarrow> sstep tls s (s\<lparr>lc_process := Crashed\<rparr>)"
| watch_panic: "lc_process s = Running \<Longrightarrow> lc_watch s = Watching \<Longrightarrow> sstep tls s (s\<lparr>lc_process := Crashed\<rparr>)"
| watch_end: "lc_process s = Running \<Longrightarrow> lc_watch s = Watching \<Longrightarrow> lc_done s \<Longrightarrow> sstep tls s (s\<lparr>lc_watch := WatchEnded\<rparr>)"
| shutdown: "lc_process s = Running \<Longrightarrow> lc_main s = Waiting \<Longrightarrow> lc_done s \<Longrightarrow> sstep tls s (Shutdown s)"
| exit: "lc_process s = Running \<Longrightarrow> lc_main s = Returned x \<Longrightarrow> sstep tls s (s\<lparr>lc_process := Exited\<rparr>)"

text \<open>The steps of the environment: the signal that cancels the context, and the clients.\<close>

inductive estep :: "lifecycle \<Rightarrow> lifecycle \<Rightarrow> bool" where
  cancel: "lc_process s = Running \<Longrightarrow> estep s (s\<lparr>lc_done := True\<rparr>)"
| connect: "lc_process s = Running \<Longrightarrow> lc_serve s = Serving \<Longrightarrow> \<not> lc_inShutdown s \<Longrightarrow>
    estep s (s\<lparr>lc_connections := Suc (lc_connections s)\<rparr>)"
| finish: "lc_process s = Running \<Longrightarrow> lc_connections s = Suc k \<Longrightarrow> estep s (s\<lparr>lc_connections := k\<rparr>)"

definition lstep :: "bool \<Rightarrow> lifecycle \<Rightarrow> lifecycle \<Rightarrow> bool" where
  "lstep tls s s' \<longleftrightarrow> sstep tls s s' \<or> estep s s'"

inductive lreachable :: "bool \<Rightarrow> lifecycle \<Rightarrow> bool" for tls where
  start: "lreachable tls not_started"
| more: "lreachable tls s \<Longrightarrow> lstep tls s s' \<Longrightarrow> lreachable tls s'"

section \<open>Lemmas\<close>

text \<open>What the goroutines still have to do; the environment does not change it.\<close>

fun main_rank :: "main_phase \<Rightarrow> nat" where
  "main_rank Creating = 2"
| "main_rank Waiting = 1"
| "main_rank (Returned x) = 0"

fun serve_rank :: "serve_phase \<Rightarrow> nat" where
  "serve_rank NotStarted = 4"
| "serve_rank Started = 3"
| "serve_rank Assigned = 2"
| "serve_rank Serving = 1"
| "serve_rank (ServeReturned e) = 0"

definition work :: "lifecycle \<Rightarrow> nat" where
  "work s = 6 * main_rank (lc_main s) + serve_rank (lc_serve s) + (if lc_watch s = Watching then 1 else 0)
     + (if lc_process s = Running then 1 else 0)"

lemma sstep_work: "sstep tls s s' \<Longrightarrow> work s' < work s"
  by (induction rule: sstep.induct) (auto simp: work_def Shutdown_def)

lemma estep_work: "estep s s' \<Longrightarrow> work s' = work s"
  by (induction rule: estep.induct) (simp_all add: work_def)

lemma sstep_done: "sstep tls s s' \<Longrightarrow> lc_done s' = lc_done s"
  by (induction rule: sstep.induct) (simp_all add: Shutdown_def)

lemma estep_done: "estep s s' \<Longrightarrow> lc_done s \<Longrightarrow> lc_done s'"
  by (induction rule: estep.induct) simp_all

text \<open>No goroutine waits for another: once the context is done, the caller can go on until the end.\<close>

lemma sstep_progress:
  assumes "lc_process s = Running" and "lc_done s"
  shows "\<exists>s'. sstep tls s s'"
  using assms by (cases "lc_main s") (blast intro: sstep.spawn sstep.shutdown sstep.exit)+

lemma ended_final: "lc_process s \<noteq> Running \<Longrightarrow> \<not> lstep tls s s'"
  by (auto simp: lstep_def elim: sstep.cases estep.cases)

definition lifecycle_inv :: "lifecycle \<Rightarrow> bool" where
  "lifecycle_inv s \<longleftrightarrow>
     (lc_main s = Creating \<longrightarrow> lc_serve s = NotStarted)
     \<and> (lc_main s = Waiting \<longrightarrow> lc_serve s \<noteq> NotStarted)
     \<and> (lc_srv s \<longleftrightarrow> lc_serve s \<notin> {NotStarted, Started})
     \<and> (lc_inShutdown s \<longrightarrow> lc_srv s \<and> lc_done s \<and> (\<exists>x. lc_main s = Returned x \<and> x \<in> {None, Some Canceled}))
     \<and> (0 < lc_connections s \<longrightarrow> lc_srv s)"

lemma lifecycle_inv_step: "lifecycle_inv s \<Longrightarrow> lstep tls s s' \<Longrightarrow> lifecycle_inv s'"
  unfolding lstep_def
proof (elim disjE)
  assume "sstep tls s s'" "lifecycle_inv s"
  then show ?thesis by (induction rule: sstep.induct) (auto simp: lifecycle_inv_def Shutdown_def)
next
  assume "estep s s'" "lifecycle_inv s"
  then show ?thesis by (induction rule: estep.induct) (auto simp: lifecycle_inv_def)
qed

lemma lreachable_inv: "lreachable tls s \<Longrightarrow> lifecycle_inv s"
  by (induction rule: lreachable.induct) (simp add: lifecycle_inv_def not_started_def, rule lifecycle_inv_step)

text \<open>The serving goroutine of a server that was shut down panics when it runs on.\<close>

lemma closed_server_panics:
  assumes "lifecycle_inv s" and "lc_process s = Running" and "lc_inShutdown s"
  shows "\<exists>s'. (sstep tls)\<^sup>*\<^sup>* s s' \<and> lc_process s' = Crashed"
proof -
  have panics: "sstep tls t (t\<lparr>lc_process := Crashed\<rparr>)" if "lc_serve t = ServeReturned e" "lc_process t = Running" for t e
    using that by (rule sstep.serve_panic [rotated])
  from assms consider "lc_serve s \<in> {Assigned, Serving}" | e where "lc_serve s = ServeReturned e"
    by (cases "lc_serve s") (auto simp: lifecycle_inv_def)
  then show ?thesis
  proof cases
    case 1
    let ?t = "s\<lparr>lc_serve := ServeReturned ErrServerClosed\<rparr>"
    have "sstep tls s ?t" using assms 1 by (intro sstep.closed)
    moreover have "sstep tls ?t (?t\<lparr>lc_process := Crashed\<rparr>)" using assms(2) by (intro panics [of _ ErrServerClosed]) simp_all
    ultimately have "(sstep tls)\<^sup>*\<^sup>* s (?t\<lparr>lc_process := Crashed\<rparr>)" by (rule converse_rtranclp_into_rtranclp [OF _ r_into_rtranclp])
    moreover have "lc_process (?t\<lparr>lc_process := Crashed\<rparr>) = Crashed" by simp
    ultimately show ?thesis by blast
  next
    case 2
    from panics [OF 2 assms(2)] have "(sstep tls)\<^sup>*\<^sup>* s (s\<lparr>lc_process := Crashed\<rparr>)" by blast
    moreover have "lc_process (s\<lparr>lc_process := Crashed\<rparr>) = Crashed" by simp
    ultimately show ?thesis by blast
  qed
qed

text \<open>A fair run: the goroutines of the process may pause, but not for ever when one of them can go on.\<close>

definition fair_run :: "bool \<Rightarrow> (nat \<Rightarrow> lifecycle) \<Rightarrow> bool" where
  "fair_run tls \<sigma> \<longleftrightarrow> (\<forall>i. lstep tls (\<sigma> i) (\<sigma> (Suc i)) \<or> \<sigma> (Suc i) = \<sigma> i)
     \<and> (\<forall>i. (\<forall>j \<ge> i. \<exists>s'. sstep tls (\<sigma> j) s') \<longrightarrow> (\<exists>j \<ge> i. sstep tls (\<sigma> j) (\<sigma> (Suc j))))"

lemma fair_run_work:
  assumes "fair_run tls \<sigma>"
  shows "i \<le> j \<Longrightarrow> work (\<sigma> j) \<le> work (\<sigma> i)" and "i \<le> j \<Longrightarrow> lc_done (\<sigma> i) \<Longrightarrow> lc_done (\<sigma> j)"
proof -
  have step: "work (\<sigma> (Suc k)) \<le> work (\<sigma> k) \<and> (lc_done (\<sigma> k) \<longrightarrow> lc_done (\<sigma> (Suc k)))" for k
  proof -
    from assms consider "sstep tls (\<sigma> k) (\<sigma> (Suc k))" | "estep (\<sigma> k) (\<sigma> (Suc k))" | "\<sigma> (Suc k) = \<sigma> k"
      unfolding fair_run_def lstep_def by blast
    then show ?thesis by cases (simp_all add: sstep_work sstep_done estep_work estep_done less_imp_le)
  qed
  show "i \<le> j \<Longrightarrow> work (\<sigma> j) \<le> work (\<sigma> i)" by (induction rule: dec_induct) (simp, use step le_trans in blast)
  show "i \<le> j \<Longrightarrow> lc_done (\<sigma> i) \<Longrightarrow> lc_done (\<sigma> j)" by (induction rule: dec_induct) (use step in blast)+
qed

lemma fair_run_ends:
  assumes fair: "fair_run tls \<sigma>" and "lc_done (\<sigma> i)"
  shows "\<exists>k \<ge> i. lc_process (\<sigma> k) \<noteq> Running"
  using assms(2)
proof (induction "work (\<sigma> i)" arbitrary: i rule: less_induct)
  case less
  show ?case
  proof (rule ccontr)
    assume "\<not> ?thesis"
    then have running: "lc_process (\<sigma> j) = Running" if "i \<le> j" for j using that by blast
    then have "\<forall>j \<ge> i. \<exists>s'. sstep tls (\<sigma> j) s'"
      using fair_run_work(2) [OF fair] less.prems by (blast intro: sstep_progress)
    then obtain j where j: "i \<le> j" and step: "sstep tls (\<sigma> j) (\<sigma> (Suc j))" using fair unfolding fair_run_def by blast
    have "work (\<sigma> (Suc j)) < work (\<sigma> i)" using sstep_work [OF step] fair_run_work(1) [OF fair j] by simp
    moreover have "lc_done (\<sigma> (Suc j))" using fair_run_work(2) [OF fair, of i "Suc j"] j less.prems by simp
    ultimately obtain k where "Suc j \<le> k" and "lc_process (\<sigma> k) \<noteq> Running" using less.hyps by blast
    with running j show False by simp
  qed
qed

section \<open>Properties\<close>

text \<open>
  C25: shutting down ends the process. Once the context of the manager is cancelled, in every run in which the
  goroutines are not suspended for ever, whatever the clients do and whichever errors the listener and the
  certificate watcher report, the process comes to an end, for good; no goroutine waits for one that does not
  run on.
\<close>

theorem shutdown_ends:
  assumes "fair_run tls \<sigma>" and "lc_done (\<sigma> i)"
  shows "\<exists>k \<ge> i. \<exists>p \<in> {Crashed, Exited}. \<forall>j \<ge> k. lc_process (\<sigma> j) = p"
proof -
  obtain k where k: "i \<le> k" "lc_process (\<sigma> k) \<noteq> Running" using fair_run_ends [OF assms] by blast
  have "\<sigma> j = \<sigma> k" if "k \<le> j" for j
    using that
  proof (induction rule: dec_induct)
    case (step j)
    from assms(1) have "lstep tls (\<sigma> j) (\<sigma> (Suc j)) \<or> \<sigma> (Suc j) = \<sigma> j" unfolding fair_run_def by blast
    with ended_final [of "\<sigma> j" tls "\<sigma> (Suc j)"] step.IH k(2) show ?case by simp
  qed simp
  then have "\<forall>j \<ge> k. lc_process (\<sigma> j) = lc_process (\<sigma> k)" by (intro allI impI arg_cong [where f = lc_process])
  moreover have "lc_process (\<sigma> k) \<in> {Crashed, Exited}" using k(2) by (cases "lc_process (\<sigma> k)") simp_all
  ultimately show ?thesis using k(1) by blast
qed

text \<open>
  C26: how it ends is a race. When the caller shuts the server down, the requests in flight are not waited for,
  since the context that limits the wait is the one that is already done; and from then on, as long as the
  process runs, the serving goroutine may still panic with the error that reports the closed server, as well
  as the process may exit. A context that is done before that goroutine has assigned the server makes the
  caller dereference nil.
\<close>

theorem shutdown_race:
  assumes "lreachable tls s" and "lc_process s = Running" and "lc_main s = Waiting" and "lc_done s"
  shows "sstep tls s (Shutdown s)
    \<and> (if lc_serve s = Started then lc_process (Shutdown s) = Crashed
       else lc_main (Shutdown s) = Returned (if lc_connections s = 0 then None else Some Canceled)
         \<and> (\<exists>s'. (sstep tls)\<^sup>*\<^sup>* (Shutdown s) s' \<and> lc_process s' = Crashed)
         \<and> (\<exists>s'. (sstep tls)\<^sup>*\<^sup>* (Shutdown s) s' \<and> lc_process s' = Exited))"
proof -
  have step: "sstep tls s (Shutdown s)" using assms(2-4) by (rule sstep.shutdown)
  have inv: "lifecycle_inv s" by (rule lreachable_inv [OF assms(1)])
  show ?thesis
  proof (cases "lc_serve s = Started")
    case True
    with inv step show ?thesis by (simp add: lifecycle_inv_def Shutdown_def)
  next
    case False
    with inv assms(3) have srv: "lc_srv s" by (auto simp: lifecycle_inv_def)
    then have main: "lc_main (Shutdown s) = Returned (if lc_connections s = 0 then None else Some Canceled)"
      and run: "lc_process (Shutdown s) = Running" "lc_inShutdown (Shutdown s)" using assms(2) by (simp_all add: Shutdown_def)
    have "lifecycle_inv (Shutdown s)" using lifecycle_inv_step [OF inv, of tls] step by (simp add: lstep_def)
    from closed_server_panics [OF this run] have "\<exists>s'. (sstep tls)\<^sup>*\<^sup>* (Shutdown s) s' \<and> lc_process s' = Crashed" .
    moreover have "sstep tls (Shutdown s) ((Shutdown s)\<lparr>lc_process := Exited\<rparr>)" using run(1) main by (rule sstep.exit)
    moreover have "lc_process ((Shutdown s)\<lparr>lc_process := Exited\<rparr>) = Exited" by simp
    ultimately have "\<exists>s'. (sstep tls)\<^sup>*\<^sup>* (Shutdown s) s' \<and> lc_process s' = Crashed" "\<exists>s'. (sstep tls)\<^sup>*\<^sup>* (Shutdown s) s' \<and> lc_process s' = Exited"
      by blast+
    with False main step show ?thesis by simp
  qed
qed

section \<open>A concrete run\<close>

text \<open>The context is cancelled before anything runs; the server is assigned in time and the process exits.\<close>

fun doc_run :: "nat \<Rightarrow> lifecycle" where
  "doc_run 0 = not_started"
| "doc_run (Suc 0) = not_started\<lparr>lc_done := True\<rparr>"
| "doc_run (Suc (Suc 0)) = not_started\<lparr>lc_done := True, lc_main := Waiting, lc_serve := Started\<rparr>"
| "doc_run (Suc (Suc (Suc 0))) = not_started\<lparr>lc_done := True, lc_main := Waiting, lc_serve := Assigned, lc_srv := True\<rparr>"
| "doc_run (Suc (Suc (Suc (Suc 0)))) = Shutdown (doc_run 3)"
| "doc_run (Suc (Suc (Suc (Suc (Suc n))))) = (Shutdown (doc_run 3))\<lparr>lc_process := Exited\<rparr>"

lemma doc_run_steps:
  "estep (doc_run 0) (doc_run 1)" "sstep False (doc_run 1) (doc_run 2)" "sstep False (doc_run 2) (doc_run 3)"
  "sstep False (doc_run 3) (doc_run 4)" "sstep False (doc_run 4) (doc_run 5)"
  using estep.cancel [of not_started] sstep.spawn [of "doc_run 1" False] sstep.assign [of "doc_run 2" False]
    sstep.shutdown [of "doc_run 3" False] sstep.exit [of "doc_run 4" None False]
  by (simp_all add: eval_nat_numeral not_started_def Shutdown_def)

lemma doc_run_end: "5 \<le> i \<Longrightarrow> doc_run i = doc_run 5"
  by (cases i rule: doc_run.cases) (simp_all add: eval_nat_numeral)

lemma doc_run_fair: "fair_run False doc_run"
  unfolding fair_run_def
proof (intro conjI allI impI)
  fix i :: nat
  consider "i \<in> {0, 1, 2, 3, 4}" | "5 \<le> i" by fastforce
  then show "lstep False (doc_run i) (doc_run (Suc i)) \<or> doc_run (Suc i) = doc_run i"
  proof cases
    case 1
    then show ?thesis using doc_run_steps by (auto simp: lstep_def eval_nat_numeral)
  next
    case 2
    then show ?thesis using doc_run_end [of i] doc_run_end [of "Suc i"] by simp
  qed
  assume "\<forall>j \<ge> i. \<exists>s'. sstep False (doc_run j) s'"
  then have "\<exists>s'. sstep False (doc_run (max i 5)) s'" by simp
  moreover have "lc_process (doc_run (max i 5)) = Exited" using doc_run_end [of "max i 5"] by (simp add: eval_nat_numeral)
  ultimately show "\<exists>j \<ge> i. sstep False (doc_run j) (doc_run (Suc j))" by (auto elim: sstep.cases)
qed

theorem shutdown_ends_witness: "\<exists>k \<ge> 1. \<exists>p \<in> {Crashed, Exited}. \<forall>j \<ge> k. lc_process (doc_run j) = p"
  by (rule shutdown_ends [OF doc_run_fair]) simp

theorem shutdown_race_witness:
  "sstep False (doc_run 2) (Shutdown (doc_run 2)) \<and> lc_process (Shutdown (doc_run 2)) = Crashed
   \<and> (\<exists>s'. (sstep False)\<^sup>*\<^sup>* (Shutdown (doc_run 3)) s' \<and> lc_process s' = Crashed)"
proof -
  have "lreachable False (doc_run 0)" by (simp add: lreachable.start)
  then have r2: "lreachable False (doc_run 2)" using doc_run_steps(1,2) by (meson lreachable.more lstep_def)
  then have r3: "lreachable False (doc_run 3)" using doc_run_steps(3) by (meson lreachable.more lstep_def)
  show ?thesis
    using shutdown_race [OF r2] shutdown_race [OF r3] by (simp add: eval_nat_numeral not_started_def)
qed

end
