(* ===== verification/Response.thy ===== *)
theory Response
  imports Server
begin

text \<open>
  What the client receives. The handlers write to an \<^verbatim>\<open>http.ResponseWriter\<close>; here are the writer of
  package net/http, the calls that the error handlers and the reverse proxy make on it, with the namespace
  gate between the API server and the client, and internal/webserver/middleware/metrics.go, whose writer wraps
  another one. The interface of a writer is the locale \<open>response_writer\<close>.
\<close>

section \<open>The writer of package net/http\<close>

text \<open>
  \<open>w_Header\<close> is the map that handlers change, \<open>w_sent\<close> its copy from the moment the status line was
  written; \<open>w_HEAD\<close> says that the request was a HEAD, whose answer has no body.
\<close>

record std_writer =
  w_HEAD :: bool
  w_Header :: header
  w_wroteHeader :: bool
  w_status :: nat
  w_sent :: header
  w_body :: string

datatype write_call =
    SetHeader string string
  | AddHeader string string
  | DelHeader string
  | WriteHeader nat
  | Write string

definition informational :: "nat \<Rightarrow> bool" where
  "informational code \<longleftrightarrow> 100 \<le> code \<and> code \<le> 199 \<and> code \<noteq> 101"

definition bodyAllowedForStatus :: "nat \<Rightarrow> bool" where
  "bodyAllowedForStatus code \<longleftrightarrow> \<not> (100 \<le> code \<and> code \<le> 199) \<and> code \<noteq> 204 \<and> code \<noteq> 304"

text \<open>The first status that is not informational counts; a code that has not three digits is a panic.\<close>

definition std_WriteHeader :: "nat \<Rightarrow> std_writer \<Rightarrow> std_writer outcome" where
  "std_WriteHeader code w =
     (if w_wroteHeader w then Ok w
      else if code < 100 \<or> 999 < code then Panic
      else if informational code then Ok w
      else Ok (w\<lparr>w_wroteHeader := True, w_status := code, w_sent := w_Header w\<rparr>))"

definition std_Write :: "string \<Rightarrow> std_writer \<Rightarrow> std_writer outcome" where
  "std_Write b w =
     bind_outcome (std_WriteHeader 200 w)
       (\<lambda>w. Ok (if w_HEAD w \<or> \<not> bodyAllowedForStatus (w_status w) then w else w\<lparr>w_body := w_body w @ b\<rparr>))"

fun std_call :: "write_call \<Rightarrow> std_writer \<Rightarrow> std_writer outcome" where
  "std_call (SetHeader k v) w = Ok (w\<lparr>w_Header := HeaderSet (w_Header w) k v\<rparr>)"
| "std_call (AddHeader k v) w = Ok (w\<lparr>w_Header := HeaderAdd (w_Header w) k v\<rparr>)"
| "std_call (DelHeader k) w = Ok (w\<lparr>w_Header := HeaderDel (w_Header w) k\<rparr>)"
| "std_call (WriteHeader c) w = std_WriteHeader c w"
| "std_call (Write b) w = std_Write b w"

text \<open>A handler ignores the results of its calls, so what it does to the writer is a list of calls.\<close>

fun calls :: "(write_call \<Rightarrow> 'w \<Rightarrow> 'w outcome) \<Rightarrow> write_call list \<Rightarrow> 'w \<Rightarrow> 'w outcome" where
  "calls f [] w = Ok w"
| "calls f (c # cs) w = bind_outcome (f c w) (calls f cs)"

definition new_writer :: "http_request \<Rightarrow> std_writer" where
  "new_writer r = \<lparr>w_HEAD = (Method r = ''HEAD''), w_Header = [], w_wroteHeader = False, w_status = 0, w_sent = [], w_body = []\<rparr>"

text \<open>The end of a request: a handler that wrote nothing has answered 200.\<close>

definition finishRequest :: "std_writer \<Rightarrow> std_writer outcome" where
  "finishRequest w = std_WriteHeader 200 w"

section \<open>What the handlers write\<close>

text \<open>internal/webserver/errors/panic.go, and the handler of a module error: the code and the encoded status.\<close>

definition status_calls :: "nat \<Rightarrow> string \<Rightarrow> write_call list" where
  "status_calls code body = [SetHeader ''content-type'' ''application/json'', WriteHeader code, Write body]"

text \<open>\<^verbatim>\<open>http.Error\<close>, which answers an untrusted source.\<close>

definition http_Error :: "string \<Rightarrow> nat \<Rightarrow> write_call list" where
  "http_Error msg code =
     [DelHeader ''Content-Length'', SetHeader ''Content-Type'' ''text/plain; charset=utf-8'', SetHeader ''X-Content-Type-Options'' ''nosniff'',
      WriteHeader code, Write (msg @ [CHR 0x0A])]"

text \<open>
  The reverse proxy. \<open>ge_roundTrip\<close> is the transport with the API server behind it: the response without its
  hop-by-hop headers, or \<^const>\<open>None\<close> for an error, which is answered with 502. The other fields are the
  arguments of the namespace gate and the encoding of the status of an error.
\<close>

record gateway =
  ge_roundTrip :: "http_request \<Rightarrow> http_response option"
  ge_getNamespace :: "string \<Rightarrow> error + kobject"
  ge_notFound :: "string \<Rightarrow> string \<Rightarrow> string \<Rightarrow> string option"
  ge_status :: "nat \<Rightarrow> string"

definition proxied :: "gateway \<Rightarrow> http_request \<Rightarrow> http_response option" where
  "proxied G q = ModifyResponse (ge_getNamespace G) (ge_notFound G) (ge_roundTrip G q)"

definition copyHeader :: "header \<Rightarrow> write_call list" where
  "copyHeader h = concat (map (\<lambda>(k, vs). map (AddHeader k) vs) h)"

definition proxy_calls :: "gateway \<Rightarrow> http_request \<Rightarrow> write_call list" where
  "proxy_calls G q =
     (case proxied G q of
        None \<Rightarrow> [WriteHeader 502]
      | Some resp \<Rightarrow> copyHeader (RespHeader resp) @ [WriteHeader (StatusCode resp), Write (Body resp)])"

text \<open>
  The calls behind a reply: 403 is refused by the trusted-source middleware, 500 by the recovery middleware; a
  forwarded request is written by the reverse proxy after what a handler may have written already.
\<close>

definition reply_calls :: "gateway \<Rightarrow> reply \<Rightarrow> write_call list" where
  "reply_calls G rep =
     (case rep of
        Refused c \<Rightarrow> if c = 403 then http_Error ''request source is not allowed'' 403 else status_calls c (ge_status G c)
      | Forwarded q None \<Rightarrow> proxy_calls G q
      | Forwarded q (Some c) \<Rightarrow> status_calls c (ge_status G c) @ proxy_calls G q)"

definition respond :: "gateway \<Rightarrow> ('ip, 'net) kubeFilter \<Rightarrow> module option \<Rightarrow> filter_state \<Rightarrow> http_request \<Rightarrow> std_writer outcome" where
  "respond G n mo st r =
     bind_outcome (calls std_call (reply_calls G (fst (serve n mo st r))) (new_writer r)) finishRequest"

section \<open>Metrics\<close>

text \<open>
  internal/webserver/middleware/metrics.go. The wrapper overrides \<^verbatim>\<open>WriteHeader\<close> only; headers and bodies go
  to the embedded writer. A counter and a timer are updated by events. The current route is nil when the
  middleware runs outside a router, and a nil dereference then; an error of its path template is dropped.
\<close>

record 'w httpResponseWriter =
  rw_ResponseWriter :: 'w
  rw_statusCode :: nat

definition newHTTPResponseWriter :: "'w \<Rightarrow> 'w httpResponseWriter" where
  "newHTTPResponseWriter w = \<lparr>rw_ResponseWriter = w, rw_statusCode = 200\<rparr>"

definition embedded :: "(write_call \<Rightarrow> 'w \<Rightarrow> 'w outcome) \<Rightarrow> write_call \<Rightarrow> 'w httpResponseWriter \<Rightarrow> 'w httpResponseWriter outcome" where
  "embedded f c h = bind_outcome (f c (rw_ResponseWriter h)) (\<lambda>w. Ok (h\<lparr>rw_ResponseWriter := w\<rparr>))"

fun metrics_call :: "(write_call \<Rightarrow> 'w \<Rightarrow> 'w outcome) \<Rightarrow> write_call \<Rightarrow> 'w httpResponseWriter \<Rightarrow> 'w httpResponseWriter outcome" where
  "metrics_call f (WriteHeader statusCode) h = embedded f (WriteHeader statusCode) (h\<lparr>rw_statusCode := statusCode\<rparr>)"
| "metrics_call f c h = embedded f c h"

definition metrics_Hijack :: "('w \<Rightarrow> (error + 'c) option) \<Rightarrow> 'w httpResponseWriter \<Rightarrow> error + 'c" where
  "metrics_Hijack hijacker h =
     (case hijacker (rw_ResponseWriter h) of None \<Rightarrow> Inl (PlainError ''writer is not http.Hijacker'') | Some res \<Rightarrow> res)"

datatype metric_event =
    RequestsInc string nat
  | ObserveDuration string

definition MetricsMiddleware :: "(error + string) option \<Rightarrow> (write_call \<Rightarrow> 'w \<Rightarrow> 'w outcome) \<Rightarrow> write_call list \<Rightarrow> 'w
    \<Rightarrow> ('w \<times> metric_event list) outcome" where
  "MetricsMiddleware rt f nxt w =
     (case rt of
        None \<Rightarrow> Panic
      | Some template \<Rightarrow>
          (let path = (case template of Inl _ \<Rightarrow> [] | Inr p \<Rightarrow> p) in
           bind_outcome (calls (metrics_call f) nxt (newHTTPResponseWriter w)) (\<lambda>rw.
             Ok (rw_ResponseWriter rw, [RequestsInc path (rw_statusCode rw), ObserveDuration path]))))"

section \<open>The interface of a writer\<close>

text \<open>
  A writer of any kind does to the writer of net/http below it what a direct call does. Handlers that see only
  the interface then leave the same answer, whatever wrappers are in between.
\<close>

locale response_writer =
  fixes f :: "write_call \<Rightarrow> 'w \<Rightarrow> 'w outcome" and base :: "'w \<Rightarrow> std_writer"
  assumes call_base: "map_outcome base (f c w) = std_call c (base w)"
begin

lemma calls_base: "map_outcome base (calls f cs w) = calls std_call cs (base w)"
proof (induction cs arbitrary: w)
  case (Cons c cs)
  then show ?case using call_base [of c w] by (cases "f c w") (auto simp flip: call_base)
qed simp

end

interpretation std: response_writer std_call "\<lambda>w. w"
  by unfold_locales (simp add: outcome.map_ident)

lemma metrics_call_base: "map_outcome rw_ResponseWriter (metrics_call f c h) = f c (rw_ResponseWriter h)"
  by (cases c; cases "f c (rw_ResponseWriter h)") (simp_all add: embedded_def)

lemma response_writer_metrics:
  assumes "response_writer f base"
  shows "response_writer (metrics_call f) (\<lambda>h. base (rw_ResponseWriter h))"
proof
  fix c h
  have "map_outcome (\<lambda>h. base (rw_ResponseWriter h)) (metrics_call f c h) = map_outcome base (map_outcome rw_ResponseWriter (metrics_call f c h))"
    by (simp add: outcome.map_comp o_def)
  then show "map_outcome (\<lambda>h. base (rw_ResponseWriter h)) (metrics_call f c h) = std_call c (base (rw_ResponseWriter h))"
    by (simp add: metrics_call_base response_writer.call_base [OF assms])
qed

interpretation metered: response_writer "metrics_call std_call" rw_ResponseWriter
  by (rule response_writer_metrics [OF std.response_writer_axioms])

section \<open>Lemmas\<close>

lemma calls_append: "calls f (xs @ ys) w = bind_outcome (calls f xs w) (calls f ys)"
proof (induction xs arbitrary: w)
  case (Cons c xs)
  then show ?case by (cases "f c w") simp_all
qed simp

lemma calls_AddHeader: "\<exists>h. calls std_call (map (AddHeader k) vs) w = Ok (w\<lparr>w_Header := h\<rparr>)"
proof (induction vs arbitrary: w)
  case Nil
  show ?case by (auto intro: exI [of _ "w_Header w"])
next
  case (Cons v vs)
  from Cons [of "w\<lparr>w_Header := HeaderAdd (w_Header w) k v\<rparr>"] show ?case by simp
qed

lemma calls_copyHeader: "\<exists>h. calls std_call (copyHeader hs) w = Ok (w\<lparr>w_Header := h\<rparr>)"
proof (induction hs arbitrary: w)
  case Nil
  show ?case by (auto simp: copyHeader_def intro: exI [of _ "w_Header w"])
next
  case (Cons kv hs)
  obtain k vs where kv: "kv = (k, vs)" by (cases kv)
  obtain h where h: "calls std_call (map (AddHeader k) vs) w = Ok (w\<lparr>w_Header := h\<rparr>)" using calls_AddHeader by blast
  have "copyHeader ((k, vs) # hs) = map (AddHeader k) vs @ copyHeader hs" by (simp add: copyHeader_def)
  with Cons [of "w\<lparr>w_Header := h\<rparr>"] show ?case by (simp add: kv calls_append h)
qed

text \<open>A status that was written is the answer; what the reverse proxy writes afterwards only adds to the body.\<close>

definition visible_body :: "std_writer \<Rightarrow> string \<Rightarrow> string" where
  "visible_body w b = (if w_HEAD w \<or> \<not> bodyAllowedForStatus (w_status w) then [] else b)"

definition proxied_body :: "gateway \<Rightarrow> http_request \<Rightarrow> string" where
  "proxied_body G q = (case proxied G q of None \<Rightarrow> [] | Some resp \<Rightarrow> Body resp)"

lemma proxy_after_status:
  assumes "w_wroteHeader w"
  shows "\<exists>h. calls std_call (proxy_calls G q) w = Ok (w\<lparr>w_Header := h, w_body := w_body w @ visible_body w (proxied_body G q)\<rparr>)"
proof (cases "proxied G q")
  case None
  then show ?thesis using assms
    by (auto simp: proxy_calls_def proxied_body_def visible_body_def std_WriteHeader_def intro: exI [of _ "w_Header w"])
next
  case (Some resp)
  obtain h where "calls std_call (copyHeader (RespHeader resp)) w = Ok (w\<lparr>w_Header := h\<rparr>)" using calls_copyHeader by blast
  then show ?thesis using assms
    by (auto simp: proxy_calls_def proxied_body_def visible_body_def Some calls_append std_WriteHeader_def std_Write_def intro: exI [of _ h])
qed

definition final_codes :: "gateway \<Rightarrow> bool" where
  "final_codes G \<longleftrightarrow> (\<forall>q resp. ge_roundTrip G q = Some resp \<longrightarrow> 200 \<le> StatusCode resp \<and> StatusCode resp \<le> 999)"

lemma proxied_final: "final_codes G \<Longrightarrow> proxied G q = Some resp \<Longrightarrow> 200 \<le> StatusCode resp \<and> StatusCode resp \<le> 999"
  by (cases "ge_roundTrip G q")
     (auto simp: final_codes_def proxied_def ModifyResponse_def maskForbiddenForMissingNamespace_def replaceResponse_def
        split: option.splits if_splits sum.splits)

lemma proxy_on_new:
  assumes "final_codes G"
  shows "\<exists>w. calls std_call (proxy_calls G q) (new_writer r) = Ok w \<and> w_wroteHeader w
    \<and> w_status w = (case proxied G q of None \<Rightarrow> 502 | Some resp \<Rightarrow> StatusCode resp)
    \<and> w_HEAD w = (Method r = ''HEAD'') \<and> w_body w = visible_body w (proxied_body G q)"
proof (cases "proxied G q")
  case None
  then show ?thesis
    by (simp add: proxy_calls_def proxied_body_def visible_body_def std_WriteHeader_def new_writer_def informational_def)
next
  case (Some resp)
  obtain h where "calls std_call (copyHeader (RespHeader resp)) (new_writer r) = Ok ((new_writer r)\<lparr>w_Header := h\<rparr>)"
    using calls_copyHeader by blast
  then show ?thesis using proxied_final [OF assms Some]
    by (simp add: proxy_calls_def proxied_body_def visible_body_def Some calls_append std_WriteHeader_def std_Write_def new_writer_def informational_def)
qed

lemma status_on_new:
  assumes "200 \<le> c" "c \<le> 999" "bodyAllowedForStatus c"
  shows "\<exists>w. calls std_call (status_calls c b) (new_writer r) = Ok w \<and> w_wroteHeader w \<and> w_status w = c
    \<and> HeaderValues (w_sent w) ''Content-Type'' = [''application/json''] \<and> w_HEAD w = (Method r = ''HEAD'') \<and> w_body w = visible_body w b"
proof -
  have "CanonicalMIMEHeaderKey ''content-type'' = CanonicalMIMEHeaderKey ''Content-Type''" by code_simp
  with assms show ?thesis
    by (simp add: status_calls_def std_WriteHeader_def std_Write_def new_writer_def informational_def visible_body_def hdr.vals_laws)
qed

lemma http_Error_on_new:
  "\<exists>w. calls std_call (http_Error m 403) (new_writer r) = Ok w \<and> w_wroteHeader w \<and> w_status w = 403"
  by (simp add: http_Error_def std_WriteHeader_def std_Write_def new_writer_def informational_def)

text \<open>The statuses that handlers write.\<close>

definition error_codes :: "nat set" where
  "error_codes = {400, 403, 404, 500}"

definition writes_error_codes :: "handler \<Rightarrow> bool" where
  "writes_error_codes h \<longleftrightarrow> (\<forall>st r s c. h st r = Ok s \<longrightarrow> sv_status s = Some c \<longrightarrow> c \<in> error_codes)"

lemma resolve_status_code: "resolve_status e \<in> error_codes"
  by (simp add: handleResolveUserAndGroupsError_def HandleUnauthorized_def HandleError_def error_codes_def)

lemma error_status_code: "error_status e \<in> error_codes"
  by (cases e) (simp_all add: error_status_def HandleError_def error_codes_def)

lemma impersonateHandler_codes: "writes_error_codes (impersonateHandler n)"
  unfolding writes_error_codes_def
  by (auto elim!: impersonateHandler_Ok simp: resolve_status_code)

lemma writes_error_codes_CheckPaths:
  "writes_error_codes f \<Longrightarrow> writes_error_codes h \<Longrightarrow> writes_error_codes (CheckPaths n f h)"
  by (simp add: writes_error_codes_def CheckPaths_def)

lemma writes_error_codes_CheckJWT: "writes_error_codes h \<Longrightarrow> writes_error_codes (CheckJWTMiddleware n h)"
  by (auto simp: writes_error_codes_def CheckJWTMiddleware_def Let_def error_codes_def split: sum.splits if_splits)

lemma writes_error_codes_identity:
  assumes "writes_error_codes f" and "writes_error_codes h"
  shows "writes_error_codes (CheckUserInIgnoredIdentityMiddleware n f h)" "writes_error_codes (CheckUserInCapsuleGroupMiddleware n f h)"
  using assms resolve_status_code
  by (fastforce simp: writes_error_codes_def CheckUserInIgnoredIdentityMiddleware_def CheckUserInCapsuleGroupMiddleware_def
      split: outcome.splits prod.splits if_splits)+

lemma writes_error_codes_module: "writes_error_codes (module_handler n md)"
  using impersonateHandler_codes [of n] resolve_status_code error_status_code
  by (fastforce simp: writes_error_codes_def module_handler_def error_codes_def split: outcome.splits prod.splits option.splits)

lemma writes_error_codes_route: "writes_error_codes (route n mo)"
  unfolding route_def module_route_def
  by (cases mo) (simp_all add: writes_error_codes_CheckPaths writes_error_codes_CheckJWT writes_error_codes_identity
      impersonateHandler_codes writes_error_codes_module)

lemma forwarded_error_code:
  assumes "fst (serve n mo st r) = Forwarded q (Some c)"
  shows "c \<in> error_codes"
proof -
  obtain s where "route n mo st r = Ok s" "sv_status s = Some c"
    using assms by (auto simp: serve_def recoveryMiddleware_def RequireTrustedSourceMiddleware_def reverseProxyMiddleware_def
        split: outcome.splits if_splits)
  then show ?thesis using writes_error_codes_route [of n mo] unfolding writes_error_codes_def by blast
qed

lemma error_code_final: "c \<in> error_codes \<Longrightarrow> 200 \<le> c \<and> c \<le> 999 \<and> bodyAllowedForStatus c"
  by (auto simp: error_codes_def bodyAllowedForStatus_def)

lemma finish_written: "w_wroteHeader w \<Longrightarrow> finishRequest w = Ok w"
  by (simp add: finishRequest_def std_WriteHeader_def)

lemma reply_refused:
  assumes "c = 403 \<or> c \<in> error_codes"
  shows "\<exists>w. calls std_call (reply_calls G (Refused c)) (new_writer r) = Ok w \<and> w_wroteHeader w \<and> w_status w = c"
proof (cases "c = 403")
  case True
  then show ?thesis using http_Error_on_new by (simp add: reply_calls_def)
next
  case False
  with assms have "c \<in> error_codes" by simp
  with False status_on_new [of c "ge_status G c" r] error_code_final show ?thesis by (auto simp: reply_calls_def)
qed

lemma reply_error_forwarded:
  assumes "c \<in> error_codes"
  shows "\<exists>w. calls std_call (reply_calls G (Forwarded q (Some c))) (new_writer r) = Ok w \<and> w_wroteHeader w \<and> w_status w = c
    \<and> HeaderValues (w_sent w) ''Content-Type'' = [''application/json'']
    \<and> w_body w = (if Method r = ''HEAD'' then [] else ge_status G c @ proxied_body G q)"
proof -
  obtain w where w: "calls std_call (status_calls c (ge_status G c)) (new_writer r) = Ok w" and wrote: "w_wroteHeader w"
    and rest: "w_status w = c" "HeaderValues (w_sent w) ''Content-Type'' = [''application/json'']"
      "w_HEAD w = (Method r = ''HEAD'')" "w_body w = visible_body w (ge_status G c)"
    using status_on_new [of c "ge_status G c" r] error_code_final [OF assms] by blast
  obtain h where "calls std_call (proxy_calls G q) w = Ok (w\<lparr>w_Header := h, w_body := w_body w @ visible_body w (proxied_body G q)\<rparr>)"
    using proxy_after_status [OF wrote] by blast
  with w wrote rest error_code_final [OF assms] show ?thesis by (simp add: reply_calls_def calls_append visible_body_def)
qed

section \<open>Properties\<close>


definition doc_gateway :: gateway where
  "doc_gateway = \<lparr>ge_roundTrip = (\<lambda>q. Some doc_forbidden), ge_getNamespace = (\<lambda>n. Inl (NotFoundAPI n)),
     ge_notFound = (\<lambda>g r n. Some n), ge_status = (\<lambda>c. ''denied'')\<rparr>"

lemma doc_final_codes: "final_codes doc_gateway"
  by (simp add: final_codes_def doc_gateway_def doc_forbidden_def)

lemma doc_proxied_body: "proxied_body doc_gateway q = ''web''"
  by (simp add: proxied_body_def proxied_def doc_gateway_def doc_gate replaceResponse_def)

lemma doc_rejected:
  "\<exists>q. fst (serve (doc_filter\<lparr>k_config := doc_config\<lparr>authTypes := []\<rparr>\<rparr>) None doc_state (doc_request [])) = Forwarded q (Some 403)"
  by (simp add: serve_def recoveryMiddleware_def RequireTrustedSourceMiddleware_def reverseProxyMiddleware_def isFromTrustedSource_def
      route_def CheckPaths_def CheckJWTMiddleware_def impersonateHandler_def ResolveUserAndGroups_def GetUserAndGroups_def authenticate_def
      handleResolveUserAndGroupsError_def HandleUnauthorized_def doc_filter_def doc_config_def doc_request_def HeaderGet_def HeaderValues_def
      alist_values_def remove_all.simps)


text \<open>
  The metrics middleware changes nothing of the answer, whatever handler it wraps and whatever writer that writes to,
  and counts a request that does not panic once; it takes the last status that was passed to \<^verbatim>\<open>WriteHeader\<close>, where the
  client sees the first one.
\<close>

fun last_status :: "nat \<Rightarrow> write_call list \<Rightarrow> nat" where
  "last_status s [] = s"
| "last_status s (WriteHeader c # cs) = last_status c cs"
| "last_status s (_ # cs) = last_status s cs"

lemma calls_metrics:
  "calls (metrics_call f) cs h = map_outcome (\<lambda>w. h\<lparr>rw_ResponseWriter := w, rw_statusCode := last_status (rw_statusCode h) cs\<rparr>) (calls f cs (rw_ResponseWriter h))"
proof (induction cs arbitrary: h)
  case (Cons c cs)
  then show ?case by (cases c; cases "f c (rw_ResponseWriter h)") (simp_all add: embedded_def)
qed simp

lemma metrics_transparent:
  "MetricsMiddleware (Some (Inr path)) f nxt w
   = map_outcome (\<lambda>w. (w, [RequestsInc path (last_status 200 nxt), ObserveDuration path])) (calls f nxt w)"
  by (cases "calls f nxt w") (simp_all add: MetricsMiddleware_def calls_metrics newHTTPResponseWriter_def)

lemma last_status_append: "last_status s (xs @ ys) = last_status (last_status s xs) ys"
  by (induction s xs rule: last_status.induct) simp_all

lemma last_status_copyHeader: "last_status s (copyHeader h) = s"
proof (induction h)
  case (Cons kv h)
  have "last_status s (map (AddHeader k) vs) = s" for s k vs by (induction vs) simp_all
  with Cons show ?case by (cases kv) (simp add: copyHeader_def last_status_append)
qed (simp add: copyHeader_def)

text \<open>Around the chain of the proxy it would count a rejected request with the status of the API server.\<close>

lemma rejected_request_counted:
  "last_status 200 (reply_calls G (Forwarded q (Some c))) = (case proxied G q of None \<Rightarrow> 502 | Some resp \<Rightarrow> StatusCode resp)"
  by (simp add: reply_calls_def status_calls_def proxy_calls_def last_status_append last_status_copyHeader split: option.split)

end
