(* ===== verification/Spec2Isabelle.thy ===== *)
theory Spec2Isabelle
  imports DeepCopy Routing Lifecycle Response
begin

text \<open>
  Capsule-proxy sits between the clients of a Kubernetes cluster and its API server. It authenticates a
  request, finds the Capsule tenants of its user and groups, and forwards the request in one of two
  ways: with the client's identity, by impersonation, or with its own token and a label selector that
  restricts the answer to what the tenants allow. This development models that path from the accepted
  connection to the reverse proxy, with the components it relies on, and states what makes it correct.

  \<^bold>\<open>Parts of the program and their theories.\<close>

  \<^item> \<^verbatim>\<open>Prelude\<close>, \<^verbatim>\<open>Http\<close>, \<^verbatim>\<open>Encoding\<close>: the Go library as the sources use it. Errors and panics are
    the type \<open>outcome\<close>; strings are byte lists, decoded to runes where the code ranges over them; headers
    and query values are multi-valued maps with one contract, the locale \<open>multimap\<close>, interpreted for both.
  \<^item> \<^verbatim>\<open>Objects\<close>: the API types of api/v1beta1 and of Capsule, and package labels as a parameter.
  \<^item> \<^verbatim>\<open>Xfcc\<close>: internal/request/xfcc.go, the header of forwarded client certificates.
  \<^item> \<^verbatim>\<open>Request\<close>: internal/request (http.go, impersonation.go, authtype.go, authtype_string.go, error.go).
  \<^item> \<^verbatim>\<open>Tenants\<close>: internal/tenant. \<^verbatim>\<open>Ownership\<close>: internal/indexer and the tenant lookup of
    internal/webserver/webserver.go.
  \<^item> \<^verbatim>\<open>Selectors\<close>: internal/modules/utils, internal/modules/errors, internal/utils/gvk.go.
  \<^item> \<^verbatim>\<open>ClusterScoped\<close>: api/v1beta1/clusterresoure.go and internal/modules/clusterscoped.
  \<^item> \<^verbatim>\<open>Reflector\<close>: internal/controllers/role_bindings.go, the index functions, the resolution of role
    bindings, the result cache with its 64-bit generation, and the interleaving of requests with the
    events of the informer cache as a step relation.
  \<^item> \<^verbatim>\<open>Modules\<close>, \<^verbatim>\<open>SortSearch\<close>, \<^verbatim>\<open>Classes\<close>: the handlers under internal/modules; \<^verbatim>\<open>SortSearch\<close> is the
    part of package sort that the class modules call.
  \<^item> \<^verbatim>\<open>Authorization\<close>: internal/authorization, the mutation of self reviews.
  \<^item> \<^verbatim>\<open>Middleware\<close>: internal/webserver/middleware and the functions of webserver.go that change a request.
  \<^item> \<^verbatim>\<open>Webserver\<close>: module registration, routes, the chain of middlewares and the self-review middleware
    of internal/webserver/webserver.go, and internal/webserver/utils.go.
  \<^item> \<^verbatim>\<open>Validation\<close>: internal/runtime/validation. \<^verbatim>\<open>NamespaceGate\<close>: internal/webserver/namespacegate.
  \<^item> \<^verbatim>\<open>Controllers\<close>: the reconcilers of internal/controllers, internal/options/kube.go and utils.go, and
    the flags of main.go that reach them.
  \<^item> \<^verbatim>\<open>Server\<close>: internal/options/http.go, the construction of the filter, the dispatch of the listener and
    the probes of internal/webserver/webserver.go, and main.go: flags, options of the manager, and the
    order in which the parts are created, each failure an exit.
  \<^item> \<^verbatim>\<open>Routing\<close>: the routes of the modules and the handler of all other paths, in the order of registration.
  \<^item> \<^verbatim>\<open>Lifecycle\<close>: the goroutines of \<^verbatim>\<open>Start\<close> as a step relation, with the cancellation of the context, the
    connections of clients, the shutdown of the server and the panics.
  \<^item> \<^verbatim>\<open>Response\<close>: what the handlers, the reverse proxy and the namespace gate write to the client, over the
    response writer of package net/http, and internal/webserver/middleware/metrics.go.
  \<^item> \<^verbatim>\<open>DeepCopy\<close>: api/v1beta1/zz_generated.deepcopy.go over an explicit memory of arrays, the only theory in
    which objects are not values.

  \<^bold>\<open>How code becomes definitions.\<close> A struct is a record, an enumeration a datatype, a function or method a
  definition of the same name where the name is free; the methods of the modules carry the package as a
  prefix (\<open>node_get_Handle\<close> is the method of internal/modules/node/get.go) and the loop bodies have names
  of their own. An error return is \<open>Err\<close>, a nil dereference or an explicit panic is \<open>Panic\<close>, and the
  recovery middleware turns it into an answer. A handler is a function from the state of the filter (the
  cached token of the proxy and the reflector) and the request to the state, the request as the caller
  sees it afterwards, and the status of an error that was written. Go maps are association lists; where
  the code iterates over a map the order is that of the list, and the theorems do not depend on it.
  A map from label keys to values, as in the node selectors, is assumed to have distinct keys.

  \<^bold>\<open>What is a parameter.\<close> Everything outside the repository: the API server (access reviews, token
  reviews, reads), package labels, regular expressions, X.509 and PEM decoding, SHA-256, package net, the
  JWT parser, the path templates of gorilla/mux (where no route is chosen, the module a request is routed to
  is an argument), the reverse proxy, and the
  names that Capsule defines. What a theorem needs of them is a named hypothesis that states documented
  behaviour: \<open>new_requirement_ok\<close> and \<open>matches_ok\<close> for labels, \<open>indexes\<close> and \<open>only_not_found\<close> for the
  informer cache, \<open>stores_updates\<close> for status updates. The witnesses instantiate the parameters with
  concrete functions, all named \<open>doc_\<close> something.

  \<^bold>\<open>What the lemmas show.\<close>

  \<^item> The chain as a whole: the locale \<open>serving\<close> (theory \<^verbatim>\<open>Webserver\<close>) is the contract of a handler, each
    middleware keeps it, and it is interpreted for the impersonating handler, the handler of every module
    and every route. From it follow what may reach the API server, that it is well formed, when a request is
    withheld, and that requests which change something are forwarded as their user.
  \<^item> Identity: authentication order, certificates, tokens, and that no identity is taken over without a
    review under the authenticated one.
  \<^item> Selection: which objects the selectors of the namespace, catch-all, class and cluster-scoped modules
    show, in terms of the tenants, the role bindings and the rules; consistency of list and get; nodes by
    the node selectors of the tenants, volumes by their label; that the registered modules cover what the API
    server announces, and that self reviews advertise what works.
  \<^item> The reflector: the locale \<open>result_cache\<close> with its interpretation, an invariant of the reachable
    states, freshness of results after the events have been delivered, and termination of a request
    whatever the informers do between its reads.
  \<^item> Round trips for certificates, websocket tokens and resource paths; patterns against their reference
    meaning; validation and discovery; the namespace gate; observed generations.
  \<^item> Behaviour that differs from its purpose, as theorems or as examples at the end of a theory: excluded
    groups that are forwarded, requests that are forwarded after an error, nodes for any method, requests
    that no rule covers and that run as the proxy, the pseudo-tenant, the panic for persistent volumes, class
    names that the search misses, flags without effect, service accounts with equal index keys, and the race
    at the shutdown of the server.
  \<^item> The life of the listener: an invariant of its reachable states, and that a cancelled context ends the
    process in every fair run.
  \<^item> The answer: which status and which body a client receives for a request that is refused, rejected or
    forwarded. The locale \<open>response_writer\<close> is the interface of a writer, interpreted for the writer of net/http
    and for that of the metrics middleware around it; a handler leaves the same answer through both.
  \<^item> Deep copies: the locale \<open>deep_copy\<close> is the contract of a copy (fresh memory, equal view), closed under
    slices, pointers, pairs and structs, from which the contract of every API type is put together; what two
    readers of the informer cache write is then invisible to each other, which is why the other theories
    take objects as values.
  \<^item> The process as a whole, at the end of this theory: what a run of \<^verbatim>\<open>main\<close> that reaches the manager
    guarantees of the filter it created, down to the answer of the listener.

  \<^bold>\<open>Bounds.\<close> The generation of the result cache is a 64-bit word that wraps; freshness holds for fewer than
  \<open>2 ^ 64\<close> events. The retry of a status update has the number of attempts as an argument, since the
  library decides it; the theorem holds for every positive number. All other loops are recursions with
  termination proofs, and the reads of a request decrease a lexicographic measure; there is no fuel.

  \<^bold>\<open>Not modelled.\<close> Scheme registration, the inside of the
  manager (its calls are outcomes in the environment of \<open>main_run\<close>), sockets and TLS handshakes, the inside of
  the certificate watcher, logging, the rate limits of the client, and the encoders of review
  objects. The middleware of internal/webserver/middleware/metrics.go is installed on no router. Errors
  are written as status objects (\<open>api_status\<close>); replies keep their codes, and the JSON encoding is a parameter
  where bodies matter. Connections that the API server breaks off in the middle of an answer, or upgrades, are
  outside the model of the answer.
\<close>

section \<open>The process as a whole\<close>

text \<open>
  C11: once the proxy runs with trusted proxy networks on its command line, a connection from an address
  that is in none of these networks, or that is not an address, gets the status 403 on every path but the
  health endpoint, whatever the module, the headers and the self review; nothing is forwarded and the
  state of the filter is unchanged.
\<close>

theorem trusted_sources_enforced:
  assumes run: "main_run fl M = Ok (n, st, srv, mo)"
    and flag: "fl_slices fl ''trusted-proxy-cidrs'' = Some cidrs" and given: "\<exists>c \<in> set cidrs. trimmed c \<noteq> ''''"
    and path: "URLPath r \<noteq> ''/_healthz''"
    and F: "F = me_filter M (fl_disableCaching fl)"
    and host: "host = (case fe_splitHostPort F (RemoteAddr r) of Some h \<Rightarrow> h | None \<Rightarrow> RemoteAddr r)"
    and outside: "\<forall>ip c net. fe_parseIP F host = Some ip \<and> c \<in> set cidrs \<and> trimmed c \<noteq> '''' \<and> me_parseCIDR M (trimmed c) = Some net
      \<longrightarrow> \<not> fe_cidrContains F net ip"
  shows "ServeHTTP n namespacedResources upstream mediaType md st' r = (Proxied (Refused 403), st')"
proof (rule ServeHTTP_untrusted [OF path])
  note filter = main_run_filter [OF run, folded F]
  from filter(1) have nets: "parseCIDRs (me_parseCIDR M) cidrs = Ok (k_trustedProxyCIDRs n)"
    by (simp add: variable_value_eval flag)
  note nets = set_parseCIDRs [OF nets]
  with given have "k_trustedProxyCIDRs n \<noteq> []" by fastforce
  with nets outside show "\<not> isFromTrustedSource n (RemoteAddr r)"
    by (auto simp: isFromTrustedSource_def Let_def host list_ex_iff filter split: option.splits)
qed

theorem trusted_sources_enforced_witness:
  "\<exists>n st srv mo. main_run doc_flags doc_main = Ok (n, st, srv, mo)
     \<and> fst (ServeHTTP n [] (\<lambda>_ _. (200, None)) id None st ((doc_request [])\<lparr>RemoteAddr := ''10.0.0.2:41000''\<rparr>)) = Proxied (Refused 403)"
proof -
  let ?r = "(doc_request [])\<lparr>RemoteAddr := ''10.0.0.2:41000''\<rparr>"
  obtain n st srv mo where run: "main_run doc_flags doc_main = Ok (n, st, srv, mo)" using doc_main_run by blast
  have flag: "fl_slices doc_flags ''trusted-proxy-cidrs'' = Some [''10.0.0.1'']" by (simp add: doc_flags_def)
  have "ServeHTTP n [] (\<lambda>_ _. (200, None)) id None st ?r = (Proxied (Refused 403), st)"
  proof (rule trusted_sources_enforced [OF run flag _ _ refl refl])
    show "\<exists>c \<in> set [''10.0.0.1'']. trimmed c \<noteq> ''''" by (simp add: doc_cidr del: runes.simps)
  qed (simp_all add: doc_cidr doc_main_def doc_filter_env_def doc_request_def del: runes.simps)
  with run show ?thesis by fastforce
qed

text \<open>
  C40: of the flags of a run that succeeds, these have no effect. \<^verbatim>\<open>--allowed-paths\<close> fills a variable that nothing reads, so
  the set of allowed paths is empty and the check of paths passes every request on;
  \<^verbatim>\<open>--enable-leader-election\<close>, \<^verbatim>\<open>--webhook-port\<close> and the gate \<^verbatim>\<open>ProxyAllNamespaced\<close> are never read, and the
  manager runs without election; and no value of \<^verbatim>\<open>--auth-preferred-types\<close> is spelled
  \<^verbatim>\<open>XForwardedClientCert\<close>, the name that its help text gives.
\<close>

theorem flags_without_effect:
  assumes run: "main_run fl M = Ok (n, st, srv, mo)"
  shows "CheckPaths n f h st' r = h st' r \<and> \<not> mo_LeaderElection mo
    \<and> main_run (fl\<lparr>fl_enableLeaderElection := b, fl_webhookPort := port, fl_ProxyAllNamespaced := c\<rparr>) M = main_run fl M
    \<and> main_run (fl\<lparr>fl_slices := (fl_slices fl)(''allowed-paths'' := v)\<rparr>) M = main_run fl M
    \<and> (\<forall>(t, names) \<in> set authTypesMap. ''XForwardedClientCert'' \<notin> set names)"
proof -
  have "main_run (fl\<lparr>fl_enableLeaderElection := b, fl_webhookPort := port, fl_ProxyAllNamespaced := c\<rparr>) M = main_run fl M"
    by (simp add: main_parts)
  moreover have "main_run (fl\<lparr>fl_slices := (fl_slices fl)(''allowed-paths'' := v)\<rparr>) M = main_run fl M"
    by (simp add: main_parts main_NewKube_def variable_value_eval)
  ultimately show ?thesis by (simp add: main_run_filter [OF run] CheckPaths_def auth_type_names)
qed

theorem flags_without_effect_witness:
  "\<exists>n st srv mo. main_run doc_flags doc_main = Ok (n, st, srv, mo) \<and> fl_slices doc_flags ''allowed-paths'' = Some [''/healthz'']
     \<and> \<not> mo_LeaderElection mo \<and> main_run (doc_flags\<lparr>fl_enableLeaderElection := True, fl_webhookPort := 9444, fl_ProxyAllNamespaced := True\<rparr>) doc_main
       = main_run doc_flags doc_main"
proof -
  obtain n st srv mo where run: "main_run doc_flags doc_main = Ok (n, st, srv, mo)" using doc_main_run by blast
  have "fl_slices doc_flags ''allowed-paths'' = Some [''/healthz'']" by (simp add: doc_flags_def)
  with run flags_without_effect [OF run, of undefined undefined undefined undefined True 9444 True undefined] show ?thesis by blast
qed

end
